(* ===== verification/Outpost_Prelude.thy ===== *)
theory Outpost_Prelude
  imports Main "HOL-Library.Word"
begin

text \<open>
  Shared base of the development: the lemma collections the component theories extend, the
  integer and time types of the Go program, HTTP answers as values, and the generic facts on
  lists that stand for the SQL statements the handlers send (a table is a list of rows, an
  \<^verbatim>\<open>UPDATE ... WHERE\<close> is \<open>upd_where\<close>, a \<^verbatim>\<open>DELETE ... WHERE\<close>
  is \<open>del_where\<close>, a single-row \<^verbatim>\<open>SELECT\<close> is \<open>find\<close>).
\<close>

section \<open>Collections, types and answers\<close>

named_theorems sql_simps \<open>rewriting of table operations\<close>
named_theorems handler_defs \<open>definitions of handlers and their helpers\<close>
named_theorems score_defs \<open>definitions of scoring functions\<close>

text \<open>
  Instants and durations are nanosecond counts, as in Go's \<^verbatim>\<open>time.Time\<close> and
  \<^verbatim>\<open>time.Duration\<close>.
\<close>

type_synonym time = int
type_synonym duration = int

text \<open>Instants count nanoseconds from the Unix epoch; the zero \<open>time.Time\<close> is the first of January of year 1.\<close>

definition zero_time :: time where
  "zero_time = - 62135596800 * 1000000000"

abbreviation (input) seconds :: "int \<Rightarrow> duration" where
  "seconds n \<equiv> n * 1000000000"

abbreviation (input) minutes :: "int \<Rightarrow> duration" where
  "minutes n \<equiv> n * 60000000000"

abbreviation (input) hours :: "int \<Rightarrow> duration" where
  "hours n \<equiv> n * 3600000000000"

text \<open>
  An HTTP answer is an error (status and message, \<^verbatim>\<open>respondError\<close>) or a success with a
  body (\<^verbatim>\<open>respondJSON\<close> or a bare \<^verbatim>\<open>WriteHeader\<close>).
\<close>

datatype 'a resp = Err (err_status: nat) (err_msg: string) | Ok (ok_status: nat) (ok_body: 'a)

definition status_of :: "'a resp \<Rightarrow> nat" where
  "status_of r = (case r of Err s _ \<Rightarrow> s | Ok s _ \<Rightarrow> s)"

lemma status_of_simps [simp]: "status_of (Err s m) = s" "status_of (Ok s b) = s"
  by (simp_all add: status_of_def)

text \<open>A decoded request body, or the text of the decoding error.\<close>

type_synonym 'a body = "string + 'a"

text \<open>The three bytes of the dash that some messages of the program contain.\<close>

definition em_dash :: string where
  "em_dash = [CHR 0xE2, CHR 0x80, CHR 0x94]"

text \<open>Go's 64-bit \<^verbatim>\<open>int\<close>: results of arithmetic wrap around at 64 bits.\<close>

definition wrap64 :: "int \<Rightarrow> int" where
  "wrap64 x = signed_take_bit 63 x"

definition int64_range :: "int \<Rightarrow> bool" where
  "int64_range x \<longleftrightarrow> - (2 ^ 63) \<le> x \<and> x < 2 ^ 63"

lemma wrap64_id: "int64_range x \<Longrightarrow> wrap64 x = x"
  by (simp add: wrap64_def int64_range_def signed_take_bit_int_eq_self)

lemma wrap64_range: "int64_range (wrap64 x)"
  unfolding wrap64_def int64_range_def
  using signed_take_bit_int_greater_eq_minus_exp [of 63 x] signed_take_bit_int_less_exp [of 63 x]
  by simp

lemma wrap64_mod: "wrap64 x = (x + 2 ^ 63) mod 2 ^ 64 - 2 ^ 63"
  by (simp add: wrap64_def signed_take_bit_eq_take_bit_shift take_bit_eq_mod)

text \<open>The range of PostgreSQL's \<open>INTEGER\<close>; the driver refuses to send anything else to such a column.\<close>

definition int4_range :: "int \<Rightarrow> bool" where
  "int4_range x \<longleftrightarrow> - (2 ^ 31) \<le> x \<and> x < 2 ^ 31"

text \<open>Go's integer division truncates towards zero.\<close>

definition go_quot :: "int \<Rightarrow> int \<Rightarrow> int" where
  "go_quot a b = sgn a * sgn b * (\<bar>a\<bar> div \<bar>b\<bar>)"

lemma go_quot_nonneg: "0 \<le> a \<Longrightarrow> 0 < b \<Longrightarrow> go_quot a b = a div b"
  by (cases "a = 0") (auto simp: go_quot_def sgn_if)

section \<open>Tables as lists\<close>

definition upd_where :: "('r \<Rightarrow> bool) \<Rightarrow> ('r \<Rightarrow> 'r) \<Rightarrow> 'r list \<Rightarrow> 'r list" where
  "upd_where p f t = map (\<lambda>r. if p r then f r else r) t"

definition del_where :: "('r \<Rightarrow> bool) \<Rightarrow> 'r list \<Rightarrow> 'r list" where
  "del_where p t = filter (\<lambda>r. \<not> p r) t"

text \<open>\<^verbatim>\<open>COALESCE\<close> with a column that is not null, and with one that may be.\<close>

definition coalesce :: "'a option \<Rightarrow> 'a \<Rightarrow> 'a" where
  "coalesce x d = (case x of Some v \<Rightarrow> v | None \<Rightarrow> d)"

definition coalesce_null :: "'a option \<Rightarrow> 'a option \<Rightarrow> 'a option" where
  "coalesce_null x d = (case x of Some v \<Rightarrow> Some v | None \<Rightarrow> d)"

lemma coalesce_simps [simp]:
  "coalesce (Some v) d = v" "coalesce None d = d" "coalesce_null (Some v) o' = Some v" "coalesce_null None o' = o'"
  by (simp_all add: coalesce_def coalesce_null_def)

lemma upd_where_simps [simp, sql_simps]:
  "upd_where p f [] = []"
  "upd_where p f (r # t) = (if p r then f r else r) # upd_where p f t"
  by (simp_all add: upd_where_def)

lemma del_where_simps [simp, sql_simps]:
  "del_where p [] = []"
  "del_where p (r # t) = (if p r then del_where p t else r # del_where p t)"
  by (simp_all add: del_where_def)

lemma length_upd_where [simp]: "length (upd_where p f t) = length t"
  by (simp add: upd_where_def)

lemma set_upd_where: "set (upd_where p f t) = (\<lambda>r. if p r then f r else r) ` set t"
  by (simp add: upd_where_def)

lemma set_del_where [simp]: "set (del_where p t) = {r \<in> set t. \<not> p r}"
  by (simp add: del_where_def)

lemma upd_where_none: "(\<And>r. r \<in> set t \<Longrightarrow> \<not> p r) \<Longrightarrow> upd_where p f t = t"
  by (induction t) auto

text \<open>An update that leaves a column alone leaves the column of the table alone.\<close>

lemma map_upd_where_frame:
  "(\<And>r. r \<in> set t \<Longrightarrow> p r \<Longrightarrow> k (f r) = k r) \<Longrightarrow> map k (upd_where p f t) = map k t"
  by (induction t) auto

lemma distinct_map_del_where: "distinct (map k t) \<Longrightarrow> distinct (map k (del_where p t))"
  by (induction t) auto

lemma find_SomeD: "find p t = Some r \<Longrightarrow> r \<in> set t \<and> p r"
  by (induction t) (auto split: if_splits)

lemma find_None_iff': "find p t = None \<longleftrightarrow> (\<forall>r \<in> set t. \<not> p r)"
  by (induction t) auto

lemma find_upd_where:
  "(\<And>r. r \<in> set t \<Longrightarrow> p r \<Longrightarrow> q (f r) = q r) \<Longrightarrow>
   find q (upd_where p f t) = map_option (\<lambda>r. if p r then f r else r) (find q t)"
  by (induction t) auto

lemma find_del_where:
  "find q (del_where p t) = find (\<lambda>r. q r \<and> \<not> p r) t"
  by (induction t) auto

text \<open>A key that is unique in a table determines the row a lookup by that key finds.\<close>

lemma find_unique_key:
  assumes "distinct (map k t)" and "r \<in> set t"
  shows "find (\<lambda>x. k x = k r) t = Some r"
  using assms by (induction t) (auto simp: rev_image_eqI)

lemma distinct_key_eq:
  "distinct (map k t) \<Longrightarrow> r \<in> set t \<Longrightarrow> s \<in> set t \<Longrightarrow> k r = k s \<Longrightarrow> r = s"
  by (metis distinct_map inj_on_def)

lemma sorted_map_filter: "sorted (map k t) \<Longrightarrow> sorted (map k (filter p t))"
  by (induction t) auto

end
