(* ===== verification/Go_Std.thy ===== *)
theory Go_Std
  imports Outpost_Prelude
begin

text \<open>
  The parts of Go's standard library that the modelled code calls: \<^verbatim>\<open>strings.Split\<close>,
  \<^verbatim>\<open>strings.Join\<close>, \<^verbatim>\<open>strings.CutPrefix\<close>, \<^verbatim>\<open>strconv.Atoi\<close>, the
  \<^verbatim>\<open>%d\<close> verb and \<^verbatim>\<open>hex.EncodeToString\<close>. Go strings are byte sequences, so they are
  \<open>char list\<close>s here. \<open>atoi_itoa\<close> is the round trip of printing and parsing 64-bit integers.
\<close>

section \<open>Strings\<close>

fun go_split :: "char \<Rightarrow> string \<Rightarrow> string list" where
  "go_split c [] = [[]]"
| "go_split c (x # xs) =
     (if x = c then [] # go_split c xs
      else (x # hd (go_split c xs)) # tl (go_split c xs))"

fun go_join :: "string \<Rightarrow> string list \<Rightarrow> string" where
  "go_join sep [] = []"
| "go_join sep [w] = w"
| "go_join sep (w # v # ws) = w @ sep @ go_join sep (v # ws)"

fun cut_prefix :: "string \<Rightarrow> string \<Rightarrow> string option" where
  "cut_prefix [] s = Some s"
| "cut_prefix (p # ps) [] = None"
| "cut_prefix (p # ps) (c # cs) = (if p = c then cut_prefix ps cs else None)"

definition trim_prefix :: "string \<Rightarrow> string \<Rightarrow> string" where
  "trim_prefix p s = (case cut_prefix p s of Some r \<Rightarrow> r | None \<Rightarrow> s)"

lemma go_split_ne [simp]: "go_split c s \<noteq> []"
  by (cases s) auto

lemma go_split_no_sep: "c \<notin> set s \<Longrightarrow> go_split c s = [s]"
  by (induction s) auto

lemma go_split_append: "c \<notin> set s \<Longrightarrow> go_split c (s @ c # t) = s # go_split c t"
  by (induction s) auto

lemma go_split_join:
  "ws \<noteq> [] \<Longrightarrow> (\<And>w. w \<in> set ws \<Longrightarrow> c \<notin> set w) \<Longrightarrow> go_split c (go_join [c] ws) = ws"
  by (induction "[c]" ws rule: go_join.induct) (auto simp: go_split_no_sep go_split_append)

lemma cut_prefix_iff: "cut_prefix p s = Some r \<longleftrightarrow> s = p @ r"
  by (induction p s rule: cut_prefix.induct) auto

lemma cut_prefix_append [simp]: "cut_prefix p (p @ r) = Some r"
  by (simp add: cut_prefix_iff)

section \<open>Decimal numbers\<close>

definition digit_char :: "nat \<Rightarrow> char" where
  "digit_char d = char_of (48 + d)"

definition is_digit :: "char \<Rightarrow> bool" where
  "is_digit c \<longleftrightarrow> 48 \<le> (of_char c :: nat) \<and> (of_char c :: nat) \<le> 57"

definition digit_val :: "char \<Rightarrow> nat" where
  "digit_val c = of_char c - 48"

fun dec_nat :: "nat \<Rightarrow> string" where
  "dec_nat n = (if n < 10 then [digit_char n] else dec_nat (n div 10) @ [digit_char (n mod 10)])"

declare dec_nat.simps [simp del]

text \<open>The \<^verbatim>\<open>%d\<close> verb on an \<^verbatim>\<open>int\<close>.\<close>

definition itoa :: "int \<Rightarrow> string" where
  "itoa n = (if n < 0 then CHR ''-'' # dec_nat (nat (- n)) else dec_nat (nat n))"

datatype num_error = ErrSyntax | ErrRange

text \<open>
  The loop of \<^verbatim>\<open>strconv.ParseUint\<close> in base 10: a character that is not a digit is a syntax
  error with value 0, and passing \<open>2^64 - 1\<close> is a range error with the largest value.
\<close>

abbreviation (input) max_uint64 :: nat where
  "max_uint64 \<equiv> 18446744073709551615"

fun parse_uint :: "string \<Rightarrow> nat \<Rightarrow> nat \<times> num_error option" where
  "parse_uint [] n = (n, None)"
| "parse_uint (c # cs) n =
     (if \<not> is_digit c then (0, Some ErrSyntax)
      else if n * 10 + digit_val c > max_uint64 then (max_uint64, Some ErrRange)
      else parse_uint cs (n * 10 + digit_val c))"

text \<open>
  \<^verbatim>\<open>strconv.Atoi\<close>: the value and the error it returns. Callers that drop the error still
  use the value, which is 0 on a syntax error and the nearest bound on a range error.
\<close>

definition atoi :: "string \<Rightarrow> int \<times> num_error option" where
  "atoi s =
     (let neg = (s \<noteq> [] \<and> hd s = CHR ''-'');
          ds = (if s \<noteq> [] \<and> (hd s = CHR ''-'' \<or> hd s = CHR ''+'') then tl s else s)
      in if ds = [] then (0, Some ErrSyntax)
         else case parse_uint ds 0 of
           (_, Some ErrSyntax) \<Rightarrow> (0, Some ErrSyntax)
         | (un, e) \<Rightarrow>
             if \<not> neg \<and> un \<ge> 2 ^ 63 then (2 ^ 63 - 1, Some ErrRange)
             else if neg \<and> un > 2 ^ 63 then (- (2 ^ 63), Some ErrRange)
             else (if neg then - int un else int un, e))"

lemma digit_char_props:
  assumes "d < 10"
  shows "is_digit (digit_char d)" "digit_val (digit_char d) = d"
proof -
  have "(of_char (char_of (48 + d)) :: nat) = 48 + d"
    using assms by (simp add: of_char_of)
  then show "is_digit (digit_char d)" "digit_val (digit_char d) = d"
    using assms by (simp_all add: is_digit_def digit_char_def digit_val_def)
qed

lemma digit_char_simps [simp]:
  "digit_char 0 = CHR ''0''" "digit_char (Suc 0) = CHR ''1''" "digit_char 1 = CHR ''1''"
  "digit_char 2 = CHR ''2''" "digit_char 3 = CHR ''3''" "digit_char 4 = CHR ''4''"
  "digit_char 5 = CHR ''5''" "digit_char 6 = CHR ''6''" "digit_char 7 = CHR ''7''"
  "digit_char 8 = CHR ''8''" "digit_char 9 = CHR ''9''"
  by code_simp+

lemma dec_nat_ne [simp]: "dec_nat n \<noteq> []"
  by (subst dec_nat.simps) simp

lemma dec_nat_digits: "\<forall>c \<in> set (dec_nat n). is_digit c"
proof (induction n rule: dec_nat.induct)
  case (1 n)
  then show ?case
    by (subst dec_nat.simps) (auto simp: digit_char_props)
qed

lemma sign_not_digit: "\<not> is_digit CHR ''-''" "\<not> is_digit CHR ''+''" "\<not> is_digit CHR ''.''"
  "\<not> is_digit CHR ''/''" "\<not> is_digit CHR '':''"
  by (simp_all add: is_digit_def)

lemma dec_nat_hd: "is_digit (hd (dec_nat n))"
  using dec_nat_digits [of n] by (cases "dec_nat n") auto

lemma parse_uint_append:
  "parse_uint xs n = (m, None) \<Longrightarrow> parse_uint (xs @ ys) n = parse_uint ys m"
  by (induction xs n rule: parse_uint.induct) (auto split: if_splits)

lemma parse_uint_dec_nat: "n \<le> max_uint64 \<Longrightarrow> parse_uint (dec_nat n) 0 = (n, None)"
proof (induction n rule: dec_nat.induct)
  case (1 n)
  show ?case
  proof (cases "n < 10")
    case True
    then show ?thesis by (subst dec_nat.simps) (simp add: digit_char_props)
  next
    case False
    with 1 have "parse_uint (dec_nat (n div 10)) 0 = (n div 10, None)" by simp
    from parse_uint_append [OF this, of "[digit_char (n mod 10)]"] False "1.prems"
    show ?thesis
      by (subst dec_nat.simps) (simp add: digit_char_props)
  qed
qed

lemma atoi_itoa: "int64_range n \<Longrightarrow> atoi (itoa n) = (n, None)"
proof -
  assume r: "int64_range n"
  have nn: "hd (dec_nat k) \<noteq> CHR ''-''" "hd (dec_nat k) \<noteq> CHR ''+''" for k
    using dec_nat_hd [of k] sign_not_digit by auto
  have le: "nat \<bar>n\<bar> \<le> 2 ^ 63" using r by (auto simp: int64_range_def nat_le_iff)
  then have pu: "parse_uint (dec_nat (nat \<bar>n\<bar>)) 0 = (nat \<bar>n\<bar>, None)"
    by (intro parse_uint_dec_nat) simp
  show ?thesis
    using r pu le nn by (auto simp: atoi_def itoa_def Let_def int64_range_def abs_if split: if_splits)
qed

lemma itoa_inject: "int64_range m \<Longrightarrow> int64_range n \<Longrightarrow> itoa m = itoa n \<longleftrightarrow> m = n"
  by (metis atoi_itoa prod.inject)

lemma dec_nat_inject: "m \<le> max_uint64 \<Longrightarrow> n \<le> max_uint64 \<Longrightarrow> dec_nat m = dec_nat n \<longleftrightarrow> m = n"
  by (metis parse_uint_dec_nat prod.inject)

lemma parse_uint_bound: "n \<le> max_uint64 \<Longrightarrow> fst (parse_uint s n) \<le> max_uint64"
  by (induction s n rule: parse_uint.induct) auto

lemma atoi_range: "int64_range (fst (atoi s))"
  by (auto simp: atoi_def int64_range_def Let_def split: prod.splits option.splits num_error.splits)

section \<open>Hexadecimal\<close>

definition hex_digit :: "nat \<Rightarrow> char" where
  "hex_digit d = (if d < 10 then char_of (48 + d) else char_of (87 + d))"

definition hex_encode :: "string \<Rightarrow> string" where
  "hex_encode s = concat (map (\<lambda>c. [hex_digit (of_char c div 16), hex_digit (of_char c mod 16)]) s)"

lemma length_hex_encode: "length (hex_encode s) = 2 * length s"
  by (induction s) (auto simp: hex_encode_def)

lemma of_char_hex_digit: "k < 16 \<Longrightarrow> (of_char (hex_digit k) :: nat) = (if k < 10 then 48 + k else 87 + k)"
  by (simp add: hex_digit_def)

lemma hex_digit_inject: "a < 16 \<Longrightarrow> b < 16 \<Longrightarrow> hex_digit a = hex_digit b \<longleftrightarrow> a = b"
  by (auto dest!: arg_cong [where f = "of_char :: char \<Rightarrow> nat"] simp: of_char_hex_digit split: if_splits)

lemma hex_encode_inject: "hex_encode s = hex_encode t \<longleftrightarrow> s = t"
proof (induction s arbitrary: t)
  case Nil
  then show ?case by (cases t) (auto simp: hex_encode_def)
next
  case (Cons c s)
  have byte: "of_char x div 16 < (16 :: nat)" for x :: char
    using nat_of_char_less_256 [of x] by (simp add: less_mult_imp_div_less)
  have split: "x = y" if "of_char x div 16 = (of_char y div 16 :: nat)" "of_char x mod 16 = (of_char y mod 16 :: nat)" for x y :: char
    using that by (metis div_mult_mod_eq of_char_eq_iff)
  from Cons byte split show ?case
    by (cases t) (auto simp: hex_encode_def hex_digit_inject)
qed

end
