(* ===== verification/S2S_Topology.thy ===== *)
theory S2S_Topology
  imports Go_Std
begin

text \<open>
  Site-to-site topologies (\<^verbatim>\<open>internal/s2s/topology.go\<close>, \<^verbatim>\<open>mesh.go\<close>,
  \<^verbatim>\<open>hubspoke.go\<close>): the gateways of a tunnel and the WireGuard peers each of them is given.
\<close>

section \<open>Data and operations\<close>

datatype TopologyType = TopologyMesh | TopologyHubSpoke | TopologyOther string

record Gateway =
  gw_ID :: string
  gw_PublicKey :: string
  gw_Endpoint :: string
  gw_LocalSubnets :: "string list"
  gw_IsHub :: bool
  gw_ListenPort :: int

record TunnelPeer =
  tp_GatewayID :: string
  tp_PublicKey :: string
  tp_Endpoint :: string
  tp_AllowedIPs :: "string list"
  tp_Keepalive :: int

record TunnelConfig =
  tc_GatewayID :: string
  tc_InterfaceName :: string
  tc_PrivateKey :: string
  tc_ListenPort :: int
  tc_LocalSubnets :: "string list"
  tc_Peers :: "TunnelPeer list"

text \<open>The peer literal the three loops build, with the subnets it may carry.\<close>

definition peer_of :: "Gateway \<Rightarrow> string list \<Rightarrow> TunnelPeer" where
  "peer_of gw ips =
     \<lparr>tp_GatewayID = gw_ID gw, tp_PublicKey = gw_PublicKey gw, tp_Endpoint = gw_Endpoint gw,
      tp_AllowedIPs = ips, tp_Keepalive = 25\<rparr>"

definition config_of :: "Gateway \<Rightarrow> string \<Rightarrow> TunnelPeer list \<Rightarrow> TunnelConfig" where
  "config_of gw iface ps =
     \<lparr>tc_GatewayID = gw_ID gw, tc_InterfaceName = iface, tc_PrivateKey = [],
      tc_ListenPort = gw_ListenPort gw, tc_LocalSubnets = gw_LocalSubnets gw, tc_Peers = ps\<rparr>"

fun mesh_peers :: "nat \<Rightarrow> nat \<Rightarrow> Gateway list \<Rightarrow> TunnelPeer list" where
  "mesh_peers i j [] = []"
| "mesh_peers i j (remote # rest) =
     (if i = j then mesh_peers i (Suc j) rest
      else peer_of remote (gw_LocalSubnets remote) # mesh_peers i (Suc j) rest)"

fun mesh_configs :: "Gateway list \<Rightarrow> nat \<Rightarrow> Gateway list \<Rightarrow> TunnelConfig list" where
  "mesh_configs gateways i [] = []"
| "mesh_configs gateways i (gw # rest) =
     config_of gw (''wg-s2s-'' @ itoa (int i)) (mesh_peers i 0 gateways)
       # mesh_configs gateways (Suc i) rest"

definition calculateMesh :: "Gateway list \<Rightarrow> TunnelConfig list" where
  "calculateMesh gateways = mesh_configs gateways 0 gateways"

text \<open>
  The loop that looks for the hub: the last gateway marked as hub wins, and only unmarked
  gateways are collected as spokes.
\<close>

fun pick_hub :: "Gateway list \<Rightarrow> Gateway option \<Rightarrow> Gateway list \<Rightarrow> Gateway option \<times> Gateway list" where
  "pick_hub [] hub spokes = (hub, spokes)"
| "pick_hub (g # gs) hub spokes =
     (if gw_IsHub g then pick_hub gs (Some g) spokes else pick_hub gs hub (spokes @ [g]))"

fun spoke_configs :: "Gateway \<Rightarrow> string list \<Rightarrow> nat \<Rightarrow> Gateway list \<Rightarrow> TunnelConfig list" where
  "spoke_configs hub allSubnets i [] = []"
| "spoke_configs hub allSubnets i (spoke # rest) =
     config_of spoke (''wg-s2s-'' @ itoa (int i)) [peer_of hub allSubnets]
       # spoke_configs hub allSubnets (Suc i) rest"

definition hub_spoke_configs :: "Gateway \<Rightarrow> Gateway list \<Rightarrow> TunnelConfig list" where
  "hub_spoke_configs hub spokes =
     (let hubPeers = map (\<lambda>spoke. peer_of spoke (gw_LocalSubnets spoke)) spokes;
          allSubnets = gw_LocalSubnets hub @ concat (map gw_LocalSubnets spokes)
      in config_of hub ''wg-s2s-hub'' hubPeers # spoke_configs hub allSubnets 0 spokes)"

definition calculateHubSpoke :: "Gateway list \<Rightarrow> TunnelConfig list" where
  "calculateHubSpoke gateways =
     (case pick_hub gateways None [] of
        (Some hub, spokes) \<Rightarrow> hub_spoke_configs hub spokes
      | (None, _) \<Rightarrow>
          (case gateways of [] \<Rightarrow> [] | hub # spokes \<Rightarrow> hub_spoke_configs hub spokes))"

definition CalculateTopology :: "TopologyType \<Rightarrow> Gateway list \<Rightarrow> TunnelConfig list" where
  "CalculateTopology topology gateways =
     (case topology of
        TopologyMesh \<Rightarrow> calculateMesh gateways
      | TopologyHubSpoke \<Rightarrow> calculateHubSpoke gateways
      | TopologyOther _ \<Rightarrow> [])"

section \<open>Mesh\<close>

lemma length_mesh_configs [simp]: "length (mesh_configs gws i rest) = length rest"
  by (induction gws i rest rule: mesh_configs.induct) auto

lemma nth_mesh_configs:
  "k < length rest \<Longrightarrow> mesh_configs gws i rest ! k =
     config_of (rest ! k) (''wg-s2s-'' @ itoa (int (i + k))) (mesh_peers (i + k) 0 gws)"
proof (induction gws i rest arbitrary: k rule: mesh_configs.induct)
  case (2 gws i gw rest)
  then show ?case by (cases k) auto
qed simp

lemma mesh_peers_eq:
  "mesh_peers i j gws =
     map (\<lambda>k. peer_of (gws ! k) (gw_LocalSubnets (gws ! k))) (filter (\<lambda>k. j + k \<noteq> i) [0..<length gws])"
proof (induction i j gws rule: mesh_peers.induct)
  case (2 i j remote rest)
  have "[0..<length (remote # rest)] = 0 # map Suc [0..<length rest]"
    by (simp add: map_Suc_upt upt_conv_Cons del: upt_Suc)
  with 2 show ?case
    by (auto simp: filter_map o_def)
qed simp

lemma length_filter_neq: "i < n \<Longrightarrow> length (filter (\<lambda>k. k \<noteq> i) [0..<n]) = n - 1"
proof -
  assume "i < n"
  have "set (filter (\<lambda>k. k \<noteq> i) [0..<n]) = {0..<n} - {i}" by auto
  moreover have "card (set (filter (\<lambda>k. k \<noteq> i) [0..<n])) = length (filter (\<lambda>k. k \<noteq> i) [0..<n])"
    by (rule distinct_card) simp
  ultimately show ?thesis using \<open>i < n\<close> by simp
qed

lemma nth_calculateMesh:
  "i < length gws \<Longrightarrow> calculateMesh gws ! i =
     config_of (gws ! i) (''wg-s2s-'' @ itoa (int i))
       (map (\<lambda>k. peer_of (gws ! k) (gw_LocalSubnets (gws ! k))) (filter (\<lambda>k. k \<noteq> i) [0..<length gws]))"
  by (simp add: calculateMesh_def nth_mesh_configs mesh_peers_eq)

text \<open>
  The mesh is full and symmetric: of \<open>n\<close> gateways every one gets a configuration with
  exactly \<open>n - 1\<close> peers, so the mesh has \<open>n (n - 1)\<close> directed peers (twice the number of tunnels
  the comment in \<^verbatim>\<open>mesh.go\<close> states), and gateway \<open>i\<close> peers with gateway \<open>j\<close>, carrying
  exactly the local subnets of \<open>j\<close>, for every \<open>j\<close> other than \<open>i\<close>.
\<close>

theorem mesh_full:
  "length (calculateMesh gws) = length gws \<and>
   sum_list (map (length \<circ> tc_Peers) (calculateMesh gws)) = length gws * (length gws - 1) \<and>
   (\<forall>i < length gws. tc_GatewayID (calculateMesh gws ! i) = gw_ID (gws ! i) \<and>
      (\<forall>j < length gws. j \<noteq> i \<longrightarrow>
         peer_of (gws ! j) (gw_LocalSubnets (gws ! j)) \<in> set (tc_Peers (calculateMesh gws ! i))))"
proof (intro conjI allI impI)
  show len: "length (calculateMesh gws) = length gws"
    by (simp add: calculateMesh_def)
  have "map (length \<circ> tc_Peers) (calculateMesh gws) = replicate (length gws) (length gws - 1)"
    by (rule nth_equalityI)
      (simp_all add: len nth_calculateMesh config_of_def length_filter_neq)
  then show "sum_list (map (length \<circ> tc_Peers) (calculateMesh gws)) = length gws * (length gws - 1)"
    by (simp add: sum_list_replicate)
next
  fix i assume "i < length gws"
  then show "tc_GatewayID (calculateMesh gws ! i) = gw_ID (gws ! i)"
    by (simp add: nth_calculateMesh config_of_def)
next
  fix i j assume "i < length gws" "j < length gws" "j \<noteq> i"
  then show "peer_of (gws ! j) (gw_LocalSubnets (gws ! j)) \<in> set (tc_Peers (calculateMesh gws ! i))"
    by (auto simp: nth_calculateMesh config_of_def)
qed

section \<open>Hub and spoke\<close>

lemma pick_hub_eq:
  "pick_hub gws h ss =
     (if filter gw_IsHub gws = [] then h else Some (last (filter gw_IsHub gws)),
      ss @ filter (\<lambda>g. \<not> gw_IsHub g) gws)"
  by (induction gws h ss rule: pick_hub.induct) auto

lemma spoke_configs_ids: "map tc_GatewayID (spoke_configs hub subs i ss) = map gw_ID ss"
  by (induction hub subs i ss rule: spoke_configs.induct) (auto simp: config_of_def)

lemma spoke_configs_peers: "c \<in> set (spoke_configs hub subs i ss) \<Longrightarrow> tc_Peers c = [peer_of hub subs]"
  by (induction hub subs i ss rule: spoke_configs.induct) (auto simp: config_of_def)

text \<open>The hub and the spokes the code settles on for a list of gateways.\<close>

definition hub_of :: "Gateway list \<Rightarrow> Gateway" where
  "hub_of gws = (if filter gw_IsHub gws = [] then hd gws else last (filter gw_IsHub gws))"

definition spokes_of :: "Gateway list \<Rightarrow> Gateway list" where
  "spokes_of gws = (if filter gw_IsHub gws = [] then tl gws else filter (\<lambda>g. \<not> gw_IsHub g) gws)"

lemma calculateHubSpoke_eq:
  "gws \<noteq> [] \<Longrightarrow> calculateHubSpoke gws = hub_spoke_configs (hub_of gws) (spokes_of gws)"
  by (auto simp: calculateHubSpoke_def pick_hub_eq hub_of_def spokes_of_def split: list.splits)

text \<open>
  In a hub-and-spoke tunnel the first configuration is the hub's, with one peer per spoke
  carrying that spoke's subnets; every other configuration has the hub as its single peer, and
  that peer carries the hub's subnets and the subnets of every spoke, the spoke's own included.
\<close>

theorem hub_spoke_routes:
  assumes "gws \<noteq> []"
  shows "map tc_GatewayID (calculateHubSpoke gws) = gw_ID (hub_of gws) # map gw_ID (spokes_of gws) \<and>
    tc_Peers (hd (calculateHubSpoke gws)) =
      map (\<lambda>s. peer_of s (gw_LocalSubnets s)) (spokes_of gws) \<and>
    (\<forall>c \<in> set (tl (calculateHubSpoke gws)).
       tc_Peers c = [peer_of (hub_of gws)
         (gw_LocalSubnets (hub_of gws) @ concat (map gw_LocalSubnets (spokes_of gws)))])"
  using assms
  by (simp add: calculateHubSpoke_eq hub_spoke_configs_def Let_def spoke_configs_ids
      spoke_configs_peers) (simp add: config_of_def)

text \<open>A tunnel of three gateways, the second of them marked as hub.\<close>

definition sample_gateway :: "string \<Rightarrow> string \<Rightarrow> bool \<Rightarrow> Gateway" where
  "sample_gateway i net hub =
     \<lparr>gw_ID = i, gw_PublicKey = i @ ''-key'', gw_Endpoint = i @ '':51820'', gw_LocalSubnets = [net],
      gw_IsHub = hub, gw_ListenPort = 51820\<rparr>"

definition sample_site :: "Gateway list" where
  "sample_site =
     [sample_gateway ''a'' ''10.1.0.0/16'' False, sample_gateway ''b'' ''10.2.0.0/16'' True,
      sample_gateway ''c'' ''10.3.0.0/16'' False]"

theorem mesh_full_witness:
  "1 < length sample_site \<and> gw_LocalSubnets (sample_site ! 1) = [''10.2.0.0/16''] \<and>
   peer_of (sample_site ! 1) (gw_LocalSubnets (sample_site ! 1))
     \<in> set (tc_Peers (calculateMesh sample_site ! 0))"
proof -
  have "length sample_site = 3" by (simp add: sample_site_def)
  with mesh_full [of sample_site, THEN conjunct2, THEN conjunct2, THEN spec, of 0]
  have "peer_of (sample_site ! 1) (gw_LocalSubnets (sample_site ! 1))
          \<in> set (tc_Peers (calculateMesh sample_site ! 0))" by auto
  then show ?thesis by (simp add: sample_site_def sample_gateway_def)
qed

theorem hub_spoke_routes_witness:
  "map tc_GatewayID (calculateHubSpoke sample_site) = [''b'', ''a'', ''c''] \<and>
   list_all (\<lambda>c. map tp_AllowedIPs (tc_Peers c) =
       [[''10.2.0.0/16'', ''10.1.0.0/16'', ''10.3.0.0/16'']]) (tl (calculateHubSpoke sample_site))"
  using hub_spoke_routes [of sample_site]
  by (simp add: list_all_iff sample_site_def sample_gateway_def hub_of_def spokes_of_def peer_of_def)

text \<open>
  A hub-and-spoke tunnel whose gateway list marks more than one hub configures only the last
  of them: each further hub is neither hub nor spoke and gets no configuration at all, so the
  number of configurations falls short of the number of gateways by the surplus hubs.
\<close>

theorem hub_spoke_surplus_hubs:
  "length (calculateHubSpoke gws) + (length (filter gw_IsHub gws) - 1) = length gws"
proof (cases "gws = []")
  case False
  have "length (spoke_configs h subs i ss) = length ss" for h subs i ss
    using arg_cong [OF spoke_configs_ids, of length h subs i ss] by simp
  moreover have "length (filter gw_IsHub gws) + length (filter (\<lambda>g. \<not> gw_IsHub g) gws) = length gws"
    by (rule sum_length_filter_compl)
  ultimately show ?thesis
    using False by (auto simp: calculateHubSpoke_eq hub_spoke_configs_def Let_def spokes_of_def
        length_greater_0_conv [symmetric] simp del: length_greater_0_conv)
qed (simp add: calculateHubSpoke_def)

end
