(* ===== verification/S2S_Routes.thy ===== *)
theory S2S_Routes
  imports Go_Std "HOL-Library.Multiset"
begin

text \<open>
  The global route table of the site-to-site component (\<^verbatim>\<open>internal/s2s/route.go\<close>): which
  gateways advertise a destination, and the best of them by metric.

  The table is a map from destinations to slices. \<open>sort.Slice\<close> is not stable, so the operation
  takes the sort as an argument \<open>srt\<close>; the locale \<open>metric_sort\<close> states what it promises, and
  every result holds for any such sort. Iteration over a Go map visits the keys in an arbitrary
  order, passed as the argument \<open>ks\<close>.
\<close>

section \<open>Operations\<close>

record RouteEntry =
  re_Destination :: string
  re_ViaGateway :: string
  re_ViaPublicKey :: string
  re_ViaEndpoint :: string
  re_Metric :: int
  re_IsActive :: bool

type_synonym RouteTable = "string \<rightharpoonup> RouteEntry list"

definition NewRouteTable :: RouteTable where
  "NewRouteTable = Map.empty"

text \<open>Update the first route via the gateway in place, or append the new one.\<close>

fun update_or_append :: "string \<Rightarrow> RouteEntry \<Rightarrow> RouteEntry list \<Rightarrow> RouteEntry list" where
  "update_or_append gatewayID entry [] = [entry]"
| "update_or_append gatewayID entry (r # rs) =
     (if re_ViaGateway r = gatewayID then entry # rs
      else r # update_or_append gatewayID entry rs)"

definition routes_at :: "RouteTable \<Rightarrow> string \<Rightarrow> RouteEntry list" where
  "routes_at rt dest = (case rt dest of None \<Rightarrow> [] | Some rs \<Rightarrow> rs)"

fun Advertise :: "(RouteEntry list \<Rightarrow> RouteEntry list) \<Rightarrow> string \<Rightarrow> string \<Rightarrow> string \<Rightarrow> string list
    \<Rightarrow> int \<Rightarrow> RouteTable \<Rightarrow> RouteTable" where
  "Advertise srt gatewayID publicKey endpoint [] metric rt = rt"
| "Advertise srt gatewayID publicKey endpoint (subnet # subnets) metric rt =
     (let entry = \<lparr>re_Destination = subnet, re_ViaGateway = gatewayID, re_ViaPublicKey = publicKey,
                   re_ViaEndpoint = endpoint, re_Metric = metric, re_IsActive = True\<rparr>;
          routes = update_or_append gatewayID entry (routes_at rt subnet)
      in Advertise srt gatewayID publicKey endpoint subnets metric (rt(subnet \<mapsto> srt routes)))"

definition Withdraw :: "string \<Rightarrow> RouteTable \<Rightarrow> RouteTable" where
  "Withdraw gatewayID rt = (\<lambda>dest. case rt dest of
       None \<Rightarrow> None
     | Some routes \<Rightarrow>
         (let filtered = filter (\<lambda>r. re_ViaGateway r \<noteq> gatewayID) routes
          in if filtered = [] then None else Some filtered))"

definition BestRoute :: "RouteTable \<Rightarrow> string \<Rightarrow> RouteEntry option" where
  "BestRoute rt destination = (case rt destination of
       None \<Rightarrow> None
     | Some routes \<Rightarrow> find re_IsActive routes)"

definition AllRoutes :: "string list \<Rightarrow> RouteTable \<Rightarrow> RouteEntry list" where
  "AllRoutes ks rt = concat (map (routes_at rt) ks)"

definition RoutesForGateway :: "string list \<Rightarrow> string \<Rightarrow> RouteTable \<Rightarrow> RouteEntry list" where
  "RoutesForGateway ks gatewayID rt =
     concat (map (\<lambda>k. case find (\<lambda>r. re_ViaGateway r \<noteq> gatewayID \<and> re_IsActive r) (routes_at rt k) of
                         None \<Rightarrow> [] | Some r \<Rightarrow> [r]) ks)"

text \<open>The table keeps, per destination, a nonempty list sorted by metric with one live route per gateway.\<close>

definition routes_inv :: "string \<Rightarrow> RouteEntry list \<Rightarrow> bool" where
  "routes_inv dest rs \<longleftrightarrow> rs \<noteq> [] \<and> sorted (map re_Metric rs) \<and> distinct (map re_ViaGateway rs) \<and>
     (\<forall>r \<in> set rs. re_Destination r = dest \<and> re_IsActive r)"

definition rt_inv :: "RouteTable \<Rightarrow> bool" where
  "rt_inv rt \<longleftrightarrow> (\<forall>dest rs. rt dest = Some rs \<longrightarrow> routes_inv dest rs)"

text \<open>What the table means: the route a gateway offers to a destination.\<close>

definition offers :: "RouteTable \<Rightarrow> string \<Rightarrow> string \<Rightarrow> RouteEntry option" where
  "offers rt dest gw = find (\<lambda>r. re_ViaGateway r = gw) (routes_at rt dest)"

section \<open>Lemmas\<close>

lemma routes_at_simps [simp]:
  "routes_at NewRouteTable d = []"
  "routes_at (rt(d' \<mapsto> rs)) d = (if d = d' then rs else routes_at rt d)"
  "routes_at (Withdraw g rt) d = filter (\<lambda>r. re_ViaGateway r \<noteq> g) (routes_at rt d)"
  by (auto simp: routes_at_def NewRouteTable_def Withdraw_def Let_def split: option.splits)

lemma routes_at_inv: "rt_inv rt \<Longrightarrow> routes_at rt d \<noteq> [] \<Longrightarrow> routes_inv d (routes_at rt d)"
  by (auto simp: rt_inv_def routes_at_def split: option.splits)

lemma set_update_or_append:
  "distinct (map re_ViaGateway rs) \<Longrightarrow> re_ViaGateway e = g \<Longrightarrow>
   set (update_or_append g e rs) = insert e {r \<in> set rs. re_ViaGateway r \<noteq> g}"
  by (induction g e rs rule: update_or_append.induct) (auto simp: image_iff)

lemma gateways_update_or_append:
  "re_ViaGateway e = g \<Longrightarrow>
   map re_ViaGateway (update_or_append g e rs) =
     (if g \<in> re_ViaGateway ` set rs then map re_ViaGateway rs else map re_ViaGateway rs @ [g])"
  by (induction g e rs rule: update_or_append.induct) auto

lemma update_or_append_ne [simp]: "update_or_append g e rs \<noteq> []"
  by (induction g e rs rule: update_or_append.induct) auto

lemma find_distinct_iff:
  "distinct (map f rs) \<Longrightarrow> find (\<lambda>r. f r = k) rs = Some r \<longleftrightarrow> r \<in> set rs \<and> f r = k"
  by (induction rs) auto

lemma find_distinct_cong:
  assumes "distinct (map f rs)" "distinct (map f rs')" "set rs = set rs'"
  shows "find (\<lambda>r. f r = k) rs = find (\<lambda>r. f r = k) rs'"
  using assms find_distinct_iff [of f rs k] find_distinct_iff [of f rs' k]
  by (metis not_Some_eq)

lemma offers_eq_Some_iff:
  "rt_inv rt \<Longrightarrow> offers rt d g = Some r \<longleftrightarrow> r \<in> set (routes_at rt d) \<and> re_ViaGateway r = g"
  using routes_at_inv [of rt d]
  by (cases "routes_at rt d = []") (auto simp: offers_def routes_inv_def find_distinct_iff)

section \<open>The sort of one destination's routes\<close>

locale metric_sort =
  fixes srt :: "RouteEntry list \<Rightarrow> RouteEntry list"
  assumes mset_srt: "mset (srt rs) = mset rs"
    and sorted_srt: "sorted (map re_Metric (srt rs))"
begin

lemma set_srt [simp]: "set (srt rs) = set rs"
  using mset_srt [of rs] by (metis set_mset_mset)

lemma distinct_srt [simp]: "distinct (map re_ViaGateway (srt rs)) = distinct (map re_ViaGateway rs)"
  by (metis mset_eq_imp_distinct_iff mset_map mset_srt)

lemma srt_ne [simp]: "srt rs = [] \<longleftrightarrow> rs = []"
  using mset_srt [of rs] by (metis mset_zero_iff)

lemma routes_inv_update:
  assumes "rs = [] \<or> routes_inv d rs"
    and e: "re_ViaGateway e = g" "re_Destination e = d" "re_IsActive e"
  shows "routes_inv d (srt (update_or_append g e rs))"
  using assms by (auto simp: routes_inv_def sorted_srt set_update_or_append gateways_update_or_append)

lemma advertise_one_inv:
  assumes "rt_inv rt" "re_ViaGateway e = g" "re_Destination e = d" "re_IsActive e"
  shows "rt_inv (rt(d \<mapsto> srt (update_or_append g e (routes_at rt d))))"
  using assms routes_inv_update [of "routes_at rt d" d e g] routes_at_inv [of rt d]
  by (auto simp: rt_inv_def)

lemma advertise_inv: "rt_inv rt \<Longrightarrow> rt_inv (Advertise srt g pk ep subnets m rt)"
  by (induction subnets arbitrary: rt) (simp_all add: Let_def advertise_one_inv)

lemma offers_advertise_one:
  assumes "rt_inv rt" "re_ViaGateway e = g"
  shows "offers (rt(d \<mapsto> srt (update_or_append g e (routes_at rt d)))) d' g' =
         (if d' = d \<and> g' = g then Some e else offers rt d' g')"
proof (cases "d' = d")
  case True
  let ?rs = "routes_at rt d" and ?rs' = "update_or_append g e (routes_at rt d)"
  have dis: "distinct (map re_ViaGateway ?rs)"
    using assms(1) routes_at_inv [of rt d] by (cases "?rs = []") (auto simp: routes_inv_def)
  then have dis': "distinct (map re_ViaGateway (srt ?rs'))"
    by (simp add: gateways_update_or_append assms)
  have "find (\<lambda>r. re_ViaGateway r = g') (srt ?rs') = Some r \<longleftrightarrow>
        (if g' = g then Some e else find (\<lambda>r. re_ViaGateway r = g') ?rs) = Some r" for r
    using dis dis' assms(2) by (auto simp: find_distinct_iff set_update_or_append)
  then have "find (\<lambda>r. re_ViaGateway r = g') (srt ?rs') =
        (if g' = g then Some e else find (\<lambda>r. re_ViaGateway r = g') ?rs)"
    by (metis not_Some_eq)
  then show ?thesis using True by (simp add: offers_def)
qed (simp add: offers_def)

lemma offers_advertise:
  "rt_inv rt \<Longrightarrow> offers (Advertise srt g pk ep subnets m rt) d g' =
     (if d \<in> set subnets \<and> g' = g
      then Some \<lparr>re_Destination = d, re_ViaGateway = g, re_ViaPublicKey = pk, re_ViaEndpoint = ep,
                 re_Metric = m, re_IsActive = True\<rparr>
      else offers rt d g')"
proof (induction subnets arbitrary: rt)
  case (Cons subnet subnets)
  define e where "e = \<lparr>re_Destination = subnet, re_ViaGateway = g, re_ViaPublicKey = pk,
    re_ViaEndpoint = ep, re_Metric = m, re_IsActive = True\<rparr>"
  have e: "re_ViaGateway e = g" "re_Destination e = subnet" "re_IsActive e"
    by (simp_all add: e_def)
  have "Advertise srt g pk ep (subnet # subnets) m rt =
      Advertise srt g pk ep subnets m (rt(subnet \<mapsto> srt (update_or_append g e (routes_at rt subnet))))"
    by (simp add: Let_def e_def)
  then show ?case
    using Cons.IH [OF advertise_one_inv [OF Cons.prems e]] offers_advertise_one [OF Cons.prems e(1)]
    by (simp only:) (auto simp: e_def)
qed simp

end

text \<open>
  \<open>sort.Slice\<close> on up to twelve elements is an insertion sort, which is \<open>sort_key\<close>; it meets
  the contract, so the contract is not vacuous.
\<close>

interpretation rt_sort: metric_sort "sort_key re_Metric"
  by unfold_locales simp_all

section \<open>Reachable tables\<close>

text \<open>The tables the two writers can produce, whatever admissible sort each call uses.\<close>

inductive rt_reach :: "RouteTable \<Rightarrow> bool" where
  rt_new: "rt_reach NewRouteTable"
| rt_advertise: "rt_reach rt \<Longrightarrow> metric_sort srt \<Longrightarrow> rt_reach (Advertise srt g pk ep subnets m rt)"
| rt_withdraw: "rt_reach rt \<Longrightarrow> rt_reach (Withdraw g rt)"

lemma withdraw_inv: "rt_inv rt \<Longrightarrow> rt_inv (Withdraw g rt)"
proof (unfold rt_inv_def, intro allI impI)
  fix d rs
  assume inv: "\<forall>d rs. rt d = Some rs \<longrightarrow> routes_inv d rs" and "Withdraw g rt d = Some rs"
  then obtain rs0 where rs0: "rt d = Some rs0" "rs = filter (\<lambda>r. re_ViaGateway r \<noteq> g) rs0" "rs \<noteq> []"
    by (auto simp: Withdraw_def Let_def split: option.splits if_splits)
  with inv have "routes_inv d rs0" by blast
  then show "routes_inv d rs"
    using rs0(2,3) by (simp add: routes_inv_def sorted_map_filter distinct_map_filter)
qed

lemma rt_reach_inv: "rt_reach rt \<Longrightarrow> rt_inv rt"
  by (induction rule: rt_reach.induct)
    (auto simp: NewRouteTable_def rt_inv_def [of Map.empty] withdraw_inv metric_sort.advertise_inv)

lemma find_filter_gw:
  "find (\<lambda>r. re_ViaGateway r = g') (filter (\<lambda>r. re_ViaGateway r \<noteq> g) rs) =
   (if g' = g then None else find (\<lambda>r. re_ViaGateway r = g') rs)"
  by (induction rs) auto

text \<open>
  C40. The route table implements the map from (destination, gateway) to offered route: in every
  reachable table an advertisement sets exactly the entries of the advertised subnets for the
  advertising gateway, replacing the old ones, and a withdrawal removes exactly the entries of
  the withdrawing gateway, whatever unstable sort the calls use.
\<close>

theorem route_table_refines:
  assumes "rt_reach rt" and "metric_sort srt"
  shows "offers (Advertise srt g pk ep subnets m rt) d g' =
     (if d \<in> set subnets \<and> g' = g
      then Some \<lparr>re_Destination = d, re_ViaGateway = g, re_ViaPublicKey = pk, re_ViaEndpoint = ep,
                 re_Metric = m, re_IsActive = True\<rparr>
      else offers rt d g') \<and>
     offers (Withdraw g rt) d g' = (if g' = g then None else offers rt d g')"
  using metric_sort.offers_advertise [OF assms(2) rt_reach_inv [OF assms(1)]]
  by (simp add: offers_def find_filter_gw)

lemma find_sorted_min:
  assumes "sorted (map f rs)" "find P rs = Some r" "x \<in> set rs" "P x"
  shows "f r \<le> f x"
  using assms by (induction rs) (auto split: if_splits)

text \<open>
  The best route to a destination in a reachable table is one of the offered routes with the
  least metric among all offers for that destination, and there is none exactly when no gateway
  offers the destination.
\<close>

theorem best_route_optimal:
  assumes "rt_reach rt"
  shows "(BestRoute rt d = None \<longleftrightarrow> (\<forall>g. offers rt d g = None)) \<and>
    (\<forall>r. BestRoute rt d = Some r \<longrightarrow>
       offers rt d (re_ViaGateway r) = Some r \<and> re_Destination r = d \<and>
       (\<forall>g r'. offers rt d g = Some r' \<longrightarrow> re_Metric r \<le> re_Metric r'))"
proof -
  have inv: "rt_inv rt" by (rule rt_reach_inv [OF assms])
  have best: "BestRoute rt d = find re_IsActive (routes_at rt d)"
    by (simp add: BestRoute_def routes_at_def split: option.splits)
  have off: "offers rt d g = Some r \<longleftrightarrow> r \<in> set (routes_at rt d) \<and> re_ViaGateway r = g" for g r
    by (rule offers_eq_Some_iff [OF inv])
  have rs: "routes_at rt d = [] \<or> routes_inv d (routes_at rt d)"
    using routes_at_inv [OF inv] by blast
  have "BestRoute rt d = None \<longleftrightarrow> (\<forall>g. offers rt d g = None)"
  proof (cases "routes_at rt d")
    case Nil
    then show ?thesis by (simp add: best offers_def)
  next
    case (Cons r rs')
    then have "offers rt d (re_ViaGateway r) = Some r" by (simp add: off)
    moreover have "re_IsActive r" using rs Cons by (simp add: routes_inv_def)
    ultimately show ?thesis using Cons by (auto simp: best intro!: exI [of _ "re_ViaGateway r"])
  qed
  moreover have "re_Metric r \<le> re_Metric r'" if "BestRoute rt d = Some r" "offers rt d g = Some r'" for r r' g
    using find_sorted_min [of re_Metric "routes_at rt d" re_IsActive r r'] that rs
    by (auto simp: best off routes_inv_def)
  ultimately show ?thesis
    using rs by (auto simp: best off routes_inv_def dest!: find_SomeD)
qed

lemma routes_for_gateway_mem:
  "r \<in> set (RoutesForGateway ks gw rt) \<longleftrightarrow>
   (\<exists>d \<in> set ks. find (\<lambda>r. re_ViaGateway r \<noteq> gw \<and> re_IsActive r) (routes_at rt d) = Some r)"
  by (simp add: RoutesForGateway_def) (auto split: option.splits; metis)

lemma routes_for_gateway_sound:
  assumes inv: "rt_inv rt"
    and d: "find (\<lambda>r. re_ViaGateway r \<noteq> gw \<and> re_IsActive r) (routes_at rt d) = Some r"
  shows "re_ViaGateway r \<noteq> gw \<and> re_Destination r = d \<and> offers rt d (re_ViaGateway r) = Some r \<and>
    (\<forall>g r'. g \<noteq> gw \<and> offers rt d g = Some r' \<longrightarrow> re_Metric r \<le> re_Metric r')"
proof -
  note off = offers_eq_Some_iff [OF inv]
  have r: "r \<in> set (routes_at rt d)" "re_ViaGateway r \<noteq> gw"
    using find_SomeD [OF d] by auto
  then have rs: "routes_inv d (routes_at rt d)"
    using routes_at_inv [OF inv, of d] by force
  have "re_Metric r \<le> re_Metric r'" if "g \<noteq> gw \<and> offers rt d g = Some r'" for g r'
    using find_sorted_min [of re_Metric _ _ r r', OF _ d] that rs
    by (auto simp: off routes_inv_def)
  then show ?thesis using r rs by (auto simp: off routes_inv_def)
qed

lemma routes_for_gateway_complete:
  assumes inv: "rt_inv rt" and o: "offers rt d g = Some r'" and "g \<noteq> gw"
  shows "\<exists>r. find (\<lambda>r. re_ViaGateway r \<noteq> gw \<and> re_IsActive r) (routes_at rt d) = Some r"
proof -
  have r': "r' \<in> set (routes_at rt d)" "re_ViaGateway r' = g"
    using o by (simp_all add: offers_eq_Some_iff [OF inv])
  then have "re_IsActive r'"
    using routes_at_inv [OF inv, of d] by (force simp: routes_inv_def)
  then show ?thesis
    using r' \<open>g \<noteq> gw\<close> find_None_iff [of "\<lambda>r. re_ViaGateway r \<noteq> gw \<and> re_IsActive r" "routes_at rt d"]
    by (cases "find (\<lambda>r. re_ViaGateway r \<noteq> gw \<and> re_IsActive r) (routes_at rt d)") auto
qed

text \<open>
  For any iteration order of the table, the routes a gateway is told to install are never
  routes through itself, each is the cheapest one another gateway offers for its destination,
  and every destination another gateway offers has one.
\<close>

theorem routes_for_gateway_best:
  assumes "rt_reach rt" and "set ks = dom rt"
  shows "(\<forall>r \<in> set (RoutesForGateway ks gw rt).
       re_ViaGateway r \<noteq> gw \<and> offers rt (re_Destination r) (re_ViaGateway r) = Some r \<and>
       (\<forall>g r'. g \<noteq> gw \<and> offers rt (re_Destination r) g = Some r' \<longrightarrow> re_Metric r \<le> re_Metric r')) \<and>
     (\<forall>d g r'. g \<noteq> gw \<and> offers rt d g = Some r' \<longrightarrow>
       (\<exists>r \<in> set (RoutesForGateway ks gw rt). re_Destination r = d))"
proof -
  have inv: "rt_inv rt" by (rule rt_reach_inv [OF assms(1)])
  have ks: "d \<in> set ks" if "offers rt d g = Some r'" for d g r'
    using that assms(2) by (auto simp: offers_def routes_at_def split: option.splits)
  have "\<exists>r \<in> set (RoutesForGateway ks gw rt). re_Destination r = d"
    if "g \<noteq> gw \<and> offers rt d g = Some r'" for d g r'
    using routes_for_gateway_complete [OF inv, of d g r' gw] routes_for_gateway_sound [OF inv, of gw d]
      ks [of d g r'] that by (metis routes_for_gateway_mem)
  moreover have "re_ViaGateway r \<noteq> gw \<and> offers rt (re_Destination r) (re_ViaGateway r) = Some r \<and>
       (\<forall>g r'. g \<noteq> gw \<and> offers rt (re_Destination r) g = Some r' \<longrightarrow> re_Metric r \<le> re_Metric r')"
    if "r \<in> set (RoutesForGateway ks gw rt)" for r
    using that routes_for_gateway_sound [OF inv, of gw _ r]
    unfolding routes_for_gateway_mem by blast
  ultimately show ?thesis by blast
qed

section \<open>A concrete table\<close>

definition sample_table :: RouteTable where
  "sample_table =
     Advertise (sort_key re_Metric) ''gw-b'' ''kb'' ''b:51820'' [''10.2.0.0/16''] 50
       (Advertise (sort_key re_Metric) ''gw-a'' ''ka'' ''a:51820'' [''10.2.0.0/16''] 100 NewRouteTable)"

lemma sample_table_reach: "rt_reach sample_table"
  unfolding sample_table_def
  by (intro rt_reach.intros rt_sort.metric_sort_axioms)

theorem route_table_refines_witness:
  "offers (Advertise (sort_key re_Metric) ''gw-a'' ''ka'' ''a:51820'' [''10.2.0.0/16''] 10 sample_table)
     ''10.2.0.0/16'' ''gw-b'' = offers sample_table ''10.2.0.0/16'' ''gw-b'' \<and>
   offers (Withdraw ''gw-a'' sample_table) ''10.2.0.0/16'' ''gw-a'' = None"
  using route_table_refines [OF sample_table_reach rt_sort.metric_sort_axioms,
      of "''gw-a''" "''ka''" "''a:51820''" "[''10.2.0.0/16'']" 10 "''10.2.0.0/16''" "''gw-b''"]
    route_table_refines [OF sample_table_reach rt_sort.metric_sort_axioms,
      of "''gw-a''" "''ka''" "''a:51820''" "[''10.2.0.0/16'']" 10 "''10.2.0.0/16''" "''gw-a''"]
  by (simp del: Advertise.simps)

theorem best_route_optimal_witness:
  "map_option re_ViaGateway (BestRoute sample_table ''10.2.0.0/16'') = Some ''gw-b'' \<and>
   50 \<le> re_Metric (the (offers sample_table ''10.2.0.0/16'' ''gw-a''))"
proof -
  have "offers sample_table ''10.2.0.0/16'' ''gw-a'' \<noteq> None"
    by (simp add: sample_table_def offers_def NewRouteTable_def routes_at_def Let_def)
  moreover
  have "BestRoute sample_table ''10.2.0.0/16'' =
    Some \<lparr>re_Destination = ''10.2.0.0/16'', re_ViaGateway = ''gw-b'', re_ViaPublicKey = ''kb'',
          re_ViaEndpoint = ''b:51820'', re_Metric = 50, re_IsActive = True\<rparr>"
    by (simp add: sample_table_def BestRoute_def NewRouteTable_def routes_at_def Let_def)
  ultimately show ?thesis
    using best_route_optimal [OF sample_table_reach, of "''10.2.0.0/16''"] by auto
qed

theorem routes_for_gateway_best_witness:
  "set [''10.2.0.0/16''] = dom sample_table \<and>
   map re_ViaGateway (RoutesForGateway [''10.2.0.0/16''] ''gw-b'' sample_table) = [''gw-a''] \<and>
   list_all (\<lambda>r. re_ViaGateway r \<noteq> ''gw-b'') (RoutesForGateway [''10.2.0.0/16''] ''gw-b'' sample_table)"
proof -
  have dom: "set [''10.2.0.0/16''] = dom sample_table"
    by (simp add: sample_table_def NewRouteTable_def Let_def)
  show ?thesis
    using routes_for_gateway_best [OF sample_table_reach dom, of "''gw-b''"] dom
    by (simp add: sample_table_def RoutesForGateway_def NewRouteTable_def routes_at_def Let_def)
qed

end
