(* ===== verification/S2S_Health.thy ===== *)
theory S2S_Health
  imports Go_Std
begin

text \<open>
  Health of site-to-site tunnel peers (\<^verbatim>\<open>internal/s2s/health.go\<close>): a peer becomes healthy with
  one successful probe and unhealthy after a threshold of consecutive failures.
\<close>

section \<open>Operations\<close>

record PeerHealth =
  ph_GatewayID :: string
  ph_RemoteGateway :: string
  ph_TunnelID :: string
  ph_IsHealthy :: bool
  ph_LatencyMs :: int
  ph_LastCheck :: time
  ph_LastHealthy :: time
  ph_FailCount :: int

record HealthTracker =
  ht_peers :: "string \<rightharpoonup> PeerHealth"
  ht_unhealthyThreshold :: int

definition NewHealthTracker :: "int \<Rightarrow> HealthTracker" where
  "NewHealthTracker unhealthyThreshold =
     \<lparr>ht_peers = Map.empty,
      ht_unhealthyThreshold = (if unhealthyThreshold \<le> 0 then 3 else unhealthyThreshold)\<rparr>"

definition health_key :: "string \<Rightarrow> string \<Rightarrow> string \<Rightarrow> string" where
  "health_key tunnelID gatewayID remoteGatewayID =
     tunnelID @ '':'' @ gatewayID @ '':'' @ remoteGatewayID"

text \<open>\<open>now\<close> and \<open>now'\<close> are the two readings of the clock.\<close>

definition Report :: "time \<Rightarrow> time \<Rightarrow> string \<Rightarrow> string \<Rightarrow> string \<Rightarrow> bool \<Rightarrow> int \<Rightarrow> HealthTracker
    \<Rightarrow> HealthTracker" where
  "Report now now' tunnelID gatewayID remoteGatewayID isReachable latencyMs ht =
     (let key = health_key tunnelID gatewayID remoteGatewayID;
          ph0 = (case ht_peers ht key of
                   Some ph \<Rightarrow> ph
                 | None \<Rightarrow> \<lparr>ph_GatewayID = gatewayID, ph_RemoteGateway = remoteGatewayID,
                            ph_TunnelID = tunnelID, ph_IsHealthy = False, ph_LatencyMs = 0,
                            ph_LastCheck = zero_time, ph_LastHealthy = zero_time, ph_FailCount = 0\<rparr>);
          ph1 = ph0\<lparr>ph_LastCheck := now, ph_LatencyMs := latencyMs\<rparr>;
          ph2 = (if isReachable
                 then ph1\<lparr>ph_IsHealthy := True, ph_LastHealthy := now', ph_FailCount := 0\<rparr>
                 else let n = wrap64 (ph_FailCount ph1 + 1);
                          ph = ph1\<lparr>ph_FailCount := n\<rparr>
                      in if n \<ge> ht_unhealthyThreshold ht then ph\<lparr>ph_IsHealthy := False\<rparr> else ph)
      in ht\<lparr>ht_peers := (ht_peers ht)(key \<mapsto> ph2)\<rparr>)"

definition GetHealth :: "string list \<Rightarrow> string \<Rightarrow> HealthTracker \<Rightarrow> PeerHealth list" where
  "GetHealth ks tunnelID ht =
     filter (\<lambda>ph. ph_TunnelID ph = tunnelID) (List.map_filter (ht_peers ht) ks)"

definition IsHealthy :: "string \<Rightarrow> string \<Rightarrow> string \<Rightarrow> HealthTracker \<Rightarrow> bool" where
  "IsHealthy tunnelID gatewayID remoteGatewayID ht =
     (case ht_peers ht (health_key tunnelID gatewayID remoteGatewayID) of
        None \<Rightarrow> False | Some ph \<Rightarrow> ph_IsHealthy ph)"

section \<open>Histories of reports\<close>

record health_report =
  hr_tunnel :: string
  hr_gateway :: string
  hr_remote :: string
  hr_reachable :: bool
  hr_latency :: int
  hr_now :: time
  hr_now' :: time

definition apply_report :: "health_report \<Rightarrow> HealthTracker \<Rightarrow> HealthTracker" where
  "apply_report e = Report (hr_now e) (hr_now' e) (hr_tunnel e) (hr_gateway e) (hr_remote e)
                      (hr_reachable e) (hr_latency e)"

definition run_reports :: "health_report list \<Rightarrow> HealthTracker \<Rightarrow> HealthTracker" where
  "run_reports es ht = fold apply_report es ht"

text \<open>Identifiers are UUIDs in the program; what matters is that they hold no colon.\<close>

definition colon_free :: "health_report \<Rightarrow> bool" where
  "colon_free e \<longleftrightarrow> CHR '':'' \<notin> set (hr_tunnel e) \<and> CHR '':'' \<notin> set (hr_gateway e) \<and>
                   CHR '':'' \<notin> set (hr_remote e)"

definition outcomes :: "string \<Rightarrow> string \<Rightarrow> string \<Rightarrow> health_report list \<Rightarrow> bool list" where
  "outcomes t g r es =
     map hr_reachable (filter (\<lambda>e. hr_tunnel e = t \<and> hr_gateway e = g \<and> hr_remote e = r) es)"

definition trailing_failures :: "bool list \<Rightarrow> nat" where
  "trailing_failures os = length (takeWhile Not (rev os))"

lemma append_sep_inject:
  "c \<notin> set xs \<Longrightarrow> c \<notin> set xs' \<Longrightarrow> xs @ c # ys = xs' @ c # ys' \<longleftrightarrow> xs = xs' \<and> ys = ys'"
proof (induction xs arbitrary: xs')
  case Nil
  then show ?case by (cases xs') auto
next
  case (Cons x xs)
  then show ?case by (cases xs') auto
qed

lemma health_key_inject:
  assumes "CHR '':'' \<notin> set t" "CHR '':'' \<notin> set t'" "CHR '':'' \<notin> set g" "CHR '':'' \<notin> set g'"
  shows "health_key t g r = health_key t' g' r' \<longleftrightarrow> t = t' \<and> g = g' \<and> r = r'"
  using assms by (simp add: health_key_def append_sep_inject)

lemma trailing_failures_snoc [simp]:
  "trailing_failures (os @ [b]) = (if b then 0 else Suc (trailing_failures os))"
  "trailing_failures [] = 0"
  by (simp_all add: trailing_failures_def)

lemma outcomes_snoc [simp]:
  "outcomes t g r (es @ [e]) = outcomes t g r es @
     (if hr_tunnel e = t \<and> hr_gateway e = g \<and> hr_remote e = r then [hr_reachable e] else [])"
  "outcomes t g r [] = []"
  by (simp_all add: outcomes_def)

lemma run_reports_snoc [simp]: "run_reports (es @ [e]) ht = apply_report e (run_reports es ht)"
  by (simp add: run_reports_def)

lemma report_threshold [simp]:
  "ht_unhealthyThreshold (apply_report e ht) = ht_unhealthyThreshold ht"
  by (simp add: apply_report_def Report_def Let_def)

lemma run_reports_threshold [simp]:
  "ht_unhealthyThreshold (run_reports es ht) = ht_unhealthyThreshold ht"
  by (induction es rule: rev_induct) (simp_all add: run_reports_def [of "[]"])

lemma trailing_failures_le: "trailing_failures (outcomes t g r es) \<le> length es"
proof -
  have "trailing_failures (outcomes t g r es) \<le> length (outcomes t g r es)"
    using length_takeWhile_le [of Not "rev (outcomes t g r es)"] by (simp add: trailing_failures_def)
  also have "\<dots> \<le> length es" by (simp add: outcomes_def)
  finally show ?thesis .
qed

text \<open>The state a tracker must be in after a history of probes of one peer.\<close>

definition health_matches :: "int \<Rightarrow> bool list \<Rightarrow> PeerHealth option \<Rightarrow> bool" where
  "health_matches th os p \<longleftrightarrow> (case p of
       None \<Rightarrow> os = []
     | Some ph \<Rightarrow> ph_FailCount ph = int (trailing_failures os) \<and>
         (ph_IsHealthy ph \<longleftrightarrow> True \<in> set os \<and> int (trailing_failures os) < th))"

lemma health_matches_step:
  assumes "health_matches (ht_unhealthyThreshold ht) os (ht_peers ht key)"
    and "key = health_key t g r" "0 < ht_unhealthyThreshold ht" "int (Suc (trailing_failures os)) < 2 ^ 63"
  shows "health_matches (ht_unhealthyThreshold ht) (os @ [b])
           (ht_peers (Report now now' t g r b l ht) key)"
proof -
  have w: "wrap64 (int (trailing_failures os) + 1) = int (trailing_failures os) + 1"
    by (rule wrap64_id) (use assms(4) in \<open>simp add: int64_range_def\<close>)
  have w1: "wrap64 1 = 1"
    by (rule wrap64_id) (simp add: int64_range_def)
  show ?thesis
  proof (cases "ht_peers ht (health_key t g r)")
    case None
    with assms(1-3) w1 show ?thesis
      by (cases b) (simp_all add: trailing_failures_def health_matches_def Report_def Let_def)
  next
    case (Some ph)
    with assms(1-3) w show ?thesis
      by (cases b) (simp_all add: health_matches_def Report_def Let_def)
  qed
qed

lemma run_reports_matches:
  assumes "\<forall>e \<in> set es. colon_free e" "int (length es) < 2 ^ 63"
    and "CHR '':'' \<notin> set t" "CHR '':'' \<notin> set g" "CHR '':'' \<notin> set r"
  shows "health_matches (ht_unhealthyThreshold (NewHealthTracker n)) (outcomes t g r es)
           (ht_peers (run_reports es (NewHealthTracker n)) (health_key t g r))"
  using assms(1,2)
proof (induction es rule: rev_induct)
  case Nil
  then show ?case by (simp add: run_reports_def health_matches_def NewHealthTracker_def)
next
  case (snoc e es)
  let ?ht = "run_reports es (NewHealthTracker n)"
  have IH: "health_matches (ht_unhealthyThreshold ?ht) (outcomes t g r es) (ht_peers ?ht (health_key t g r))"
    using snoc by simp
  have "int (Suc (trailing_failures (outcomes t g r es))) < 2 ^ 63"
    using trailing_failures_le [of t g r es] snoc.prems(2) by simp
  note step = health_matches_step [OF IH refl _ this]
  show ?case
  proof (cases "hr_tunnel e = t \<and> hr_gateway e = g \<and> hr_remote e = r")
    case True
    then show ?thesis using step by (auto simp: apply_report_def NewHealthTracker_def)
  next
    case False
    then have "health_key (hr_tunnel e) (hr_gateway e) (hr_remote e) \<noteq> health_key t g r"
      using snoc.prems(1) assms(3,4) by (auto simp: colon_free_def health_key_inject)
    then show ?thesis
      using IH False by (auto simp: apply_report_def Report_def Let_def)
  qed
qed

text \<open>
  After any interleaved history of probe reports, a peer of a tunnel is healthy exactly when
  some probe of it has succeeded and fewer than the threshold have failed since its last
  success; probes of other peers do not matter, and a threshold of zero or less counts as three.
\<close>

theorem health_by_threshold:
  assumes "\<forall>e \<in> set es. colon_free e" "int (length es) < 2 ^ 63"
    and "CHR '':'' \<notin> set t" "CHR '':'' \<notin> set g" "CHR '':'' \<notin> set r"
  shows "IsHealthy t g r (run_reports es (NewHealthTracker n)) \<longleftrightarrow>
    True \<in> set (outcomes t g r es) \<and>
    int (trailing_failures (outcomes t g r es)) < (if n \<le> 0 then 3 else n)"
  using run_reports_matches [OF assms, of n]
  by (auto simp: IsHealthy_def health_matches_def NewHealthTracker_def split: option.splits)

definition sample_report :: "string \<Rightarrow> bool \<Rightarrow> health_report" where
  "sample_report r ok = \<lparr>hr_tunnel = ''t1'', hr_gateway = ''g1'', hr_remote = r, hr_reachable = ok,
     hr_latency = 12, hr_now = 1, hr_now' = 2\<rparr>"

theorem health_by_threshold_witness:
  "IsHealthy ''t1'' ''g1'' ''g2'' (run_reports
     [sample_report ''g2'' True, sample_report ''g2'' False, sample_report ''g3'' False,
      sample_report ''g2'' False] (NewHealthTracker 0)) \<and>
   \<not> IsHealthy ''t1'' ''g1'' ''g2'' (run_reports
     [sample_report ''g2'' True, sample_report ''g2'' False, sample_report ''g2'' False] (NewHealthTracker 2))"
proof -
  have "IsHealthy ''t1'' ''g1'' ''g2'' (run_reports
     [sample_report ''g2'' True, sample_report ''g2'' False, sample_report ''g3'' False,
      sample_report ''g2'' False] (NewHealthTracker 0))"
    by (subst health_by_threshold)
      (simp_all add: sample_report_def colon_free_def outcomes_def trailing_failures_def)
  moreover have "\<not> IsHealthy ''t1'' ''g1'' ''g2'' (run_reports
     [sample_report ''g2'' True, sample_report ''g2'' False, sample_report ''g2'' False] (NewHealthTracker 2))"
    by (subst health_by_threshold)
      (simp_all add: sample_report_def colon_free_def outcomes_def trailing_failures_def)
  ultimately show ?thesis by blast
qed

end
