(* ===== verification/ZTNA_Posture.thy ===== *)
theory ZTNA_Posture
  imports Go_Std
begin

text \<open>
  Device posture evaluation (\<^verbatim>\<open>internal/ztna/posture.go\<close>): a device state against a policy, and
  the comparison of dotted version strings it uses.
\<close>

section \<open>Operations\<close>

record DevicePosture =
  dp_DeviceID :: string
  dp_OSType :: string
  dp_OSVersion :: string
  dp_DiskEncrypted :: bool
  dp_ScreenLockEnabled :: bool
  dp_AntivirusActive :: bool
  dp_FirewallEnabled :: bool
  dp_LastChecked :: time
  dp_Score :: int

record PosturePolicy =
  pp_ID :: string
  pp_Name :: string
  pp_NetworkID :: string
  pp_RequireDiskEncryption :: bool
  pp_RequireScreenLock :: bool
  pp_RequireAntivirus :: bool
  pp_RequireFirewall :: bool
  pp_MinOSVersion :: "string \<rightharpoonup> string"
  pp_MinPostureScore :: int

text \<open>The loop over the components, from index \<open>i\<close> to \<open>maxLen\<close>; a missing component counts as 0.\<close>

definition part_at :: "string list \<Rightarrow> nat \<Rightarrow> int" where
  "part_at ps i = (if i < length ps then fst (atoi (ps ! i)) else 0)"

function version_loop :: "string list \<Rightarrow> string list \<Rightarrow> nat \<Rightarrow> nat \<Rightarrow> bool" where
  "version_loop actualParts requiredParts maxLen i =
     (if i < maxLen then
        let a = part_at actualParts i; r = part_at requiredParts i
        in if a > r then True
           else if a < r then False
           else version_loop actualParts requiredParts maxLen (Suc i)
      else True)"
  by pat_completeness auto
termination
  by (relation "measure (\<lambda>(_, _, n, i). n - i)") auto

declare version_loop.simps [simp del]

definition isVersionAtLeast :: "string \<Rightarrow> string \<Rightarrow> bool" where
  "isVersionAtLeast actual required =
     (let actualParts = go_split CHR ''.'' actual;
          requiredParts = go_split CHR ''.'' required
      in version_loop actualParts requiredParts (max (length actualParts) (length requiredParts)) 0)"

definition version_violation :: "DevicePosture \<Rightarrow> PosturePolicy \<Rightarrow> string option" where
  "version_violation posture policy =
     (case pp_MinOSVersion policy (dp_OSType posture) of
        None \<Rightarrow> None
      | Some minVer \<Rightarrow>
          if isVersionAtLeast (dp_OSVersion posture) minVer then None
          else Some (dp_OSType posture @ '' version '' @ dp_OSVersion posture @
                     '' is below minimum required '' @ minVer))"

text \<open>One requirement: when it failed, a violation is recorded and points are taken off.\<close>

definition posture_check :: "bool \<Rightarrow> string \<Rightarrow> int \<Rightarrow> string list \<times> int \<Rightarrow> string list \<times> int" where
  "posture_check failed violation points st =
     (if failed then (fst st @ [violation], snd st - points) else st)"

definition posture_checks :: "DevicePosture \<Rightarrow> PosturePolicy \<Rightarrow> string list \<times> int" where
  "posture_checks posture policy =
     posture_check (version_violation posture policy \<noteq> None) (the (version_violation posture policy)) 25
    (posture_check (pp_RequireFirewall policy \<and> \<not> dp_FirewallEnabled posture)
       ''firewall is not enabled'' 15
    (posture_check (pp_RequireAntivirus policy \<and> \<not> dp_AntivirusActive posture)
       ''antivirus is not active'' 20
    (posture_check (pp_RequireScreenLock policy \<and> \<not> dp_ScreenLockEnabled posture)
       ''screen lock is not enabled'' 15
    (posture_check (pp_RequireDiskEncryption policy \<and> \<not> dp_DiskEncrypted posture)
       ''disk encryption is not enabled'' 25
     ([], 100)))))"

definition Evaluate :: "DevicePosture \<Rightarrow> PosturePolicy \<Rightarrow> bool \<times> int \<times> string list" where
  "Evaluate posture policy =
     (let (violations, score0) = posture_checks posture policy;
          score = (if score0 < 0 then 0 else score0);
          violations' =
            (if pp_MinPostureScore policy > 0 \<and> score < pp_MinPostureScore policy
             then violations @ [''posture score '' @ itoa score @ '' is below minimum required '' @
                                itoa (pp_MinPostureScore policy)]
             else violations)
      in (violations' = [], score, violations'))"

section \<open>Versions\<close>

text \<open>The reference comparison: lexicographic on the numbers, the shorter padded with zeros.\<close>

fun ver_ge :: "int list \<Rightarrow> int list \<Rightarrow> bool" where
  "ver_ge [] [] \<longleftrightarrow> True"
| "ver_ge (a # as) [] \<longleftrightarrow> a > 0 \<or> (a = 0 \<and> ver_ge as [])"
| "ver_ge [] (r # rs) \<longleftrightarrow> 0 > r \<or> (r = 0 \<and> ver_ge [] rs)"
| "ver_ge (a # as) (r # rs) \<longleftrightarrow> a > r \<or> (a = r \<and> ver_ge as rs)"

definition version_parts :: "string \<Rightarrow> int list" where
  "version_parts v = map (\<lambda>p. fst (atoi p)) (go_split CHR ''.'' v)"

lemma ver_ge_drop_step:
  assumes "i < max (length xs) (length ys)"
  shows "ver_ge (drop i xs) (drop i ys) \<longleftrightarrow>
    (let a = (if i < length xs then xs ! i else 0); r = (if i < length ys then ys ! i else 0)
     in a > r \<or> (a = r \<and> ver_ge (drop (Suc i) xs) (drop (Suc i) ys)))"
proof -
  have "drop i zs = (if i < length zs then zs ! i # drop (Suc i) zs else [])" for zs :: "int list"
    by (simp add: Cons_nth_drop_Suc)
  note xs = this [of xs] and ys = this [of ys]
  show ?thesis
    unfolding xs ys using assms by (auto simp: Let_def)
qed

lemma version_loop_ver_ge:
  assumes "n = max (length as) (length rs)"
  shows "version_loop as rs n i \<longleftrightarrow>
         ver_ge (drop i (map (\<lambda>p. fst (atoi p)) as)) (drop i (map (\<lambda>p. fst (atoi p)) rs))"
  using assms
proof (induction as rs n i rule: version_loop.induct)
  case (1 as rs n i)
  show ?case
  proof (cases "i < n")
    case True
    then show ?thesis
      using 1 by (subst version_loop.simps, subst ver_ge_drop_step)
        (auto simp: Let_def part_at_def)
  next
    case False
    then show ?thesis using 1(2) by (subst version_loop.simps) simp
  qed
qed

lemma isVersionAtLeast_ver_ge:
  "isVersionAtLeast v w \<longleftrightarrow> ver_ge (version_parts v) (version_parts w)"
  by (simp add: isVersionAtLeast_def version_loop_ver_ge version_parts_def Let_def)

lemma ver_ge_refl: "ver_ge xs xs"
  by (induction xs) auto

lemma ver_ge_total: "ver_ge xs ys \<or> ver_ge ys xs"
  by (induction xs ys rule: ver_ge.induct) auto

lemma ver_ge_trans: "ver_ge xs ys \<Longrightarrow> ver_ge ys zs \<Longrightarrow> ver_ge xs zs"
proof (induction xs ys arbitrary: zs rule: ver_ge.induct)
  case 1
  then show ?case by simp
next
  case (2 a as)
  then show ?case by (cases zs) auto
next
  case (3 r rs)
  then show ?case by (cases zs) auto
next
  case (4 a as r rs)
  then show ?case by (cases zs) auto
qed

text \<open>The text of a version made of the given numbers.\<close>

definition version_text :: "int list \<Rightarrow> string" where
  "version_text ns = go_join ''.'' (map itoa ns)"

lemma dec_nat_no_dot: "CHR ''.'' \<notin> set (dec_nat n)"
  using dec_nat_digits [of n] sign_not_digit by auto

lemma version_parts_text:
  assumes "ns \<noteq> []" "\<forall>n \<in> set ns. int64_range n"
  shows "version_parts (version_text ns) = ns"
proof -
  have "CHR ''.'' \<notin> set (itoa n)" for n
    by (auto simp: itoa_def dec_nat_no_dot)
  then have "go_split CHR ''.'' (version_text ns) = map itoa ns"
    unfolding version_text_def using assms(1) by (intro go_split_join) auto
  then show ?thesis
    using assms(2) by (simp add: version_parts_def atoi_itoa map_idI)
qed

text \<open>
  Version comparison is a total preorder on all strings (so a policy never rejects a device
  running exactly the required version, and raising a requirement never admits a device that a
  lower one rejected), and on versions written from numbers it is the lexicographic comparison of
  the numbers, the shorter version padded with zeros.
\<close>

theorem version_order:
  assumes "ms \<noteq> []" "ns \<noteq> []" "\<forall>n \<in> set ms. int64_range n" "\<forall>n \<in> set ns. int64_range n"
  shows "isVersionAtLeast v v \<and>
    (isVersionAtLeast v w \<or> isVersionAtLeast w v) \<and>
    (isVersionAtLeast v w \<and> isVersionAtLeast w u \<longrightarrow> isVersionAtLeast v u) \<and>
    (isVersionAtLeast (version_text ms) (version_text ns) \<longleftrightarrow> ver_ge ms ns)"
  unfolding isVersionAtLeast_ver_ge
  using ver_ge_trans [of "version_parts v" "version_parts w" "version_parts u"]
  by (simp add: ver_ge_refl ver_ge_total version_parts_text assms)

theorem version_order_witness:
  "isVersionAtLeast ''10.0.19045'' ''10.0.19044'' \<and> \<not> isVersionAtLeast ''13'' ''13.0.1''"
proof -
  have t: "''10.0.19045'' = version_text [10, 0, 19045]" "''10.0.19044'' = version_text [10, 0, 19044]"
    "''13'' = version_text [13]" "''13.0.1'' = version_text [13, 0, 1]"
    by (simp_all add: version_text_def itoa_def dec_nat.simps)
  show ?thesis
    using version_order [of "[10, 0, 19045]" "[10, 0, 19044]" "[]" "[]" "[]"]
      version_order [of "[13]" "[13, 0, 1]" "[]" "[]" "[]"]
    unfolding t [symmetric] by (simp add: int64_range_def)
qed

section \<open>Evaluation\<close>

definition deduction :: "bool \<Rightarrow> int \<Rightarrow> int" where
  "deduction failed points = (if failed then points else 0)"

lemma posture_check_score: "snd (posture_check b v p st) = snd st - deduction b p"
  by (simp add: posture_check_def deduction_def)

lemma posture_check_clean: "fst (posture_check b v p st) = [] \<longleftrightarrow> \<not> b \<and> fst st = []"
  by (simp add: posture_check_def)

lemma version_violation_iff:
  "version_violation posture policy \<noteq> None \<longleftrightarrow>
     (case pp_MinOSVersion policy (dp_OSType posture) of
        None \<Rightarrow> False | Some minVer \<Rightarrow> \<not> isVersionAtLeast (dp_OSVersion posture) minVer)"
  by (simp add: version_violation_def split: option.split)

lemma deduction_bounds: "0 \<le> p \<Longrightarrow> 0 \<le> deduction b p \<and> deduction b p \<le> p"
  by (simp add: deduction_def)

definition failed_disk :: "DevicePosture \<Rightarrow> PosturePolicy \<Rightarrow> bool" where
  "failed_disk d p \<longleftrightarrow> pp_RequireDiskEncryption p \<and> \<not> dp_DiskEncrypted d"

definition failed_lock :: "DevicePosture \<Rightarrow> PosturePolicy \<Rightarrow> bool" where
  "failed_lock d p \<longleftrightarrow> pp_RequireScreenLock p \<and> \<not> dp_ScreenLockEnabled d"

definition failed_antivirus :: "DevicePosture \<Rightarrow> PosturePolicy \<Rightarrow> bool" where
  "failed_antivirus d p \<longleftrightarrow> pp_RequireAntivirus p \<and> \<not> dp_AntivirusActive d"

definition failed_firewall :: "DevicePosture \<Rightarrow> PosturePolicy \<Rightarrow> bool" where
  "failed_firewall d p \<longleftrightarrow> pp_RequireFirewall p \<and> \<not> dp_FirewallEnabled d"

definition failed_version :: "DevicePosture \<Rightarrow> PosturePolicy \<Rightarrow> bool" where
  "failed_version d p \<longleftrightarrow> (case pp_MinOSVersion p (dp_OSType d) of
     None \<Rightarrow> False | Some minVer \<Rightarrow> \<not> isVersionAtLeast (dp_OSVersion d) minVer)"

lemmas failed_defs = failed_disk_def failed_lock_def failed_antivirus_def failed_firewall_def
  failed_version_def

lemma posture_checks_score:
  "snd (posture_checks d p) = 100 - deduction (failed_disk d p) 25 - deduction (failed_lock d p) 15 -
     deduction (failed_antivirus d p) 20 - deduction (failed_firewall d p) 15 - deduction (failed_version d p) 25"
  unfolding posture_checks_def posture_check_score version_violation_iff failed_defs by simp

lemma posture_checks_clean:
  "fst (posture_checks d p) = [] \<longleftrightarrow> \<not> failed_disk d p \<and> \<not> failed_lock d p \<and>
     \<not> failed_antivirus d p \<and> \<not> failed_firewall d p \<and> \<not> failed_version d p"
  unfolding posture_checks_def posture_check_clean version_violation_iff failed_defs by auto

text \<open>
  Evaluating a posture yields 100 minus the points of the failed requirements, a number
  from 0 to 100 on which the clamp never acts, and calls the device compliant exactly when no
  requirement failed and the score reaches the policy's minimum when it sets one.
\<close>

theorem evaluate_posture:
  "let (compliant, score, violations) = Evaluate d p
   in score = 100 - deduction (failed_disk d p) 25 - deduction (failed_lock d p) 15 -
              deduction (failed_antivirus d p) 20 - deduction (failed_firewall d p) 15 -
              deduction (failed_version d p) 25 \<and>
      0 \<le> score \<and> score \<le> 100 \<and>
      compliant = (violations = []) \<and>
      compliant = (\<not> (failed_disk d p \<or> failed_lock d p \<or> failed_antivirus d p \<or>
                      failed_firewall d p \<or> failed_version d p \<or>
                      (pp_MinPostureScore p > 0 \<and> score < pp_MinPostureScore p)))"
proof -
  have b: "0 \<le> snd (posture_checks d p)" "snd (posture_checks d p) \<le> 100"
    unfolding posture_checks_score by (simp_all add: deduction_def)
  obtain vs sc where vs: "posture_checks d p = (vs, sc)" by force
  show ?thesis
    using posture_checks_score [of d p] posture_checks_clean [of d p] b
    by (simp add: Evaluate_def Let_def vs)
qed

end
