(* ===== verification/IPv4.thy ===== *)
theory IPv4
  imports Go_Std "HOL-Library.Word"
begin

text \<open>
  IPv4 addresses and networks as the program handles them: the value behind Postgres' \<open>inet\<close>
  and \<open>cidr\<close> columns, their text form (\<open>host(...)\<close>, \<open>::text\<close>), and Go's parsing of it
  (\<^verbatim>\<open>net.ParseIP\<close>, \<^verbatim>\<open>net.ParseCIDR\<close>, restricted to the dotted form). The text
  and the value are mutually inverse, so rules that travel as text mean what the core computed.
\<close>

type_synonym ip4 = "32 word"

definition octets :: "ip4 \<Rightarrow> nat list" where
  "octets w = [unat w div 16777216, unat w div 65536 mod 256, unat w div 256 mod 256, unat w mod 256]"

definition ip_of_octets :: "nat list \<Rightarrow> ip4" where
  "ip_of_octets os = word_of_nat (foldl (\<lambda>a b. a * 256 + b) 0 os)"

text \<open>The dotted form, as \<open>host()\<close> and \<^verbatim>\<open>net.IP.String\<close> print it.\<close>

definition host :: "ip4 \<Rightarrow> string" where
  "host w = go_join ''.'' (map dec_nat (octets w))"

text \<open>One octet: decimal digits, at most 255, no leading zero.\<close>

definition parse_octet :: "string \<Rightarrow> nat option" where
  "parse_octet s =
     (if s = [] \<or> length s > 3 \<or> \<not> list_all is_digit s \<or> (length s > 1 \<and> hd s = CHR ''0'') then None
      else case parse_uint s 0 of (n, None) \<Rightarrow> if n < 256 then Some n else None | _ \<Rightarrow> None)"

fun sequence :: "'a option list \<Rightarrow> 'a list option" where
  "sequence [] = Some []"
| "sequence (None # xs) = None"
| "sequence (Some x # xs) = map_option (Cons x) (sequence xs)"

definition parse_ip4 :: "string \<Rightarrow> ip4 option" where
  "parse_ip4 s = (case sequence (map parse_octet (go_split CHR ''.'' s)) of
       Some [a, b, c, d] \<Rightarrow> Some (ip_of_octets [a, b, c, d])
     | _ \<Rightarrow> None)"

text \<open>A network: the masked address and the prefix length.\<close>

record cidr =
  c_net :: ip4
  c_len :: nat

definition mask_ip :: "nat \<Rightarrow> ip4 \<Rightarrow> ip4" where
  "mask_ip l w = word_of_nat (unat w div 2 ^ (32 - l) * 2 ^ (32 - l))"

definition in_cidr :: "ip4 \<Rightarrow> cidr \<Rightarrow> bool" where
  "in_cidr w c \<longleftrightarrow> mask_ip (c_len c) w = c_net c"

text \<open>What the \<open>cidr\<close> column type admits: no bits to the right of the prefix.\<close>

definition cidr_ok :: "cidr \<Rightarrow> bool" where
  "cidr_ok c \<longleftrightarrow> c_len c \<le> 32 \<and> mask_ip (c_len c) (c_net c) = c_net c"

definition cidr_text :: "cidr \<Rightarrow> string" where
  "cidr_text c = host (c_net c) @ ''/'' @ dec_nat (c_len c)"

definition host_cidr :: "ip4 \<Rightarrow> cidr" where
  "host_cidr w = \<lparr>c_net = w, c_len = 32\<rparr>"

definition parse_cidr :: "string \<Rightarrow> cidr option" where
  "parse_cidr s =
     (let a = takeWhile (\<lambda>c. c \<noteq> CHR ''/'') s; r = dropWhile (\<lambda>c. c \<noteq> CHR ''/'') s
      in if r = [] \<or> tl r = [] then None
         else case (parse_ip4 a, parse_uint (tl r) 0) of
             (Some w, (n, None)) \<Rightarrow> if n \<le> 32 then Some \<lparr>c_net = mask_ip n w, c_len = n\<rparr> else None
           | _ \<Rightarrow> None)"

section \<open>Octets\<close>

lemma octets_bound: "\<forall>b \<in> set (octets w). b < 256"
proof -
  have "unat w < 2 ^ 32" using unsigned_less [of w, where ?'a = nat] by simp
  then show ?thesis by (simp add: octets_def)
qed

lemma octets_value:
  "foldl (\<lambda>a b. a * 256 + b) 0 (octets w) = unat w"
proof -
  let ?n = "unat w"
  have "?n = ?n div 256 * 256 + ?n mod 256"
    and "?n div 256 = ?n div 65536 * 256 + ?n div 256 mod 256"
    and "?n div 65536 = ?n div 16777216 * 256 + ?n div 65536 mod 256"
    using div_mult_mod_eq [of ?n 256] div_mult_mod_eq [of "?n div 256" 256]
      div_mult_mod_eq [of "?n div 65536" 256] by (simp_all add: div_mult2_eq [symmetric])
  then show ?thesis unfolding octets_def by simp
qed

lemma ip_of_octets_octets [simp]: "ip_of_octets (octets w) = w"
  by (simp add: ip_of_octets_def octets_value)

section \<open>Text round trip\<close>

lemma length_dec_nat_le3: "n < 1000 \<Longrightarrow> length (dec_nat n) \<le> 3"
  by (subst dec_nat.simps, simp, subst dec_nat.simps, simp, subst dec_nat.simps, simp)

lemma dec_nat_no_leading_zero: "0 < n \<Longrightarrow> hd (dec_nat n) \<noteq> CHR ''0''"
proof (induction n rule: dec_nat.induct)
  case (1 n)
  show ?case
  proof (cases "n < 10")
    case True
    then have "digit_val (digit_char n) = n" by (rule digit_char_props)
    then have "digit_char n \<noteq> CHR ''0''" using 1(2) by (auto simp: digit_val_def)
    then show ?thesis using True by (subst dec_nat.simps) simp
  next
    case False
    then have "0 < n div 10" by (simp add: div_greater_zero_iff)
    then show ?thesis using False 1(1) by (subst dec_nat.simps) simp
  qed
qed

lemma parse_octet_dec_nat: "n < 256 \<Longrightarrow> parse_octet (dec_nat n) = Some n"
proof -
  assume n: "n < 256"
  have "length (dec_nat n) > 1 \<longrightarrow> 0 < n"
    by (cases "n = 0") (simp_all add: dec_nat.simps)
  then show ?thesis
    using n dec_nat_no_leading_zero [of n] length_dec_nat_le3 [of n] dec_nat_digits [of n]
      parse_uint_dec_nat [of n] by (auto simp: parse_octet_def list_all_iff)
qed

lemma sequence_map_Some: "(\<forall>x \<in> set xs. f x = Some (g x)) \<Longrightarrow> sequence (map f xs) = Some (map g xs)"
  by (induction xs) auto

lemma dec_nat_no_char: "\<not> is_digit c \<Longrightarrow> c \<notin> set (dec_nat n)"
  using dec_nat_digits [of n] by auto

lemma split_host: "go_split CHR ''.'' (host w) = map dec_nat (octets w)"
  unfolding host_def
  by (rule go_split_join) (auto simp: octets_def dec_nat_no_char sign_not_digit)

lemma parse_ip4_host [simp]: "parse_ip4 (host w) = Some w"
proof -
  have "sequence (map parse_octet (map dec_nat (octets w))) = Some (octets w)"
    using octets_bound [of w] sequence_map_Some [of "octets w" "parse_octet \<circ> dec_nat" id]
    by (simp add: parse_octet_dec_nat)
  moreover have "octets w = [octets w ! 0, octets w ! 1, octets w ! 2, octets w ! 3]"
    by (simp add: octets_def)
  ultimately show ?thesis
    using ip_of_octets_octets [of w] unfolding parse_ip4_def split_host
    by (simp add: octets_def)
qed

lemma host_inject [simp]: "host v = host w \<longleftrightarrow> v = w"
  by (metis option.inject parse_ip4_host)

lemma go_join_set: "set (go_join sep ws) \<subseteq> set sep \<union> \<Union> (set ` set ws)"
  by (induction sep ws rule: go_join.induct) auto

lemma host_no_slash: "CHR ''/'' \<notin> set (host w)"
proof
  assume "CHR ''/'' \<in> set (host w)"
  then have "\<exists>b. CHR ''/'' \<in> set (dec_nat b)"
    using go_join_set [of "''.''" "map dec_nat (octets w)"] by (auto simp: host_def)
  then show False by (auto simp: dec_nat_no_char sign_not_digit)
qed

lemma parse_cidr_render:
  "n \<le> 32 \<Longrightarrow> parse_cidr (host w @ CHR ''/'' # dec_nat n) = Some \<lparr>c_net = mask_ip n w, c_len = n\<rparr>"
  using host_no_slash [of w] parse_uint_dec_nat [of n]
  by (auto simp: parse_cidr_def Let_def takeWhile_append dropWhile_append)

lemma parse_cidr_text: "cidr_ok c \<Longrightarrow> parse_cidr (cidr_text c) = Some c"
  by (simp add: cidr_text_def parse_cidr_render cidr_ok_def)

lemma cidr_text_inject: "cidr_ok c \<Longrightarrow> cidr_ok d \<Longrightarrow> cidr_text c = cidr_text d \<longleftrightarrow> c = d"
  by (metis option.inject parse_cidr_text)

lemma mask_ip_32 [simp]: "mask_ip 32 w = w"
  by (simp add: mask_ip_def)

lemma in_host_cidr [simp]: "in_cidr w (host_cidr v) \<longleftrightarrow> w = v"
  by (simp add: in_cidr_def host_cidr_def)

lemma host_cidr_ok [simp]: "cidr_ok (host_cidr w)"
  by (simp add: cidr_ok_def host_cidr_def)

lemma host_cidr_text: "host w @ ''/32'' = cidr_text (host_cidr w)"
proof -
  have "dec_nat 32 = ''32''" by code_simp
  then show ?thesis by (simp add: cidr_text_def host_cidr_def)
qed

end
