(* ===== verification/Schema.thy ===== *)
theory Schema
  imports IPv4
begin

text \<open>
  The PostgreSQL tables of the control plane (\<^verbatim>\<open>migrations/\<close>), each a list of row records in
  physical order, with the columns the modelled statements read. Identifiers are UUIDs
  in their canonical text form, so \<open>id::text\<close> is the identity.
\<close>

type_synonym uuid = string

definition uuid_nil :: uuid where
  "uuid_nil = ''00000000-0000-0000-0000-000000000000''"

section \<open>JSON documents of \<open>jsonb\<close> columns\<close>

text \<open>
  A JSON value; a number literal is an integer (\<open>JInt\<close>) or one with a fraction or exponent
  (\<open>JFrac\<close>), which Go refuses to store in an \<open>int\<close>.
\<close>

datatype json = JNull | JBool bool | JInt int | JFrac string | JStr string | JArr "json list"
  | JObj "(string \<times> json) list"

section \<open>Rows\<close>

record user_row =
  u_id :: uuid
  u_username :: string
  u_email :: string
  u_password_hash :: "string option"
  u_first_name :: string
  u_last_name :: string
  u_phone :: "string option"
  u_is_active :: bool
  u_is_admin :: bool
  u_mfa_enabled :: bool
  u_password_must_change :: bool
  u_failed_login_attempts :: int
  u_locked_until :: "time option"
  u_created_at :: time
  u_updated_at :: time

record group_row =
  gr_id :: uuid
  gr_name :: string
  gr_description :: string
  gr_is_system :: bool
  gr_created_at :: time

record device_row =
  d_id :: uuid
  d_user_id :: uuid
  d_name :: string
  d_wireguard_pubkey :: string
  d_wireguard_privkey :: "string option"
  d_assigned_ip :: ip4
  d_is_approved :: bool
  d_last_handshake :: "time option"
  d_network_id :: "uuid option"
  d_created_at :: time
  d_updated_at :: time

record network_row =
  n_id :: uuid
  n_name :: string
  n_address :: cidr
  n_tunnel_cidr :: "cidr option"
  n_dns :: "string list"
  n_port :: int
  n_keepalive :: int
  n_is_active :: bool
  n_created_at :: time
  n_updated_at :: time

record gateway_row =
  g_id :: uuid
  g_network_id :: "uuid option"
  g_name :: string
  g_public_ip :: "ip4 option"
  g_wireguard_pubkey :: string
  g_wireguard_privkey :: string
  g_endpoint :: string
  g_is_active :: bool
  g_priority :: int
  g_token_hash :: string
  g_last_seen :: "time option"
  g_health_status :: string
  g_consecutive_failures :: int
  g_created_at :: time
  g_updated_at :: time

record acl_row =
  a_id :: uuid
  a_network_id :: uuid
  a_group_id :: uuid
  a_allowed_ips :: "cidr list"

record posture_row =
  p_device_id :: uuid
  p_os_type :: string
  p_os_version :: string
  p_disk_encrypted :: bool
  p_screen_lock :: bool
  p_antivirus :: bool
  p_firewall :: bool
  p_score :: int
  p_checked_at :: time

record trust_row =
  ts_device_id :: uuid
  ts_score :: int
  ts_level :: string
  ts_violations :: "string list"
  ts_evaluated_at :: time

record policy_row =
  zp_id :: uuid
  zp_name :: string
  zp_description :: "string option"
  zp_is_active :: bool
  zp_conditions :: json
  zp_action :: string
  zp_network_ids :: "uuid list"
  zp_priority :: int
  zp_created_at :: time
  zp_updated_at :: time

record dns_row =
  dr_id :: uuid
  dr_network_id :: uuid
  dr_domain :: string
  dr_dns_server :: string
  dr_is_active :: bool
  dr_created_at :: time

record s2s_tunnel_row =
  t_id :: uuid
  t_name :: string
  t_description :: string
  t_topology :: string
  t_hub_gateway_id :: "uuid option"
  t_is_active :: bool
  t_created_at :: time
  t_updated_at :: time

record s2s_member_row =
  m_tunnel_id :: uuid
  m_gateway_id :: uuid
  m_local_subnets :: "cidr list"
  m_private_key :: "string option"
  m_public_key :: "string option"
  m_listen_port :: int

record s2s_route_row =
  r_id :: uuid
  r_tunnel_id :: uuid
  r_destination :: cidr
  r_via_gateway :: uuid
  r_metric :: int
  r_is_active :: bool
  r_created_at :: time

record s2s_health_row =
  h_tunnel_id :: uuid
  h_gateway_id :: uuid
  h_remote_gateway_id :: uuid
  h_is_healthy :: bool
  h_latency_ms :: int
  h_consecutive_failures :: int
  h_last_check_at :: time
  h_last_healthy_at :: "time option"

record allowed_domain_row =
  ad_id :: uuid
  ad_tunnel_id :: uuid
  ad_domain :: string
  ad_created_at :: time

record proxy_row =
  px_id :: uuid
  px_name :: string
  px_type :: string
  px_address :: string
  px_port :: int
  px_username :: "string option"
  px_password :: "string option"
  px_extra_config :: "string option"
  px_is_active :: bool
  px_created_at :: time
  px_updated_at :: time

record smart_route_row =
  sr_id :: uuid
  sr_name :: string
  sr_description :: "string option"
  sr_is_active :: bool
  sr_created_at :: time
  sr_updated_at :: time

record smart_entry_row =
  e_id :: uuid
  e_smart_route_id :: uuid
  e_entry_type :: string
  e_value :: string
  e_action :: string
  e_proxy_id :: "uuid option"
  e_priority :: int
  e_created_at :: time

record peer_stats_row =
  st_gateway_id :: uuid
  st_device_id :: uuid
  st_rx_bytes :: int
  st_tx_bytes :: int
  st_last_handshake :: "time option"
  st_endpoint :: string

record flow_row =
  fl_gateway_id :: uuid
  fl_device_id :: uuid
  fl_user_id :: uuid
  fl_src_ip :: ip4
  fl_bytes_sent :: int
  fl_bytes_recv :: int

record totp_row =
  tt_user_id :: uuid
  tt_secret :: string
  tt_verified :: bool

record webauthn_row =
  wa_id :: uuid
  wa_user_id :: uuid
  wa_credential_id :: string
  wa_public_key :: string
  wa_sign_count :: int
  wa_name :: string
  wa_created_at :: time

record backup_code_row =
  bc_id :: uuid
  bc_user_id :: uuid
  bc_code_hash :: string
  bc_used :: bool

record reset_token_row =
  rt_id :: uuid
  rt_user_id :: uuid
  rt_token_hash :: string
  rt_expires_at :: time
  rt_used :: bool

record session_row =
  se_id :: string
  se_user_id :: uuid
  se_ip_address :: string
  se_user_agent :: string
  se_created_at :: time
  se_expires_at :: time

text \<open>The one row of \<open>trust_score_config\<close>, also the configuration the calculator works with.\<close>

record TrustScoreConfig =
  WeightDiskEncryption :: int
  WeightScreenLock :: int
  WeightAntivirus :: int
  WeightFirewall :: int
  WeightOSVersion :: int
  WeightMFA :: int
  ThresholdHigh :: int
  ThresholdMedium :: int
  ThresholdLow :: int
  AutoRestrictBelowMedium :: bool
  AutoBlockBelowLow :: bool

section \<open>The database\<close>

record db =
  tb_users :: "user_row list"
  tb_groups :: "group_row list"
  tb_roles :: "(uuid \<times> string) list"
  tb_user_roles :: "(uuid \<times> uuid) list"
  tb_user_groups :: "(uuid \<times> uuid) list"
  tb_devices :: "device_row list"
  tb_networks :: "network_row list"
  tb_gateways :: "gateway_row list"
  tb_gateway_networks :: "(uuid \<times> uuid) list"
  tb_network_acls :: "acl_row list"
  tb_device_posture :: "posture_row list"
  tb_trust_scores :: "trust_row list"
  tb_trust_config :: "TrustScoreConfig option"
  tb_ztna_policies :: "policy_row list"
  tb_dns_rules :: "dns_row list"
  tb_s2s_tunnels :: "s2s_tunnel_row list"
  tb_s2s_members :: "s2s_member_row list"
  tb_s2s_routes :: "s2s_route_row list"
  tb_s2s_health :: "s2s_health_row list"
  tb_s2s_allowed_domains :: "allowed_domain_row list"
  tb_proxy_servers :: "proxy_row list"
  tb_smart_routes :: "smart_route_row list"
  tb_smart_entries :: "smart_entry_row list"
  tb_network_smart_routes :: "(uuid \<times> uuid) list"
  tb_peer_stats :: "peer_stats_row list"
  tb_flow_records :: "flow_row list"
  tb_mfa_totp :: "totp_row list"
  tb_mfa_webauthn :: "webauthn_row list"
  tb_mfa_backup_codes :: "backup_code_row list"
  tb_password_reset_tokens :: "reset_token_row list"
  tb_token_blacklist :: "(string \<times> time) list"
  tb_sessions :: "session_row list"

section \<open>Constraints\<close>

text \<open>
  The primary keys and unique constraints of the migrations, and the foreign keys the modelled
  statements rely on. Every write of the model keeps them.
\<close>

definition devices_ok :: "db \<Rightarrow> bool" where
  "devices_ok s \<longleftrightarrow>
     distinct (map d_id (tb_devices s)) \<and>
     distinct (map d_wireguard_pubkey (tb_devices s)) \<and>
     distinct (map d_assigned_ip (tb_devices s)) \<and>
     (\<forall>d \<in> set (tb_devices s). d_user_id d \<in> u_id ` set (tb_users s))"

definition networks_ok :: "db \<Rightarrow> bool" where
  "networks_ok s \<longleftrightarrow>
     distinct (map n_id (tb_networks s)) \<and>
     (\<forall>n \<in> set (tb_networks s). cidr_ok (n_address n) \<and> pred_option cidr_ok (n_tunnel_cidr n))"

definition users_ok :: "db \<Rightarrow> bool" where
  "users_ok s \<longleftrightarrow> distinct (map u_id (tb_users s)) \<and> distinct (map u_username (tb_users s)) \<and>
                distinct (map u_email (tb_users s))"

definition db_ok :: "db \<Rightarrow> bool" where
  "db_ok s \<longleftrightarrow> devices_ok s \<and> networks_ok s \<and> users_ok s"

definition empty_db :: db where
  "empty_db = \<lparr>tb_users = [], tb_groups = [], tb_roles = [], tb_user_roles = [], tb_user_groups = [], tb_devices = [], tb_networks = [], tb_gateways = [],
     tb_gateway_networks = [], tb_network_acls = [], tb_device_posture = [], tb_trust_scores = [],
     tb_trust_config = None, tb_ztna_policies = [], tb_dns_rules = [], tb_s2s_tunnels = [],
     tb_s2s_members = [], tb_s2s_routes = [], tb_s2s_health = [], tb_s2s_allowed_domains = [], tb_proxy_servers = [], tb_smart_routes = [],
     tb_smart_entries = [], tb_network_smart_routes = [], tb_peer_stats = [], tb_flow_records = [],
     tb_mfa_totp = [], tb_mfa_webauthn = [], tb_mfa_backup_codes = [], tb_password_reset_tokens = [], tb_token_blacklist = [], tb_sessions = []\<rparr>"

section \<open>\<open>ORDER BY ... LIMIT 1\<close>\<close>

text \<open>
  The first row in descending order of a timestamp. Rows with equal keys come in an order the
  database does not promise; the model takes the first in table order.
\<close>

fun latest_by :: "('a \<Rightarrow> int) \<Rightarrow> 'a list \<Rightarrow> 'a option" where
  "latest_by k [] = None"
| "latest_by k (x # xs) = (case latest_by k xs of
     None \<Rightarrow> Some x
   | Some y \<Rightarrow> if k y > k x then Some y else Some x)"

lemma latest_by_None [simp]: "latest_by k xs = None \<longleftrightarrow> xs = []"
  by (cases xs) (auto split: option.splits)

lemma latest_by_SomeD: "latest_by k xs = Some x \<Longrightarrow> x \<in> set xs \<and> (\<forall>y \<in> set xs. k y \<le> k x)"
proof (induction xs arbitrary: x)
  case (Cons a xs)
  show ?case
  proof (cases "latest_by k xs")
    case (Some y)
    with Cons.IH [OF Some] Cons.prems show ?thesis by (auto split: if_splits intro: order_trans)
  qed (use Cons.prems in auto)
qed simp

lemma latest_by_snoc: "\<forall>y \<in> set xs. k y < k x \<Longrightarrow> latest_by k (xs @ [x]) = Some x"
  by (induction xs) auto

section \<open>A small installation\<close>

text \<open>
  Two users, one of them an administrator; a device of each; two networks, of which the first has
  a tunnel range and a gateway; an access rule for the group of both users. The results are
  instantiated on it.
\<close>

definition sample_user :: "uuid \<Rightarrow> bool \<Rightarrow> user_row" where
  "sample_user i admin = \<lparr>u_id = i, u_username = i @ ''-name'', u_email = i @ ''@example.org'',
     u_password_hash = Some (''hash-'' @ i), u_first_name = [], u_last_name = [], u_phone = None, u_is_active = True, u_is_admin = admin, u_mfa_enabled = False,
     u_password_must_change = False, u_failed_login_attempts = 0, u_locked_until = None,
     u_created_at = 0, u_updated_at = 0\<rparr>"

definition sample_device :: "uuid \<Rightarrow> uuid \<Rightarrow> string \<Rightarrow> ip4 \<Rightarrow> device_row" where
  "sample_device i owner pk ip = \<lparr>d_id = i, d_user_id = owner, d_name = i @ ''-laptop'',
     d_wireguard_pubkey = pk, d_wireguard_privkey = Some (pk @ ''-priv''), d_assigned_ip = ip,
     d_is_approved = True, d_last_handshake = None, d_network_id = Some ''n1'', d_created_at = 0, d_updated_at = 0\<rparr>"

definition net_10_10 :: cidr where
  "net_10_10 = \<lparr>c_net = 0x0A0A0000, c_len = 16\<rparr>"

definition net_10_8 :: cidr where
  "net_10_8 = \<lparr>c_net = 0x0A080000, c_len = 24\<rparr>"

definition net_10_20 :: cidr where
  "net_10_20 = \<lparr>c_net = 0x0A140000, c_len = 16\<rparr>"

definition net_10_10_1 :: cidr where
  "net_10_10_1 = \<lparr>c_net = 0x0A0A0100, c_len = 24\<rparr>"

definition sample_network :: "uuid \<Rightarrow> cidr \<Rightarrow> cidr option \<Rightarrow> network_row" where
  "sample_network i a t = \<lparr>n_id = i, n_name = i @ ''-net'', n_address = a, n_tunnel_cidr = t,
     n_dns = [''1.1.1.1''], n_port = 51820, n_keepalive = 25, n_is_active = True, n_created_at = 0, n_updated_at = 0\<rparr>"

definition sample_gateway_row :: "uuid \<Rightarrow> uuid \<Rightarrow> gateway_row" where
  "sample_gateway_row i net = \<lparr>g_id = i, g_network_id = Some net, g_name = i @ ''-gw'', g_public_ip = None,
     g_wireguard_pubkey = i @ ''-pub'', g_wireguard_privkey = i @ ''-priv'', g_endpoint = i @ '':51820'',
     g_is_active = True, g_priority = 0, g_token_hash = i @ ''-tok'', g_last_seen = Some 0,
     g_health_status = ''healthy'', g_consecutive_failures = 0, g_created_at = 0, g_updated_at = 0\<rparr>"

definition sample_db :: db where
  "sample_db = empty_db\<lparr>
     tb_users := [sample_user ''u1'' False, sample_user ''u9'' True],
     tb_user_groups := [(''u1'', ''everyone''), (''u9'', ''everyone'')],
     tb_devices := [sample_device ''d1'' ''u1'' ''pk1'' 0x0A080002, sample_device ''d9'' ''u9'' ''pk9'' 0x0A080003],
     tb_networks := [sample_network ''n1'' net_10_10 (Some net_10_8), sample_network ''n2'' net_10_20 None],
     tb_gateways := [sample_gateway_row ''gw1'' ''n1'', sample_gateway_row ''gw2'' ''n2''],
     tb_gateway_networks := [(''gw1'', ''n1''), (''gw2'', ''n2'')],
     tb_network_acls := [\<lparr>a_id = ''a1'', a_network_id = ''n1'', a_group_id = ''everyone'', a_allowed_ips = [net_10_10_1]\<rparr>]\<rparr>"

lemmas sample_defs = sample_db_def empty_db_def sample_user_def sample_device_def sample_network_def
  sample_gateway_row_def

lemma sample_tables:
  "tb_users sample_db = [sample_user ''u1'' False, sample_user ''u9'' True]"
  "tb_user_groups sample_db = [(''u1'', ''everyone''), (''u9'', ''everyone'')]"
  "tb_devices sample_db = [sample_device ''d1'' ''u1'' ''pk1'' 0x0A080002, sample_device ''d9'' ''u9'' ''pk9'' 0x0A080003]"
  "tb_networks sample_db = [sample_network ''n1'' net_10_10 (Some net_10_8), sample_network ''n2'' net_10_20 None]"
  "tb_gateways sample_db = [sample_gateway_row ''gw1'' ''n1'', sample_gateway_row ''gw2'' ''n2'']"
  "tb_gateway_networks sample_db = [(''gw1'', ''n1''), (''gw2'', ''n2'')]"
  "tb_network_acls sample_db = [\<lparr>a_id = ''a1'', a_network_id = ''n1'', a_group_id = ''everyone'', a_allowed_ips = [net_10_10_1]\<rparr>]"
  "tb_device_posture sample_db = []" "tb_trust_scores sample_db = []" "tb_trust_config sample_db = None"
  "tb_ztna_policies sample_db = []"
  by (simp_all add: sample_db_def empty_db_def)

lemma sample_cidrs_ok [simp]: "cidr_ok net_10_10" "cidr_ok net_10_8" "cidr_ok net_10_20" "cidr_ok net_10_10_1"
  by (simp_all add: cidr_ok_def mask_ip_def net_10_10_def net_10_8_def net_10_20_def net_10_10_1_def)

lemma sample_db_ok: "db_ok sample_db"
  by (simp add: db_ok_def devices_ok_def networks_ok_def users_ok_def sample_defs)

end
