(* ===== verification/Http_Helpers.thy ===== *)
theory Http_Helpers
  imports IPv4
begin

text \<open>
  What the HTTP handlers share (\<^verbatim>\<open>internal/core/handler/helpers.go\<close> and the claims of
  \<^verbatim>\<open>internal/auth/jwt.go\<close>): pagination, validation of WireGuard keys, and the caller's
  identity. A query string is a map from parameter names to values; a missing parameter reads as
  the empty string.
\<close>

section \<open>The caller\<close>

record TokenClaims =
  cl_UserID :: string
  cl_Username :: string
  cl_Email :: string
  cl_IsAdmin :: bool
  cl_Roles :: "string list"
  cl_TokenType :: string
  cl_ExpiresAt :: "time option"
  cl_IssuedAt :: "time option"
  cl_Subject :: string
  cl_ID :: string

definition sample_claims :: "string \<Rightarrow> bool \<Rightarrow> TokenClaims" where
  "sample_claims u admin = \<lparr>cl_UserID = u, cl_Username = u, cl_Email = [], cl_IsAdmin = admin, cl_Roles = [],
     cl_TokenType = ''session'', cl_ExpiresAt = None, cl_IssuedAt = None, cl_Subject = u, cl_ID = []\<rparr>"

section \<open>Path parameters\<close>

text \<open>
  The quoted form of \<open>%q\<close> for ASCII text: quotes, backslashes and control characters escaped,
  other bytes in hexadecimal.
\<close>

definition go_quote_char :: "char \<Rightarrow> string" where
  "go_quote_char c =
     (let n = of_char c :: nat in
      if c = CHR 0x22 \<or> c = CHR 0x5C then [CHR 0x5C, c]
      else if n = 7 then [CHR 0x5C, CHR ''a''] else if n = 8 then [CHR 0x5C, CHR ''b'']
      else if n = 9 then [CHR 0x5C, CHR ''t''] else if n = 10 then [CHR 0x5C, CHR ''n'']
      else if n = 11 then [CHR 0x5C, CHR ''v''] else if n = 12 then [CHR 0x5C, CHR ''f'']
      else if n = 13 then [CHR 0x5C, CHR ''r'']
      else if 32 \<le> n \<and> n < 127 then [c]
      else [CHR 0x5C, CHR ''x''] @ hex_encode [c])"

definition go_quote :: "string \<Rightarrow> string" where
  "go_quote s = CHR 0x22 # concat (map go_quote_char s) @ [CHR 0x22]"

text \<open>\<open>uuid_parse\<close> stands for \<^verbatim>\<open>uuid.Parse\<close>: the canonical text, or the text of its error.\<close>

definition parseUUID :: "(string \<Rightarrow> string + string) \<Rightarrow> string \<Rightarrow> string + string" where
  "parseUUID uuid_parse raw = (case uuid_parse raw of
       Inl e \<Rightarrow> Inl (''invalid UUID '' @ go_quote raw @ '': '' @ e)
     | Inr u \<Rightarrow> Inr u)"

section \<open>Pagination\<close>

type_synonym url_query = "string \<Rightarrow> string"

definition queryInt :: "url_query \<Rightarrow> string \<Rightarrow> int \<Rightarrow> int" where
  "queryInt q key fallback =
     (let v = q key
      in if v = [] then fallback
         else case atoi v of (n, None) \<Rightarrow> n | (_, Some _) \<Rightarrow> fallback)"

definition parsePagination :: "url_query \<Rightarrow> int \<times> int" where
  "parsePagination q =
     (let page = queryInt q ''page'' 1;
          perPage = queryInt q ''per_page'' 50;
          page = (if page < 1 then 1 else page);
          perPage = (if perPage < 1 then 50 else perPage);
          perPage = (if perPage > 100 then 100 else perPage)
      in (page, perPage))"

text \<open>\<open>offset := (page - 1) * perPage\<close>, in 64-bit arithmetic.\<close>

definition page_offset :: "int \<Rightarrow> int \<Rightarrow> int" where
  "page_offset page perPage = wrap64 (wrap64 (page - 1) * perPage)"

text \<open>\<^verbatim>\<open>ORDER BY created_at DESC LIMIT ... OFFSET ...\<close>; the database refuses a negative offset.\<close>

definition sql_page :: "('a \<Rightarrow> int) \<Rightarrow> int \<Rightarrow> int \<Rightarrow> 'a list \<Rightarrow> 'a list option" where
  "sql_page created limit offset rows =
     (if offset < 0 then None else Some (take (nat limit) (drop (nat offset) (sort_key (\<lambda>r. - created r) rows))))"

definition ptrOrNil :: "string \<Rightarrow> string option" where
  "ptrOrNil s = (if s = [] then None else Some s)"

lemma queryInt_range: "int64_range fallback \<Longrightarrow> int64_range (queryInt q key fallback)"
  using atoi_range [of "q key"]
  by (auto simp: queryInt_def Let_def split: prod.splits option.splits)

lemma parsePagination_bounds:
  "parsePagination q = (page, perPage) \<Longrightarrow>
   1 \<le> page \<and> page < 2 ^ 63 \<and> 1 \<le> perPage \<and> perPage \<le> 100"
  using queryInt_range [of 1 q "''page''"]
  by (auto simp: parsePagination_def Let_def int64_range_def split: if_splits)

text \<open>
  Whatever the query string holds, the page is at least 1 and the page size between 1 and
  100, and the offset is the exact product for every page up to \<open>92233720368547759\<close>; the page
  after that wraps to a negative offset at the largest page size.
\<close>

theorem pagination_bounds:
  "let (page, perPage) = parsePagination q
   in 1 \<le> page \<and> page < 2 ^ 63 \<and> 1 \<le> perPage \<and> perPage \<le> 100 \<and>
      (page \<le> 92233720368547759 \<longrightarrow> page_offset page perPage = (page - 1) * perPage \<and>
                                    0 \<le> page_offset page perPage)"
proof -
  obtain page perPage where p: "parsePagination q = (page, perPage)" by force
  note b = parsePagination_bounds [OF p]
  have "page_offset page perPage = (page - 1) * perPage \<and> 0 \<le> page_offset page perPage"
    if "page \<le> 92233720368547759"
  proof -
    have "(page - 1) * perPage \<le> 92233720368547758 * 100"
      using b that by (intro mult_mono) auto
    moreover have "0 \<le> (page - 1) * perPage" using b by simp
    moreover have "wrap64 (page - 1) = page - 1"
      using b by (intro wrap64_id) (simp add: int64_range_def)
    ultimately show ?thesis
      unfolding page_offset_def by (simp add: wrap64_id int64_range_def)
  qed
  then show ?thesis using b by (simp add: p)
qed

theorem pagination_bounds_witness:
  "parsePagination (\<lambda>k. if k = ''page'' then ''3'' else ''500'') = (3, 100) \<and> page_offset 3 100 = 200 \<and>
   page_offset 92233720368547760 100 < 0"
proof -
  let ?q = "\<lambda>k. if k = ''page'' then ''3'' else ''500''"
  have p: "parsePagination ?q = (3, 100)"
    by (simp add: parsePagination_def queryInt_def atoi_def is_digit_def digit_val_def)
  have "page_offset 3 100 = 200"
    using pagination_bounds [of ?q] unfolding p by simp
  moreover have "page_offset 92233720368547760 100 < 0"
    by (simp add: page_offset_def wrap64_mod)
  ultimately show ?thesis using p by simp
qed

end
