(* ===== verification/ZTNA_Trust.thy ===== *)
theory ZTNA_Trust
  imports Schema Http_Helpers
begin

text \<open>
  Trust scores (\<^verbatim>\<open>internal/ztna/trust_score.go\<close>) and the endpoints that configure, compute
  and act on them (\<^verbatim>\<open>internal/core/handler/ztna.go\<close>).

  A handler takes the database and \<open>f\<close>, where \<open>f n\<close> says that its \<open>n\<close>-th statement fails;
  it returns the answer, the new database and the background jobs it starts. \<open>uuid_parse\<close> stands
  for \<^verbatim>\<open>uuid.Parse\<close>.
\<close>

section \<open>The calculator\<close>

datatype TrustLevel = TrustLevelHigh | TrustLevelMedium | TrustLevelLow | TrustLevelCritical

fun level_text :: "TrustLevel \<Rightarrow> string" where
  "level_text TrustLevelHigh = ''high''"
| "level_text TrustLevelMedium = ''medium''"
| "level_text TrustLevelLow = ''low''"
| "level_text TrustLevelCritical = ''critical''"

definition DefaultTrustScoreConfig :: TrustScoreConfig where
  "DefaultTrustScoreConfig =
     \<lparr>WeightDiskEncryption = 25, WeightScreenLock = 10, WeightAntivirus = 20, WeightFirewall = 15,
      WeightOSVersion = 15, WeightMFA = 15, ThresholdHigh = 80, ThresholdMedium = 50,
      ThresholdLow = 20, AutoRestrictBelowMedium = False, AutoBlockBelowLow = False\<rparr>"

record TrustComponent =
  cp_Name :: string
  cp_Weight :: int
  cp_Passed :: bool
  cp_Score :: int
  cp_Details :: string

record TrustScoreResult =
  tr_DeviceID :: uuid
  tr_UserID :: uuid
  tr_Score :: int
  tr_Level :: TrustLevel
  tr_Components :: "TrustComponent list"
  tr_Violations :: "string list"
  tr_EvaluatedAt :: time

definition classifyTrustLevel :: "int \<Rightarrow> TrustScoreConfig \<Rightarrow> TrustLevel" where
  "classifyTrustLevel score config =
     (if score \<ge> ThresholdHigh config then TrustLevelHigh
      else if score \<ge> ThresholdMedium config then TrustLevelMedium
      else if score \<ge> ThresholdLow config then TrustLevelLow
      else TrustLevelCritical)"

text \<open>One factor: its name, weight, outcome, the two texts and the violation it may record.\<close>

definition component :: "string \<Rightarrow> int \<Rightarrow> bool \<Rightarrow> string \<Rightarrow> string \<Rightarrow> TrustComponent" where
  "component name weight passed yes no =
     \<lparr>cp_Name = name, cp_Weight = weight, cp_Passed = passed,
      cp_Score = (if passed then weight else 0), cp_Details = (if passed then yes else no)\<rparr>"

definition trust_components :: "TrustScoreConfig \<Rightarrow> posture_row \<Rightarrow> bool \<Rightarrow> TrustComponent list" where
  "trust_components config p mfaEnabled =
     (let os = p_os_type p @ '' '' @ p_os_version p in
      [component ''disk_encryption'' (WeightDiskEncryption config) (p_disk_encrypted p)
         ''Full disk encryption enabled'' ''Disk encryption not detected'',
       component ''screen_lock'' (WeightScreenLock config) (p_screen_lock p)
         ''Screen lock enabled'' ''Screen lock not enabled'',
       component ''antivirus'' (WeightAntivirus config) (p_antivirus p)
         ''Antivirus active'' ''Antivirus not detected'',
       component ''firewall'' (WeightFirewall config) (p_firewall p)
         ''Firewall enabled'' ''Firewall not enabled'',
       component ''os_version'' (WeightOSVersion config) (p_score p \<ge> 75)
         os (os @ '' '' @ em_dash @ '' may need update''),
       component ''mfa'' (WeightMFA config) mfaEnabled
         ''MFA enabled for user'' ''MFA not enabled''])"

definition component_violations :: "TrustComponent list \<Rightarrow> string list" where
  "component_violations cs =
     map snd (filter (\<lambda>(c, v). \<not> cp_Passed c) (zip cs
       [''disk encryption not enabled'', ''screen lock not enabled'', ''antivirus not active'',
        ''firewall not enabled'', ''OS version may be outdated'', ''MFA not enabled for device owner'']))"

text \<open>
  The computation on the posture row; \<open>now\<close> is the reading for the age of the data and \<open>now'\<close>
  the evaluation time. Data older than a day costs a fifth of the score.
\<close>

definition trust_result :: "TrustScoreConfig \<Rightarrow> time \<Rightarrow> time \<Rightarrow> uuid \<Rightarrow> uuid \<Rightarrow> posture_row \<Rightarrow> bool
    \<Rightarrow> TrustScoreResult" where
  "trust_result config now now' deviceID userID p mfaEnabled =
     (let components = trust_components config p mfaEnabled;
          total = sum_list (map cp_Score components);
          violations = component_violations components;
          stale = now - p_checked_at p > hours 24;
          score = (if stale then go_quot (total * 80) 100 else total);
          violations' = (if stale then violations @ [''posture data is stale (>24h)''] else violations)
      in \<lparr>tr_DeviceID = deviceID, tr_UserID = userID, tr_Score = score,
          tr_Level = classifyTrustLevel score config, tr_Components = components,
          tr_Violations = violations', tr_EvaluatedAt = now'\<rparr>)"

definition no_posture_result :: "uuid \<Rightarrow> time \<Rightarrow> TrustScoreResult" where
  "no_posture_result deviceID now' =
     \<lparr>tr_DeviceID = deviceID, tr_UserID = uuid_nil, tr_Score = 0, tr_Level = TrustLevelCritical,
      tr_Components = [], tr_Violations = [''no posture data available''], tr_EvaluatedAt = now'\<rparr>"

text \<open>The latest posture row of an existing device, with the owner of the device.\<close>

definition latest_posture :: "db \<Rightarrow> uuid \<Rightarrow> (uuid \<times> posture_row) option" where
  "latest_posture s deviceID =
     map_option (\<lambda>(d, p). (d_user_id d, p))
       (latest_by (\<lambda>(d, p). p_checked_at p)
         [(d, p). p \<leftarrow> tb_device_posture s, d \<leftarrow> tb_devices s, d_id d = p_device_id p, p_device_id p = deviceID])"

text \<open>
  The score is stored unless the violation slice is nil: the driver sends a nil slice as
  \<open>NULL\<close>, which the column \<open>violations TEXT[] NOT NULL\<close> refuses; the error is only logged.
\<close>

definition store_trust_score :: "bool \<Rightarrow> TrustScoreResult \<Rightarrow> db \<Rightarrow> db" where
  "store_trust_score fails r s =
     (if fails \<or> tr_Violations r = [] then s
      else s\<lparr>tb_trust_scores := tb_trust_scores s @
             [\<lparr>ts_device_id = tr_DeviceID r, ts_score = tr_Score r, ts_level = level_text (tr_Level r),
               ts_violations = tr_Violations r, ts_evaluated_at = tr_EvaluatedAt r\<rparr>]\<rparr>)"

definition Calculate :: "TrustScoreConfig \<Rightarrow> time \<Rightarrow> time \<Rightarrow> (nat \<Rightarrow> bool) \<Rightarrow> uuid \<Rightarrow> db
    \<Rightarrow> TrustScoreResult option \<times> db" where
  "Calculate config now now' f deviceID s =
     (if f 0 then (None, s)
      else case latest_posture s deviceID of
        None \<Rightarrow> (Some (no_posture_result deviceID now'), s)
      | Some (userID, p) \<Rightarrow>
          if f 1 then (None, s)
          else let mfaEnabled = (case find (\<lambda>u. u_id u = userID) (tb_users s) of
                                   None \<Rightarrow> False | Some u \<Rightarrow> u_mfa_enabled u);
                   r = trust_result config now now' deviceID userID p mfaEnabled
               in (Some r, store_trust_score (f 2) r s))"

section \<open>Conditions of policies\<close>

record ztna_cond =
  zc_MinTrustScore :: "int option"
  zc_RequireDiskEncryption :: "bool option"
  zc_RequireScreenLock :: "bool option"
  zc_RequireAntivirus :: "bool option"
  zc_RequireFirewall :: "bool option"
  zc_RequireMFA :: "bool option"

definition no_cond :: ztna_cond where
  "no_cond = \<lparr>zc_MinTrustScore = None, zc_RequireDiskEncryption = None, zc_RequireScreenLock = None,
              zc_RequireAntivirus = None, zc_RequireFirewall = None, zc_RequireMFA = None\<rparr>"

text \<open>
  \<^verbatim>\<open>json.Unmarshal\<close> into the condition struct: keys match up to ASCII case, unknown keys are
  ignored, \<open>null\<close> resets a pointer, a later key overrides an earlier one, and a value of the
  wrong type is an error.
\<close>

definition fold_char :: "char \<Rightarrow> char" where
  "fold_char c = (let n = of_char c :: nat in if 65 \<le> n \<and> n \<le> 90 then char_of (n + 32) else c)"

fun json_int :: "json \<Rightarrow> int option option" where
  "json_int JNull = Some None"
| "json_int (JInt n) = (if int64_range n then Some (Some n) else None)"
| "json_int _ = None"

fun json_bool :: "json \<Rightarrow> bool option option" where
  "json_bool JNull = Some None"
| "json_bool (JBool b) = Some (Some b)"
| "json_bool _ = None"

definition set_cond_field :: "string \<Rightarrow> json \<Rightarrow> ztna_cond \<Rightarrow> ztna_cond option" where
  "set_cond_field key v c =
     (let k = map fold_char key in
      if k = ''min_trust_score'' then map_option (\<lambda>x. c\<lparr>zc_MinTrustScore := x\<rparr>) (json_int v)
      else if k = ''require_disk_encryption'' then map_option (\<lambda>x. c\<lparr>zc_RequireDiskEncryption := x\<rparr>) (json_bool v)
      else if k = ''require_screen_lock'' then map_option (\<lambda>x. c\<lparr>zc_RequireScreenLock := x\<rparr>) (json_bool v)
      else if k = ''require_antivirus'' then map_option (\<lambda>x. c\<lparr>zc_RequireAntivirus := x\<rparr>) (json_bool v)
      else if k = ''require_firewall'' then map_option (\<lambda>x. c\<lparr>zc_RequireFirewall := x\<rparr>) (json_bool v)
      else if k = ''require_mfa'' then map_option (\<lambda>x. c\<lparr>zc_RequireMFA := x\<rparr>) (json_bool v)
      else Some c)"

fun set_cond_fields :: "(string \<times> json) list \<Rightarrow> ztna_cond \<Rightarrow> ztna_cond option" where
  "set_cond_fields [] c = Some c"
| "set_cond_fields ((k, v) # kvs) c =
     (case set_cond_field k v c of None \<Rightarrow> None | Some c' \<Rightarrow> set_cond_fields kvs c')"

fun unmarshal_cond :: "json \<Rightarrow> ztna_cond option" where
  "unmarshal_cond JNull = Some no_cond"
| "unmarshal_cond (JObj kvs) = set_cond_fields kvs no_cond"
| "unmarshal_cond _ = None"

text \<open>The facts about a device that a condition may ask for.\<close>

record device_flags =
  df_disk :: bool
  df_lock :: bool
  df_antivirus :: bool
  df_firewall :: bool
  df_mfa :: bool

definition requires :: "bool option \<Rightarrow> bool" where
  "requires b \<longleftrightarrow> b = Some True"

text \<open>The checks in the order of the code: the last one that failed names the reason.\<close>

definition cond_failures :: "ztna_cond \<Rightarrow> int \<Rightarrow> device_flags \<Rightarrow> string list" where
  "cond_failures c trustScore d =
     (case zc_MinTrustScore c of
        Some m \<Rightarrow> if trustScore < m
                 then [''trust score '' @ itoa trustScore @ '' below minimum '' @ itoa m] else []
      | None \<Rightarrow> []) @
     (if requires (zc_RequireDiskEncryption c) \<and> \<not> df_disk d
      then [''disk encryption is required but not enabled''] else []) @
     (if requires (zc_RequireScreenLock c) \<and> \<not> df_lock d
      then [''screen lock is required but not enabled''] else []) @
     (if requires (zc_RequireAntivirus c) \<and> \<not> df_antivirus d
      then [''antivirus is required but not active''] else []) @
     (if requires (zc_RequireFirewall c) \<and> \<not> df_firewall d
      then [''firewall is required but not enabled''] else []) @
     (if requires (zc_RequireMFA c) \<and> \<not> df_mfa d
      then [''MFA is required but not enabled''] else [])"

definition cond_failed :: "ztna_cond \<Rightarrow> int \<Rightarrow> device_flags \<Rightarrow> bool" where
  "cond_failed c trustScore d \<longleftrightarrow>
     (\<exists>m. zc_MinTrustScore c = Some m \<and> trustScore < m) \<or>
     (requires (zc_RequireDiskEncryption c) \<and> \<not> df_disk d) \<or>
     (requires (zc_RequireScreenLock c) \<and> \<not> df_lock d) \<or>
     (requires (zc_RequireAntivirus c) \<and> \<not> df_antivirus d) \<or>
     (requires (zc_RequireFirewall c) \<and> \<not> df_firewall d) \<or>
     (requires (zc_RequireMFA c) \<and> \<not> df_mfa d)"

lemma cond_failures_iff: "cond_failures c t d \<noteq> [] \<longleftrightarrow> cond_failed c t d"
  by (cases "zc_MinTrustScore c") (simp_all add: cond_failures_def cond_failed_def)

text \<open>The active policies that can block, in order of priority.\<close>

definition blocking_policies :: "db \<Rightarrow> policy_row list" where
  "blocking_policies s =
     sort_key zp_priority
       (filter (\<lambda>p. zp_is_active p \<and> zp_action p \<in> {''deny'', ''restrict''}) (tb_ztna_policies s))"

section \<open>Endpoints\<close>

datatype refresh_job = RefreshAllFirewalls | RefreshFirewallForUser uuid | RefreshFirewallForGroup uuid
  | RefreshFirewallForGateways "uuid list"

definition loadTrustConfig :: "bool \<Rightarrow> db \<Rightarrow> TrustScoreConfig" where
  "loadTrustConfig fails s =
     (if fails then DefaultTrustScoreConfig
      else case tb_trust_config s of Some c \<Rightarrow> c | None \<Rightarrow> DefaultTrustScoreConfig)"

definition getTrustConfig :: "(nat \<Rightarrow> bool) \<Rightarrow> db \<Rightarrow> TrustScoreConfig resp" where
  "getTrustConfig f s = Ok 200 (loadTrustConfig (f 0) s)"

definition getDeviceTrustScore :: "(string \<Rightarrow> string + uuid) \<Rightarrow> (nat \<Rightarrow> time) \<Rightarrow> (nat \<Rightarrow> bool) \<Rightarrow> string \<Rightarrow> db
    \<Rightarrow> TrustScoreResult resp \<times> db" where
  "getDeviceTrustScore uuid_parse ck f raw s =
     (case parseUUID uuid_parse raw of
        Inl e \<Rightarrow> (Err 400 e, s)
      | Inr deviceID \<Rightarrow>
          (case Calculate (loadTrustConfig (f 0) s) (ck 0) (ck 1) (\<lambda>n. f (n + 1)) deviceID s of
             (None, s') \<Rightarrow> (Err 500 ''failed to calculate trust score'', s')
           | (Some r, s') \<Rightarrow> (Ok 200 r, s')))"

text \<open>The loop over the weights: a negative one stops it, the sum is a 64-bit \<open>int\<close>.\<close>

fun sum_weights :: "int list \<Rightarrow> int \<Rightarrow> int option" where
  "sum_weights [] totalWeight = Some totalWeight"
| "sum_weights (w # ws) totalWeight =
     (if w < 0 then None else sum_weights ws (wrap64 (totalWeight + w)))"

definition weights_of :: "TrustScoreConfig \<Rightarrow> int list" where
  "weights_of c = [WeightDiskEncryption c, WeightScreenLock c, WeightAntivirus c, WeightFirewall c,
                   WeightOSVersion c, WeightMFA c]"

definition config_storable :: "TrustScoreConfig \<Rightarrow> bool" where
  "config_storable c \<longleftrightarrow> list_all int4_range (weights_of c @ [ThresholdHigh c, ThresholdMedium c, ThresholdLow c])"

definition updateTrustConfig :: "bool \<Rightarrow> (nat \<Rightarrow> bool) \<Rightarrow> TrustScoreConfig body \<Rightarrow> db
    \<Rightarrow> TrustScoreConfig resp \<times> db \<times> refresh_job list" where
  "updateTrustConfig refresher f bd s =
     (case bd of
        Inl e \<Rightarrow> (Err 400 e, s, [])
      | Inr config \<Rightarrow>
          (case sum_weights (weights_of config) 0 of
             None \<Rightarrow> (Err 400 ''weights must not be negative'', s, [])
           | Some totalWeight \<Rightarrow>
               if totalWeight \<noteq> 100 then (Err 400 ''component weights must sum to 100'', s, [])
               else if ThresholdHigh config \<le> ThresholdMedium config \<or>
                       ThresholdMedium config \<le> ThresholdLow config
               then (Err 400 ''thresholds must be high > medium > low'', s, [])
               else if f 0 \<or> \<not> config_storable config
               then (Err 500 ''failed to update trust config'', s, [])
               else (Ok 200 config, s\<lparr>tb_trust_config := Some config\<rparr>,
                     if refresher then [RefreshAllFirewalls] else [])))"

text \<open>Whether a device is blocked, and why: automatic thresholds first, then the policies in order.\<close>

fun first_violation :: "int \<Rightarrow> device_flags \<Rightarrow> policy_row list \<Rightarrow> string option" where
  "first_violation trustScore d [] = None"
| "first_violation trustScore d (p # ps) =
     (case unmarshal_cond (zp_conditions p) of
        None \<Rightarrow> first_violation trustScore d ps
      | Some c \<Rightarrow>
          (if cond_failures c trustScore d = [] then first_violation trustScore d ps
           else Some (''ZTNA policy '' @ [CHR 0x27] @ zp_name p @ [CHR 0x27] @ '' violation: '' @
                      last (cond_failures c trustScore d) @ ''. Contact your administrator.'')))"

text \<open>The posture flags the policies are checked against; all false when the query fails.\<close>

definition no_flags :: device_flags where
  "no_flags = \<lparr>df_disk = False, df_lock = False, df_antivirus = False, df_firewall = False, df_mfa = False\<rparr>"

definition posture_flags :: "db \<Rightarrow> uuid \<Rightarrow> bool \<Rightarrow> device_flags" where
  "posture_flags s deviceID mfa =
     (case latest_by p_checked_at (filter (\<lambda>p. p_device_id p = deviceID) (tb_device_posture s)) of
        None \<Rightarrow> no_flags\<lparr>df_mfa := mfa\<rparr>
      | Some p \<Rightarrow> \<lparr>df_disk = p_disk_encrypted p, df_lock = p_screen_lock p,
                   df_antivirus = p_antivirus p, df_firewall = p_firewall p, df_mfa = mfa\<rparr>)"

definition flags_of_device :: "bool \<Rightarrow> db \<Rightarrow> uuid \<Rightarrow> device_flags" where
  "flags_of_device fails s deviceID =
     (if fails then no_flags
      else case find (\<lambda>d. d_id d = deviceID) (tb_devices s) of
        None \<Rightarrow> no_flags
      | Some d \<Rightarrow> (case find (\<lambda>u. u_id u = d_user_id d) (tb_users s) of
            None \<Rightarrow> no_flags
          | Some u \<Rightarrow> posture_flags s deviceID (u_mfa_enabled u)))"

definition checkDeviceZTNABlock :: "(nat \<Rightarrow> bool) \<Rightarrow> uuid \<Rightarrow> TrustScoreResult option \<Rightarrow> db \<Rightarrow> string option" where
  "checkDeviceZTNABlock f deviceID trustResult s =
     (let autos = (if f 0 then None else tb_trust_config s);
          autoRestrict = (case autos of None \<Rightarrow> False | Some c \<Rightarrow> AutoRestrictBelowMedium c);
          autoBlock = (case autos of None \<Rightarrow> False | Some c \<Rightarrow> AutoBlockBelowLow c);
          policy_check = (if f 1 then None
                          else first_violation (case trustResult of None \<Rightarrow> 0 | Some r \<Rightarrow> tr_Score r)
                                 (flags_of_device (f 2) s deviceID) (blocking_policies s))
      in case trustResult of
           None \<Rightarrow> policy_check
         | Some r \<Rightarrow>
             if autoBlock \<and> tr_Level r \<in> {TrustLevelCritical, TrustLevelLow}
             then Some ''Device trust score is too low (auto-block policy). Contact your administrator.''
             else if autoRestrict \<and> tr_Level r = TrustLevelCritical
             then Some ''Device trust score is critical (auto-restrict policy). Contact your administrator.''
             else policy_check)"

record postureReport =
  rp_DeviceID :: string
  rp_OSType :: string
  rp_OSVersion :: string
  rp_DiskEncrypted :: bool
  rp_ScreenLockEnabled :: bool
  rp_AntivirusActive :: bool
  rp_FirewallEnabled :: bool

record posture_answer =
  pa_posture_score :: int
  pa_trust :: "(int \<times> TrustLevel) option"
  pa_blocked :: "string option"

definition posture_score :: "TrustScoreConfig \<Rightarrow> postureReport \<Rightarrow> int" where
  "posture_score config req =
     (if rp_DiskEncrypted req then WeightDiskEncryption config else 0) +
     (if rp_ScreenLockEnabled req then WeightScreenLock config else 0) +
     (if rp_AntivirusActive req then WeightAntivirus config else 0) +
     (if rp_FirewallEnabled req then WeightFirewall config else 0)"

definition posture_row_of :: "uuid \<Rightarrow> postureReport \<Rightarrow> int \<Rightarrow> time \<Rightarrow> posture_row" where
  "posture_row_of deviceID req score now =
     \<lparr>p_device_id = deviceID, p_os_type = rp_OSType req, p_os_version = rp_OSVersion req,
      p_disk_encrypted = rp_DiskEncrypted req, p_screen_lock = rp_ScreenLockEnabled req,
      p_antivirus = rp_AntivirusActive req, p_firewall = rp_FirewallEnabled req,
      p_score = score, p_checked_at = now\<rparr>"

text \<open>
  The handler after its ownership check. The clock readings are the database's \<open>now()\<close> for the
  report (0) and the two of the calculator (1, 2).
\<close>

definition save_posture :: "bool \<Rightarrow> (nat \<Rightarrow> time) \<Rightarrow> (nat \<Rightarrow> bool) \<Rightarrow> uuid \<Rightarrow> uuid \<Rightarrow> postureReport \<Rightarrow> db
    \<Rightarrow> posture_answer resp \<times> db \<times> refresh_job list" where
  "save_posture refresher ck f deviceID ownerID req s =
     (let config = loadTrustConfig (f 1) s;
          score = posture_score config req
      in if f 2 \<or> \<not> int4_range score then (Err 500 ''failed to save posture report'', s, [])
         else let s1 = s\<lparr>tb_device_posture := tb_device_posture s @
                          [posture_row_of deviceID req score (ck 0)]\<rparr>;
                  (result, s2) = Calculate config (ck 1) (ck 2) (\<lambda>n. f (n + 3)) deviceID s1
              in (Ok 200 \<lparr>pa_posture_score = score,
                          pa_trust = map_option (\<lambda>r. (tr_Score r, tr_Level r)) result,
                          pa_blocked = checkDeviceZTNABlock (\<lambda>n. f (n + 6)) deviceID result s2\<rparr>,
                  s2, if refresher then [RefreshFirewallForUser ownerID] else []))"

definition reportPosture :: "(string \<Rightarrow> string + uuid) \<Rightarrow> bool \<Rightarrow> (nat \<Rightarrow> time) \<Rightarrow> (nat \<Rightarrow> bool)
    \<Rightarrow> TokenClaims option \<Rightarrow> postureReport body \<Rightarrow> db \<Rightarrow> posture_answer resp \<times> db \<times> refresh_job list" where
  "reportPosture uuid_parse refresher ck f claims bd s =
     (case claims of None \<Rightarrow> (Err 401 ''authentication required'', s, [])
      | Some cl \<Rightarrow>
     (case bd of Inl e \<Rightarrow> (Err 400 e, s, [])
      | Inr req \<Rightarrow>
      if rp_DeviceID req = [] then (Err 400 ''device_id is required'', s, [])
      else (case uuid_parse (rp_DeviceID req) of
        Inl _ \<Rightarrow> (Err 400 ''invalid device_id'', s, [])
      | Inr deviceID \<Rightarrow>
      if rp_OSType req = [] then (Err 400 ''os_type is required'', s, [])
      else if f 0 then (Err 500 ''failed to verify device ownership'', s, [])
      else (case find (\<lambda>d. d_id d = deviceID) (tb_devices s) of
        None \<Rightarrow> (Err 404 ''device not found'', s, [])
      | Some dev \<Rightarrow>
      if d_user_id dev \<noteq> cl_UserID cl \<and> \<not> cl_IsAdmin cl
      then (Err 403 ''you can only report posture for your own devices'', s, [])
      else save_posture refresher ck f deviceID (d_user_id dev) req s))))"

section \<open>Scores and levels\<close>

text \<open>A configuration the update endpoint accepts.\<close>

definition config_ok :: "TrustScoreConfig \<Rightarrow> bool" where
  "config_ok c \<longleftrightarrow> (\<forall>w \<in> set (weights_of c). 0 \<le> w) \<and> sum_list (weights_of c) = 100 \<and>
     ThresholdLow c < ThresholdMedium c \<and> ThresholdMedium c < ThresholdHigh c"

fun level_rank :: "TrustLevel \<Rightarrow> nat" where
  "level_rank TrustLevelCritical = 0"
| "level_rank TrustLevelLow = 1"
| "level_rank TrustLevelMedium = 2"
| "level_rank TrustLevelHigh = 3"

lemma component_score: "0 \<le> w \<Longrightarrow> 0 \<le> cp_Score (component n w b y m) \<and> cp_Score (component n w b y m) \<le> w"
  by (simp add: component_def)

lemma total_score_bounds:
  assumes "config_ok c"
  shows "0 \<le> sum_list (map cp_Score (trust_components c p m)) \<and>
         sum_list (map cp_Score (trust_components c p m)) \<le> 100"
  using assms by (auto simp: trust_components_def component_def config_ok_def weights_of_def Let_def)

lemma stale_score_bounds: "0 \<le> t \<Longrightarrow> t \<le> 100 \<Longrightarrow> 0 \<le> go_quot (t * 80) 100 \<and> go_quot (t * 80) 100 \<le> t"
  by (simp add: go_quot_nonneg) linarith

lemma trust_result_bounds:
  assumes "config_ok c"
  shows "0 \<le> tr_Score (trust_result c now now' d u p m) \<and> tr_Score (trust_result c now now' d u p m) \<le> 100"
proof -
  note b = total_score_bounds [OF assms, of p m]
  note q = stale_score_bounds [OF b [THEN conjunct1] b [THEN conjunct2]]
  show ?thesis using b q by (auto simp: trust_result_def Let_def)
qed

lemma classify_mono:
  assumes "config_ok c" "x \<le> y"
  shows "level_rank (classifyTrustLevel x c) \<le> level_rank (classifyTrustLevel y c)"
  using assms by (auto simp: classifyTrustLevel_def config_ok_def)

lemma default_config_ok: "config_ok DefaultTrustScoreConfig"
  by (simp add: config_ok_def weights_of_def DefaultTrustScoreConfig_def)

lemma sum_weights_sound:
  assumes "list_all int4_range ws" "sum_weights ws t = Some r" "0 \<le> t" "t + int (length ws) * 2 ^ 31 < 2 ^ 63"
  shows "(\<forall>w \<in> set ws. 0 \<le> w) \<and> r = t + sum_list ws"
  using assms
proof (induction ws arbitrary: t)
  case (Cons w ws)
  have w: "0 \<le> w" "w < 2 ^ 31" using Cons.prems by (auto simp: int4_range_def split: if_splits)
  have "wrap64 (t + w) = t + w"
    by (rule wrap64_id) (use Cons.prems w in \<open>simp add: int64_range_def\<close>)
  then have "sum_weights ws (t + w) = Some r" using Cons.prems(2) w by simp
  moreover have "list_all int4_range ws" "0 \<le> t + w" "t + w + int (length ws) * 2 ^ 31 < 2 ^ 63"
    using Cons.prems w by simp_all
  ultimately have "(\<forall>w \<in> set ws. 0 \<le> w) \<and> r = t + w + sum_list ws"
    by (intro Cons.IH)
  then show ?case using w by simp
qed simp

lemma config_ok_of_sum:
  assumes "config_storable c" "sum_weights (weights_of c) 0 = Some 100"
    "ThresholdLow c < ThresholdMedium c" "ThresholdMedium c < ThresholdHigh c"
  shows "config_ok c"
proof -
  have "(\<forall>w \<in> set (weights_of c). 0 \<le> w) \<and> 100 = 0 + sum_list (weights_of c)"
    by (rule sum_weights_sound) (use assms in \<open>auto simp: config_storable_def weights_of_def\<close>)
  then show ?thesis using assms by (simp add: config_ok_def)
qed

text \<open>
  C37. A trust configuration reaches the database only when its weights are not negative and sum
  to 100 and its thresholds are strictly ordered, although the sum the endpoint checks is taken
  in wrapping 64-bit arithmetic (a sum that wraps to 100 has a weight the column refuses); a
  refused request changes nothing and starts no refresh.
\<close>

theorem update_trust_config_valid:
  assumes "pred_option config_ok (tb_trust_config s)"
    and "updateTrustConfig refresher f bd s = (r, s', jobs)"
  shows "pred_option config_ok (tb_trust_config s') \<and>
    (case r of
       Err _ _ \<Rightarrow> s' = s \<and> jobs = []
     | Ok st c \<Rightarrow> st = 200 \<and> config_ok c \<and> s' = s\<lparr>tb_trust_config := Some c\<rparr> \<and>
                  jobs = (if refresher then [RefreshAllFirewalls] else []))"
  using assms
  by (auto simp: updateTrustConfig_def config_ok_of_sum not_le split: sum.splits option.splits if_splits)

theorem update_trust_config_valid_witness:
  "(case updateTrustConfig True (\<lambda>_. False) (Inr DefaultTrustScoreConfig) sample_db of
      (r, s', jobs) \<Rightarrow> r = Ok 200 DefaultTrustScoreConfig \<and>
        pred_option config_ok (tb_trust_config s') \<and> jobs = [RefreshAllFirewalls])"
proof -
  let ?c = DefaultTrustScoreConfig
  have e: "updateTrustConfig True (\<lambda>_. False) (Inr ?c) sample_db =
      (Ok 200 ?c, sample_db\<lparr>tb_trust_config := Some ?c\<rparr>, [RefreshAllFirewalls])"
    by (simp add: updateTrustConfig_def DefaultTrustScoreConfig_def weights_of_def config_storable_def
        int4_range_def wrap64_mod)
  have "pred_option config_ok (tb_trust_config sample_db)" by (simp add: sample_defs)
  from update_trust_config_valid [OF this e] show ?thesis by (simp add: e)
qed

text \<open>One device state is at most as good as another in every factor, and not fresher.\<close>

definition posture_le :: "posture_row \<Rightarrow> posture_row \<Rightarrow> bool" where
  "posture_le p q \<longleftrightarrow> (p_disk_encrypted p \<longrightarrow> p_disk_encrypted q) \<and> (p_screen_lock p \<longrightarrow> p_screen_lock q) \<and>
     (p_antivirus p \<longrightarrow> p_antivirus q) \<and> (p_firewall p \<longrightarrow> p_firewall q) \<and> p_score p \<le> p_score q \<and>
     p_checked_at p \<le> p_checked_at q"

lemma total_score_mono:
  assumes "config_ok c" "posture_le p q" "m \<longrightarrow> m'"
  shows "sum_list (map cp_Score (trust_components c p m)) \<le> sum_list (map cp_Score (trust_components c q m'))"
  using assms
  by (simp add: trust_components_def component_def Let_def posture_le_def config_ok_def weights_of_def)

lemma go_quot_80_mono: "0 \<le> x \<Longrightarrow> x \<le> y \<Longrightarrow> go_quot (x * 80) 100 \<le> go_quot (y * 80) 100"
  by (simp add: go_quot_nonneg zdiv_mono1)

lemma trust_score_mono:
  assumes "config_ok c" "posture_le p q" "m \<longrightarrow> m'"
  shows "tr_Score (trust_result c now now' d u p m) \<le> tr_Score (trust_result c now now' d u q m')"
proof -
  let ?x = "sum_list (map cp_Score (trust_components c p m))"
  let ?y = "sum_list (map cp_Score (trust_components c q m'))"
  have xy: "0 \<le> ?x" "?x \<le> ?y" "?y \<le> 100"
    using total_score_bounds [OF assms(1), of p m] total_score_bounds [OF assms(1), of q m']
      total_score_mono [OF assms] by auto
  have "go_quot (?x * 80) 100 \<le> go_quot (?y * 80) 100" "go_quot (?x * 80) 100 \<le> ?x"
    using go_quot_80_mono [of ?x ?y] stale_score_bounds [of ?x] xy by auto
  moreover have "p_checked_at p \<le> p_checked_at q" using assms(2) by (simp add: posture_le_def)
  ultimately show ?thesis using xy by (auto simp: trust_result_def Let_def)
qed

text \<open>The weights of the factors a device passes, read off its posture.\<close>

definition passed_weights :: "TrustScoreConfig \<Rightarrow> posture_row \<Rightarrow> bool \<Rightarrow> int" where
  "passed_weights c p m =
     (if p_disk_encrypted p then WeightDiskEncryption c else 0) + (if p_screen_lock p then WeightScreenLock c else 0) +
     (if p_antivirus p then WeightAntivirus c else 0) + (if p_firewall p then WeightFirewall c else 0) +
     (if 75 \<le> p_score p then WeightOSVersion c else 0) + (if m then WeightMFA c else 0)"

lemma components_total: "sum_list (map cp_Score (trust_components c p m)) = passed_weights c p m"
  by (simp add: trust_components_def component_def passed_weights_def Let_def)

lemma go_quot_fifth: "0 \<le> x \<Longrightarrow> go_quot (x * 80) 100 = 4 * x div 5"
  by (simp add: go_quot_nonneg mult.commute)

text \<open>
  C36. A computed trust score is the sum of the weights of the passed factors, four fifths of it
  rounded down when the posture data is older than a day, which is then also reported; the level
  is the highest whose threshold the score reaches. Under a valid configuration the score lies
  between 0 and 100, and improving any factor of the device lowers neither the score nor the level.
\<close>

theorem trust_score_sound:
  assumes "config_ok c"
  shows "(let r = trust_result c now now' d u p m; stale = now - p_checked_at p > hours 24 in
      0 \<le> tr_Score r \<and> tr_Score r \<le> 100 \<and>
      tr_Score r = (if stale then 4 * passed_weights c p m div 5 else passed_weights c p m) \<and>
      (''posture data is stale (>24h)'' \<in> set (tr_Violations r) \<longleftrightarrow> stale) \<and>
      tr_Level r = (if ThresholdHigh c \<le> tr_Score r then TrustLevelHigh else if ThresholdMedium c \<le> tr_Score r then TrustLevelMedium
        else if ThresholdLow c \<le> tr_Score r then TrustLevelLow else TrustLevelCritical) \<and>
      (posture_le p q \<and> (m \<longrightarrow> m') \<longrightarrow>
         tr_Score r \<le> tr_Score (trust_result c now now' d u q m') \<and>
         level_rank (tr_Level r) \<le> level_rank (tr_Level (trust_result c now now' d u q m'))))"
proof -
  have level: "tr_Level (trust_result c now now' d u r k) =
      classifyTrustLevel (tr_Score (trust_result c now now' d u r k)) c" for r k
    by (simp add: trust_result_def Let_def)
  have "0 \<le> passed_weights c p m"
    using total_score_bounds [OF assms, of p m] by (simp add: components_total)
  then have score: "tr_Score (trust_result c now now' d u p m) =
      (if now - p_checked_at p > hours 24 then 4 * passed_weights c p m div 5 else passed_weights c p m)"
    by (simp add: trust_result_def Let_def components_total go_quot_fifth)
  have "''posture data is stale (>24h)'' \<notin> set (component_violations (trust_components c p m))"
    by (simp add: component_violations_def trust_components_def component_def Let_def)
  then have report: "''posture data is stale (>24h)'' \<in> set (tr_Violations (trust_result c now now' d u p m)) \<longleftrightarrow>
      now - p_checked_at p > hours 24"
    by (simp add: trust_result_def Let_def)
  show ?thesis
    using trust_result_bounds [OF assms, of now now' d u p m] trust_score_mono [OF assms, of p q m m' now now' d u]
      classify_mono [OF assms] score report unfolding Let_def level by (auto simp: classifyTrustLevel_def)
qed

definition sample_posture :: "bool \<Rightarrow> int \<Rightarrow> posture_row" where
  "sample_posture ok sc = \<lparr>p_device_id = ''d1'', p_os_type = ''linux'', p_os_version = ''6.1'',
     p_disk_encrypted = ok, p_screen_lock = True, p_antivirus = True, p_firewall = True,
     p_score = sc, p_checked_at = 0\<rparr>"

theorem trust_score_sound_witness:
  "tr_Score (trust_result DefaultTrustScoreConfig 1 2 ''d1'' ''u1'' (sample_posture False 45) True) = 60 \<and>
   tr_Level (trust_result DefaultTrustScoreConfig 1 2 ''d1'' ''u1'' (sample_posture False 45) True) = TrustLevelMedium \<and>
   tr_Score (trust_result DefaultTrustScoreConfig (hours 25) (hours 25) ''d1'' ''u1'' (sample_posture False 45) True) = 48 \<and>
   tr_Score (trust_result DefaultTrustScoreConfig 1 2 ''d1'' ''u1'' (sample_posture False 45) True) \<le>
   tr_Score (trust_result DefaultTrustScoreConfig 1 2 ''d1'' ''u1'' (sample_posture True 70) True)"
proof -
  have le: "posture_le (sample_posture False 45) (sample_posture True 70)"
    by (simp add: posture_le_def sample_posture_def)
  have total: "passed_weights DefaultTrustScoreConfig (sample_posture False 45) True = 60"
    by (simp add: passed_weights_def sample_posture_def DefaultTrustScoreConfig_def)
  have fresh: "p_checked_at (sample_posture False 45) = 0" by (simp add: sample_posture_def)
  show ?thesis
    using trust_score_sound [OF default_config_ok, of 1 2 "''d1''" "''u1''" "sample_posture False 45" True
        "sample_posture True 70" True]
      trust_score_sound [OF default_config_ok, of "hours 25" "hours 25" "''d1''" "''u1''" "sample_posture False 45" True
        "sample_posture True 70" True] le total fresh
    by (simp add: Let_def DefaultTrustScoreConfig_def)
qed

text \<open>
  With the default weights no posture report reaches the score of 75 that the calculator
  takes as proof of a current operating system (the four reported factors add up to 70), so that
  factor never passes and no device whose data came from a report scores more than 85.
\<close>

theorem default_os_factor_unreachable:
  "posture_score DefaultTrustScoreConfig req \<le> 70 \<and>
   tr_Score (trust_result DefaultTrustScoreConfig now now' d u
     (posture_row_of d req (posture_score DefaultTrustScoreConfig req) t) m) \<le> 85"
proof -
  have ps: "posture_score DefaultTrustScoreConfig req \<le> 70"
    by (simp add: posture_score_def DefaultTrustScoreConfig_def)
  let ?p = "posture_row_of d req (posture_score DefaultTrustScoreConfig req) t"
  let ?x = "sum_list (map cp_Score (trust_components DefaultTrustScoreConfig ?p m))"
  have "\<not> p_score ?p \<ge> 75" using ps by (simp add: posture_row_of_def)
  then have x: "?x \<le> 85"
    by (simp add: trust_components_def component_def DefaultTrustScoreConfig_def Let_def)
  moreover have "0 \<le> ?x" "?x \<le> 100" using total_score_bounds [OF default_config_ok, of ?p m] by auto
  ultimately have "tr_Score (trust_result DefaultTrustScoreConfig now now' d u ?p m) \<le> 85"
    using stale_score_bounds [of ?x] by (simp add: trust_result_def Let_def)
  then show ?thesis using ps by simp
qed

text \<open>
  C35. The score of a device that passes every factor on fresh data is computed but never
  stored: its violation list is nil and the insert is refused. Enforcement, which reads the
  stored scores, keeps whatever worse score was recorded before, or none at all.
\<close>

theorem flawless_score_not_stored:
  assumes "latest_posture s dev = Some (u, p)"
    and "\<forall>c \<in> set (trust_components cfg p (case find (\<lambda>v. u_id v = u) (tb_users s) of
           None \<Rightarrow> False | Some v \<Rightarrow> u_mfa_enabled v)). cp_Passed c"
    and "now - p_checked_at p \<le> hours 24" "\<not> f 0" "\<not> f 1"
  shows "\<exists>r. Calculate cfg now now' f dev s = (Some r, s) \<and>
             tr_Score r = sum_list (weights_of cfg) \<and> tr_Violations r = []"
  using assms
  by (simp add: Calculate_def Let_def trust_result_def store_trust_score_def component_violations_def
      trust_components_def component_def weights_of_def)

definition even_config :: TrustScoreConfig where
  "even_config = DefaultTrustScoreConfig\<lparr>WeightDiskEncryption := 25, WeightScreenLock := 25,
     WeightAntivirus := 25, WeightFirewall := 25, WeightOSVersion := 0, WeightMFA := 0\<rparr>"

definition flawless_db :: db where
  "flawless_db = sample_db\<lparr>tb_users := [(sample_user ''u1'' False)\<lparr>u_mfa_enabled := True\<rparr>],
     tb_device_posture := [sample_posture True 100]\<rparr>"

theorem flawless_score_not_stored_witness:
  "config_ok even_config \<and>
   (case Calculate even_config 1 2 (\<lambda>_. False) ''d1'' flawless_db of
      (r, s') \<Rightarrow> map_option tr_Score r = Some 100 \<and> s' = flawless_db)"
proof -
  have lp: "latest_posture flawless_db ''d1'' = Some (''u1'', sample_posture True 100)"
    by (simp add: latest_posture_def flawless_db_def sample_posture_def sample_defs)
  have "\<exists>r. Calculate even_config 1 2 (\<lambda>_. False) ''d1'' flawless_db = (Some r, flawless_db) \<and>
             tr_Score r = sum_list (weights_of even_config) \<and> tr_Violations r = []"
    by (rule flawless_score_not_stored [OF lp])
      (simp_all add: trust_components_def component_def sample_posture_def flawless_db_def sample_defs Let_def)
  then show ?thesis
    by (auto simp: config_ok_def weights_of_def even_config_def DefaultTrustScoreConfig_def)
qed

end
