(* ===== verification/ZTNA_Handlers.thy ===== *)
theory ZTNA_Handlers
  imports ZTNA_Trust "HOL-Library.List_Lexorder" "HOL-Library.Char_ord"
begin

text \<open>
  The remaining endpoints of \<^verbatim>\<open>internal/core/handler/ztna.go\<close>: trust score listings, ZTNA
  policies and DNS rules. \<open>jsonb\<close> stands for the driver's encoding of a decoded JSON value into
  a \<open>jsonb\<close> parameter (\<open>None\<close> when it refuses the value), \<open>new_id\<close> for the identifier
  \<open>gen_random_uuid()\<close> yields, and \<open>now\<close> for the database clock.
\<close>

section \<open>Trust score listings\<close>

record trustScoreSummary =
  tss_DeviceID :: uuid
  tss_DeviceName :: string
  tss_UserID :: uuid
  tss_Username :: string
  tss_Score :: int
  tss_Level :: string
  tss_EvaluatedAt :: time

definition trust_summaries :: "db \<Rightarrow> trustScoreSummary list" where
  "trust_summaries s =
     [\<lparr>tss_DeviceID = ts_device_id t, tss_DeviceName = d_name d, tss_UserID = d_user_id d,
       tss_Username = u_username u, tss_Score = ts_score t, tss_Level = ts_level t,
       tss_EvaluatedAt = ts_evaluated_at t\<rparr>.
      t \<leftarrow> tb_trust_scores s, d \<leftarrow> tb_devices s, d_id d = ts_device_id t,
      u \<leftarrow> tb_users s, u_id u = d_user_id d]"

text \<open>\<open>DISTINCT ON (device_id) ... ORDER BY device_id, evaluated_at DESC\<close>.\<close>

definition listTrustScores :: "(nat \<Rightarrow> bool) \<Rightarrow> db \<Rightarrow> trustScoreSummary list resp" where
  "listTrustScores f s =
     (if f 0 then Err 500 ''failed to query trust scores''
      else Ok 200 (List.map_filter
             (\<lambda>i. latest_by tss_EvaluatedAt (filter (\<lambda>t. tss_DeviceID t = i) (trust_summaries s)))
             (sort (remdups (map tss_DeviceID (trust_summaries s))))))"

record trustHistoryEntry =
  th_Score :: int
  th_Level :: string
  th_EvaluatedAt :: time

definition getTrustHistory :: "(string \<Rightarrow> string + uuid) \<Rightarrow> (nat \<Rightarrow> bool) \<Rightarrow> string \<Rightarrow> db
    \<Rightarrow> trustHistoryEntry list resp" where
  "getTrustHistory uuid_parse f raw s =
     (case parseUUID uuid_parse raw of
        Inl e \<Rightarrow> Err 400 e
      | Inr deviceID \<Rightarrow>
          if f 0 then Err 500 ''failed to query trust history''
          else Ok 200 (map (\<lambda>t. \<lparr>th_Score = ts_score t, th_Level = ts_level t, th_EvaluatedAt = ts_evaluated_at t\<rparr>)
                 (take 100 (sort_key (\<lambda>t. - ts_evaluated_at t)
                    (filter (\<lambda>t. ts_device_id t = deviceID) (tb_trust_scores s))))))"

section \<open>Policies\<close>

record createPolicyRequest =
  cpr_Name :: string
  cpr_Description :: "string option"
  cpr_Conditions :: "json option"
  cpr_Action :: string
  cpr_NetworkIDs :: "uuid list option"
  cpr_Priority :: int

record updatePolicyRequest =
  upr_Name :: "string option"
  upr_Description :: "string option"
  upr_IsActive :: "bool option"
  upr_Conditions :: "json option"
  upr_Action :: "string option"
  upr_NetworkIDs :: "uuid list option"
  upr_Priority :: "int option"

definition policy_actions :: "string list" where
  "policy_actions = [''allow'', ''restrict'', ''deny'']"

definition listPolicies :: "(nat \<Rightarrow> bool) \<Rightarrow> db \<Rightarrow> policy_row list resp" where
  "listPolicies f s =
     (if f 0 then Err 500 ''failed to query policies''
      else Ok 200 (sort_key zp_priority (sort_key (\<lambda>p. - zp_created_at p) (tb_ztna_policies s))))"

definition createPolicy :: "(json \<Rightarrow> json option) \<Rightarrow> bool \<Rightarrow> uuid \<Rightarrow> time \<Rightarrow> (nat \<Rightarrow> bool) \<Rightarrow>
    createPolicyRequest body \<Rightarrow> db \<Rightarrow> policy_row resp \<times> db \<times> refresh_job list" where
  "createPolicy jsonb refresher new_id now f bd s =
     (case bd of Inl e \<Rightarrow> (Err 400 e, s, [])
      | Inr req \<Rightarrow>
      if cpr_Name req = [] then (Err 400 ''name is required'', s, [])
      else let action = (if cpr_Action req = [] then ''allow'' else cpr_Action req) in
      if action \<notin> set policy_actions then (Err 400 ''action must be allow, restrict, or deny'', s, [])
      else (case Option.bind (cpr_Conditions req) jsonb of
        None \<Rightarrow> (Err 500 ''failed to create policy'', s, [])
      | Some conds \<Rightarrow>
          if f 0 \<or> \<not> int4_range (cpr_Priority req) \<or> cpr_Name req \<in> zp_name ` set (tb_ztna_policies s)
          then (Err 500 ''failed to create policy'', s, [])
          else let p = \<lparr>zp_id = new_id, zp_name = cpr_Name req, zp_description = cpr_Description req,
                        zp_is_active = True, zp_conditions = conds, zp_action = action,
                        zp_network_ids = (case cpr_NetworkIDs req of None \<Rightarrow> [] | Some ns \<Rightarrow> ns),
                        zp_priority = cpr_Priority req, zp_created_at = now, zp_updated_at = now\<rparr>
               in (Ok 201 p, s\<lparr>tb_ztna_policies := tb_ztna_policies s @ [p]\<rparr>,
                   if refresher then [RefreshAllFirewalls] else [])))"

definition getPolicy :: "(string \<Rightarrow> string + uuid) \<Rightarrow> (nat \<Rightarrow> bool) \<Rightarrow> string \<Rightarrow> db \<Rightarrow> policy_row resp" where
  "getPolicy uuid_parse f raw s =
     (case parseUUID uuid_parse raw of Inl e \<Rightarrow> Err 400 e
      | Inr i \<Rightarrow>
          if f 0 then Err 500 ''failed to get policy''
          else (case find (\<lambda>p. zp_id p = i) (tb_ztna_policies s) of
                  None \<Rightarrow> Err 404 ''policy not found'' | Some p \<Rightarrow> Ok 200 p))"

definition apply_policy_update :: "updatePolicyRequest \<Rightarrow> json option \<Rightarrow> time \<Rightarrow> policy_row \<Rightarrow> policy_row" where
  "apply_policy_update req conds now p = p\<lparr>
     zp_name := coalesce (upr_Name req) (zp_name p),
     zp_description := (case upr_Description req of None \<Rightarrow> zp_description p | d \<Rightarrow> d),
     zp_is_active := coalesce (upr_IsActive req) (zp_is_active p),
     zp_conditions := coalesce conds (zp_conditions p),
     zp_action := coalesce (upr_Action req) (zp_action p),
     zp_network_ids := coalesce (upr_NetworkIDs req) (zp_network_ids p),
     zp_priority := coalesce (upr_Priority req) (zp_priority p),
     zp_updated_at := now\<rparr>"

text \<open>The update fails on a value the driver or a column refuses, among them a name another policy has.\<close>

definition updatePolicy :: "(string \<Rightarrow> string + uuid) \<Rightarrow> (json \<Rightarrow> json option) \<Rightarrow> bool \<Rightarrow> time \<Rightarrow> (nat \<Rightarrow> bool) \<Rightarrow>
    string \<Rightarrow> updatePolicyRequest body \<Rightarrow> db \<Rightarrow> policy_row resp \<times> db \<times> refresh_job list" where
  "updatePolicy uuid_parse jsonb refresher now f raw bd s =
     (case parseUUID uuid_parse raw of Inl e \<Rightarrow> (Err 400 e, s, [])
      | Inr i \<Rightarrow>
     (case bd of Inl e \<Rightarrow> (Err 400 e, s, [])
      | Inr req \<Rightarrow>
      if \<not> pred_option (\<lambda>a. a \<in> set policy_actions) (upr_Action req)
      then (Err 400 ''action must be allow, restrict, or deny'', s, [])
      else let conds = Option.bind (upr_Conditions req) jsonb in
      if f 0 \<or> (upr_Conditions req \<noteq> None \<and> conds = None) \<or> \<not> pred_option int4_range (upr_Priority req)
      then (Err 500 ''failed to update policy'', s, [])
      else (case find (\<lambda>p. zp_id p = i) (tb_ztna_policies s) of
        None \<Rightarrow> (Err 404 ''policy not found'', s, [])
      | Some p \<Rightarrow>
          let p' = apply_policy_update req conds now p in
          if \<exists>q \<in> set (tb_ztna_policies s). zp_id q \<noteq> i \<and> zp_name q = zp_name p'
          then (Err 500 ''failed to update policy'', s, [])
          else (Ok 200 p', s\<lparr>tb_ztna_policies :=
                  upd_where (\<lambda>q. zp_id q = i) (apply_policy_update req conds now) (tb_ztna_policies s)\<rparr>,
                if refresher then [RefreshAllFirewalls] else []))))"

definition deletePolicy :: "(string \<Rightarrow> string + uuid) \<Rightarrow> bool \<Rightarrow> (nat \<Rightarrow> bool) \<Rightarrow> string \<Rightarrow> db
    \<Rightarrow> unit resp \<times> db \<times> refresh_job list" where
  "deletePolicy uuid_parse refresher f raw s =
     (case parseUUID uuid_parse raw of Inl e \<Rightarrow> (Err 400 e, s, [])
      | Inr i \<Rightarrow>
      if f 0 then (Err 500 ''failed to delete policy'', s, [])
      else if \<not> (\<exists>p \<in> set (tb_ztna_policies s). zp_id p = i) then (Err 404 ''policy not found'', s, [])
      else (Ok 204 (), s\<lparr>tb_ztna_policies := del_where (\<lambda>p. zp_id p = i) (tb_ztna_policies s)\<rparr>,
            if refresher then [RefreshAllFirewalls] else []))"

section \<open>DNS rules\<close>

record createDNSRuleRequest =
  cdr_NetworkID :: uuid
  cdr_Domain :: string
  cdr_DNSServer :: string

definition listDNSRules :: "(string \<Rightarrow> string + uuid) \<Rightarrow> (nat \<Rightarrow> bool) \<Rightarrow> url_query \<Rightarrow> db \<Rightarrow> dns_row list resp" where
  "listDNSRules uuid_parse f q s =
     (let networkID = q ''network_id'' in
      if networkID = [] then
        (if f 0 then Err 500 ''failed to query DNS rules'' else Ok 200 (sort_key dr_domain (tb_dns_rules s)))
      else case uuid_parse networkID of
        Inl _ \<Rightarrow> Err 400 ''invalid network_id''
      | Inr nid \<Rightarrow>
          if f 0 then Err 500 ''failed to query DNS rules''
          else Ok 200 (sort_key dr_domain (filter (\<lambda>r. dr_network_id r = nid) (tb_dns_rules s))))"

definition createDNSRule :: "uuid \<Rightarrow> time \<Rightarrow> (nat \<Rightarrow> bool) \<Rightarrow> createDNSRuleRequest body \<Rightarrow> db \<Rightarrow> dns_row resp \<times> db" where
  "createDNSRule new_id now f bd s =
     (case bd of Inl e \<Rightarrow> (Err 400 e, s)
      | Inr req \<Rightarrow>
      if cdr_Domain req = [] then (Err 400 ''domain is required'', s)
      else if cdr_DNSServer req = [] then (Err 400 ''dns_server is required'', s)
      else if cdr_NetworkID req = uuid_nil then (Err 400 ''network_id is required'', s)
      else if f 0 \<or> cdr_NetworkID req \<notin> n_id ` set (tb_networks s)
      then (Err 500 ''failed to create DNS rule'', s)
      else let r = \<lparr>dr_id = new_id, dr_network_id = cdr_NetworkID req, dr_domain = cdr_Domain req,
                    dr_dns_server = cdr_DNSServer req, dr_is_active = True, dr_created_at = now\<rparr>
           in (Ok 201 r, s\<lparr>tb_dns_rules := tb_dns_rules s @ [r]\<rparr>))"

definition deleteDNSRule :: "(string \<Rightarrow> string + uuid) \<Rightarrow> (nat \<Rightarrow> bool) \<Rightarrow> string \<Rightarrow> db \<Rightarrow> unit resp \<times> db" where
  "deleteDNSRule uuid_parse f raw s =
     (case parseUUID uuid_parse raw of Inl e \<Rightarrow> (Err 400 e, s)
      | Inr i \<Rightarrow>
      if f 0 then (Err 500 ''failed to delete DNS rule'', s)
      else if \<not> (\<exists>r \<in> set (tb_dns_rules s). dr_id r = i) then (Err 404 ''DNS rule not found'', s)
      else (Ok 204 (), s\<lparr>tb_dns_rules := del_where (\<lambda>r. dr_id r = i) (tb_dns_rules s)\<rparr>))"

section \<open>Policies stay well formed\<close>

definition policies_ok :: "db \<Rightarrow> bool" where
  "policies_ok s \<longleftrightarrow> distinct (map zp_id (tb_ztna_policies s)) \<and> distinct (map zp_name (tb_ztna_policies s)) \<and>
     (\<forall>p \<in> set (tb_ztna_policies s). zp_action p \<in> set policy_actions \<and> int4_range (zp_priority p))"

text \<open>The calls that change the table; a generated identifier is new.\<close>

inductive policy_step :: "db \<Rightarrow> db \<Rightarrow> bool" where
  create: "createPolicy jsonb rf i now f bd s = (r, s', js) \<Longrightarrow> i \<notin> zp_id ` set (tb_ztna_policies s)
           \<Longrightarrow> policy_step s s'"
| update: "updatePolicy up jsonb rf now f raw bd s = (r, s', js) \<Longrightarrow> policy_step s s'"
| delete: "deletePolicy up rf f raw s = (r, s', js) \<Longrightarrow> policy_step s s'"

lemma create_policy_cases:
  assumes "createPolicy jsonb rf i now f bd s = (r, s', js)"
  obtains (refused) st m where "r = Err st m" "s' = s" "js = []"
  | (created) p where "r = Ok 201 p" "s' = s\<lparr>tb_ztna_policies := tb_ztna_policies s @ [p]\<rparr>"
      "js = (if rf then [RefreshAllFirewalls] else [])" "zp_id p = i"
      "zp_name p \<notin> zp_name ` set (tb_ztna_policies s)" "zp_action p \<in> set policy_actions"
      "int4_range (zp_priority p)" "zp_is_active p"
proof (cases r)
  case (Err st m)
  then have "s' = s \<and> js = []"
    using assms by (auto simp: createPolicy_def Let_def split: sum.splits if_splits option.splits)
  then show ?thesis using refused Err by blast
next
  case (Ok st p)
  then show ?thesis
    using assms by (intro created [of p]) (auto simp: createPolicy_def Let_def split: sum.splits if_splits option.splits)
qed

lemma update_policy_cases:
  assumes "updatePolicy up jsonb rf now f raw bd s = (r, s', js)"
  obtains (refused) st m where "r = Err st m" "s' = s" "js = []"
  | (updated) i req conds p where "r = Ok 200 (apply_policy_update req conds now p)"
      "s' = s\<lparr>tb_ztna_policies :=
         upd_where (\<lambda>q. zp_id q = i) (apply_policy_update req conds now) (tb_ztna_policies s)\<rparr>"
      "js = (if rf then [RefreshAllFirewalls] else [])" "p \<in> set (tb_ztna_policies s)" "zp_id p = i"
      "\<forall>q \<in> set (tb_ztna_policies s). zp_id q \<noteq> i \<longrightarrow> zp_name q \<noteq> zp_name (apply_policy_update req conds now p)"
      "pred_option (\<lambda>a. a \<in> set policy_actions) (upr_Action req)" "pred_option int4_range (upr_Priority req)"
proof (cases "parseUUID up raw")
  case (Inl e)
  then show ?thesis using assms refused by (auto simp: updatePolicy_def)
next
  case i: (Inr i)
  show ?thesis
  proof (cases bd)
    case (Inl e)
    then show ?thesis using assms i refused by (auto simp: updatePolicy_def)
  next
    case req: (Inr req)
    define conds where "conds = Option.bind (upr_Conditions req) jsonb"
    note upd = assms [unfolded updatePolicy_def i req sum.case, folded conds_def, unfolded Let_def, folded conds_def]
    show ?thesis
    proof (cases "find (\<lambda>p. zp_id p = i) (tb_ztna_policies s)")
      case None
      then show ?thesis using upd refused by (auto split: if_splits)
    next
      case p: (Some p)
      show ?thesis
      proof (cases r)
        case (Err st m)
        then have "s' = s \<and> js = []" using upd by (auto simp: p split: if_splits)
        then show ?thesis using refused Err by blast
      next
        case (Ok st b)
        then show ?thesis
          using upd find_SomeD [OF p] by (intro updated [of req conds p i]) (auto simp: p split: if_splits)
      qed
    qed
  qed
qed

lemma apply_policy_update_ok:
  assumes "zp_action p \<in> set policy_actions" "int4_range (zp_priority p)"
    "pred_option (\<lambda>a. a \<in> set policy_actions) (upr_Action req)" "pred_option int4_range (upr_Priority req)"
  shows "zp_action (apply_policy_update req conds now p) \<in> set policy_actions \<and>
         int4_range (zp_priority (apply_policy_update req conds now p))"
  using assms by (cases "upr_Action req"; cases "upr_Priority req") (auto simp: apply_policy_update_def coalesce_def)

lemma apply_policy_update_id [simp]: "zp_id (apply_policy_update req conds now p) = zp_id p"
  by (simp add: apply_policy_update_def)

lemma distinct_upd_unique:
  assumes "distinct (map k t)" "distinct (map n t)" "p \<in> set t" "k p = i"
    and "\<forall>q \<in> set t. k q \<noteq> i \<longrightarrow> n q \<noteq> n (g p)"
  shows "distinct (map n (upd_where (\<lambda>q. k q = i) g t))"
  using assms
proof (induction t)
  case (Cons q t)
  have none: "\<forall>x \<in> set t. k x \<noteq> i" if "k q = i"
    using that Cons.prems(1) by (auto simp: image_iff)
  show ?case
  proof (cases "k q = i")
    case True
    then have "q = p" using Cons.prems(1,3,4) by (auto simp: rev_image_eqI)
    moreover have "upd_where (\<lambda>q. k q = i) g t = t" using none [OF True] by (intro upd_where_none) auto
    ultimately show ?thesis using True Cons.prems none by (auto simp: image_iff)
  next
    case False
    then have p: "p \<in> set t" using Cons.prems by auto
    have "n q \<notin> n ` set (upd_where (\<lambda>q. k q = i) g t)"
    proof
      assume "n q \<in> n ` set (upd_where (\<lambda>q. k q = i) g t)"
      then obtain x where x: "x \<in> set t" "n q = (if k x = i then n (g x) else n x)"
        by (auto simp: set_upd_where)
      have "k x = i \<Longrightarrow> x = p" using x(1) p Cons.prems(1,4) by (auto simp: distinct_map inj_on_def)
      then show False using x False Cons.prems(2,5) by (auto split: if_splits)
    qed
    then show ?thesis using False p Cons by simp
  qed
qed simp

lemma policy_step_ok: "policy_step s s' \<Longrightarrow> policies_ok s \<Longrightarrow> policies_ok s'"
proof (induction rule: policy_step.induct)
  case (create jsonb rf i now f bd s r s' js)
  then show ?case
    by (elim create_policy_cases) (auto simp: policies_ok_def)
next
  case (update up jsonb rf now f raw bd s r s' js)
  from update.hyps show ?case
  proof (cases rule: update_policy_cases)
    case (updated i req conds p)
    let ?g = "apply_policy_update req conds now"
    have "distinct (map zp_name (upd_where (\<lambda>q. zp_id q = i) ?g (tb_ztna_policies s)))"
      by (rule distinct_upd_unique [of zp_id _ _ p])
        (use updated update.prems in \<open>auto simp: policies_ok_def\<close>)
    moreover have "map zp_id (upd_where (\<lambda>q. zp_id q = i) ?g (tb_ztna_policies s)) = map zp_id (tb_ztna_policies s)"
      by (rule map_upd_where_frame) simp
    moreover have "zp_action (?g q) \<in> set policy_actions \<and> int4_range (zp_priority (?g q))"
      if "q \<in> set (tb_ztna_policies s)" for q
      using that updated update.prems by (intro apply_policy_update_ok) (auto simp: policies_ok_def)
    ultimately show ?thesis
      using updated(2) update.prems by (auto simp: policies_ok_def set_upd_where)
  qed (use update.prems in simp)
next
  case (delete up rf f raw s r s' js)
  then show ?case
    by (auto simp: deletePolicy_def policies_ok_def distinct_map_del_where split: sum.splits if_splits)
qed

text \<open>
  Through any sequence of policy calls the policies keep distinct identifiers and names and
  only the actions allow, restrict and deny; a created policy is the one a lookup of its
  identifier returns, and after a successful deletion the lookup finds nothing.
\<close>

theorem policy_lifecycle:
  assumes "policy_step\<^sup>*\<^sup>* s0 s" "policies_ok s0" "parseUUID up raw = Inr i"
  shows "policies_ok s \<and>
    (createPolicy jsonb rf i now f bd s = (Ok st p, s', js) \<and> i \<notin> zp_id ` set (tb_ztna_policies s) \<longrightarrow>
       getPolicy up (\<lambda>_. False) raw s' = Ok 200 p \<and> zp_is_active p) \<and>
    (deletePolicy up rf f raw s = (Ok st' b, s'', js') \<longrightarrow>
       getPolicy up (\<lambda>_. False) raw s'' = Err 404 ''policy not found'')"
proof (intro conjI impI)
  show ok: "policies_ok s"
    using assms(1,2) by (induction rule: rtranclp_induct) (auto intro: policy_step_ok)
next
  assume c: "createPolicy jsonb rf i now f bd s = (Ok st p, s', js) \<and> i \<notin> zp_id ` set (tb_ztna_policies s)"
  then have "find (\<lambda>p. zp_id p = i) (tb_ztna_policies s) = None" by (auto simp: find_None_iff')
  moreover have "find P (xs @ [x]) = (case find P xs of None \<Rightarrow> if P x then Some x else None | y \<Rightarrow> y)"
    for P :: "policy_row \<Rightarrow> bool" and xs x by (induction xs) auto
  ultimately show "getPolicy up (\<lambda>_. False) raw s' = Ok 200 p" "zp_is_active p"
    using c assms(3) by (auto simp: getPolicy_def elim!: create_policy_cases)
next
  assume "deletePolicy up rf f raw s = (Ok st' b, s'', js')"
  then show "getPolicy up (\<lambda>_. False) raw s'' = Err 404 ''policy not found''"
    using assms(3) by (auto simp: deletePolicy_def getPolicy_def find_None_iff' split: if_splits option.splits
        dest!: find_SomeD)
qed

definition sample_policy_request :: createPolicyRequest where
  "sample_policy_request = \<lparr>cpr_Name = ''disk'', cpr_Description = None,
     cpr_Conditions = Some (JObj [(''require_disk_encryption'', JBool True)]), cpr_Action = ''deny'',
     cpr_NetworkIDs = None, cpr_Priority = 10\<rparr>"

definition sample_policy :: policy_row where
  "sample_policy = \<lparr>zp_id = ''p1'', zp_name = ''disk'', zp_description = None, zp_is_active = True,
     zp_conditions = JObj [(''require_disk_encryption'', JBool True)], zp_action = ''deny'',
     zp_network_ids = [], zp_priority = 10, zp_created_at = 5, zp_updated_at = 5\<rparr>"

theorem policy_lifecycle_witness:
  "policies_ok sample_db \<and>
   createPolicy Some True ''p1'' 5 (\<lambda>_. False) (Inr sample_policy_request) sample_db =
     (Ok 201 sample_policy, sample_db\<lparr>tb_ztna_policies := [sample_policy]\<rparr>, [RefreshAllFirewalls]) \<and>
   getPolicy Inr (\<lambda>_. False) ''p1'' (sample_db\<lparr>tb_ztna_policies := [sample_policy]\<rparr>) = Ok 200 sample_policy"
proof -
  have ok: "policies_ok sample_db" by (simp add: policies_ok_def sample_tables)
  have c: "createPolicy Some True ''p1'' 5 (\<lambda>_. False) (Inr sample_policy_request) sample_db =
     (Ok 201 sample_policy, sample_db\<lparr>tb_ztna_policies := [sample_policy]\<rparr>, [RefreshAllFirewalls])"
    by (simp add: createPolicy_def sample_policy_request_def sample_policy_def policy_actions_def
        int4_range_def sample_tables Let_def)
  have "''p1'' \<notin> zp_id ` set (tb_ztna_policies sample_db)" by (simp add: sample_tables)
  moreover have "parseUUID Inr ''p1'' = Inr ''p1''" by (simp add: parseUUID_def)
  ultimately show ?thesis
    using policy_lifecycle [OF rtranclp.rtrancl_refl ok, of Inr "''p1''" "''p1''"] c ok by blast
qed

section \<open>Posture reports\<close>

lemma calculate_frame:
  obtains ts where "snd (Calculate cfg n n' g i s) = s\<lparr>tb_trust_scores := tb_trust_scores s @ ts\<rparr>"
    "length ts \<le> 1" "ts_device_id ` set ts \<subseteq> {i}"
proof -
  have "\<exists>ts. snd (Calculate cfg n n' g i s) = s\<lparr>tb_trust_scores := tb_trust_scores s @ ts\<rparr> \<and>
      length ts \<le> 1 \<and> ts_device_id ` set ts \<subseteq> {i}"
  proof (cases "latest_posture s i")
    case None
    then show ?thesis by (intro exI [of _ "[]"]) (simp add: Calculate_def)
  next
    case (Some up)
    then obtain u p where up: "up = (u, p)" by force
    let ?r = "trust_result cfg n n' i u p (case find (\<lambda>v. u_id v = u) (tb_users s) of
        None \<Rightarrow> False | Some v \<Rightarrow> u_mfa_enabled v)"
    have r: "tr_DeviceID ?r = i" by (simp add: trust_result_def Let_def)
    have c: "snd (Calculate cfg n n' g i s) = (if g 0 \<or> g 1 then s else store_trust_score (g 2) ?r s)"
      using Some by (simp add: Calculate_def up Let_def)
    show ?thesis
    proof (cases "g 0 \<or> g 1 \<or> g 2 \<or> tr_Violations ?r = []")
      case True
      then have "snd (Calculate cfg n n' g i s) = s" unfolding c by (auto simp: store_trust_score_def)
      then show ?thesis by (intro exI [of _ "[]"]) simp
    next
      case False
      then show ?thesis unfolding c
        by (intro exI [of _ "[\<lparr>ts_device_id = i, ts_score = tr_Score ?r, ts_level = level_text (tr_Level ?r),
               ts_violations = tr_Violations ?r, ts_evaluated_at = tr_EvaluatedAt ?r\<rparr>]"])
          (simp add: store_trust_score_def r)
    qed
  qed
  then show thesis using that by blast
qed

lemma report_posture_guard:
  assumes "reportPosture up rf ck f claims bd s = (r, s', jobs)"
  obtains (refused) st m where "r = Err st m" "s' = s" "jobs = []"
  | (authorised) cl req dev where "claims = Some cl" "bd = Inr req" "up (rp_DeviceID req) = Inr (d_id dev)"
      "dev \<in> set (tb_devices s)" "cl_UserID cl = d_user_id dev \<or> cl_IsAdmin cl"
      "save_posture rf ck f (d_id dev) (d_user_id dev) req s = (r, s', jobs)"
proof -
  have "(\<exists>st m. r = Err st m \<and> s' = s \<and> jobs = []) \<or>
    (\<exists>cl req dev. claims = Some cl \<and> bd = Inr req \<and> up (rp_DeviceID req) = Inr (d_id dev) \<and>
      dev \<in> set (tb_devices s) \<and> (cl_UserID cl = d_user_id dev \<or> cl_IsAdmin cl) \<and>
      save_posture rf ck f (d_id dev) (d_user_id dev) req s = (r, s', jobs))"
    using assms
    by (auto simp: reportPosture_def dest!: find_SomeD split: option.splits sum.splits if_splits)
  then show thesis using refused authorised by blast
qed

lemma save_posture_frame:
  assumes "save_posture rf ck f i owner req s = (r, s', jobs)"
  shows "(\<exists>st m. r = Err st m \<and> s' = s \<and> jobs = []) \<or>
    (\<exists>ans ts. r = Ok 200 ans \<and> length ts \<le> 1 \<and> ts_device_id ` set ts \<subseteq> {i} \<and>
      s' = s\<lparr>tb_device_posture := tb_device_posture s @ [posture_row_of i req (pa_posture_score ans) (ck 0)],
             tb_trust_scores := tb_trust_scores s @ ts\<rparr> \<and>
      jobs = (if rf then [RefreshFirewallForUser owner] else []))"
proof -
  let ?cfg = "loadTrustConfig (f 1) s"
  let ?sc = "posture_score ?cfg req"
  let ?s1 = "s\<lparr>tb_device_posture := tb_device_posture s @ [posture_row_of i req ?sc (ck 0)]\<rparr>"
  obtain ts where ts: "snd (Calculate ?cfg (ck 1) (ck 2) (\<lambda>n. f (n + 3)) i ?s1) =
      ?s1\<lparr>tb_trust_scores := tb_trust_scores ?s1 @ ts\<rparr>" "length ts \<le> 1" "ts_device_id ` set ts \<subseteq> {i}"
    by (rule calculate_frame)
  obtain res s2 where c: "Calculate ?cfg (ck 1) (ck 2) (\<lambda>n. f (n + 3)) i ?s1 = (res, s2)" by force
  show ?thesis
  proof (cases "f 2 \<or> \<not> int4_range ?sc")
    case True
    then show ?thesis using assms by (auto simp: save_posture_def Let_def)
  next
    case False
    then show ?thesis using assms ts c by (auto simp: save_posture_def Let_def intro!: exI [of _ ts])
  qed
qed

text \<open>
  C34. A posture report is accepted only from the owner of the device or an administrator; an
  accepted report adds exactly one posture row, for that device, and at most one trust score of
  it, changes no other table, and schedules the firewall refresh of the device's owner; a refused
  report changes nothing.
\<close>

theorem report_posture_authorised:
  assumes "reportPosture up rf ck f claims bd s = (r, s', jobs)"
  shows "case r of
      Err _ _ \<Rightarrow> s' = s \<and> jobs = []
    | Ok st ans \<Rightarrow>
        (\<exists>cl req dev row ts. claims = Some cl \<and> bd = Inr req \<and> up (rp_DeviceID req) = Inr (d_id dev) \<and>
           dev \<in> set (tb_devices s) \<and> (cl_UserID cl = d_user_id dev \<or> cl_IsAdmin cl) \<and>
           p_device_id row = d_id dev \<and> p_score row = pa_posture_score ans \<and>
           length ts \<le> 1 \<and> ts_device_id ` set ts \<subseteq> {d_id dev} \<and>
           s' = s\<lparr>tb_device_posture := tb_device_posture s @ [row],
                  tb_trust_scores := tb_trust_scores s @ ts\<rparr> \<and>
           jobs = (if rf then [RefreshFirewallForUser (d_user_id dev)] else []))"
  using assms
proof (cases rule: report_posture_guard)
  case (authorised cl req dev)
  from save_posture_frame [OF authorised(6)] show ?thesis
  proof
    assume "\<exists>st m. r = Err st m \<and> s' = s \<and> jobs = []"
    then show ?thesis by auto
  next
    assume "\<exists>ans ts. r = Ok 200 ans \<and> length ts \<le> 1 \<and> ts_device_id ` set ts \<subseteq> {d_id dev} \<and>
      s' = s\<lparr>tb_device_posture := tb_device_posture s @ [posture_row_of (d_id dev) req (pa_posture_score ans) (ck 0)],
             tb_trust_scores := tb_trust_scores s @ ts\<rparr> \<and>
      jobs = (if rf then [RefreshFirewallForUser (d_user_id dev)] else [])"
    then obtain ans ts where ok: "r = Ok 200 ans" and ts: "length ts \<le> 1" "ts_device_id ` set ts \<subseteq> {d_id dev}"
      and s': "s' = s\<lparr>tb_device_posture := tb_device_posture s @ [posture_row_of (d_id dev) req (pa_posture_score ans) (ck 0)],
             tb_trust_scores := tb_trust_scores s @ ts\<rparr>"
      and jobs: "jobs = (if rf then [RefreshFirewallForUser (d_user_id dev)] else [])" by blast
    let ?row = "posture_row_of (d_id dev) req (pa_posture_score ans) (ck 0)"
    have row: "p_device_id ?row = d_id dev" "p_score ?row = pa_posture_score ans"
      by (simp_all add: posture_row_of_def)
    show ?thesis
      unfolding ok resp.case using authorised(1-5) row ts s' jobs by blast
  qed
qed simp

definition sample_report_d9 :: postureReport where
  "sample_report_d9 = \<lparr>rp_DeviceID = ''d9'', rp_OSType = ''linux'', rp_OSVersion = ''6.1'', rp_DiskEncrypted = True,
     rp_ScreenLockEnabled = True, rp_AntivirusActive = False, rp_FirewallEnabled = True\<rparr>"

theorem report_posture_authorised_witness:
  "(case reportPosture Inr True (\<lambda>n. int n) (\<lambda>_. False) (Some (sample_claims ''u1'' False)) (Inr sample_report_d9) sample_db of
      (r, s', jobs) \<Rightarrow> r = Err 403 ''you can only report posture for your own devices'' \<and> s' = sample_db \<and> jobs = [])"
proof -
  obtain r s' jobs where r: "reportPosture Inr True (\<lambda>n. int n) (\<lambda>_. False) (Some (sample_claims ''u1'' False))
      (Inr sample_report_d9) sample_db = (r, s', jobs)" by (metis prod_cases3)
  moreover have "r = Err 403 ''you can only report posture for your own devices''"
    using r by (auto simp: reportPosture_def sample_claims_def sample_report_d9_def sample_tables sample_device_def)
  ultimately show ?thesis
    using report_posture_authorised [OF r] by simp
qed

end
