(* ===== verification/Netfilter.thy ===== *)
theory Netfilter
  imports IPv4
begin

text \<open>
  The packet filter the gateway agent drives through \<^verbatim>\<open>iptables\<close> and \<^verbatim>\<open>conntrack\<close>:
  what a rule specification matches, how a packet traverses the FORWARD chain, and, as the locale
  \<open>netfilter\<close>, what the two commands promise. The commands are not part of the program; the
  agent's model takes them as arguments and relies on the locale's laws alone.
\<close>

section \<open>Rule specifications\<close>

datatype target = ACCEPT | DROP | Jump string

record fw_rule =
  ru_src :: "cidr option"
  ru_dst :: "cidr option"
  ru_proto :: "string option"
  ru_dport :: "(nat \<times> nat) option"
  ru_established :: bool
  ru_target :: "target option"

definition empty_rule :: fw_rule where
  "empty_rule = \<lparr>ru_src = None, ru_dst = None, ru_proto = None, ru_dport = None,
                 ru_established = False, ru_target = None\<rparr>"

definition target_of :: "string \<Rightarrow> target" where
  "target_of t = (if t = ''ACCEPT'' then ACCEPT else if t = ''DROP'' then DROP else Jump t)"

text \<open>An address is one host or a network.\<close>

definition parse_addr :: "string \<Rightarrow> cidr option" where
  "parse_addr s = (if CHR ''/'' \<in> set s then parse_cidr s else map_option host_cidr (parse_ip4 s))"

text \<open>A port is a number without leading zeros, or two of them as a range.\<close>

definition parse_port :: "string \<Rightarrow> nat option" where
  "parse_port s =
     (if s = [] \<or> \<not> list_all is_digit s \<or> (length s > 1 \<and> hd s = CHR ''0'') then None
      else case parse_uint s 0 of (n, None) \<Rightarrow> if n \<le> 65535 then Some n else None | _ \<Rightarrow> None)"

definition parse_ports :: "string \<Rightarrow> (nat \<times> nat) option" where
  "parse_ports s =
     (case go_split CHR '':'' s of
        [a] \<Rightarrow> map_option (\<lambda>n. (n, n)) (parse_port a)
      | [a, b] \<Rightarrow> (case (parse_port a, parse_port b) of
            (Some lo, Some hi) \<Rightarrow> if lo \<le> hi then Some (lo, hi) else None
          | _ \<Rightarrow> None)
      | _ \<Rightarrow> None)"

definition port_protocols :: "string set" where
  "port_protocols = {''tcp'', ''udp''}"

definition protocols :: "string set" where
  "protocols = insert ''icmp'' port_protocols"

text \<open>Only the protocols above, and ports only for those that have them.\<close>

fun parse_opts :: "string list \<Rightarrow> fw_rule \<Rightarrow> fw_rule option" where
  "parse_opts [] r = Some r"
| "parse_opts [x] r = None"
| "parse_opts (x # y # xs) r =
     (if x = ''-s'' then (case parse_addr y of None \<Rightarrow> None | Some c \<Rightarrow> parse_opts xs (r\<lparr>ru_src := Some c\<rparr>))
      else if x = ''-d'' then (case parse_addr y of None \<Rightarrow> None | Some c \<Rightarrow> parse_opts xs (r\<lparr>ru_dst := Some c\<rparr>))
      else if x = ''-p'' then (if y \<in> protocols then parse_opts xs (r\<lparr>ru_proto := Some y\<rparr>) else None)
      else if x = ''--dport'' \<and> ru_proto r \<in> Some ` port_protocols then
        (case parse_ports y of None \<Rightarrow> None | Some ps \<Rightarrow> parse_opts xs (r\<lparr>ru_dport := Some ps\<rparr>))
      else if x = ''-m'' \<and> y = ''conntrack'' then parse_opts xs r
      else if x = ''--ctstate'' \<and> y = ''ESTABLISHED,RELATED'' then parse_opts xs (r\<lparr>ru_established := True\<rparr>)
      else if x = ''-j'' then parse_opts xs (r\<lparr>ru_target := Some (target_of y)\<rparr>)
      else None)"

definition parse_spec :: "string list \<Rightarrow> fw_rule option" where
  "parse_spec spec = parse_opts spec empty_rule"

section \<open>Packets and verdicts\<close>

record packet =
  pk_src :: ip4
  pk_dst :: ip4
  pk_proto :: string
  pk_dport :: nat

text \<open>A tracked connection is known by the addresses of its first packet.\<close>

type_synonym flow = "ip4 \<times> ip4"

definition established :: "flow set \<Rightarrow> packet \<Rightarrow> bool" where
  "established fl p \<longleftrightarrow> (pk_src p, pk_dst p) \<in> fl \<or> (pk_dst p, pk_src p) \<in> fl"

definition opt_matches :: "('a \<Rightarrow> bool) \<Rightarrow> 'a option \<Rightarrow> bool" where
  "opt_matches q x = (case x of None \<Rightarrow> True | Some a \<Rightarrow> q a)"

definition rule_matches :: "flow set \<Rightarrow> fw_rule \<Rightarrow> packet \<Rightarrow> bool" where
  "rule_matches fl r p \<longleftrightarrow>
     opt_matches (in_cidr (pk_src p)) (ru_src r) \<and> opt_matches (in_cidr (pk_dst p)) (ru_dst r) \<and>
     opt_matches (\<lambda>x. x = pk_proto p) (ru_proto r) \<and>
     opt_matches (\<lambda>(lo, hi). lo \<le> pk_dport p \<and> pk_dport p \<le> hi) (ru_dport r) \<and>
     (ru_established r \<longrightarrow> established fl p)"

datatype verdict = Accepted | Dropped

text \<open>The first matching rule of a user chain decides; without one the packet returns to the caller.\<close>

fun chain_verdict :: "flow set \<Rightarrow> string list list \<Rightarrow> packet \<Rightarrow> verdict option" where
  "chain_verdict fl [] p = None"
| "chain_verdict fl (spec # specs) p =
     (case parse_spec spec of
        None \<Rightarrow> chain_verdict fl specs p
      | Some r \<Rightarrow>
          if rule_matches fl r p
          then (case ru_target r of
                  Some ACCEPT \<Rightarrow> Some Accepted
                | Some DROP \<Rightarrow> Some Dropped
                | _ \<Rightarrow> chain_verdict fl specs p)
          else chain_verdict fl specs p)"

text \<open>The FORWARD chain, whose rules may jump to user chains.\<close>

fun forward_verdict :: "flow set \<Rightarrow> (string \<rightharpoonup> string list list) \<Rightarrow> string list list \<Rightarrow> packet
    \<Rightarrow> verdict option" where
  "forward_verdict fl chs [] p = None"
| "forward_verdict fl chs (spec # specs) p =
     (case parse_spec spec of
        None \<Rightarrow> forward_verdict fl chs specs p
      | Some r \<Rightarrow>
          if rule_matches fl r p
          then (case ru_target r of
                  Some ACCEPT \<Rightarrow> Some Accepted
                | Some DROP \<Rightarrow> Some Dropped
                | Some (Jump c) \<Rightarrow>
                    (case Option.bind (chs c) (\<lambda>cs. chain_verdict fl cs p) of
                       Some v \<Rightarrow> Some v
                     | None \<Rightarrow> forward_verdict fl chs specs p)
                | None \<Rightarrow> forward_verdict fl chs specs p)
          else forward_verdict fl chs specs p)"

section \<open>The commands\<close>

text \<open>
  \<open>run\<close> is \<^verbatim>\<open>iptables args\<close> (success as a flag), \<open>ct_delete\<close> is
  \<^verbatim>\<open>conntrack -D -s ip\<close>; \<open>chain\<close> reads the filter table and \<open>flows\<close> the tracked
  connections. A rule whose specification \<open>parse_spec\<close> reads is accepted; nothing is assumed of any
  other, except that it concerns no other chain.
\<close>

locale netfilter =
  fixes run :: "string list \<Rightarrow> 'k \<Rightarrow> 'k \<times> bool"
    and chain :: "'k \<Rightarrow> string \<Rightarrow> string list list option"
    and ct_delete :: "string \<Rightarrow> 'k \<Rightarrow> 'k"
    and flows :: "'k \<Rightarrow> flow set"
  assumes new_chain: "snd (run [''-N'', c] k) = (chain k c = None) \<and>
      chain (fst (run [''-N'', c] k)) = (if chain k c = None then (chain k)(c := Some []) else chain k)"
    and flush_chain: "snd (run [''-F'', c] k) = (chain k c \<noteq> None) \<and>
      chain (fst (run [''-F'', c] k)) = (if chain k c \<noteq> None then (chain k)(c := Some []) else chain k)"
    and append_rule: "chain k c = Some rs \<Longrightarrow> parse_spec spec \<noteq> None \<Longrightarrow>
      chain (fst (run (''-A'' # c # spec) k)) = (chain k)(c := Some (rs @ [spec]))"
    and append_other: "c' \<noteq> c \<Longrightarrow> chain (fst (run (''-A'' # c # spec) k)) c' = chain k c'"
    and check_rule: "snd (run (''-C'' # c # spec) k) = (\<exists>rs. chain k c = Some rs \<and> spec \<in> set rs) \<and>
      chain (fst (run (''-C'' # c # spec) k)) = chain k"
    and insert_rule: "chain k c = Some rs \<Longrightarrow> parse_spec spec \<noteq> None \<Longrightarrow>
      snd (run (''-I'' # c # ''1'' # spec) k) \<and>
      chain (fst (run (''-I'' # c # ''1'' # spec) k)) = (chain k)(c := Some (spec # rs))"
    and insert_other: "c' \<noteq> c \<Longrightarrow> chain (fst (run (''-I'' # c # ''1'' # spec) k)) c' = chain k c'"
    and delete_rule: "snd (run (''-D'' # c # spec) k) = (\<exists>rs. chain k c = Some rs \<and> spec \<in> set rs) \<and>
      chain (fst (run (''-D'' # c # spec) k)) =
        (case chain k c of None \<Rightarrow> chain k | Some rs \<Rightarrow> (chain k)(c := Some (remove1 spec rs)))"
    and drop_chain: "chain (fst (run [''-X'', c] k)) =
        (if snd (run [''-X'', c] k) then (chain k)(c := None) else chain k)"
    and other_table: "chain (fst (run (''-t'' # ''nat'' # args) k)) = chain k"
    and run_flows: "flows (fst (run args k)) = flows k"
    and delete_flows: "parse_ip4 ip = Some w \<Longrightarrow> flows (ct_delete ip k) = {fl \<in> flows k. fst fl \<noteq> w}"
    and delete_chain: "chain (ct_delete ip k) = chain k"

section \<open>A reference store\<close>

text \<open>The smallest table that keeps the promises.\<close>

record ref_kernel =
  rk_chains :: "string \<rightharpoonup> string list list"
  rk_flows :: "flow set"

definition ref_set :: "string \<Rightarrow> string list list option \<Rightarrow> ref_kernel \<Rightarrow> ref_kernel" where
  "ref_set c rs k = k\<lparr>rk_chains := (rk_chains k)(c := rs)\<rparr>"

fun ref_run :: "string list \<Rightarrow> ref_kernel \<Rightarrow> ref_kernel \<times> bool" where
  "ref_run (cmd # c # spec) k =
     (if cmd = ''-N'' then (if rk_chains k c = None then (ref_set c (Some []) k, True) else (k, False))
      else if cmd = ''-t'' then (k, False)
      else case rk_chains k c of
        None \<Rightarrow> (k, False)
      | Some rs \<Rightarrow>
          if cmd = ''-F'' then (ref_set c (Some []) k, True)
          else if cmd = ''-X'' then (if rs = [] then (ref_set c None k, True) else (k, False))
          else if cmd = ''-A'' then
            (if parse_spec spec \<noteq> None then (ref_set c (Some (rs @ [spec])) k, True) else (k, False))
          else if cmd = ''-I'' then
            (if spec \<noteq> [] \<and> parse_spec (tl spec) \<noteq> None then (ref_set c (Some (tl spec # rs)) k, True) else (k, False))
          else if cmd = ''-C'' then (k, spec \<in> set rs)
          else if cmd = ''-D'' then
            (if spec \<in> set rs then (ref_set c (Some (remove1 spec rs)) k, True) else (k, False))
          else (k, False))"
| "ref_run _ k = (k, False)"

definition ref_ct_delete :: "string \<Rightarrow> ref_kernel \<Rightarrow> ref_kernel" where
  "ref_ct_delete ip k = (case parse_ip4 ip of
     None \<Rightarrow> k | Some w \<Rightarrow> k\<lparr>rk_flows := {fl \<in> rk_flows k. fst fl \<noteq> w}\<rparr>)"

lemma ref_run_flows: "rk_flows (fst (ref_run args k)) = rk_flows k"
  by (induction args k rule: ref_run.induct) (auto simp: ref_set_def split: option.split)

interpretation ref: netfilter ref_run rk_chains ref_ct_delete rk_flows
proof unfold_locales
  fix args :: "string list" and k :: ref_kernel
  show "rk_flows (fst (ref_run args k)) = rk_flows k" by (rule ref_run_flows)
qed (auto simp: ref_set_def ref_ct_delete_def fun_upd_idem remove1_idem split: option.split)

end
