(* ===== verification/Protocol.thy ===== *)
theory Protocol
  imports Go_Std
begin

text \<open>
  The messages between core and gateway (\<^verbatim>\<open>proto/outpost/common/v1/types.proto\<close>,
  \<^verbatim>\<open>proto/outpost/gateway/v1/gateway.proto\<close>). A message field is an option where nil is
  possible; an absent string is empty.
\<close>

datatype fw_action = ACTION_UNSPECIFIED | ACTION_ACCEPT | ACTION_DROP

record FirewallRule =
  fr_Source :: string
  fr_Destination :: string
  fr_Protocol :: string
  fr_Port :: string
  fr_Action :: fw_action

record FirewallConfig =
  fc_Rules :: "FirewallRule list"
  fc_NatEnabled :: bool
  fc_NatInterface :: string

record SmartRouteRule =
  sm_EntryType :: string
  sm_Value :: string
  sm_Action :: string
  sm_Priority :: int

type_synonym SmartRouteConfig = "SmartRouteRule list"

record Peer =
  pe_PublicKey :: string
  pe_AllowedIps :: "string list"
  pe_PersistentKeepalive :: int
  pe_Endpoint :: string

record S2SPeer =
  sp_GatewayId :: string
  sp_PublicKey :: string
  sp_Endpoint :: string
  sp_AllowedIps :: "string list"
  sp_PersistentKeepalive :: int

record S2STunnelConfig =
  stc_TunnelId :: string
  stc_InterfaceName :: string
  stc_PrivateKey :: string
  stc_ListenPort :: int
  stc_Peers :: "S2SPeer list"

record GatewayConfig =
  gc_GatewayId :: string
  gc_NetworkName :: string
  gc_PrivateKey :: string
  gc_ListenPort :: int
  gc_Addresses :: "string list"
  gc_Peers :: "Peer list"
  gc_Firewall :: "FirewallConfig option"
  gc_S2STunnels :: "S2STunnelConfig list"
  gc_SmartRoutes :: "SmartRouteConfig option"

datatype peer_action = PEER_UNSPECIFIED | PEER_ADD | PEER_MODIFY | PEER_REMOVE

datatype s2s_action = S2S_UNSPECIFIED | S2S_ADD_TUNNEL | S2S_REMOVE_TUNNEL | S2S_UPDATE_PEERS | S2S_UPDATE_ROUTES

datatype CoreEvent =
    PeerUpdate peer_action Peer
  | S2SUpdate s2s_action "S2STunnelConfig option"
  | FirewallUpdate "FirewallConfig option"
  | SmartRouteUpdate "SmartRouteConfig option"
  | FullResync GatewayConfig

record PeerStats =
  ps_PublicKey :: string
  ps_Endpoint :: string
  ps_RxBytes :: int
  ps_TxBytes :: int
  ps_LastHandshake :: "time option"

record S2SHealthReport =
  hrp_TunnelId :: string
  hrp_RemoteGatewayId :: string
  hrp_IsHealthy :: bool
  hrp_LatencyMs :: int

end
