(* ===== verification/Gateway_Firewall.thy ===== *)
theory Gateway_Firewall
  imports Netfilter Protocol
begin

text \<open>
  The gateway's firewall manager (\<^verbatim>\<open>internal/gateway/firewall.go\<close>): the iptables commands it
  issues for the rules and smart routes it receives, and the verdict the resulting chains give.
  \<open>run\<close> and \<open>ct_delete\<close> are the two commands it executes, \<open>ip_route\<close> the output of
  \<^verbatim>\<open>ip route show default\<close> (\<open>None\<close> when that fails).
\<close>

section \<open>Operations\<close>

definition outpostChain :: string where "outpostChain = ''OUTPOST-FWD''"

definition smartChain :: string where "smartChain = ''OUTPOST-SMART''"

definition Init :: "(string list \<Rightarrow> 'k \<Rightarrow> 'k \<times> bool) \<Rightarrow> 'k \<Rightarrow> 'k \<times> bool" where
  "Init run k =
     (let (k1, _) = run [''-N'', outpostChain] k;
          (k2, present) = run [''-C'', ''FORWARD'', ''-j'', outpostChain] k1
      in if present then (k2, True)
         else run [''-I'', ''FORWARD'', ''1'', ''-j'', outpostChain] k2)"

definition buildRuleArgs :: "FirewallRule \<Rightarrow> string list option" where
  "buildRuleArgs rule =
     (if fr_Source rule = [] then None
      else let args = [''-A'', outpostChain] @ [''-s'', fr_Source rule] @
             (if fr_Destination rule \<noteq> [] then [''-d'', fr_Destination rule] else []) @
             (if fr_Protocol rule \<noteq> []
              then [''-p'', fr_Protocol rule] @ (if fr_Port rule \<noteq> [] then [''--dport'', fr_Port rule] else [])
              else [])
           in case fr_Action rule of
                ACTION_ACCEPT \<Rightarrow> Some (args @ [''-j'', ''ACCEPT''])
              | ACTION_DROP \<Rightarrow> Some (args @ [''-j'', ''DROP''])
              | ACTION_UNSPECIFIED \<Rightarrow> None)"

text \<open>\<^verbatim>\<open>strings.Fields\<close> on ASCII white space.\<close>

definition is_space :: "char \<Rightarrow> bool" where
  "is_space c \<longleftrightarrow> of_char c \<in> {9, 10, 11, 12, 13, 32 :: nat}"

function fields :: "string \<Rightarrow> string list" where
  "fields s =
     (let t = dropWhile is_space s
      in if t = [] then []
         else takeWhile (\<lambda>c. \<not> is_space c) t # fields (dropWhile (\<lambda>c. \<not> is_space c) t))"
  by pat_completeness auto
termination
proof (relation "measure length")
  fix s t :: string
  assume t: "t = dropWhile is_space s" "t \<noteq> []"
  then have "\<not> is_space (hd t)" by (metis hd_dropWhile)
  then have "length (dropWhile (\<lambda>c. \<not> is_space c) t) < length t"
    using t(2) by (cases t) (auto simp: le_imp_less_Suc length_dropWhile_le)
  also have "\<dots> \<le> length s" by (simp add: t length_dropWhile_le)
  finally show "(dropWhile (\<lambda>c. \<not> is_space c) t, s) \<in> measure length" by simp
qed simp

declare fields.simps [simp del]

fun after_dev :: "string list \<Rightarrow> string" where
  "after_dev (f # g # fs) = (if f = ''dev'' then g else after_dev (g # fs))"
| "after_dev _ = []"

definition detectDefaultInterface :: "string option \<Rightarrow> string" where
  "detectDefaultInterface ip_route = (case ip_route of None \<Rightarrow> [] | Some out \<Rightarrow> after_dev (fields out))"

fun apply_rules :: "(string list \<Rightarrow> 'k \<Rightarrow> 'k \<times> bool) \<Rightarrow> FirewallRule list \<Rightarrow> 'k \<Rightarrow> 'k" where
  "apply_rules run [] k = k"
| "apply_rules run (rule # rules) k =
     (case buildRuleArgs rule of
        None \<Rightarrow> apply_rules run rules k
      | Some args \<Rightarrow> apply_rules run rules (fst (run args k)))"

fun flushConntrackForDroppedSources :: "(string \<Rightarrow> 'k \<Rightarrow> 'k) \<Rightarrow> string list \<Rightarrow> FirewallRule list \<Rightarrow> 'k \<Rightarrow> 'k" where
  "flushConntrackForDroppedSources ct_delete seen [] k = k"
| "flushConntrackForDroppedSources ct_delete seen (rule # rules) k =
     (if fr_Action rule \<noteq> ACTION_DROP \<or> fr_Source rule = [] \<or> fr_Source rule \<in> set seen
      then flushConntrackForDroppedSources ct_delete seen rules k
      else flushConntrackForDroppedSources ct_delete (fr_Source rule # seen) rules
             (ct_delete (hd (go_split CHR ''/'' (fr_Source rule))) k))"

definition conntrack_spec :: "string list" where
  "conntrack_spec = [''-m'', ''conntrack'', ''--ctstate'', ''ESTABLISHED,RELATED'', ''-j'', ''ACCEPT'']"

definition apply_nat :: "(string list \<Rightarrow> 'k \<Rightarrow> 'k \<times> bool) \<Rightarrow> string option \<Rightarrow> FirewallConfig \<Rightarrow> 'k \<Rightarrow> 'k" where
  "apply_nat run ip_route config k =
     (if \<not> fc_NatEnabled config then k
      else let natIface = (if fc_NatInterface config = [] then detectDefaultInterface ip_route
                           else fc_NatInterface config)
           in if natIface = [] then k
              else let (k1, present) = run [''-t'', ''nat'', ''-C'', ''POSTROUTING'', ''-o'', natIface, ''-j'', ''MASQUERADE''] k
                   in if present then k1
                      else fst (run [''-t'', ''nat'', ''-A'', ''POSTROUTING'', ''-o'', natIface, ''-j'', ''MASQUERADE''] k1))"

definition Apply :: "(string list \<Rightarrow> 'k \<Rightarrow> 'k \<times> bool) \<Rightarrow> (string \<Rightarrow> 'k \<Rightarrow> 'k) \<Rightarrow> string option
    \<Rightarrow> FirewallConfig option \<Rightarrow> 'k \<Rightarrow> 'k \<times> bool" where
  "Apply run ct_delete ip_route config k =
     (case config of None \<Rightarrow> (k, True)
      | Some cfg \<Rightarrow>
          let (k1, ok) = run [''-F'', outpostChain] k
          in if \<not> ok then (k1, False)
             else let (k2, _) = run (''-A'' # outpostChain # conntrack_spec) k1;
                      k3 = apply_rules run (fc_Rules cfg) k2;
                      k4 = apply_nat run ip_route cfg k3
                  in (flushConntrackForDroppedSources ct_delete [] (fc_Rules cfg) k4, True))"

fun apply_smart_rules :: "(string list \<Rightarrow> 'k \<Rightarrow> 'k \<times> bool) \<Rightarrow> SmartRouteRule list \<Rightarrow> 'k \<Rightarrow> 'k" where
  "apply_smart_rules run [] k = k"
| "apply_smart_rules run (rule # rules) k =
     (if sm_EntryType rule = ''cidr'' then
        (if sm_Action rule = ''block''
         then apply_smart_rules run rules (fst (run [''-A'', smartChain, ''-d'', sm_Value rule, ''-j'', ''DROP''] k))
         else if sm_Action rule = ''direct''
         then apply_smart_rules run rules (fst (run [''-A'', smartChain, ''-d'', sm_Value rule, ''-j'', ''ACCEPT''] k))
         else apply_smart_rules run rules k)
      else apply_smart_rules run rules k)"

definition remove_chain :: "(string list \<Rightarrow> 'k \<Rightarrow> 'k \<times> bool) \<Rightarrow> string \<Rightarrow> 'k \<Rightarrow> 'k" where
  "remove_chain run c k =
     fst (run [''-X'', c] (fst (run [''-F'', c] (fst (run [''-D'', ''FORWARD'', ''-j'', c] k)))))"

definition ApplySmartRoutes :: "(string list \<Rightarrow> 'k \<Rightarrow> 'k \<times> bool) \<Rightarrow> SmartRouteConfig option \<Rightarrow> 'k \<Rightarrow> 'k \<times> bool" where
  "ApplySmartRoutes run config k =
     (case config of None \<Rightarrow> (remove_chain run smartChain k, True)
      | Some rules \<Rightarrow>
          if rules = [] then (remove_chain run smartChain k, True)
          else let k1 = fst (run [''-N'', smartChain] k);
                   (k2, ok) = run [''-F'', smartChain] k1
               in if \<not> ok then (k2, False)
                  else let (k3, present) = run [''-C'', ''FORWARD'', ''-j'', smartChain] k2;
                           (k4, ok') = (if present then (k3, True)
                                        else run [''-I'', ''FORWARD'', ''1'', ''-j'', smartChain] k3)
                       in if \<not> ok' then (k4, False) else (apply_smart_rules run rules k4, True))"

definition Cleanup :: "(string list \<Rightarrow> 'k \<Rightarrow> 'k \<times> bool) \<Rightarrow> 'k \<Rightarrow> 'k" where
  "Cleanup run k = remove_chain run outpostChain (remove_chain run smartChain k)"

section \<open>What a rule becomes\<close>

definition rule_spec :: "FirewallRule \<Rightarrow> string list option" where
  "rule_spec rule = map_option (drop 2) (buildRuleArgs rule)"

lemma buildRuleArgs_spec: "buildRuleArgs rule = map_option (\<lambda>spec. ''-A'' # outpostChain # spec) (rule_spec rule)"
  by (auto simp: rule_spec_def buildRuleArgs_def Let_def split: fw_action.splits)

text \<open>The rules of the chain: those with a source, an action and a specification iptables accepts.\<close>

definition installed_specs :: "FirewallRule list \<Rightarrow> string list list" where
  "installed_specs rules = filter (\<lambda>spec. parse_spec spec \<noteq> None) (List.map_filter rule_spec rules)"

text \<open>
  The texts of a rule that are read: one host or a network as source and destination, a known
  protocol, ports for those that have them. A rule without source or action is never installed,
  and the port of a rule without protocol is never looked at.
\<close>

definition rule_readable :: "FirewallRule \<Rightarrow> bool" where
  "rule_readable r \<longleftrightarrow> fr_Source r = [] \<or> fr_Action r = ACTION_UNSPECIFIED \<or>
     parse_addr (fr_Source r) \<noteq> None \<and> (fr_Destination r = [] \<or> parse_addr (fr_Destination r) \<noteq> None) \<and>
     (fr_Protocol r = [] \<or> fr_Protocol r \<in> protocols \<and>
        (fr_Port r = [] \<or> fr_Protocol r \<in> port_protocols \<and> parse_ports (fr_Port r) \<noteq> None))"

definition in_text :: "string \<Rightarrow> ip4 \<Rightarrow> bool" where
  "in_text s w = (case parse_addr s of None \<Rightarrow> False | Some c \<Rightarrow> in_cidr w c)"

definition in_ports :: "string \<Rightarrow> nat \<Rightarrow> bool" where
  "in_ports s n = (case parse_ports s of None \<Rightarrow> False | Some (lo, hi) \<Rightarrow> lo \<le> n \<and> n \<le> hi)"

definition rule_applies :: "packet \<Rightarrow> FirewallRule \<Rightarrow> bool" where
  "rule_applies p r \<longleftrightarrow> fr_Source r \<noteq> [] \<and> fr_Action r \<noteq> ACTION_UNSPECIFIED \<and>
     in_text (fr_Source r) (pk_src p) \<and> (fr_Destination r = [] \<or> in_text (fr_Destination r) (pk_dst p)) \<and>
     (fr_Protocol r = [] \<or> fr_Protocol r = pk_proto p \<and> (fr_Port r = [] \<or> in_ports (fr_Port r) (pk_dport p)))"

text \<open>The first rule of a configuration that applies decides.\<close>

definition config_verdict :: "FirewallRule list \<Rightarrow> packet \<Rightarrow> verdict option" where
  "config_verdict rules p =
     map_option (\<lambda>r. if fr_Action r = ACTION_ACCEPT then Accepted else Dropped) (find (rule_applies p) rules)"

text \<open>A rule as the core builds it: a source, maybe a destination, and a verdict.\<close>

definition plain_rule :: "cidr \<Rightarrow> cidr option \<Rightarrow> fw_action \<Rightarrow> FirewallRule" where
  "plain_rule src dst act = \<lparr>fr_Source = cidr_text src, fr_Destination = (case dst of None \<Rightarrow> [] | Some c \<Rightarrow> cidr_text c),
     fr_Protocol = [], fr_Port = [], fr_Action = act\<rparr>"

definition action_target :: "fw_action \<Rightarrow> target option" where
  "action_target a = (case a of ACTION_ACCEPT \<Rightarrow> Some ACCEPT | ACTION_DROP \<Rightarrow> Some DROP | ACTION_UNSPECIFIED \<Rightarrow> None)"

lemma cidr_text_ne [simp]: "cidr_text c \<noteq> []"
  by (simp add: cidr_text_def)

lemma cidr_text_slash [simp]: "CHR ''/'' \<in> set (cidr_text c)"
  by (simp add: cidr_text_def)

lemma parse_addr_text [simp]: "cidr_ok c \<Longrightarrow> parse_addr (cidr_text c) = Some c"
  by (simp add: parse_addr_def parse_cidr_text)

lemma parse_cidr_host: "parse_cidr s = Some c \<Longrightarrow> parse_ip4 (takeWhile (\<lambda>c. c \<noteq> CHR ''/'') s) \<noteq> None"
  by (cases "parse_ip4 (takeWhile (\<lambda>c. c \<noteq> CHR ''/'') s)") (simp_all add: parse_cidr_def Let_def split: if_splits)

lemma parse_addr_host:
  assumes "parse_addr s \<noteq> None"
  shows "parse_ip4 (takeWhile (\<lambda>c. c \<noteq> CHR ''/'') s) \<noteq> None"
proof (cases "CHR ''/'' \<in> set s")
  case True
  then show ?thesis using assms parse_cidr_host [of s] by (auto simp: parse_addr_def)
next
  case False
  then have all: "takeWhile (\<lambda>c. c \<noteq> CHR ''/'') s = s" by auto
  show ?thesis unfolding all using assms False by (simp add: parse_addr_def)
qed

text \<open>What a readable rule becomes matches what it applies to.\<close>

lemma rule_spec_None: "rule_spec r = None \<longleftrightarrow> fr_Source r = [] \<or> fr_Action r = ACTION_UNSPECIFIED"
  by (auto simp: rule_spec_def buildRuleArgs_def Let_def split: fw_action.splits)

lemma parse_opts_steps:
  "parse_opts (''-s'' # y # xs) r = (case parse_addr y of None \<Rightarrow> None | Some c \<Rightarrow> parse_opts xs (r\<lparr>ru_src := Some c\<rparr>))"
  "parse_opts (''-d'' # y # xs) r = (case parse_addr y of None \<Rightarrow> None | Some c \<Rightarrow> parse_opts xs (r\<lparr>ru_dst := Some c\<rparr>))"
  "parse_opts (''-p'' # y # xs) r = (if y \<in> protocols then parse_opts xs (r\<lparr>ru_proto := Some y\<rparr>) else None)"
  "ru_proto r \<in> Some ` port_protocols \<Longrightarrow> parse_opts (''--dport'' # y # xs) r =
     (case parse_ports y of None \<Rightarrow> None | Some ps \<Rightarrow> parse_opts xs (r\<lparr>ru_dport := Some ps\<rparr>))"
  "parse_opts (''-j'' # y # xs) r = parse_opts xs (r\<lparr>ru_target := Some (target_of y)\<rparr>)"
  by simp_all

definition read_rule :: "FirewallRule \<Rightarrow> fw_rule" where
  "read_rule r = \<lparr>ru_src = parse_addr (fr_Source r),
     ru_dst = (if fr_Destination r = [] then None else parse_addr (fr_Destination r)),
     ru_proto = (if fr_Protocol r = [] then None else Some (fr_Protocol r)),
     ru_dport = (if fr_Protocol r = [] \<or> fr_Port r = [] then None else parse_ports (fr_Port r)),
     ru_established = False, ru_target = Some (if fr_Action r = ACTION_ACCEPT then ACCEPT else DROP)\<rparr>"

lemma rule_spec_parse:
  assumes "rule_readable r" "rule_spec r = Some spec"
  shows "parse_spec spec = Some (read_rule r)"
proof -
  define tail where "tail = [''-j'', if fr_Action r = ACTION_ACCEPT then ''ACCEPT'' else ''DROP'']"
  have on: "fr_Source r \<noteq> []" "fr_Action r \<noteq> ACTION_UNSPECIFIED"
    using assms(2) rule_spec_None [of r] by auto
  have spec: "spec = [''-s'', fr_Source r] @ (if fr_Destination r \<noteq> [] then [''-d'', fr_Destination r] else []) @
      (if fr_Protocol r \<noteq> [] then [''-p'', fr_Protocol r] @ (if fr_Port r \<noteq> [] then [''--dport'', fr_Port r] else []) else []) @ tail"
    using assms(2) on by (cases "fr_Action r") (simp_all add: rule_spec_def buildRuleArgs_def Let_def tail_def)
  have jump: "parse_opts tail ru = Some (ru\<lparr>ru_target := Some (if fr_Action r = ACTION_ACCEPT then ACCEPT else DROP)\<rparr>)" for ru
    by (simp add: tail_def parse_opts_steps target_of_def del: parse_opts.simps(3))
  obtain c where "parse_addr (fr_Source r) = Some c" using assms(1) on by (auto simp: rule_readable_def)
  then show ?thesis
    using assms(1) on
    by (auto simp: spec rule_readable_def parse_spec_def parse_opts_steps jump read_rule_def empty_rule_def
        simp del: parse_opts.simps(3))
qed

lemma rule_spec_reads:
  assumes "rule_readable r" "rule_spec r = Some spec"
  shows "\<exists>ru. parse_spec spec = Some ru \<and> (\<forall>fl p. rule_matches fl ru p \<longleftrightarrow> rule_applies p r) \<and>
    ru_target ru = Some (if fr_Action r = ACTION_ACCEPT then ACCEPT else DROP)"
proof -
  have "fr_Source r \<noteq> []" "fr_Action r \<noteq> ACTION_UNSPECIFIED"
    using assms(2) rule_spec_None [of r] by auto
  then have "rule_matches fl (read_rule r) p \<longleftrightarrow> rule_applies p r" for fl p
    using assms(1)
    by (auto simp: rule_readable_def read_rule_def rule_matches_def rule_applies_def opt_matches_def in_text_def in_ports_def)
  then show ?thesis
    using rule_spec_parse [OF assms] by (intro exI [of _ "read_rule r"]) (simp add: read_rule_def)
qed

lemma plain_rule_readable: "cidr_ok src \<Longrightarrow> pred_option cidr_ok dst \<Longrightarrow> rule_readable (plain_rule src dst act)"
  by (cases dst) (simp_all add: rule_readable_def plain_rule_def)

lemma plain_rule_spec:
  assumes "cidr_ok src" "pred_option cidr_ok dst" "act \<noteq> ACTION_UNSPECIFIED"
  shows "\<exists>spec. rule_spec (plain_rule src dst act) = Some spec \<and>
    parse_spec spec = Some (empty_rule\<lparr>ru_src := Some src, ru_dst := dst, ru_target := action_target act\<rparr>)"
  using assms
  by (cases act; cases dst)
    (simp_all add: rule_spec_def buildRuleArgs_def plain_rule_def Let_def parse_spec_def
      target_of_def action_target_def empty_rule_def)

lemma installed_specs_Nil [simp]: "installed_specs [] = []"
  by (simp add: installed_specs_def)

lemma installed_specs_Cons:
  "installed_specs (r # rs) =
     (case rule_spec r of None \<Rightarrow> [] | Some spec \<Rightarrow> if parse_spec spec \<noteq> None then [spec] else []) @
     installed_specs rs"
  by (simp add: installed_specs_def split: option.split)

lemma installed_specs_append [simp]:
  "installed_specs (xs @ ys) = installed_specs xs @ installed_specs ys"
  by (induction xs) (simp_all add: installed_specs_Cons)

lemma chain_verdict_append:
  "chain_verdict fl (xs @ ys) p = (case chain_verdict fl xs p of None \<Rightarrow> chain_verdict fl ys p | v \<Rightarrow> v)"
  by (induction fl xs p rule: chain_verdict.induct)
    (auto split: option.split target.split)

section \<open>Verdicts of plain rules\<close>

type_synonym plain = "cidr \<times> cidr option \<times> fw_action"

definition plain_ok :: "plain \<Rightarrow> bool" where
  "plain_ok r \<longleftrightarrow> cidr_ok (fst r) \<and> pred_option cidr_ok (fst (snd r)) \<and> snd (snd r) \<noteq> ACTION_UNSPECIFIED"

definition plain_matches :: "plain \<Rightarrow> packet \<Rightarrow> bool" where
  "plain_matches r p \<longleftrightarrow> in_cidr (pk_src p) (fst r) \<and> opt_matches (in_cidr (pk_dst p)) (fst (snd r))"

text \<open>First match over the rules as the core means them.\<close>

fun rules_verdict :: "plain list \<Rightarrow> packet \<Rightarrow> verdict option" where
  "rules_verdict [] p = None"
| "rules_verdict (r # rs) p =
     (if plain_matches r p then Some (if snd (snd r) = ACTION_ACCEPT then Accepted else Dropped)
      else rules_verdict rs p)"

definition render_rules :: "plain list \<Rightarrow> FirewallRule list" where
  "render_rules rs = map (\<lambda>(src, dst, act). plain_rule src dst act) rs"

lemma render_rules_simps [simp]:
  "render_rules [] = []" "render_rules ((s, d, a) # rs) = plain_rule s d a # render_rules rs"
  by (simp_all add: render_rules_def)

text \<open>The text that travels to the gateway means the rules the core computed.\<close>

lemma rendered_verdict:
  "\<forall>r \<in> set rs. plain_ok r \<Longrightarrow> chain_verdict fl (installed_specs (render_rules rs)) p = rules_verdict rs p"
proof (induction rs)
  case (Cons r rs)
  obtain src dst act where r: "r = (src, dst, act)" by (metis prod_cases3)
  obtain spec where spec: "rule_spec (plain_rule src dst act) = Some spec"
      "parse_spec spec = Some (empty_rule\<lparr>ru_src := Some src, ru_dst := dst, ru_target := action_target act\<rparr>)"
    using plain_rule_spec [of src dst act] Cons.prems by (auto simp: r plain_ok_def)
  have act: "act = ACTION_ACCEPT \<or> act = ACTION_DROP"
    using Cons.prems by (cases act) (auto simp: r plain_ok_def)
  then show ?case
    using Cons spec
    by (auto simp: r installed_specs_Cons rule_matches_def plain_matches_def opt_matches_def empty_rule_def
        action_target_def)
qed simp

lemma installed_verdict:
  "\<forall>r \<in> set rules. rule_readable r \<Longrightarrow> chain_verdict fl (installed_specs rules) p = config_verdict rules p"
proof (induction rules)
  case (Cons r rules)
  show ?case
  proof (cases "rule_spec r")
    case None
    then have "\<not> rule_applies p r" by (auto simp: rule_applies_def rule_spec_None)
    then show ?thesis
      using Cons None by (simp add: installed_specs_Cons config_verdict_def)
  next
    case (Some spec)
    then show ?thesis
      using Cons rule_spec_reads [OF _ Some]
      by (auto simp: installed_specs_Cons config_verdict_def)
  qed
qed (simp add: config_verdict_def)

lemma conntrack_spec_parse:
  "parse_spec conntrack_spec = Some (empty_rule\<lparr>ru_established := True, ru_target := Some ACCEPT\<rparr>)"
  by (simp add: parse_spec_def conntrack_spec_def empty_rule_def target_of_def)

lemma chain_verdict_conntrack:
  "chain_verdict fl (conntrack_spec # specs) p =
     (if established fl p then Some Accepted else chain_verdict fl specs p)"
  by (simp add: conntrack_spec_parse rule_matches_def opt_matches_def empty_rule_def)

definition dropped_sources :: "FirewallRule list \<Rightarrow> ip4 set" where
  "dropped_sources rules = {w. \<exists>r \<in> set rules. fr_Action r = ACTION_DROP \<and> fr_Source r \<noteq> [] \<and>
     parse_ip4 (hd (go_split CHR ''/'' (fr_Source r))) = Some w}"

lemma source_host: "hd (go_split CHR ''/'' (cidr_text c)) = host (c_net c)"
  using host_no_slash [of "c_net c"] by (simp add: cidr_text_def go_split_append)

lemma hd_go_split: "hd (go_split c s) = takeWhile (\<lambda>x. x \<noteq> c) s"
  by (induction c s rule: go_split.induct) (auto split: list.split)

lemma readable_source:
  "rule_readable r \<Longrightarrow> fr_Action r = ACTION_DROP \<Longrightarrow> fr_Source r \<noteq> [] \<Longrightarrow>
   parse_ip4 (hd (go_split CHR ''/'' (fr_Source r))) \<noteq> None"
  using parse_addr_host [of "fr_Source r"] by (auto simp: rule_readable_def hd_go_split)

lemma render_readable: "\<forall>r \<in> set rs. plain_ok r \<Longrightarrow> \<forall>r \<in> set (render_rules rs). rule_readable r"
  by (auto simp: render_rules_def plain_ok_def plain_rule_readable)

lemma dropped_render:
  "dropped_sources (render_rules rs) = {w. \<exists>src dst. (src, dst, ACTION_DROP) \<in> set rs \<and> c_net src = w}"
  by (force simp: dropped_sources_def render_rules_def plain_rule_def source_host)

section \<open>What the commands leave behind\<close>

lemma jump_spec_parse:
  "parse_spec [''-j'', outpostChain] = Some (empty_rule\<lparr>ru_target := Some (Jump outpostChain)\<rparr>)"
  "parse_spec [''-j'', smartChain] = Some (empty_rule\<lparr>ru_target := Some (Jump smartChain)\<rparr>)"
  by (simp_all add: parse_spec_def outpostChain_def smartChain_def empty_rule_def target_of_def)

lemma chain_names [simp]:
  "outpostChain \<noteq> smartChain" "smartChain \<noteq> outpostChain" "outpostChain \<noteq> ''FORWARD''" "''FORWARD'' \<noteq> outpostChain"
  "smartChain \<noteq> ''FORWARD''" "''FORWARD'' \<noteq> smartChain"
  by (simp_all add: outpostChain_def smartChain_def)

definition smart_spec :: "SmartRouteRule \<Rightarrow> string list option" where
  "smart_spec r =
     (if sm_EntryType r = ''cidr'' \<and> sm_Action r = ''block'' then Some [''-d'', sm_Value r, ''-j'', ''DROP'']
      else if sm_EntryType r = ''cidr'' \<and> sm_Action r = ''direct'' then Some [''-d'', sm_Value r, ''-j'', ''ACCEPT'']
      else None)"

text \<open>The values that are read, and the first route that has the destination of a packet.\<close>

definition smart_route :: "SmartRouteRule \<Rightarrow> bool" where
  "smart_route r \<longleftrightarrow> sm_EntryType r = ''cidr'' \<and> sm_Action r \<in> {''block'', ''direct''}"

definition smart_readable :: "SmartRouteRule list \<Rightarrow> bool" where
  "smart_readable rules \<longleftrightarrow> (\<forall>r \<in> set rules. smart_route r \<longrightarrow> parse_addr (sm_Value r) \<noteq> None)"

definition smart_verdict :: "SmartRouteRule list \<Rightarrow> packet \<Rightarrow> verdict option" where
  "smart_verdict rules p =
     map_option (\<lambda>r. if sm_Action r = ''direct'' then Accepted else Dropped)
       (find (\<lambda>r. smart_route r \<and> in_text (sm_Value r) (pk_dst p)) rules)"

lemma smart_spec_None: "smart_spec r = None \<longleftrightarrow> \<not> smart_route r"
  by (auto simp: smart_spec_def smart_route_def)

lemma smart_spec_reads:
  assumes "smart_spec r = Some spec" "parse_addr (sm_Value r) \<noteq> None"
  shows "\<exists>ru. parse_spec spec = Some ru \<and> (\<forall>fl p. rule_matches fl ru p \<longleftrightarrow> in_text (sm_Value r) (pk_dst p)) \<and>
    ru_target ru = Some (if sm_Action r = ''direct'' then ACCEPT else DROP)"
  using assms
  by (auto simp: smart_spec_def parse_spec_def empty_rule_def target_of_def rule_matches_def opt_matches_def in_text_def
      split: if_splits)

lemma smart_chain_verdict:
  "smart_readable rules \<Longrightarrow> chain_verdict fl (List.map_filter smart_spec rules) p = smart_verdict rules p"
proof (induction rules)
  case (Cons r rules)
  then have IH: "chain_verdict fl (List.map_filter smart_spec rules) p = smart_verdict rules p"
    by (simp add: smart_readable_def)
  show ?case
  proof (cases "smart_spec r")
    case None
    then have "\<not> smart_route r" by (simp add: smart_spec_None)
    then show ?thesis
      using IH None by (simp add: smart_verdict_def)
  next
    case (Some spec)
    moreover have "smart_route r" using Some smart_spec_None [of r] by auto
    ultimately show ?thesis
      using IH smart_spec_reads [OF Some] Cons.prems
      by (auto simp: smart_verdict_def smart_readable_def)
  qed
qed (simp add: smart_verdict_def)

lemma apply_smart_rules_Cons:
  "apply_smart_rules run (r # rules) k =
     apply_smart_rules run rules (case smart_spec r of None \<Rightarrow> k | Some spec \<Rightarrow> fst (run (''-A'' # smartChain # spec) k))"
  by (simp add: smart_spec_def)

context netfilter
begin

lemma apply_rules_effect:
  "chain k outpostChain = Some cs \<Longrightarrow> \<forall>r \<in> set rules. rule_readable r \<Longrightarrow>
   chain (apply_rules run rules k) = (chain k)(outpostChain := Some (cs @ installed_specs rules)) \<and>
   flows (apply_rules run rules k) = flows k"
proof (induction rules arbitrary: k cs)
  case (Cons r rules)
  show ?case
  proof (cases "rule_spec r")
    case None
    then show ?thesis using Cons by (simp add: buildRuleArgs_spec installed_specs_Cons)
  next
    case (Some spec)
    let ?k = "fst (run (''-A'' # outpostChain # spec) k)"
    have parse: "parse_spec spec \<noteq> None"
      using rule_spec_reads [OF _ Some] Cons.prems(2) by auto
    have "chain ?k = (chain k)(outpostChain := Some (cs @ [spec]))" "flows ?k = flows k"
      using append_rule [OF Cons.prems(1) parse] run_flows by simp_all
    then show ?thesis
      using Cons.IH [of ?k "cs @ [spec]"] Cons.prems(2) Some parse
      by (simp add: buildRuleArgs_spec installed_specs_Cons fun_eq_iff)
  qed
qed (simp add: fun_upd_idem)

lemma apply_nat_effect: "chain (apply_nat run rt cfg k) = chain k \<and> flows (apply_nat run rt cfg k) = flows k"
proof -
  have "chain (fst (run (''-t'' # ''nat'' # a) k')) = chain k' \<and> flows (fst (run (''-t'' # ''nat'' # a) k')) = flows k'"
    for a k' by (simp add: other_table run_flows)
  then show ?thesis by (simp add: apply_nat_def Let_def case_prod_beta)
qed

lemma flush_effect:
  assumes "\<forall>r \<in> set rules. rule_readable r"
    and "\<forall>src \<in> set seen. \<forall>w. parse_ip4 (hd (go_split CHR ''/'' src)) = Some w \<longrightarrow> w \<notin> fst ` flows k"
  shows "chain (flushConntrackForDroppedSources ct_delete seen rules k) = chain k \<and>
   flows (flushConntrackForDroppedSources ct_delete seen rules k) =
     {fl \<in> flows k. fst fl \<notin> dropped_sources rules}"
  using assms
proof (induction rules arbitrary: seen k)
  case Nil
  then show ?case by (simp add: dropped_sources_def)
next
  case (Cons r rules)
  have sp: "\<forall>r \<in> set rules. rule_readable r" using Cons.prems(1) by simp
  show ?case
  proof (cases "fr_Action r \<noteq> ACTION_DROP \<or> fr_Source r = [] \<or> fr_Source r \<in> set seen")
    case True
    then have "{fl \<in> flows k. fst fl \<notin> dropped_sources rules} = {fl \<in> flows k. fst fl \<notin> dropped_sources (r # rules)}"
      using Cons.prems(2) by (auto simp: dropped_sources_def)
    then show ?thesis using Cons.IH [OF sp Cons.prems(2)] True by simp
  next
    case False
    then obtain w where w: "parse_ip4 (hd (go_split CHR ''/'' (fr_Source r))) = Some w"
      using readable_source [of r] Cons.prems(1) by auto
    let ?k = "ct_delete (hd (go_split CHR ''/'' (fr_Source r))) k"
    have k: "chain ?k = chain k" "flows ?k = {fl \<in> flows k. fst fl \<noteq> w}"
      using delete_chain delete_flows [OF w] by auto
    have "\<forall>src \<in> set (fr_Source r # seen). \<forall>v. parse_ip4 (hd (go_split CHR ''/'' src)) = Some v \<longrightarrow> v \<notin> fst ` flows ?k"
      using Cons.prems(2) w by (auto simp: k)
    note IH = Cons.IH [OF sp this]
    have "{fl \<in> flows ?k. fst fl \<notin> dropped_sources rules} = {fl \<in> flows k. fst fl \<notin> dropped_sources (r # rules)}"
      using False w by (auto simp: k dropped_sources_def)
    then show ?thesis using IH False k by simp
  qed
qed

lemma apply_effect:
  assumes "chain k outpostChain \<noteq> None" "\<forall>r \<in> set (fc_Rules cfg). rule_readable r"
    and "Apply run ct_delete rt (Some cfg) k = (k', ok)"
  shows "ok \<and> chain k' = (chain k)(outpostChain := Some (conntrack_spec # installed_specs (fc_Rules cfg))) \<and>
    flows k' = {fl \<in> flows k. fst fl \<notin> dropped_sources (fc_Rules cfg)}"
proof -
  obtain k1 b1 where r1: "run [''-F'', outpostChain] k = (k1, b1)" by force
  have k1: "b1" "chain k1 = (chain k)(outpostChain := Some [])" "flows k1 = flows k"
    using flush_chain [of outpostChain k] run_flows [of "[''-F'', outpostChain]" k] assms(1) r1 by simp_all
  obtain k2 b where r2: "run (''-A'' # outpostChain # conntrack_spec) k1 = (k2, b)" by force
  have k2: "chain k2 = (chain k)(outpostChain := Some [conntrack_spec])" "flows k2 = flows k"
    using append_rule [of k1 outpostChain "[]" conntrack_spec] run_flows [of "''-A'' # outpostChain # conntrack_spec" k1] k1 r2
    by (simp_all add: conntrack_spec_parse)
  define k4 where "k4 = apply_nat run rt cfg (apply_rules run (fc_Rules cfg) k2)"
  have k4: "chain k4 = (chain k)(outpostChain := Some (conntrack_spec # installed_specs (fc_Rules cfg)))"
      "flows k4 = flows k"
    using apply_rules_effect [of k2 "[conntrack_spec]" "fc_Rules cfg"] assms(2) k2 apply_nat_effect
    by (simp_all add: k4_def)
  have "k' = flushConntrackForDroppedSources ct_delete [] (fc_Rules cfg) k4" "ok"
    using assms(3) r1 k1(1) r2 by (auto simp: Apply_def Let_def k4_def)
  then show ?thesis using flush_effect [OF assms(2), of "[]" k4] k4 by simp
qed

lemma smart_rules_effect:
  "chain k smartChain = Some cs \<Longrightarrow> smart_readable rules \<Longrightarrow>
   chain (apply_smart_rules run rules k) = (chain k)(smartChain := Some (cs @ List.map_filter smart_spec rules)) \<and>
   flows (apply_smart_rules run rules k) = flows k"
proof (induction rules arbitrary: k cs)
  case (Cons r rules)
  have readable: "smart_readable rules" using Cons.prems(2) by (simp add: smart_readable_def)
  show ?case
  proof (cases "smart_spec r")
    case None
    then show ?thesis
      using Cons.IH [OF Cons.prems(1) readable] unfolding apply_smart_rules_Cons by simp
  next
    case (Some spec)
    let ?k = "fst (run (''-A'' # smartChain # spec) k)"
    have "parse_spec spec \<noteq> None"
      using smart_spec_reads [OF Some] smart_spec_None [of r] Some Cons.prems(2) by (auto simp: smart_readable_def)
    then have "chain ?k = (chain k)(smartChain := Some (cs @ [spec]))" "flows ?k = flows k"
      using append_rule [OF Cons.prems(1)] run_flows by simp_all
    then show ?thesis
      using Cons.IH [of ?k "cs @ [spec]"] readable Some unfolding apply_smart_rules_Cons
      by (simp add: fun_eq_iff)
  qed
qed (simp add: fun_upd_idem)

lemma smart_effect:
  assumes "chain k ''FORWARD'' = Some fs" "rules \<noteq> []" "smart_readable rules" "ApplySmartRoutes run (Some rules) k = (k', ok)"
  shows "ok \<and> chain k' = (chain k)(smartChain := Some (List.map_filter smart_spec rules),
      ''FORWARD'' := Some (if [''-j'', smartChain] \<in> set fs then fs else [''-j'', smartChain] # fs)) \<and>
    flows k' = flows k"
proof -
  define k1 where "k1 = fst (run [''-N'', smartChain] k)"
  have k1: "chain k1 smartChain \<noteq> None" "\<And>c. c \<noteq> smartChain \<Longrightarrow> chain k1 c = chain k c" "flows k1 = flows k"
    using new_chain [of smartChain k] run_flows by (auto simp: k1_def)
  obtain k2 b2 where r2: "run [''-F'', smartChain] k1 = (k2, b2)" by force
  have k2: "b2" "chain k2 = (chain k1)(smartChain := Some [])" "flows k2 = flows k"
    using flush_chain [of smartChain k1] run_flows [of "[''-F'', smartChain]" k1] k1 r2 by simp_all
  obtain k3 b where r3: "run [''-C'', ''FORWARD'', ''-j'', smartChain] k2 = (k3, b)" by force
  have k3: "chain k3 = chain k2" "b = ([''-j'', smartChain] \<in> set fs)" "flows k3 = flows k"
    using check_rule [of "''FORWARD''" "[''-j'', smartChain]" k2]
      run_flows [of "[''-C'', ''FORWARD'', ''-j'', smartChain]" k2] k2 k1(2) assms(1) r3
    by simp_all
  have ins: "snd (run [''-I'', ''FORWARD'', ''1'', ''-j'', smartChain] k3)"
      "chain (fst (run [''-I'', ''FORWARD'', ''1'', ''-j'', smartChain] k3)) =
       (chain k3)(''FORWARD'' := Some ([''-j'', smartChain] # fs))"
    using insert_rule [of k3 "''FORWARD''" fs "[''-j'', smartChain]"] k3 k2 k1 assms(1)
    by (auto simp: jump_spec_parse)
  define k4 where "k4 = (if b then k3 else fst (run [''-I'', ''FORWARD'', ''1'', ''-j'', smartChain] k3))"
  have k4: "chain k4 smartChain = Some []" "flows k4 = flows k"
      "chain k4 = (chain k)(smartChain := Some [],
        ''FORWARD'' := Some (if [''-j'', smartChain] \<in> set fs then fs else [''-j'', smartChain] # fs))"
    using k1 k2 k3 ins run_flows assms(1) by (auto simp: k4_def fun_eq_iff)
  have "k' = apply_smart_rules run rules k4 \<and> ok"
    using assms(2,4) r2 k2(1) r3 ins unfolding ApplySmartRoutes_def k1_def [symmetric]
    by (cases b) (auto simp: Let_def k4_def case_prod_beta)
  then show ?thesis using smart_rules_effect [OF k4(1) assms(3)] k4 by (auto simp: fun_eq_iff)
qed

lemma init_effect:
  assumes "chain k ''FORWARD'' = Some fs" "Init run k = (k', ok)"
  shows "ok \<and> chain k' = (chain k)(
      outpostChain := (case chain k outpostChain of None \<Rightarrow> Some [] | c \<Rightarrow> c),
      ''FORWARD'' := Some (if [''-j'', outpostChain] \<in> set fs then fs else [''-j'', outpostChain] # fs)) \<and>
    flows k' = flows k"
proof -
  define k1 where "k1 = fst (run [''-N'', outpostChain] k)"
  have k1: "chain k1 = (chain k)(outpostChain := (case chain k outpostChain of None \<Rightarrow> Some [] | c \<Rightarrow> c))"
      "flows k1 = flows k"
    using new_chain [of outpostChain k] run_flows by (auto simp: k1_def fun_eq_iff split: option.split)
  obtain k2 b where r2: "run [''-C'', ''FORWARD'', ''-j'', outpostChain] k1 = (k2, b)" by force
  have k2: "chain k2 = chain k1" "b = ([''-j'', outpostChain] \<in> set fs)" "flows k2 = flows k"
    using check_rule [of "''FORWARD''" "[''-j'', outpostChain]" k1]
      run_flows [of "[''-C'', ''FORWARD'', ''-j'', outpostChain]" k1] k1 assms(1) r2
    by simp_all
  have ins: "snd (run [''-I'', ''FORWARD'', ''1'', ''-j'', outpostChain] k2)"
      "chain (fst (run [''-I'', ''FORWARD'', ''1'', ''-j'', outpostChain] k2)) =
       (chain k2)(''FORWARD'' := Some ([''-j'', outpostChain] # fs))"
    using insert_rule [of k2 "''FORWARD''" fs "[''-j'', outpostChain]"] k2 k1 assms(1)
    by (auto simp: jump_spec_parse)
  have "k' = (if b then k2 else fst (run [''-I'', ''FORWARD'', ''1'', ''-j'', outpostChain] k2)) \<and> ok"
    using assms(2) r2 ins(1) unfolding Init_def
    by (cases b) (auto simp: Let_def k1_def [symmetric] case_prod_beta)
  then show ?thesis
    using k1 k2 ins(2) run_flows [of "[''-I'', ''FORWARD'', ''1'', ''-j'', outpostChain]" k2] assms(1)
    by (cases b) (simp_all add: fun_eq_iff)
qed

end

section \<open>Properties\<close>

definition plain_config :: "plain list \<Rightarrow> FirewallConfig" where
  "plain_config rs = \<lparr>fc_Rules = render_rules rs, fc_NatEnabled = True, fc_NatInterface = []\<rparr>"

text \<open>
  C4. Applying a configuration of readable rules succeeds when the chain exists and replaces its
  rules by exactly the given ones: afterwards a packet of a tracked connection is accepted, any
  other gets the verdict of the first rule that applies to it by source, destination, protocol and
  destination port, and no verdict when none applies; the connections opened by every address that
  a drop rule names as its source are forgotten, and the other chains are untouched.
\<close>

theorem apply_enforces_rules:
  assumes "netfilter run chain ct_delete flows" "chain k outpostChain \<noteq> None" "\<forall>r \<in> set (fc_Rules cfg). rule_readable r"
    and "Apply run ct_delete rt (Some cfg) k = (k', ok)"
  shows "ok \<and> (\<exists>specs. chain k' = (chain k)(outpostChain := Some specs) \<and>
      (\<forall>p. chain_verdict (flows k') specs p =
             (if established (flows k') p then Some Accepted else config_verdict (fc_Rules cfg) p))) \<and>
    flows k' = {fl \<in> flows k. \<not> (\<exists>r \<in> set (fc_Rules cfg). fr_Action r = ACTION_DROP \<and> fr_Source r \<noteq> [] \<and>
       parse_ip4 (takeWhile (\<lambda>c. c \<noteq> CHR ''/'') (fr_Source r)) = Some (fst fl))}"
proof -
  note eff = netfilter.apply_effect [OF assms]
  have "chain_verdict fl (conntrack_spec # installed_specs (fc_Rules cfg)) p =
      (if established fl p then Some Accepted else config_verdict (fc_Rules cfg) p)" for fl p
    using installed_verdict [OF assms(3)] by (simp only: chain_verdict_conntrack)
  then show ?thesis using eff by (auto simp: dropped_sources_def hd_go_split)
qed

definition sample_kernel :: ref_kernel where
  "sample_kernel = \<lparr>rk_chains = [outpostChain \<mapsto> [], ''FORWARD'' \<mapsto> [[''-j'', outpostChain]]],
     rk_flows = {(0x0A080002, 0x0A0A0005)}\<rparr>"

definition sample_rules :: "plain list" where
  "sample_rules = [(host_cidr 0x0A080002, Some \<lparr>c_net = 0x0A0A0000, c_len = 16\<rparr>, ACTION_ACCEPT),
                   (host_cidr 0x0A080002, None, ACTION_DROP)]"

definition sample_packet :: "ip4 \<Rightarrow> packet" where
  "sample_packet dst = \<lparr>pk_src = 0x0A080002, pk_dst = dst, pk_proto = ''tcp'', pk_dport = 443\<rparr>"

lemma sample_rules_ok: "\<forall>r \<in> set sample_rules. plain_ok r"
  by (simp add: sample_rules_def plain_ok_def cidr_ok_def mask_ip_def host_cidr_def)

text \<open>Web traffic to one network is accepted, everything else of the device is dropped.\<close>

definition web_config :: FirewallConfig where
  "web_config = \<lparr>fc_Rules =
       [\<lparr>fr_Source = ''10.8.0.2/32'', fr_Destination = ''10.10.0.0/16'', fr_Protocol = ''tcp'', fr_Port = ''80:443'', fr_Action = ACTION_ACCEPT\<rparr>,
        \<lparr>fr_Source = ''10.8.0.2'', fr_Destination = [], fr_Protocol = [], fr_Port = [], fr_Action = ACTION_DROP\<rparr>],
     fc_NatEnabled = True, fc_NatInterface = []\<rparr>"

lemmas text_evals = parse_addr_def parse_cidr_def parse_ip4_def parse_octet_def parse_ports_def parse_port_def is_digit_def
  digit_val_def ip_of_octets_def  mask_ip_def host_cidr_def protocols_def port_protocols_def

lemma web_texts:
  "parse_addr ''10.8.0.2/32'' = Some (host_cidr 0x0A080002)" "parse_addr ''10.8.0.2'' = Some (host_cidr 0x0A080002)"
  "parse_addr ''10.10.0.0/16'' = Some \<lparr>c_net = 0x0A0A0000, c_len = 16\<rparr>" "parse_ports ''80:443'' = Some (80, 443)"
  by (simp_all add: text_evals)

theorem apply_enforces_rules_witness:
  "(case Apply ref_run ref_ct_delete None (Some web_config) sample_kernel of
      (k', ok) \<Rightarrow> ok \<and> rk_flows k' = {} \<and>
        chain_verdict {} (the (rk_chains k' outpostChain)) (sample_packet 0x0A0A0005) = Some Accepted \<and>
        chain_verdict {} (the (rk_chains k' outpostChain)) ((sample_packet 0x0A0A0005)\<lparr>pk_dport := 22\<rparr>) = Some Dropped \<and>
        chain_verdict {} (the (rk_chains k' outpostChain)) ((sample_packet 0x0A0A0005)\<lparr>pk_proto := ''udp''\<rparr>) = Some Dropped)"
proof -
  obtain k' ok where k': "Apply ref_run ref_ct_delete None (Some web_config) sample_kernel = (k', ok)"
    by force
  have ch: "rk_chains sample_kernel outpostChain \<noteq> None" by (simp add: sample_kernel_def)
  have rd: "\<forall>r \<in> set (fc_Rules web_config). rule_readable r"
    by (simp add: web_config_def rule_readable_def web_texts protocols_def port_protocols_def)
  note eff = apply_enforces_rules [OF ref.netfilter_axioms ch rd k']
  have "parse_ip4 ''10.8.0.2'' = Some 0x0A080002" using web_texts(2) by (auto simp: parse_addr_def host_cidr_def)
  then have fl: "rk_flows k' = {}"
    using eff by (auto simp: sample_kernel_def web_config_def)
  have "config_verdict (fc_Rules web_config) (sample_packet 0x0A0A0005) = Some Accepted"
    "config_verdict (fc_Rules web_config) ((sample_packet 0x0A0A0005)\<lparr>pk_dport := 22\<rparr>) = Some Dropped"
    "config_verdict (fc_Rules web_config) ((sample_packet 0x0A0A0005)\<lparr>pk_proto := ''udp''\<rparr>) = Some Dropped"
    by (simp_all add: config_verdict_def web_config_def rule_applies_def in_text_def in_ports_def web_texts sample_packet_def
        in_cidr_def mask_ip_def host_cidr_def)
  then show ?thesis using eff fl by (auto simp: k' established_def)
qed

text \<open>
  C30. The smart routes are installed in front of the access rules and without a source: once they
  are applied, the first route of action direct or block that contains the destination decides
  every packet, whoever sent it and whatever the access chain says, so a direct route overrides
  the drop rules of blocked and unauthorised devices. A packet without such a route goes on to the
  rules that were there before. This is for the chain hooked in by the call, or before it at the
  top of the FORWARD chain.
\<close>

theorem smart_route_overrides_acl:
  assumes "netfilter run chain ct_delete flows" "chain k ''FORWARD'' = Some fs"
    and "fs' = (if fs \<noteq> [] \<and> hd fs = [''-j'', smartChain] then tl fs else fs)" "fs' = fs \<longrightarrow> [''-j'', smartChain] \<notin> set fs"
    and "rules \<noteq> []" "smart_readable rules" "ApplySmartRoutes run (Some rules) k = (k', ok)"
  shows "ok \<and> chain k' outpostChain = chain k outpostChain \<and>
    (\<exists>now. chain k' ''FORWARD'' = Some now \<and>
       forward_verdict (flows k') (chain k') now p =
         (case smart_verdict rules p of Some v \<Rightarrow> Some v | None \<Rightarrow> forward_verdict (flows k') (chain k') fs' p))"
proof -
  have hooked: "(if [''-j'', smartChain] \<in> set fs then fs else [''-j'', smartChain] # fs) = [''-j'', smartChain] # fs'"
    using assms(3,4) by (cases fs) (auto split: if_splits)
  have eff: "ok" "chain k' = (chain k)(smartChain := Some (List.map_filter smart_spec rules),
      ''FORWARD'' := Some ([''-j'', smartChain] # fs'))"
    using netfilter.smart_effect [OF assms(1,2,5,6,7)] unfolding hooked by simp_all
  then have now: "chain k' ''FORWARD'' = Some ([''-j'', smartChain] # fs')" "chain k' outpostChain = chain k outpostChain"
      "chain k' smartChain = Some (List.map_filter smart_spec rules)"
    by simp_all
  show ?thesis
    using eff(1) now smart_chain_verdict [OF assms(6), of "flows k'" p]
    by (simp add: jump_spec_parse rule_matches_def opt_matches_def empty_rule_def)
qed

definition sample_routes :: SmartRouteConfig where
  "sample_routes =
     [\<lparr>sm_EntryType = ''domain'', sm_Value = ''example.org'', sm_Action = ''block'', sm_Priority = 0\<rparr>,
      \<lparr>sm_EntryType = ''cidr'', sm_Value = cidr_text (host_cidr 0x0A140005), sm_Action = ''direct'', sm_Priority = 1\<rparr>,
      \<lparr>sm_EntryType = ''cidr'', sm_Value = cidr_text (host_cidr 0x0A140006), sm_Action = ''block'', sm_Priority = 2\<rparr>,
      \<lparr>sm_EntryType = ''cidr'', sm_Value = cidr_text (host_cidr 0x0A140006), sm_Action = ''direct'', sm_Priority = 3\<rparr>]"

theorem smart_route_overrides_acl_witness:
  "(case ApplySmartRoutes ref_run (Some sample_routes) sample_kernel of
      (k', ok) \<Rightarrow> ok \<and> forward_verdict (rk_flows k') (rk_chains k') (the (rk_chains k' ''FORWARD'')) (sample_packet 0x0A140005) = Some Accepted \<and>
        forward_verdict (rk_flows k') (rk_chains k') (the (rk_chains k' ''FORWARD'')) (sample_packet 0x0A140006) = Some Dropped)"
proof -
  obtain k' ok where k': "ApplySmartRoutes ref_run (Some sample_routes) sample_kernel = (k', ok)"
    by force
  let ?fs = "[[''-j'', outpostChain]]"
  have fw: "rk_chains sample_kernel ''FORWARD'' = Some ?fs" by (simp add: sample_kernel_def)
  have fs: "?fs = (if ?fs \<noteq> [] \<and> hd ?fs = [''-j'', smartChain] then tl ?fs else ?fs)" by simp
  have nj: "?fs = ?fs \<longrightarrow> [''-j'', smartChain] \<notin> set ?fs" by simp
  have rules: "sample_routes \<noteq> []" "smart_readable sample_routes"
    by (simp_all add: sample_routes_def smart_readable_def smart_route_def)
  have "smart_verdict sample_routes (sample_packet 0x0A140005) = Some Accepted"
    "smart_verdict sample_routes (sample_packet 0x0A140006) = Some Dropped"
    by (simp_all add: smart_verdict_def sample_routes_def smart_route_def in_text_def sample_packet_def)
  then show ?thesis
    using smart_route_overrides_acl [OF ref.netfilter_axioms fw fs nj rules k', of "sample_packet 0x0A140005"]
      smart_route_overrides_acl [OF ref.netfilter_axioms fw fs nj rules k', of "sample_packet 0x0A140006"]
    by (auto simp: k')
qed

end
