(* ===== verification/Core_Firewall.thy ===== *)
theory Core_Firewall
  imports ZTNA_Trust Gateway_Firewall
begin

text \<open>
  What the core computes for the devices of a gateway (\<^verbatim>\<open>internal/core/grpc_gateway.go\<close>):
  its peers and its firewall rules, with the zero-trust blocks.

  Addresses stay values here and become text where the code hands them on; the text is injective
  (\<open>host_inject\<close>, \<open>cidr_text_inject\<close>), so maps keyed by it are maps keyed by the address, and the
  unique index on device addresses leaves no two devices under one key.
  \<open>f n\<close> says that the \<open>n\<close>-th statement fails.
\<close>

section \<open>Devices of a gateway\<close>

definition serves :: "db \<Rightarrow> uuid \<Rightarrow> device_row \<Rightarrow> bool" where
  "serves s gw d \<longleftrightarrow> (case d_network_id d of None \<Rightarrow> False | Some n \<Rightarrow> (gw, n) \<in> set (tb_gateway_networks s))"

definition serves_legacy :: "db \<Rightarrow> uuid \<Rightarrow> device_row \<Rightarrow> bool" where
  "serves_legacy s gw d \<longleftrightarrow> d_network_id d \<noteq> None \<and>
     (\<exists>g \<in> set (tb_gateways s). g_id g = gw \<and> g_network_id g = d_network_id d)"

definition connectable :: "device_row \<Rightarrow> bool" where
  "connectable d \<longleftrightarrow> d_is_approved d \<and> d_wireguard_pubkey d \<noteq> []"

definition gateway_devices :: "db \<Rightarrow> uuid \<Rightarrow> device_row list" where
  "gateway_devices s gw = filter (\<lambda>d. serves s gw d \<and> connectable d) (tb_devices s)"

definition legacy_devices :: "db \<Rightarrow> uuid \<Rightarrow> device_row list" where
  "legacy_devices s gw = filter (\<lambda>d. serves_legacy s gw d \<and> connectable d) (tb_devices s)"

definition fetchPeers :: "bool \<Rightarrow> uuid \<Rightarrow> db \<Rightarrow> Peer list option" where
  "fetchPeers fails gw s =
     (if fails then None
      else Some (map (\<lambda>(pk, ip). \<lparr>pe_PublicKey = pk, pe_AllowedIps = [host ip @ ''/32''],
                                 pe_PersistentKeepalive = 25, pe_Endpoint = []\<rparr>)
             (remdups (map (\<lambda>d. (d_wireguard_pubkey d, d_assigned_ip d))
                        (gateway_devices s gw @ legacy_devices s gw)))))"

section \<open>The firewall\<close>

text \<open>
  The pairs of device address and allowed network, by group rules or by administrator status. The
  query orders them by their texts; they end up in a map by device, and the order among the
  networks of one device, which is only the order of its accepting rules, is left out.
\<close>

definition acl_networks :: "db \<Rightarrow> uuid \<Rightarrow> network_row list" where
  "acl_networks s user =
     [n. (u, g) \<leftarrow> tb_user_groups s, u = user, a \<leftarrow> tb_network_acls s, a_group_id a = g,
         n \<leftarrow> tb_networks s, n_id n = a_network_id a, n_is_active n]"

definition admin_networks :: "db \<Rightarrow> uuid \<Rightarrow> network_row list" where
  "admin_networks s user =
     [n. u \<leftarrow> tb_users s, u_id u = user, u_is_admin u, n \<leftarrow> tb_networks s, n_is_active n]"

definition acl_rows :: "db \<Rightarrow> uuid \<Rightarrow> (ip4 \<times> cidr) list" where
  "acl_rows s gw =
     remdups ([(d_assigned_ip d, n_address n). d \<leftarrow> gateway_devices s gw, n \<leftarrow> acl_networks s (d_user_id d)] @
              [(d_assigned_ip d, n_address n). d \<leftarrow> gateway_devices s gw, n \<leftarrow> admin_networks s (d_user_id d)])"

definition cidrs_of :: "(ip4 \<times> cidr) list \<Rightarrow> ip4 \<Rightarrow> cidr list" where
  "cidrs_of rows ip = map snd (filter (\<lambda>r. fst r = ip) rows)"

definition all_device_rows :: "db \<Rightarrow> uuid \<Rightarrow> (ip4 \<times> string) list" where
  "all_device_rows s gw =
     remdups (map (\<lambda>d. (d_assigned_ip d, d_wireguard_pubkey d)) (gateway_devices s gw @ legacy_devices s gw))"

record devicePosture =
  dvp_IP :: ip4
  dvp_NetworkID :: uuid
  dvp_TrustScore :: int
  dvp_TrustLevel :: string
  dvp_flags :: device_flags

definition latest_trust :: "db \<Rightarrow> uuid \<Rightarrow> int \<times> string" where
  "latest_trust s dev =
     (case latest_by ts_evaluated_at (filter (\<lambda>t. ts_device_id t = dev) (tb_trust_scores s)) of
        None \<Rightarrow> (0, ''critical'') | Some t \<Rightarrow> (ts_score t, ts_level t))"

definition posture_of :: "db \<Rightarrow> device_row \<Rightarrow> user_row \<Rightarrow> devicePosture" where
  "posture_of s d u =
     \<lparr>dvp_IP = d_assigned_ip d, dvp_NetworkID = the (d_network_id d), dvp_TrustScore = fst (latest_trust s (d_id d)),
      dvp_TrustLevel = snd (latest_trust s (d_id d)), dvp_flags = posture_flags s (d_id d) (u_mfa_enabled u)\<rparr>"

definition device_postures :: "db \<Rightarrow> uuid \<Rightarrow> devicePosture list" where
  "device_postures s gw =
     [posture_of s d u. d \<leftarrow> gateway_devices s gw, u \<leftarrow> tb_users s, u_id u = d_user_id d]"

definition auto_blocked :: "bool \<Rightarrow> bool \<Rightarrow> devicePosture \<Rightarrow> bool" where
  "auto_blocked autoRestrict autoBlock p \<longleftrightarrow>
     autoBlock \<and> dvp_TrustLevel p \<in> {''critical'', ''low''} \<or> autoRestrict \<and> dvp_TrustLevel p = ''critical''"

text \<open>One policy over the devices: those not yet blocked, on a network it applies to, that fail it.\<close>

fun policy_pass :: "ztna_cond \<Rightarrow> uuid list \<Rightarrow> devicePosture list \<Rightarrow> ip4 list \<Rightarrow> ip4 list" where
  "policy_pass cond nets [] blocked = blocked"
| "policy_pass cond nets (p # ps) blocked =
     (if dvp_IP p \<in> set blocked then policy_pass cond nets ps blocked
      else if nets \<noteq> [] \<and> dvp_NetworkID p \<notin> set nets then policy_pass cond nets ps blocked
      else if cond_failed cond (dvp_TrustScore p) (dvp_flags p)
      then policy_pass cond nets ps (blocked @ [dvp_IP p])
      else policy_pass cond nets ps blocked)"

fun policies_pass :: "policy_row list \<Rightarrow> devicePosture list \<Rightarrow> ip4 list \<Rightarrow> ip4 list" where
  "policies_pass [] ps blocked = blocked"
| "policies_pass (pol # pols) ps blocked =
     (case unmarshal_cond (zp_conditions pol) of
        None \<Rightarrow> policies_pass pols ps blocked
      | Some cond \<Rightarrow> policies_pass pols ps (policy_pass cond (zp_network_ids pol) ps blocked))"

definition blocked_ips :: "(nat \<Rightarrow> bool) \<Rightarrow> uuid \<Rightarrow> db \<Rightarrow> ip4 list" where
  "blocked_ips f gw s =
     (let cfg = (if f 2 then None else tb_trust_config s);
          autoRestrict = (case cfg of None \<Rightarrow> False | Some c \<Rightarrow> AutoRestrictBelowMedium c);
          autoBlock = (case cfg of None \<Rightarrow> False | Some c \<Rightarrow> AutoBlockBelowLow c);
          postures = (if f 3 then [] else device_postures s gw);
          blocked0 = map dvp_IP (filter (auto_blocked autoRestrict autoBlock) postures)
      in if f 4 then blocked0 else policies_pass (blocking_policies s) postures blocked0)"

definition device_rules :: "ip4 list \<Rightarrow> (ip4 \<times> cidr) list \<Rightarrow> ip4 \<Rightarrow> plain list" where
  "device_rules blocked rows ip =
     (if ip \<in> set blocked then [(host_cidr ip, None, ACTION_DROP)]
      else map (\<lambda>c. (host_cidr ip, Some c, ACTION_ACCEPT)) (cidrs_of rows ip) @ [(host_cidr ip, None, ACTION_DROP)])"

definition default_deny_rules :: "(ip4 \<times> cidr) list \<Rightarrow> ip4 list \<Rightarrow> plain list" where
  "default_deny_rules rows ips =
     map (\<lambda>ip. (host_cidr ip, None, ACTION_DROP)) (filter (\<lambda>ip. ip \<notin> fst ` set rows) ips)"

record firewallResult =
  fwr_Config :: FirewallConfig
  fwr_BlockedPubkeys :: "string list"

text \<open>
  \<open>ord\<close> is the order in which Go visits the keys of a map. A later device with the same address
  replaces the public key of an earlier one.
\<close>

definition pubkey_at :: "(ip4 \<times> string) list \<Rightarrow> ip4 \<Rightarrow> string option" where
  "pubkey_at rows ip = map_of (rev rows) ip"

definition firewall_plain :: "(ip4 list \<Rightarrow> ip4 list) \<Rightarrow> (nat \<Rightarrow> bool) \<Rightarrow> uuid \<Rightarrow> db \<Rightarrow> plain list" where
  "firewall_plain ord f gw s =
     (let rows = acl_rows s gw;
          allDeviceIPs = (if f 1 then [] else map fst (all_device_rows s gw));
          blocked = blocked_ips f gw s
      in concat (map (device_rules blocked rows) (ord (remdups (map fst rows)))) @
         default_deny_rules rows allDeviceIPs)"

definition buildFirewallConfigFromPool :: "(ip4 list \<Rightarrow> ip4 list) \<Rightarrow> (nat \<Rightarrow> bool) \<Rightarrow> uuid \<Rightarrow> db
    \<Rightarrow> firewallResult option" where
  "buildFirewallConfigFromPool ord f gw s =
     (if f 0 then None
      else let devicePubkeys = pubkey_at (if f 1 then [] else all_device_rows s gw)
           in Some \<lparr>fwr_Config = \<lparr>fc_Rules = render_rules (firewall_plain ord f gw s), fc_NatEnabled = True, fc_NatInterface = []\<rparr>,
                    fwr_BlockedPubkeys = filter (\<lambda>pk. pk \<noteq> [])
                      (List.map_filter devicePubkeys (ord (remdups (blocked_ips f gw s))))\<rparr>)"

definition buildFirewallConfig :: "(ip4 list \<Rightarrow> ip4 list) \<Rightarrow> (nat \<Rightarrow> bool) \<Rightarrow> uuid \<Rightarrow> db \<Rightarrow> FirewallConfig option" where
  "buildFirewallConfig ord f gw s = map_option fwr_Config (buildFirewallConfigFromPool ord f gw s)"

section \<open>Who may reach what\<close>

text \<open>The specification the rules are held against.\<close>

definition acl_allows :: "db \<Rightarrow> uuid \<Rightarrow> ip4 \<Rightarrow> bool" where
  "acl_allows s user dst \<longleftrightarrow> (\<exists>n \<in> set (tb_networks s). n_is_active n \<and> in_cidr dst (n_address n) \<and>
     ((\<exists>a \<in> set (tb_network_acls s). a_network_id a = n_id n \<and> (user, a_group_id a) \<in> set (tb_user_groups s)) \<or>
      (\<exists>u \<in> set (tb_users s). u_id u = user \<and> u_is_admin u)))"

definition policy_blocks :: "db \<Rightarrow> device_row \<Rightarrow> user_row \<Rightarrow> policy_row \<Rightarrow> bool" where
  "policy_blocks s d u pol \<longleftrightarrow> zp_is_active pol \<and> zp_action pol \<in> {''deny'', ''restrict''} \<and>
     (zp_network_ids pol = [] \<or> the (d_network_id d) \<in> set (zp_network_ids pol)) \<and>
     (\<exists>cond. unmarshal_cond (zp_conditions pol) = Some cond \<and>
        cond_failed cond (fst (latest_trust s (d_id d))) (posture_flags s (d_id d) (u_mfa_enabled u)))"

definition trust_blocks :: "db \<Rightarrow> device_row \<Rightarrow> bool" where
  "trust_blocks s d \<longleftrightarrow> (\<exists>c. tb_trust_config s = Some c \<and>
     (AutoBlockBelowLow c \<and> snd (latest_trust s (d_id d)) \<in> {''critical'', ''low''} \<or>
      AutoRestrictBelowMedium c \<and> snd (latest_trust s (d_id d)) = ''critical''))"

definition ztna_blocked :: "db \<Rightarrow> device_row \<Rightarrow> bool" where
  "ztna_blocked s d \<longleftrightarrow> (\<exists>u \<in> set (tb_users s). u_id u = d_user_id d \<and>
     (trust_blocks s d \<or> (\<exists>pol \<in> set (tb_ztna_policies s). policy_blocks s d u pol)))"


section \<open>The rules implement the specification\<close>

lemma acl_networks_iff:
  "n \<in> set (acl_networks s user) \<longleftrightarrow> n \<in> set (tb_networks s) \<and> n_is_active n \<and>
     (\<exists>a \<in> set (tb_network_acls s). a_network_id a = n_id n \<and> (user, a_group_id a) \<in> set (tb_user_groups s))"
  unfolding acl_networks_def by (simp add: split_beta) force

lemma admin_networks_iff:
  "n \<in> set (admin_networks s user) \<longleftrightarrow> n \<in> set (tb_networks s) \<and> n_is_active n \<and>
     (\<exists>u \<in> set (tb_users s). u_id u = user \<and> u_is_admin u)"
  by (auto simp: admin_networks_def split: if_splits)

lemma acl_rows_iff:
  "(ip, c) \<in> set (acl_rows s gw) \<longleftrightarrow> (\<exists>d \<in> set (gateway_devices s gw). d_assigned_ip d = ip \<and>
     (\<exists>n \<in> set (acl_networks s (d_user_id d)) \<union> set (admin_networks s (d_user_id d)). n_address n = c))"
  by (auto simp: acl_rows_def)

lemma set_cidrs_of [simp]: "set (cidrs_of rows ip) = {c. (ip, c) \<in> set rows}"
  by (force simp: cidrs_of_def)

lemma device_ip_unique:
  assumes "db_ok s" "d \<in> set (tb_devices s)" "d' \<in> set (tb_devices s)" "d_assigned_ip d = d_assigned_ip d'"
  shows "d = d'"
  using assms by (auto simp: db_ok_def devices_ok_def distinct_map dest: inj_onD)

lemma gateway_device_stored: "d \<in> set (gateway_devices s gw) \<Longrightarrow> d \<in> set (tb_devices s)"
  by (simp add: gateway_devices_def)

lemma acl_rows_allow:
  assumes "db_ok s" "d \<in> set (gateway_devices s gw)"
  shows "(\<exists>c. (d_assigned_ip d, c) \<in> set (acl_rows s gw) \<and> in_cidr dst c) \<longleftrightarrow> acl_allows s (d_user_id d) dst"
proof -
  have "d' = d" if "d' \<in> set (gateway_devices s gw)" "d_assigned_ip d' = d_assigned_ip d" for d'
    using device_ip_unique [OF assms(1)] that assms(2) by (auto dest!: gateway_device_stored)
  then have "(d_assigned_ip d, c) \<in> set (acl_rows s gw) \<longleftrightarrow>
      (\<exists>n. n \<in> set (acl_networks s (d_user_id d)) \<union> set (admin_networks s (d_user_id d)) \<and> n_address n = c)" for c
    unfolding acl_rows_iff using assms(2) by blast
  then have "(\<exists>c. (d_assigned_ip d, c) \<in> set (acl_rows s gw) \<and> in_cidr dst c) \<longleftrightarrow>
      (\<exists>n. n \<in> set (acl_networks s (d_user_id d)) \<union> set (admin_networks s (d_user_id d)) \<and> in_cidr dst (n_address n))"
    by auto
  then show ?thesis
    by (auto simp: acl_allows_def acl_networks_iff admin_networks_iff)
qed

text \<open>Which addresses are blocked does not depend on the order of the devices or of the policies.\<close>

definition policy_fails :: "devicePosture \<Rightarrow> policy_row \<Rightarrow> bool" where
  "policy_fails p pol \<longleftrightarrow> (\<exists>cond. unmarshal_cond (zp_conditions pol) = Some cond \<and>
     (zp_network_ids pol = [] \<or> dvp_NetworkID p \<in> set (zp_network_ids pol)) \<and>
     cond_failed cond (dvp_TrustScore p) (dvp_flags p))"

lemma set_policy_pass:
  "unmarshal_cond (zp_conditions pol) = Some cond \<Longrightarrow>
   set (policy_pass cond (zp_network_ids pol) ps blocked) =
     set blocked \<union> {dvp_IP p | p. p \<in> set ps \<and> policy_fails p pol}"
  by (induction ps arbitrary: blocked) (auto simp: policy_fails_def)

lemma set_policies_pass:
  "set (policies_pass pols ps blocked) =
     set blocked \<union> {dvp_IP p | p. p \<in> set ps \<and> (\<exists>pol \<in> set pols. policy_fails p pol)}"
proof (induction pols arbitrary: blocked)
  case (Cons pol pols)
  show ?case
  proof (cases "unmarshal_cond (zp_conditions pol)")
    case None
    then have "\<not> policy_fails p pol" for p
      by (simp add: policy_fails_def)
    then show ?thesis
      using Cons None by simp
  next
    case (Some cond)
    then show ?thesis
      using Cons set_policy_pass [OF Some] by auto
  qed
qed simp

lemma policy_blocks_iff:
  "policy_blocks s d u pol \<longleftrightarrow>
     zp_is_active pol \<and> zp_action pol \<in> {''deny'', ''restrict''} \<and> policy_fails (posture_of s d u) pol"
  by (auto simp: policy_blocks_def policy_fails_def posture_of_def)

lemma auto_blocked_iff:
  "auto_blocked (case tb_trust_config s of None \<Rightarrow> False | Some c \<Rightarrow> AutoRestrictBelowMedium c)
      (case tb_trust_config s of None \<Rightarrow> False | Some c \<Rightarrow> AutoBlockBelowLow c) (posture_of s d u) \<longleftrightarrow> trust_blocks s d"
  by (auto simp: auto_blocked_def trust_blocks_def posture_of_def split: option.splits)

lemma device_postures_iff:
  "p \<in> set (device_postures s gw) \<longleftrightarrow>
     (\<exists>d u. d \<in> set (gateway_devices s gw) \<and> u \<in> set (tb_users s) \<and> u_id u = d_user_id d \<and> p = posture_of s d u)"
  by (auto simp: device_postures_def split: if_splits)

lemma posture_of_IP [simp]: "dvp_IP (posture_of s d u) = d_assigned_ip d"
  by (simp add: posture_of_def)

text \<open>What is left of the blocks when statements fail, whichever they are.\<close>

definition blocked_under :: "(nat \<Rightarrow> bool) \<Rightarrow> db \<Rightarrow> device_row \<Rightarrow> bool" where
  "blocked_under f s d \<longleftrightarrow> \<not> f 3 \<and> (\<exists>u \<in> set (tb_users s). u_id u = d_user_id d \<and>
     (\<not> f 2 \<and> trust_blocks s d \<or> \<not> f 4 \<and> (\<exists>pol \<in> set (tb_ztna_policies s). policy_blocks s d u pol)))"

lemma blocked_under_no_fault: "\<not> f 2 \<Longrightarrow> \<not> f 3 \<Longrightarrow> \<not> f 4 \<Longrightarrow> blocked_under f s d \<longleftrightarrow> ztna_blocked s d"
  by (simp add: blocked_under_def ztna_blocked_def)

definition posture_blocked :: "(nat \<Rightarrow> bool) \<Rightarrow> db \<Rightarrow> devicePosture \<Rightarrow> bool" where
  "posture_blocked f s p \<longleftrightarrow>
     \<not> f 2 \<and> auto_blocked (case tb_trust_config s of None \<Rightarrow> False | Some c \<Rightarrow> AutoRestrictBelowMedium c)
       (case tb_trust_config s of None \<Rightarrow> False | Some c \<Rightarrow> AutoBlockBelowLow c) p \<or>
     \<not> f 4 \<and> (\<exists>pol \<in> set (blocking_policies s). policy_fails p pol)"

lemma blocked_under_iff:
  "blocked_under f s d \<longleftrightarrow> \<not> f 3 \<and> (\<exists>u \<in> set (tb_users s). u_id u = d_user_id d \<and> posture_blocked f s (posture_of s d u))"
proof -
  have "(\<exists>pol \<in> set (tb_ztna_policies s). policy_blocks s d u pol) \<longleftrightarrow>
      (\<exists>pol \<in> set (blocking_policies s). policy_fails (posture_of s d u) pol)" for u
    by (auto simp: policy_blocks_iff blocking_policies_def)
  then show ?thesis
    by (simp only: blocked_under_def posture_blocked_def auto_blocked_iff)
qed

lemma not_auto_blocked: "\<not> auto_blocked False False p"
  by (simp add: auto_blocked_def)

lemma blocked_ips_posture:
  "ip \<in> set (blocked_ips f gw s) \<longleftrightarrow> \<not> f 3 \<and> (\<exists>p. p \<in> set (device_postures s gw) \<and> dvp_IP p = ip \<and> posture_blocked f s p)"
  unfolding posture_blocked_def
  by (cases "f 2"; cases "f 3"; cases "f 4") (simp_all add: blocked_ips_def Let_def set_policies_pass not_auto_blocked; blast)+

lemma blocked_ips_iff:
  "ip \<in> set (blocked_ips f gw s) \<longleftrightarrow> (\<exists>d \<in> set (gateway_devices s gw). d_assigned_ip d = ip \<and> blocked_under f s d)"
  unfolding blocked_ips_posture device_postures_iff blocked_under_iff by (auto 0 3)

text \<open>First match over the rules of several devices.\<close>

lemma rules_verdict_append:
  "rules_verdict (xs @ ys) p = (case rules_verdict xs p of None \<Rightarrow> rules_verdict ys p | Some v \<Rightarrow> Some v)"
  by (induction xs) auto

lemma accept_rules_verdict:
  "rules_verdict (map (\<lambda>c. (host_cidr ip, Some c, ACTION_ACCEPT)) cs) p =
     (if pk_src p = ip \<and> (\<exists>c \<in> set cs. in_cidr (pk_dst p) c) then Some Accepted else None)"
  by (induction cs) (auto simp: plain_matches_def opt_matches_def)

lemma device_rules_verdict:
  "rules_verdict (device_rules blocked rows ip) p =
     (if pk_src p = ip
      then Some (if ip \<notin> set blocked \<and> (\<exists>c. (ip, c) \<in> set rows \<and> in_cidr (pk_dst p) c) then Accepted else Dropped)
      else None)"
  by (auto simp: device_rules_def rules_verdict_append accept_rules_verdict plain_matches_def opt_matches_def)

lemma devices_rules_verdict:
  "rules_verdict (concat (map (device_rules blocked rows) ips)) p =
     (if pk_src p \<in> set ips then rules_verdict (device_rules blocked rows (pk_src p)) p else None)"
proof (induction ips)
  case (Cons ip ips)
  then show ?case
    by (cases "pk_src p = ip") (auto simp: rules_verdict_append device_rules_verdict)
qed simp

lemma default_deny_verdict:
  "rules_verdict (default_deny_rules rows ips) p =
     (if pk_src p \<in> set ips \<and> pk_src p \<notin> fst ` set rows then Some Dropped else None)"
  by (induction ips) (auto simp: default_deny_rules_def plain_matches_def opt_matches_def)

lemma firewall_plain_verdict:
  assumes "\<And>xs. set (ord xs) = set xs"
  shows "rules_verdict (firewall_plain ord f gw s) p =
     (if pk_src p \<in> fst ` set (acl_rows s gw)
      then Some (if pk_src p \<notin> set (blocked_ips f gw s) \<and>
                    (\<exists>c. (pk_src p, c) \<in> set (acl_rows s gw) \<and> in_cidr (pk_dst p) c) then Accepted else Dropped)
      else if \<not> f 1 \<and> pk_src p \<in> fst ` set (all_device_rows s gw) then Some Dropped else None)"
  using assms
  by (simp add: firewall_plain_def Let_def rules_verdict_append devices_rules_verdict device_rules_verdict
      default_deny_verdict)

lemma all_device_rows_ips:
  "fst ` set (all_device_rows s gw) = d_assigned_ip ` (set (gateway_devices s gw) \<union> set (legacy_devices s gw))"
  by (force simp: all_device_rows_def)

text \<open>The verdict of the specification on a packet that a gateway forwards.\<close>

definition access_verdict :: "db \<Rightarrow> uuid \<Rightarrow> packet \<Rightarrow> verdict option" where
  "access_verdict s gw p =
     (if \<exists>d \<in> set (gateway_devices s gw). d_assigned_ip d = pk_src p \<and> \<not> ztna_blocked s d \<and>
           acl_allows s (d_user_id d) (pk_dst p) then Some Accepted
      else if pk_src p \<in> d_assigned_ip ` (set (gateway_devices s gw) \<union> set (legacy_devices s gw)) then Some Dropped
      else None)"

lemma firewall_plain_access:
  assumes "db_ok s" "\<And>xs. set (ord xs) = set xs" "\<And>n. n < 5 \<Longrightarrow> \<not> f n"
  shows "rules_verdict (firewall_plain ord f gw s) p = access_verdict s gw p"
proof (cases "\<exists>d \<in> set (gateway_devices s gw). d_assigned_ip d = pk_src p")
  case True
  then obtain d where d: "d \<in> set (gateway_devices s gw)" "d_assigned_ip d = pk_src p" by blast
  then have unique: "d' = d" if "d' \<in> set (gateway_devices s gw)" "d_assigned_ip d' = pk_src p" for d'
    using device_ip_unique [OF assms(1)] that by (auto dest!: gateway_device_stored)
  have ok: "\<not> f 2" "\<not> f 3" "\<not> f 4"
    using assms(3) by simp_all
  have blocked: "pk_src p \<in> set (blocked_ips f gw s) \<longleftrightarrow> ztna_blocked s d"
    unfolding blocked_ips_iff blocked_under_no_fault [of f, OF ok] by (metis d unique)
  have ex: "(\<exists>d' \<in> set (gateway_devices s gw). d_assigned_ip d' = pk_src p \<and> Q d') \<longleftrightarrow> Q d" for Q
    by (metis d unique)
  have mem: "pk_src p \<in> d_assigned_ip ` (set (gateway_devices s gw) \<union> set (legacy_devices s gw))"
    using d by (metis UnI1 image_eqI)
  have "access_verdict s gw p =
      Some (if \<not> ztna_blocked s d \<and> acl_allows s (d_user_id d) (pk_dst p) then Accepted else Dropped)"
    unfolding access_verdict_def ex using mem by simp
  moreover have "pk_src p \<in> fst ` set (all_device_rows s gw)"
    using mem by (simp only: all_device_rows_ips)
  moreover have "pk_src p \<in> fst ` set (acl_rows s gw)" if "\<exists>c. (pk_src p, c) \<in> set (acl_rows s gw)"
    using that by force
  ultimately show ?thesis
    using firewall_plain_verdict [OF assms(2), of f gw s p] blocked assms(3) [of 1]
      acl_rows_allow [OF assms(1) d(1), of "pk_dst p"] d(2) by auto
next
  case False
  then have "pk_src p \<notin> fst ` set (acl_rows s gw)"
    by (auto simp: acl_rows_iff)
  then show ?thesis
    using firewall_plain_verdict [OF assms(2), of f gw s p] False assms(3) [of 1]
    by (auto simp: all_device_rows_ips access_verdict_def)
qed

lemma acl_rows_cidr_ok: "db_ok s \<Longrightarrow> (ip, c) \<in> set (acl_rows s gw) \<Longrightarrow> cidr_ok c"
  by (auto simp: acl_rows_iff acl_networks_iff admin_networks_iff db_ok_def networks_ok_def)

lemma device_rules_ok:
  "(\<And>c. (ip, c) \<in> set rows \<Longrightarrow> cidr_ok c) \<Longrightarrow> r \<in> set (device_rules blocked rows ip) \<Longrightarrow> plain_ok r"
  by (auto simp: device_rules_def plain_ok_def split: if_splits)

lemma default_deny_rules_ok: "r \<in> set (default_deny_rules rows ips) \<Longrightarrow> plain_ok r"
  by (auto simp: default_deny_rules_def plain_ok_def)

lemma firewall_plain_ok: "db_ok s \<Longrightarrow> \<forall>r \<in> set (firewall_plain ord f gw s). plain_ok r"
  unfolding firewall_plain_def Let_def
  by (auto intro: device_rules_ok [OF acl_rows_cidr_ok] default_deny_rules_ok)


lemma pubkey_at_device:
  assumes "db_ok s" "d \<in> set (gateway_devices s gw)"
  shows "pubkey_at (all_device_rows s gw) (d_assigned_ip d) = Some (d_wireguard_pubkey d)"
proof -
  have "pk = d_wireguard_pubkey d" if "(d_assigned_ip d, pk) \<in> set (all_device_rows s gw)" for pk
    using that device_ip_unique [OF assms(1)] assms(2)
    by (auto simp: all_device_rows_def gateway_devices_def legacy_devices_def)
  moreover have "(d_assigned_ip d, d_wireguard_pubkey d) \<in> set (all_device_rows s gw)"
    using assms(2) by (force simp: all_device_rows_def)
  ultimately show ?thesis
    unfolding pubkey_at_def
    by (metis map_of_SomeD map_of_eq_None_iff not_None_eq fst_conv image_eqI set_rev)
qed

lemma blocked_pubkeys_under:
  assumes "db_ok s" "\<And>xs. set (ord xs) = set xs" "buildFirewallConfigFromPool ord f gw s = Some r"
  shows "set (fwr_BlockedPubkeys r) =
    (if f 1 then {} else d_wireguard_pubkey ` {d \<in> set (gateway_devices s gw). blocked_under f s d})"
proof -
  have r: "fwr_BlockedPubkeys r = filter (\<lambda>pk. pk \<noteq> [])
      (List.map_filter (pubkey_at (if f 1 then [] else all_device_rows s gw)) (ord (remdups (blocked_ips f gw s))))"
    using assms(3) by (auto simp: buildFirewallConfigFromPool_def Let_def split: if_splits)
  show ?thesis
  proof (cases "f 1")
    case True
    then show ?thesis by (simp add: r pubkey_at_def List.map_filter_def)
  next
    case False
    then have keys: "pk \<in> set (fwr_BlockedPubkeys r) \<longleftrightarrow> pk \<noteq> [] \<and>
        (\<exists>ip \<in> set (blocked_ips f gw s). pubkey_at (all_device_rows s gw) ip = Some pk)" for pk
      by (auto simp: r List.map_filter_def assms(2) image_iff)
    have ne: "d_wireguard_pubkey d \<noteq> []" if "d \<in> set (gateway_devices s gw)" for d
      using that by (simp add: gateway_devices_def connectable_def)
    have "pk \<in> set (fwr_BlockedPubkeys r) \<longleftrightarrow>
        (\<exists>d \<in> set (gateway_devices s gw). blocked_under f s d \<and> d_wireguard_pubkey d = pk)" for pk
      unfolding keys Bex_def blocked_ips_iff
      using pubkey_at_device [OF assms(1)] ne by (metis option.inject)
    then show ?thesis using False by auto
  qed
qed

lemma blocked_pubkeys:
  assumes "db_ok s" "\<And>xs. set (ord xs) = set xs" "\<And>n. n < 5 \<Longrightarrow> \<not> f n"
    and "buildFirewallConfigFromPool ord f gw s = Some r"
  shows "set (fwr_BlockedPubkeys r) = d_wireguard_pubkey ` {d \<in> set (gateway_devices s gw). ztna_blocked s d}"
  using blocked_pubkeys_under [OF assms(1,2,4)] assms(3) by (simp add: blocked_under_no_fault)

text \<open>
  C2. Without database errors the rules a gateway is given decide every packet as the access
  policy says, whatever the order in which Go visits its maps: a packet from a device of the
  gateway is accepted exactly when the device is not blocked by trust level or policy and its
  owner may reach the destination, through a group rule of an active network or as administrator;
  every other packet from a device is dropped, and packets from other sources get no verdict. The
  keys reported for removal are those of the blocked devices.
\<close>

theorem firewall_enforces_access:
  assumes "db_ok s" "\<And>xs. set (ord xs) = set xs" "\<And>n. n < 5 \<Longrightarrow> \<not> f n"
    and "buildFirewallConfigFromPool ord f gw s = Some r"
  shows "chain_verdict fl (installed_specs (fc_Rules (fwr_Config r))) p = access_verdict s gw p \<and>
    set (fwr_BlockedPubkeys r) = d_wireguard_pubkey ` {d \<in> set (gateway_devices s gw). ztna_blocked s d}"
proof -
  have "fc_Rules (fwr_Config r) = render_rules (firewall_plain ord f gw s)"
    using assms(3) [of 0] assms(4) by (auto simp: buildFirewallConfigFromPool_def Let_def)
  then show ?thesis
    using rendered_verdict [OF firewall_plain_ok [OF assms(1)]] firewall_plain_access [OF assms(1-3)]
      blocked_pubkeys [OF assms] by simp
qed

definition blocking_db :: db where
  "blocking_db = sample_db\<lparr>tb_trust_config := Some (DefaultTrustScoreConfig\<lparr>AutoBlockBelowLow := True\<rparr>),
     tb_trust_scores := [\<lparr>ts_device_id = ''d9'', ts_score = 90, ts_level = ''high'', ts_violations = [], ts_evaluated_at = 5\<rparr>]\<rparr>"


lemma blocking_tables:
  "tb_users blocking_db = tb_users sample_db" "tb_user_groups blocking_db = tb_user_groups sample_db"
  "tb_devices blocking_db = tb_devices sample_db" "tb_networks blocking_db = tb_networks sample_db"
  "tb_gateways blocking_db = tb_gateways sample_db" "tb_gateway_networks blocking_db = tb_gateway_networks sample_db"
  "tb_network_acls blocking_db = tb_network_acls sample_db" "tb_ztna_policies blocking_db = []"
  "tb_trust_config blocking_db = Some (DefaultTrustScoreConfig\<lparr>AutoBlockBelowLow := True\<rparr>)"
  by (simp_all add: blocking_db_def sample_tables)

lemma blocking_db_ok: "db_ok blocking_db"
  using sample_db_ok by (simp add: db_ok_def devices_ok_def networks_ok_def users_ok_def blocking_tables)

lemma blocking_trust: "latest_trust blocking_db ''d1'' = (0, ''critical'')" "latest_trust blocking_db ''d9'' = (90, ''high'')"
  by (simp_all add: latest_trust_def blocking_db_def)

lemma sample_gateway_devices:
  "tb_devices s = tb_devices sample_db \<Longrightarrow> tb_gateway_networks s = tb_gateway_networks sample_db \<Longrightarrow>
   gateway_devices s ''gw1'' = tb_devices sample_db"
  by (simp add: gateway_devices_def serves_def connectable_def sample_tables sample_device_def)

lemma blocking_ztna:
  "ztna_blocked blocking_db (sample_device ''d1'' ''u1'' ''pk1'' 0x0A080002)"
  "\<not> ztna_blocked blocking_db (sample_device ''d9'' ''u9'' ''pk9'' 0x0A080003)"
  by (simp_all add: ztna_blocked_def trust_blocks_def blocking_tables sample_tables sample_device_def sample_user_def
      blocking_trust DefaultTrustScoreConfig_def)

lemma sample_admin_reach: "acl_allows blocking_db ''u9'' 0x0A140005"
  by (simp add: acl_allows_def blocking_tables sample_tables sample_network_def sample_user_def net_10_20_def
      in_cidr_def mask_ip_def)

lemma blocking_verdicts:
  "access_verdict blocking_db ''gw1'' \<lparr>pk_src = 0x0A080003, pk_dst = 0x0A140005, pk_proto = ''tcp'', pk_dport = 443\<rparr> = Some Accepted"
  "access_verdict blocking_db ''gw1'' \<lparr>pk_src = 0x0A080002, pk_dst = 0x0A0A0005, pk_proto = ''tcp'', pk_dport = 443\<rparr> = Some Dropped"
  using blocking_ztna sample_admin_reach
  by (simp_all add: access_verdict_def sample_gateway_devices blocking_tables sample_tables sample_device_def)

theorem firewall_enforces_access_witness:
  "(case buildFirewallConfigFromPool rev (\<lambda>_. False) ''gw1'' blocking_db of
      Some r \<Rightarrow> chain_verdict {} (installed_specs (fc_Rules (fwr_Config r)))
          \<lparr>pk_src = 0x0A080003, pk_dst = 0x0A140005, pk_proto = ''tcp'', pk_dport = 443\<rparr> = Some Accepted \<and>
        chain_verdict {} (installed_specs (fc_Rules (fwr_Config r)))
          \<lparr>pk_src = 0x0A080002, pk_dst = 0x0A0A0005, pk_proto = ''tcp'', pk_dport = 443\<rparr> = Some Dropped \<and>
        set (fwr_BlockedPubkeys r) = {''pk1''}
    | None \<Rightarrow> False)"
proof -
  obtain r where r: "buildFirewallConfigFromPool rev (\<lambda>_. False) ''gw1'' blocking_db = Some r"
    by (simp add: buildFirewallConfigFromPool_def Let_def)
  note enf = firewall_enforces_access [OF blocking_db_ok set_rev _ r]
  have "{d \<in> set (gateway_devices blocking_db ''gw1''). ztna_blocked blocking_db d} = {sample_device ''d1'' ''u1'' ''pk1'' 0x0A080002}"
    using blocking_ztna by (auto simp: sample_gateway_devices blocking_tables sample_tables)
  then have "set (fwr_BlockedPubkeys r) = {''pk1''}"
    using enf by (simp add: sample_device_def)
  then show ?thesis
    unfolding r using enf blocking_verdicts by simp
qed





text \<open>
  C29. The address restrictions of an access rule play no part in the firewall: replacing the
  allowed addresses of every access rule by anything leaves the configuration unchanged, so a
  member of a group restricted to one subnet of a network may reach all of it.
\<close>

theorem firewall_ignores_allowed_ips:
  "buildFirewallConfigFromPool ord f gw (s\<lparr>tb_network_acls := map (\<lambda>a. a\<lparr>a_allowed_ips := g a\<rparr>) (tb_network_acls s)\<rparr>) =
   buildFirewallConfigFromPool ord f gw s"
proof -
  let ?s = "s\<lparr>tb_network_acls := map (\<lambda>a. a\<lparr>a_allowed_ips := g a\<rparr>) (tb_network_acls s)\<rparr>"
  have nets: "acl_networks ?s user = acl_networks s user" "admin_networks ?s user = admin_networks s user" for user
    by (simp_all add: acl_networks_def admin_networks_def comp_def cong: if_cong)
  have devs: "gateway_devices ?s gw = gateway_devices s gw" "legacy_devices ?s gw = legacy_devices s gw"
    by (simp_all add: gateway_devices_def legacy_devices_def serves_def serves_legacy_def
        cong: option.case_cong)
  then have "acl_rows ?s gw = acl_rows s gw" "all_device_rows ?s gw = all_device_rows s gw"
    by (simp_all add: acl_rows_def all_device_rows_def nets)
  moreover have "posture_of ?s d u = posture_of s d u" for d u
    by (simp add: posture_of_def latest_trust_def posture_flags_def)
  then have "device_postures ?s gw = device_postures s gw"
    by (simp add: device_postures_def devs cong: if_cong)
  then have "blocked_ips f gw ?s = blocked_ips f gw s"
    by (simp add: blocked_ips_def blocking_policies_def)
  ultimately show ?thesis
    by (simp add: buildFirewallConfigFromPool_def firewall_plain_def)
qed

end
