(* ===== verification/Core_Gateway.thy ===== *)
theory Core_Gateway
  imports Core_Firewall
begin

text \<open>
  The gateway service of the core (\<^verbatim>\<open>internal/core/grpc_gateway.go\<close>): authentication by token,
  the configuration a gateway is given, heartbeats, health monitoring, and the statistics and
  health reports a gateway sends.

  \<open>sha256\<close> is the hash function, \<open>cast_uuid\<close> the cast of a text to a UUID by the database,
  \<open>f n\<close> says that the \<open>n\<close>-th statement fails.
\<close>

section \<open>Site-to-site tunnels and smart routes\<close>

definition s2s_peers :: "db \<Rightarrow> uuid \<Rightarrow> uuid \<Rightarrow> S2SPeer list" where
  "s2s_peers s tunnel gw =
     [\<lparr>sp_GatewayId = m_gateway_id m,
       sp_PublicKey = (case m_public_key m of None \<Rightarrow> g_wireguard_pubkey g | Some k \<Rightarrow> k),
       sp_Endpoint = g_endpoint g, sp_AllowedIps = map cidr_text (m_local_subnets m), sp_PersistentKeepalive = 25\<rparr>.
      m \<leftarrow> tb_s2s_members s, m_tunnel_id m = tunnel, m_gateway_id m \<noteq> gw,
      g \<leftarrow> tb_gateways s, g_id g = m_gateway_id m]"

fun add_route :: "string \<Rightarrow> uuid \<Rightarrow> S2SPeer list \<Rightarrow> S2SPeer list" where
  "add_route dest viaGw [] = []"
| "add_route dest viaGw (p # ps) =
     (if sp_GatewayId p = viaGw then p\<lparr>sp_AllowedIps := sp_AllowedIps p @ [dest]\<rparr> # ps
      else p # add_route dest viaGw ps)"

definition s2s_tunnel_routes :: "db \<Rightarrow> uuid \<Rightarrow> s2s_route_row list" where
  "s2s_tunnel_routes s tunnel =
     sort_key r_metric (filter (\<lambda>r. r_tunnel_id r = tunnel \<and> r_is_active r) (tb_s2s_routes s))"

definition s2s_tunnel_config :: "bool \<Rightarrow> db \<Rightarrow> uuid \<Rightarrow> s2s_tunnel_row \<Rightarrow> s2s_member_row \<Rightarrow> S2STunnelConfig" where
  "s2s_tunnel_config routes_fail s gw t m =
     (let peers = s2s_peers s (t_id t) gw;
          routes = (if routes_fail then [] else s2s_tunnel_routes s (t_id t))
      in \<lparr>stc_TunnelId = t_id t, stc_InterfaceName = ''wg-s2s-'' @ t_name t,
          stc_PrivateKey = (case m_private_key m of None \<Rightarrow> [] | Some k \<Rightarrow> k), stc_ListenPort = m_listen_port m,
          stc_Peers = fold (\<lambda>r. add_route (cidr_text (r_destination r)) (r_via_gateway r)) routes peers\<rparr>)"

fun s2s_configs :: "(nat \<Rightarrow> bool) \<Rightarrow> db \<Rightarrow> uuid \<Rightarrow> nat \<Rightarrow> (s2s_tunnel_row \<times> s2s_member_row) list \<Rightarrow> S2STunnelConfig list" where
  "s2s_configs f s gw i [] = []"
| "s2s_configs f s gw i ((t, m) # rows) =
     (if f i then s2s_configs f s gw (i + 2) rows
      else s2s_tunnel_config (f (i + 1)) s gw t m # s2s_configs f s gw (i + 2) rows)"

definition fetchS2STunnels :: "(nat \<Rightarrow> bool) \<Rightarrow> uuid \<Rightarrow> db \<Rightarrow> S2STunnelConfig list" where
  "fetchS2STunnels f gw s =
     (if f 0 then []
      else s2s_configs f s gw 1
        [(t, m). t \<leftarrow> tb_s2s_tunnels s, t_is_active t, m \<leftarrow> tb_s2s_members s, m_tunnel_id m = t_id t, m_gateway_id m = gw])"

definition smart_entries :: "db \<Rightarrow> (uuid \<Rightarrow> bool) \<Rightarrow> smart_entry_row list" where
  "smart_entries s served =
     [e. e \<leftarrow> tb_smart_entries s, r \<leftarrow> tb_smart_routes s, sr_id r = e_smart_route_id e, sr_is_active r,
         (n, sr) \<leftarrow> tb_network_smart_routes s, sr = sr_id r, served n]"

definition fetchSmartRoutesForGateway :: "bool \<Rightarrow> uuid \<Rightarrow> db \<Rightarrow> SmartRouteConfig option" where
  "fetchSmartRoutesForGateway fails gw s =
     (if fails then None
      else let rules = sort_key sm_Priority (remdups (map (\<lambda>e. \<lparr>sm_EntryType = e_entry_type e, sm_Value = e_value e,
                          sm_Action = e_action e, sm_Priority = e_priority e\<rparr>)
                 (smart_entries s (\<lambda>n. (gw, n) \<in> set (tb_gateway_networks s)) @
                  smart_entries s (\<lambda>n. \<exists>g \<in> set (tb_gateways s). g_id g = gw \<and> g_network_id g = Some n))))
           in if rules = [] then None else Some rules)"

section \<open>Authentication and configuration\<close>

datatype 'a rpc = RpcErr string string | RpcOk 'a

definition gateway_of_token :: "(string \<Rightarrow> string) \<Rightarrow> string \<Rightarrow> db \<Rightarrow> gateway_row option" where
  "gateway_of_token sha256 token s =
     find (\<lambda>g. g_token_hash g = hex_encode (sha256 token) \<and> g_is_active g) (tb_gateways s)"

definition authenticateStream :: "(string \<Rightarrow> string) \<Rightarrow> bool \<Rightarrow> string list option \<Rightarrow> db \<Rightarrow> uuid option" where
  "authenticateStream sha256 fails authorization s =
     (case authorization of
        None \<Rightarrow> None
      | Some [] \<Rightarrow> None
      | Some (v # _) \<Rightarrow>
          (let token = trim_prefix ''Bearer '' v
           in if token = [] then None
              else if fails then None
              else map_option g_id (gateway_of_token sha256 token s)))"

definition gateway_address :: "network_row \<Rightarrow> string" where
  "gateway_address n =
     (let c = (case n_tunnel_cidr n of None \<Rightarrow> n_address n | Some t \<Rightarrow> t)
      in host (c_net c + 1) @ ''/'' @ dec_nat (c_len c))"

text \<open>The first port that is not zero, and the addresses of all networks.\<close>

fun listen_port :: "int \<Rightarrow> network_row list \<Rightarrow> int" where
  "listen_port port [] = port"
| "listen_port port (n # ns) = listen_port (if port = 0 then n_port n else port) ns"

definition served_networks :: "db \<Rightarrow> uuid \<Rightarrow> network_row list" where
  "served_networks s gw =
     [n. (g, nid) \<leftarrow> tb_gateway_networks s, g = gw, n \<leftarrow> tb_networks s, n_id n = nid]"

definition legacy_network :: "db \<Rightarrow> uuid \<Rightarrow> network_row option" where
  "legacy_network s gw =
     (case [n. g \<leftarrow> tb_gateways s, g_id g = gw, n \<leftarrow> tb_networks s, g_network_id g = Some (n_id n)] of
        [] \<Rightarrow> None | n # _ \<Rightarrow> Some n)"

definition interface_config :: "(nat \<Rightarrow> bool) \<Rightarrow> db \<Rightarrow> uuid \<Rightarrow> int \<times> string list" where
  "interface_config f s gw =
     (let nets = (if f 1 then [] else served_networks s gw)
      in if nets \<noteq> [] then (listen_port 0 nets, map gateway_address nets)
         else if f 2 then (0, [])
         else case legacy_network s gw of None \<Rightarrow> (0, []) | Some n \<Rightarrow> (n_port n, [gateway_address n]))"

definition GetConfig :: "(string \<Rightarrow> string) \<Rightarrow> (ip4 list \<Rightarrow> ip4 list) \<Rightarrow> (nat \<Rightarrow> bool) \<Rightarrow> string \<Rightarrow> db \<Rightarrow> GatewayConfig rpc" where
  "GetConfig sha256 ord f token s =
     (if token = [] then RpcErr ''Unauthenticated'' ''gateway token is required''
      else case (if f 0 then None else gateway_of_token sha256 token s) of
        None \<Rightarrow> RpcErr ''Unauthenticated'' ''invalid or inactive gateway token''
      | Some g \<Rightarrow>
          (let (port, addresses) = interface_config f s (g_id g)
           in RpcOk \<lparr>gc_GatewayId = g_id g, gc_NetworkName = g_name g, gc_PrivateKey = g_wireguard_privkey g,
                gc_ListenPort = port, gc_Addresses = addresses,
                gc_Peers = (case fetchPeers (f 3) (g_id g) s of None \<Rightarrow> [] | Some ps \<Rightarrow> ps),
                gc_Firewall = buildFirewallConfig ord (\<lambda>n. f (4 + n)) (g_id g) s,
                gc_S2STunnels = fetchS2STunnels (\<lambda>n. f (10 + n)) (g_id g) s,
                gc_SmartRoutes = fetchSmartRoutesForGateway (f 9) (g_id g) s\<rparr>))"

text \<open>The first message of a synchronisation stream.\<close>

definition sync_resync :: "(ip4 list \<Rightarrow> ip4 list) \<Rightarrow> (nat \<Rightarrow> bool) \<Rightarrow> uuid \<Rightarrow> db \<Rightarrow> CoreEvent option" where
  "sync_resync ord f gw s =
     (let tunnels = fetchS2STunnels (\<lambda>n. f (10 + n)) gw s;
          fw = buildFirewallConfig ord (\<lambda>n. f (4 + n)) gw s;
          smart = fetchSmartRoutesForGateway (f 9) gw s
      in case fetchPeers (f 3) gw s of
           None \<Rightarrow> None
         | Some peers \<Rightarrow>
             if peers \<noteq> [] \<or> tunnels \<noteq> [] \<or> fw \<noteq> None
             then Some (FullResync \<lparr>gc_GatewayId = [], gc_NetworkName = [], gc_PrivateKey = [], gc_ListenPort = 0,
                    gc_Addresses = [], gc_Peers = peers, gc_Firewall = fw, gc_S2STunnels = tunnels, gc_SmartRoutes = smart\<rparr>)
             else None)"

section \<open>Heartbeats and health\<close>

definition mark_seen :: "time \<Rightarrow> uuid \<Rightarrow> db \<Rightarrow> db" where
  "mark_seen now gw s = s\<lparr>tb_gateways := upd_where (\<lambda>g. g_id g = gw)
     (\<lambda>g. g\<lparr>g_last_seen := Some now, g_health_status := ''healthy'', g_consecutive_failures := 0\<rparr>) (tb_gateways s)\<rparr>"

definition Heartbeat :: "(string \<Rightarrow> string) \<Rightarrow> (nat \<Rightarrow> bool) \<Rightarrow> time \<Rightarrow> string list option \<Rightarrow> string \<Rightarrow> db
    \<Rightarrow> unit rpc \<times> db" where
  "Heartbeat sha256 f now authorization gwID s =
     (case authenticateStream sha256 (f 0) authorization s of
        None \<Rightarrow> (RpcErr ''Unauthenticated'' ''invalid gateway token'', s)
      | Some authenticated \<Rightarrow>
          if gwID \<noteq> [] \<and> gwID \<noteq> authenticated
          then (RpcErr ''PermissionDenied'' ''gateway_id does not match authenticated gateway'', s)
          else (RpcOk (), if f 1 then s else mark_seen now authenticated s))"

definition stale :: "time \<Rightarrow> gateway_row \<Rightarrow> bool" where
  "stale now g \<longleftrightarrow> g_is_active g \<and> (case g_last_seen g of None \<Rightarrow> False | Some t \<Rightarrow> t < now - seconds 90) \<and>
     g_health_status g \<noteq> ''unhealthy''"

definition failing :: "gateway_row \<Rightarrow> bool" where
  "failing g \<longleftrightarrow> g_is_active g \<and> 3 \<le> g_consecutive_failures g \<and> g_health_status g \<noteq> ''unhealthy''"

definition monitorGatewayHealthTick :: "(nat \<Rightarrow> bool) \<Rightarrow> time \<Rightarrow> db \<Rightarrow> uuid list \<times> db" where
  "monitorGatewayHealthTick f now s =
     (let gs1 = (if f 0 then tb_gateways s
                 else upd_where (stale now) (\<lambda>g. g\<lparr>g_consecutive_failures := g_consecutive_failures g + 1\<rparr>) (tb_gateways s))
      in if f 1 then ([], s\<lparr>tb_gateways := gs1\<rparr>)
         else (map g_id (filter failing gs1),
               s\<lparr>tb_gateways := upd_where failing (\<lambda>g. g\<lparr>g_health_status := ''unhealthy''\<rparr>) gs1\<rparr>))"

text \<open>The healthy gateways that share a network with an unhealthy one; they are only logged.\<close>

definition pushResyncForPeersOfGateway :: "bool \<Rightarrow> uuid \<Rightarrow> db \<Rightarrow> uuid list" where
  "pushResyncForPeersOfGateway fails gw s =
     (if fails then []
      else remdups [g_id g. (g1, n1) \<leftarrow> tb_gateway_networks s, g1 = gw, (g2, n2) \<leftarrow> tb_gateway_networks s, n2 = n1,
                            g \<leftarrow> tb_gateways s, g_id g = g2, g_id g \<noteq> gw, g_is_active g, g_health_status g = ''healthy''])"

section \<open>Reports of a gateway\<close>

definition in_scope :: "db \<Rightarrow> uuid \<Rightarrow> string \<Rightarrow> device_row \<Rightarrow> bool" where
  "in_scope s gw pubkey d \<longleftrightarrow> d_wireguard_pubkey d = pubkey \<and> serves s gw d"

definition handshake_of :: "PeerStats \<Rightarrow> time option" where
  "handshake_of ps = (case ps_LastHandshake ps of None \<Rightarrow> None | Some t \<Rightarrow> if t = zero_time then None else Some t)"

definition record_handshake :: "bool \<Rightarrow> uuid \<Rightarrow> PeerStats \<Rightarrow> db \<Rightarrow> db" where
  "record_handshake fails gw ps s =
     (case handshake_of ps of
        None \<Rightarrow> s
      | Some t \<Rightarrow> if fails then s
          else s\<lparr>tb_devices := upd_where (in_scope s gw (ps_PublicKey ps)) (\<lambda>d. d\<lparr>d_last_handshake := Some t\<rparr>) (tb_devices s)\<rparr>)"

definition record_peer_stats :: "bool \<Rightarrow> uuid \<Rightarrow> PeerStats \<Rightarrow> db \<Rightarrow> db" where
  "record_peer_stats fails gw ps s =
     (if fails then s
      else s\<lparr>tb_peer_stats := tb_peer_stats s @
        map (\<lambda>d. \<lparr>st_gateway_id = gw, st_device_id = d_id d, st_rx_bytes = ps_RxBytes ps, st_tx_bytes = ps_TxBytes ps,
                  st_last_handshake = handshake_of ps, st_endpoint = ps_Endpoint ps\<rparr>)
          (filter (in_scope s gw (ps_PublicKey ps)) (tb_devices s))\<rparr>)"

definition record_flow :: "bool \<Rightarrow> uuid \<Rightarrow> PeerStats \<Rightarrow> db \<Rightarrow> db" where
  "record_flow fails gw ps s =
     (if fails then s
      else s\<lparr>tb_flow_records := tb_flow_records s @
        map (\<lambda>d. \<lparr>fl_gateway_id = gw, fl_device_id = d_id d, fl_user_id = d_user_id d, fl_src_ip = d_assigned_ip d,
                  fl_bytes_sent = ps_TxBytes ps, fl_bytes_recv = ps_RxBytes ps\<rparr>)
          (filter (in_scope s gw (ps_PublicKey ps)) (tb_devices s))\<rparr>)"

definition stats_step :: "(nat \<Rightarrow> bool) \<Rightarrow> uuid \<Rightarrow> PeerStats \<Rightarrow> db \<Rightarrow> db" where
  "stats_step f gw ps s = record_flow (f 2) gw ps (record_peer_stats (f 1) gw ps (record_handshake (f 0) gw ps s))"

fun handlePeerStats :: "(nat \<Rightarrow> bool) \<Rightarrow> uuid \<Rightarrow> PeerStats list \<Rightarrow> db \<Rightarrow> db" where
  "handlePeerStats f gw [] s = s"
| "handlePeerStats f gw (ps # rest) s = handlePeerStats (\<lambda>n. f (n + 3)) gw rest (stats_step f gw ps s)"

text \<open>An upsert: the casts and the foreign keys must hold, a conflicting row is updated in place.\<close>

definition health_row_key :: "uuid \<Rightarrow> uuid \<Rightarrow> uuid \<Rightarrow> s2s_health_row \<Rightarrow> bool" where
  "health_row_key t g r h \<longleftrightarrow> h_tunnel_id h = t \<and> h_gateway_id h = g \<and> h_remote_gateway_id h = r"

definition upsert_health :: "uuid \<Rightarrow> uuid \<Rightarrow> uuid \<Rightarrow> s2s_health_row \<Rightarrow> (s2s_health_row \<Rightarrow> s2s_health_row) \<Rightarrow> db \<Rightarrow> db" where
  "upsert_health t g r row upd s =
     (if \<not> (\<exists>x \<in> set (tb_s2s_tunnels s). t_id x = t) \<or> \<not> (\<exists>x \<in> set (tb_gateways s). g_id x = g) \<or>
         \<not> (\<exists>x \<in> set (tb_gateways s). g_id x = r) then s
      else if \<exists>h \<in> set (tb_s2s_health s). health_row_key t g r h
      then if \<exists>h \<in> set (tb_s2s_health s). health_row_key t g r h \<and> \<not> int4_range (h_consecutive_failures (upd h)) then s
           else s\<lparr>tb_s2s_health := upd_where (health_row_key t g r) upd (tb_s2s_health s)\<rparr>
      else s\<lparr>tb_s2s_health := tb_s2s_health s @ [row]\<rparr>)"

definition handleS2SHealth :: "(string \<Rightarrow> uuid option) \<Rightarrow> bool \<Rightarrow> time \<Rightarrow> uuid \<Rightarrow> S2SHealthReport \<Rightarrow> db \<Rightarrow> db" where
  "handleS2SHealth cast_uuid fails now gw rep s =
     (case (cast_uuid (hrp_TunnelId rep), cast_uuid (hrp_RemoteGatewayId rep)) of
        (Some t, Some r) \<Rightarrow>
          if fails then s
          else if hrp_IsHealthy rep
          then if \<not> int4_range (hrp_LatencyMs rep) then s else upsert_health t gw r
                 \<lparr>h_tunnel_id = t, h_gateway_id = gw, h_remote_gateway_id = r, h_is_healthy = True, h_latency_ms = hrp_LatencyMs rep,
                  h_consecutive_failures = 0, h_last_check_at = now, h_last_healthy_at = Some now\<rparr>
                 (\<lambda>h. h\<lparr>h_is_healthy := True, h_latency_ms := hrp_LatencyMs rep, h_consecutive_failures := 0,
                       h_last_check_at := now, h_last_healthy_at := Some now\<rparr>) s
          else upsert_health t gw r
                 \<lparr>h_tunnel_id = t, h_gateway_id = gw, h_remote_gateway_id = r, h_is_healthy = False, h_latency_ms = 0,
                  h_consecutive_failures = 1, h_last_check_at = now, h_last_healthy_at = None\<rparr>
                 (\<lambda>h. h\<lparr>h_is_healthy := False, h_latency_ms := 0, h_consecutive_failures := h_consecutive_failures h + 1,
                       h_last_check_at := now\<rparr>) s
      | _ \<Rightarrow> s)"

datatype GatewayEvent = Stats "PeerStats list" | S2SHealth S2SHealthReport | Status nat

definition sync_event :: "(string \<Rightarrow> uuid option) \<Rightarrow> (nat \<Rightarrow> bool) \<Rightarrow> time \<Rightarrow> uuid \<Rightarrow> GatewayEvent \<Rightarrow> db \<Rightarrow> db" where
  "sync_event cast_uuid f now gw e s =
     (case e of Stats ps \<Rightarrow> handlePeerStats f gw ps s
      | S2SHealth r \<Rightarrow> handleS2SHealth cast_uuid (f 0) now gw r s
      | Status n \<Rightarrow> s)"


section \<open>Tunnel configurations\<close>

definition s2s_ok :: "db \<Rightarrow> bool" where
  "s2s_ok s \<longleftrightarrow> distinct (map g_id (tb_gateways s)) \<and>
     distinct (map (\<lambda>m. (m_tunnel_id m, m_gateway_id m)) (tb_s2s_members s))"

text \<open>What a tunnel configuration should be: every peer with its subnets and the routes through it.\<close>

definition peer_spec :: "db \<Rightarrow> uuid \<Rightarrow> s2s_member_row \<Rightarrow> gateway_row \<Rightarrow> S2SPeer" where
  "peer_spec s tunnel m g =
     \<lparr>sp_GatewayId = m_gateway_id m,
      sp_PublicKey = (case m_public_key m of None \<Rightarrow> g_wireguard_pubkey g | Some k \<Rightarrow> k),
      sp_Endpoint = g_endpoint g,
      sp_AllowedIps = map cidr_text (m_local_subnets m) @
        map (\<lambda>r. cidr_text (r_destination r)) (sort_key r_metric
          (filter (\<lambda>r. r_tunnel_id r = tunnel \<and> r_is_active r \<and> r_via_gateway r = m_gateway_id m) (tb_s2s_routes s))),
      sp_PersistentKeepalive = 25\<rparr>"

definition tunnel_spec :: "db \<Rightarrow> uuid \<Rightarrow> s2s_tunnel_row \<Rightarrow> s2s_member_row \<Rightarrow> S2STunnelConfig" where
  "tunnel_spec s gw t m =
     \<lparr>stc_TunnelId = t_id t, stc_InterfaceName = ''wg-s2s-'' @ t_name t,
      stc_PrivateKey = (case m_private_key m of None \<Rightarrow> [] | Some k \<Rightarrow> k), stc_ListenPort = m_listen_port m,
      stc_Peers = [peer_spec s (t_id t) m' g. m' \<leftarrow> tb_s2s_members s, m_tunnel_id m' = t_id t, m_gateway_id m' \<noteq> gw,
                    g \<leftarrow> tb_gateways s, g_id g = m_gateway_id m']\<rparr>"

lemma add_route_map:
  "distinct (map sp_GatewayId ps) \<Longrightarrow>
   add_route dest via ps = map (\<lambda>p. if sp_GatewayId p = via then p\<lparr>sp_AllowedIps := sp_AllowedIps p @ [dest]\<rparr> else p) ps"
  by (induction ps) (auto intro!: map_idI [symmetric] simp: image_iff)

lemma add_route_ids [simp]: "map sp_GatewayId (add_route dest via ps) = map sp_GatewayId ps"
  by (induction ps) auto

lemma add_routes_map:
  "distinct (map sp_GatewayId ps) \<Longrightarrow>
   fold (\<lambda>r. add_route (dst r) (via r)) rs ps =
     map (\<lambda>p. p\<lparr>sp_AllowedIps := sp_AllowedIps p @ map dst (filter (\<lambda>r. via r = sp_GatewayId p) rs)\<rparr>) ps"
proof (induction rs arbitrary: ps)
  case (Cons r rs)
  have "fold (\<lambda>r. add_route (dst r) (via r)) (r # rs) ps =
      map (\<lambda>p. p\<lparr>sp_AllowedIps := sp_AllowedIps p @ map dst (filter (\<lambda>r. via r = sp_GatewayId p) rs)\<rparr>)
        (add_route (dst r) (via r) ps)"
    using Cons.IH [of "add_route (dst r) (via r) ps"] Cons.prems by simp
  then show ?case
    unfolding add_route_map [OF Cons.prems] by auto
qed simp

lemma at_most_one:
  "distinct (map g_id gs) \<Longrightarrow>
   concat (map (\<lambda>g. if g_id g = k then [F g] else []) gs) =
     (case find (\<lambda>g. g_id g = k) gs of None \<Rightarrow> [] | Some g \<Rightarrow> [F g])"
  by (induction gs) (auto split: option.splits simp: find_None_iff image_iff dest!: find_SomeD)

lemma joined_ids:
  assumes "distinct (map g_id gs)" "\<And>m g. sp_GatewayId (F m g) = m_gateway_id m"
  shows "map sp_GatewayId (concat (map (\<lambda>m. if P m then if Q m
      then concat (map (\<lambda>g. if g_id g = m_gateway_id m then [F m g] else []) gs) else [] else []) ms)) =
    map m_gateway_id (filter (\<lambda>m. P m \<and> Q m \<and> find (\<lambda>g. g_id g = m_gateway_id m) gs \<noteq> None) ms)"
  by (induction ms) (simp_all add: at_most_one [OF assms(1)] assms(2) split: option.split)

lemma s2s_peers_distinct:
  assumes "s2s_ok s"
  shows "distinct (map sp_GatewayId (s2s_peers s tunnel gw))"
proof -
  have ids: "distinct (map g_id (tb_gateways s))"
    and keys: "distinct (map (\<lambda>m. (m_tunnel_id m, m_gateway_id m)) (tb_s2s_members s))"
    using assms by (auto simp: s2s_ok_def)
  have "inj_on m_gateway_id {m \<in> set (tb_s2s_members s). m_tunnel_id m = tunnel \<and> R m}" for R
    using keys by (auto simp: distinct_map inj_on_def)
  then show ?thesis
    unfolding s2s_peers_def joined_ids [OF ids, of "\<lambda>m g. \<lparr>sp_GatewayId = m_gateway_id m, sp_PublicKey = _ m g,
        sp_Endpoint = _ g, sp_AllowedIps = _ m, sp_PersistentKeepalive = 25\<rparr>", simplified]
    using keys by (auto simp: distinct_map)
qed

lemma s2s_tunnel_config_spec:
  assumes "s2s_ok s"
  shows "s2s_tunnel_config False s gw t m = tunnel_spec s gw t m"
proof -
  have "fold (\<lambda>r. add_route (cidr_text (r_destination r)) (r_via_gateway r)) (s2s_tunnel_routes s (t_id t))
      (s2s_peers s (t_id t) gw) = stc_Peers (tunnel_spec s gw t m)"
    unfolding add_routes_map [OF s2s_peers_distinct [OF assms]]
    by (simp add: s2s_peers_def tunnel_spec_def peer_spec_def s2s_tunnel_routes_def filter_sort map_concat comp_def
        if_distrib [of "map _"] conj_comms cong: if_cong)
  then show ?thesis
    by (simp add: s2s_tunnel_config_def tunnel_spec_def)
qed

lemma s2s_configs_no_fault:
  "s2s_ok s \<Longrightarrow> (\<And>n. \<not> f n) \<Longrightarrow> s2s_configs f s gw i rows = map (\<lambda>(t, m). tunnel_spec s gw t m) rows"
  by (induction f s gw i rows rule: s2s_configs.induct) (simp_all add: s2s_tunnel_config_spec)

text \<open>
  C33. Without database errors a gateway is given exactly one configuration for every membership in
  an active tunnel, and its peers are the other members, each with its own subnets followed by the
  destinations of the active routes through it in the order of their metrics: merging the routes
  one by one into the first matching peer computes this for every set of routes, and the gateway
  is never its own peer.
\<close>

theorem s2s_tunnels_reference:
  assumes "s2s_ok s" "\<And>n. \<not> f n"
  shows "fetchS2STunnels f gw s =
      [tunnel_spec s gw t m. t \<leftarrow> tb_s2s_tunnels s, t_is_active t, m \<leftarrow> tb_s2s_members s, m_tunnel_id m = t_id t, m_gateway_id m = gw]
    \<and> list_all (\<lambda>c. list_all (\<lambda>p. sp_GatewayId p \<noteq> gw) (stc_Peers c)) (fetchS2STunnels f gw s)"
proof -
  have eq: "fetchS2STunnels f gw s =
      [tunnel_spec s gw t m. t \<leftarrow> tb_s2s_tunnels s, t_is_active t, m \<leftarrow> tb_s2s_members s, m_tunnel_id m = t_id t, m_gateway_id m = gw]"
    using assms by (simp add: fetchS2STunnels_def s2s_configs_no_fault map_concat comp_def if_distrib [of "map _"] cong: if_cong)
  have "list_all (\<lambda>p. sp_GatewayId p \<noteq> gw) (stc_Peers (tunnel_spec s gw t m))" for t m
    by (auto simp: tunnel_spec_def peer_spec_def list_all_iff split: if_splits)
  then show ?thesis
    unfolding eq by (auto simp: list_all_iff split: if_splits)
qed


definition s2s_db :: db where
  "s2s_db = sample_db\<lparr>
     tb_s2s_tunnels := [\<lparr>t_id = ''t1'', t_name = ''office'', t_description = [], t_topology = ''mesh'',
         t_hub_gateway_id = None, t_is_active = True, t_created_at = 0, t_updated_at = 0\<rparr>],
     tb_s2s_members := [\<lparr>m_tunnel_id = ''t1'', m_gateway_id = ''gw1'', m_local_subnets = [net_10_10], m_private_key = Some ''k1'',
         m_public_key = Some ''K1'', m_listen_port = 51821\<rparr>,
       \<lparr>m_tunnel_id = ''t1'', m_gateway_id = ''gw2'', m_local_subnets = [net_10_20], m_private_key = None,
         m_public_key = None, m_listen_port = 51822\<rparr>],
     tb_s2s_routes := [\<lparr>r_id = ''r1'', r_tunnel_id = ''t1'', r_destination = net_10_10_1, r_via_gateway = ''gw2'', r_metric = 20, r_is_active = True, r_created_at = 0\<rparr>,
       \<lparr>r_id = ''r2'', r_tunnel_id = ''t1'', r_destination = net_10_8, r_via_gateway = ''gw2'', r_metric = 10, r_is_active = True, r_created_at = 0\<rparr>]\<rparr>"

lemma s2s_tables:
  "tb_gateways s2s_db = [sample_gateway_row ''gw1'' ''n1'', sample_gateway_row ''gw2'' ''n2'']"
  "tb_s2s_tunnels s2s_db = [\<lparr>t_id = ''t1'', t_name = ''office'', t_description = [], t_topology = ''mesh'',
         t_hub_gateway_id = None, t_is_active = True, t_created_at = 0, t_updated_at = 0\<rparr>]"
  "tb_s2s_members s2s_db = [\<lparr>m_tunnel_id = ''t1'', m_gateway_id = ''gw1'', m_local_subnets = [net_10_10],
       m_private_key = Some ''k1'', m_public_key = Some ''K1'', m_listen_port = 51821\<rparr>,
     \<lparr>m_tunnel_id = ''t1'', m_gateway_id = ''gw2'', m_local_subnets = [net_10_20], m_private_key = None,
       m_public_key = None, m_listen_port = 51822\<rparr>]"
  "map r_destination (sort_key r_metric (filter (\<lambda>r. r_tunnel_id r = ''t1'' \<and> r_is_active r \<and> r_via_gateway r = ''gw2'') (tb_s2s_routes s2s_db))) =
     [net_10_8, net_10_10_1]"
  by (simp_all add: s2s_db_def sample_tables)

lemma s2s_db_ok: "s2s_ok s2s_db"
  by (simp add: s2s_ok_def s2s_tables sample_gateway_row_def)

theorem s2s_tunnels_reference_witness:
  "map (\<lambda>c. map (\<lambda>p. (sp_GatewayId p, sp_PublicKey p, sp_AllowedIps p)) (stc_Peers c)) (fetchS2STunnels (\<lambda>_. False) ''gw1'' s2s_db) =
     [[(''gw2'', ''gw2-pub'', map cidr_text [net_10_20, net_10_8, net_10_10_1])]]"
proof -
  have dests: "map (\<lambda>r. cidr_text (r_destination r)) rs = map cidr_text (map r_destination rs)" for rs
    by simp
  have "\<not> (\<lambda>_ :: nat. False) n" for n by simp
  note ref = s2s_tunnels_reference [OF s2s_db_ok this, of "''gw1''", THEN conjunct1]
  show ?thesis
    unfolding ref tunnel_spec_def peer_spec_def dests by (simp add: s2s_tables sample_gateway_row_def del: map_map)
qed

section \<open>Authentication\<close>

lemma gateway_of_token_SomeD:
  "gateway_of_token sha256 token s = Some g \<Longrightarrow>
     g \<in> set (tb_gateways s) \<and> g_is_active g \<and> g_token_hash g = hex_encode (sha256 token)"
  by (auto simp: gateway_of_token_def dest: find_SomeD)

lemma seen_rows:
  "(if b then s else mark_seen now gw s) =
     s\<lparr>tb_gateways := map (\<lambda>h. if g_id h = gw \<and> \<not> b
       then h\<lparr>g_last_seen := Some now, g_health_status := ''healthy'', g_consecutive_failures := 0\<rparr> else h) (tb_gateways s)\<rparr>"
  by (simp add: mark_seen_def upd_where_def cong: if_cong)

lemma heartbeat_accepted:
  "case Heartbeat sha256 f now auth gwID s of
     (RpcErr code msg, s') \<Rightarrow> s' = s
   | (RpcOk u, s') \<Rightarrow> (\<exists>v vs g. auth = Some (v # vs) \<and> trim_prefix ''Bearer '' v \<noteq> [] \<and> g \<in> set (tb_gateways s) \<and>
        g_is_active g \<and> g_token_hash g = hex_encode (sha256 (trim_prefix ''Bearer '' v)) \<and> gwID \<in> {[], g_id g} \<and>
        s' = (if f 1 then s else mark_seen now (g_id g) s))"
  by (auto simp: Heartbeat_def authenticateStream_def Let_def split: option.splits list.splits if_splits
      dest!: gateway_of_token_SomeD)

lemma own_peers:
  assumes "\<And>n. \<not> f n" "ps = (case fetchPeers (f i) gw s of None \<Rightarrow> [] | Some ps \<Rightarrow> ps)"
  shows "(\<lambda>p. (pe_PublicKey p, pe_AllowedIps p)) ` set ps =
    (\<lambda>d. (d_wireguard_pubkey d, [host (d_assigned_ip d) @ ''/32''])) `
      {d \<in> set (tb_devices s). connectable d \<and> (serves s gw d \<or> serves_legacy s gw d)}"
proof -
  have "(\<lambda>p. (pe_PublicKey p, pe_AllowedIps p)) ` set ps =
      (\<lambda>d. (d_wireguard_pubkey d, [host (d_assigned_ip d) @ ''/32''])) ` (set (gateway_devices s gw) \<union> set (legacy_devices s gw))"
    by (simp add: assms fetchPeers_def image_Un image_image)
  moreover have "set (gateway_devices s gw) \<union> set (legacy_devices s gw) =
      {d \<in> set (tb_devices s). connectable d \<and> (serves s gw d \<or> serves_legacy s gw d)}"
    by (auto simp: gateway_devices_def legacy_devices_def)
  ultimately show ?thesis by simp
qed

lemma own_firewall:
  assumes "db_ok s" "\<And>xs. set (ord xs) = set xs" "\<And>n. \<not> f n" "fw = buildFirewallConfig ord (\<lambda>n. f (i + n)) gw s"
  shows "\<exists>cfg. fw = Some cfg \<and> (\<forall>fl p. chain_verdict fl (installed_specs (fc_Rules cfg)) p = access_verdict s gw p)"
  using rendered_verdict [OF firewall_plain_ok [OF assms(1)]] firewall_plain_access [OF assms(1,2), of "\<lambda>n. f (i + n)"] assms(3)
  by (simp add: assms(4) buildFirewallConfig_def buildFirewallConfigFromPool_def Let_def)

text \<open>
  C17. A configuration is handed out exactly for a non-empty token whose hash is stored for an
  active gateway, and it is that gateway's own: its identity and private key, and, without
  database errors, as peers the connectable devices of its networks and rules that decide packets
  by its access policy. A heartbeat is accepted only with the token of an active gateway that is
  the one it names (or names none); then the row of that gateway gets the time, a healthy status
  and a cleared failure count, unless that statement fails, and nothing else changes. A refused
  heartbeat changes nothing.
\<close>

theorem gateway_authentication:
  "((\<exists>c. GetConfig sha256 ord f token s = RpcOk c) \<longleftrightarrow> token \<noteq> [] \<and> \<not> f 0 \<and>
      (\<exists>g \<in> set (tb_gateways s). g_is_active g \<and> g_token_hash g = hex_encode (sha256 token))) \<and>
   (\<forall>c. GetConfig sha256 ord f token s = RpcOk c \<longrightarrow>
      (\<exists>g \<in> set (tb_gateways s). g_is_active g \<and> g_token_hash g = hex_encode (sha256 token) \<and>
         gc_GatewayId c = g_id g \<and> gc_PrivateKey c = g_wireguard_privkey g \<and>
         ((\<forall>n. \<not> f n) \<and> db_ok s \<and> (\<forall>xs. set (ord xs) = set xs) \<longrightarrow>
            (\<lambda>p. (pe_PublicKey p, pe_AllowedIps p)) ` set (gc_Peers c) =
              (\<lambda>d. (d_wireguard_pubkey d, [host (d_assigned_ip d) @ ''/32''])) `
                {d \<in> set (tb_devices s). connectable d \<and> (serves s (g_id g) d \<or> serves_legacy s (g_id g) d)} \<and>
            (\<exists>fw. gc_Firewall c = Some fw \<and>
               (\<forall>fl p. chain_verdict fl (installed_specs (fc_Rules fw)) p = access_verdict s (g_id g) p))))) \<and>
   (case Heartbeat sha256 f now auth gwID s of
      (RpcErr code msg, s') \<Rightarrow> s' = s
    | (RpcOk u, s') \<Rightarrow> (\<exists>v vs g. auth = Some (v # vs) \<and> trim_prefix ''Bearer '' v \<noteq> [] \<and> g \<in> set (tb_gateways s) \<and>
         g_is_active g \<and> g_token_hash g = hex_encode (sha256 (trim_prefix ''Bearer '' v)) \<and> gwID \<in> {[], g_id g} \<and>
         s' = s\<lparr>tb_gateways := map (\<lambda>h. if g_id h = g_id g \<and> \<not> f 1
                  then h\<lparr>g_last_seen := Some now, g_health_status := ''healthy'', g_consecutive_failures := 0\<rparr> else h)
                (tb_gateways s)\<rparr>))"
proof (intro conjI allI impI)
  show "(\<exists>c. GetConfig sha256 ord f token s = RpcOk c) \<longleftrightarrow> token \<noteq> [] \<and> \<not> f 0 \<and>
      (\<exists>g \<in> set (tb_gateways s). g_is_active g \<and> g_token_hash g = hex_encode (sha256 token))"
    by (auto simp: GetConfig_def gateway_of_token_def find_None_iff' split: option.splits prod.splits dest!: find_SomeD)
next
  fix c assume "GetConfig sha256 ord f token s = RpcOk c"
  then obtain g where g: "gateway_of_token sha256 token s = Some g"
    and c: "gc_GatewayId c = g_id g" "gc_PrivateKey c = g_wireguard_privkey g"
      "gc_Peers c = (case fetchPeers (f 3) (g_id g) s of None \<Rightarrow> [] | Some ps \<Rightarrow> ps)"
      "gc_Firewall c = buildFirewallConfig ord (\<lambda>n. f (4 + n)) (g_id g) s"
    by (auto simp: GetConfig_def split: if_splits option.splits prod.splits)
  show "\<exists>g \<in> set (tb_gateways s). g_is_active g \<and> g_token_hash g = hex_encode (sha256 token) \<and>
         gc_GatewayId c = g_id g \<and> gc_PrivateKey c = g_wireguard_privkey g \<and>
         ((\<forall>n. \<not> f n) \<and> db_ok s \<and> (\<forall>xs. set (ord xs) = set xs) \<longrightarrow>
            (\<lambda>p. (pe_PublicKey p, pe_AllowedIps p)) ` set (gc_Peers c) =
              (\<lambda>d. (d_wireguard_pubkey d, [host (d_assigned_ip d) @ ''/32''])) `
                {d \<in> set (tb_devices s). connectable d \<and> (serves s (g_id g) d \<or> serves_legacy s (g_id g) d)} \<and>
            (\<exists>fw. gc_Firewall c = Some fw \<and>
               (\<forall>fl p. chain_verdict fl (installed_specs (fc_Rules fw)) p = access_verdict s (g_id g) p)))"
  proof (intro bexI [of _ g] conjI impI)
    assume no: "(\<forall>n. \<not> f n) \<and> db_ok s \<and> (\<forall>xs. set (ord xs) = set xs)"
    show "(\<lambda>p. (pe_PublicKey p, pe_AllowedIps p)) ` set (gc_Peers c) =
        (\<lambda>d. (d_wireguard_pubkey d, [host (d_assigned_ip d) @ ''/32''])) `
          {d \<in> set (tb_devices s). connectable d \<and> (serves s (g_id g) d \<or> serves_legacy s (g_id g) d)}"
      by (rule own_peers [of f, OF _ c(3)]) (simp add: no)
    show "\<exists>fw. gc_Firewall c = Some fw \<and> (\<forall>fl p. chain_verdict fl (installed_specs (fc_Rules fw)) p = access_verdict s (g_id g) p)"
      by (rule own_firewall [of s ord f, OF _ _ _ c(4)]) (simp_all add: no)
  qed (use gateway_of_token_SomeD [OF g] c in simp_all)
next
  show "case Heartbeat sha256 f now auth gwID s of
      (RpcErr code msg, s') \<Rightarrow> s' = s
    | (RpcOk u, s') \<Rightarrow> (\<exists>v vs g. auth = Some (v # vs) \<and> trim_prefix ''Bearer '' v \<noteq> [] \<and> g \<in> set (tb_gateways s) \<and>
         g_is_active g \<and> g_token_hash g = hex_encode (sha256 (trim_prefix ''Bearer '' v)) \<and> gwID \<in> {[], g_id g} \<and>
         s' = s\<lparr>tb_gateways := map (\<lambda>h. if g_id h = g_id g \<and> \<not> f 1
                  then h\<lparr>g_last_seen := Some now, g_health_status := ''healthy'', g_consecutive_failures := 0\<rparr> else h)
                (tb_gateways s)\<rparr>)"
    by (rule heartbeat_accepted [unfolded seen_rows])
qed

definition token_db :: db where
  "token_db = sample_db\<lparr>tb_gateways := [(sample_gateway_row ''gw1'' ''n1'')\<lparr>g_token_hash := hex_encode ''secret''\<rparr>,
     (sample_gateway_row ''gw2'' ''n2'')\<lparr>g_token_hash := hex_encode ''other'', g_is_active := False\<rparr>]\<rparr>"

theorem gateway_authentication_witness:
  "(\<exists>c. GetConfig id rev (\<lambda>_. False) ''secret'' token_db = RpcOk c \<and> gc_GatewayId c = ''gw1'' \<and> gc_PrivateKey c = ''gw1-priv'') \<and>
   \<not> (\<exists>c. GetConfig id rev (\<lambda>_. False) ''other'' token_db = RpcOk c)"
proof -
  have gws: "set (tb_gateways token_db) = {(sample_gateway_row ''gw1'' ''n1'')\<lparr>g_token_hash := hex_encode ''secret''\<rparr>,
     (sample_gateway_row ''gw2'' ''n2'')\<lparr>g_token_hash := hex_encode ''other'', g_is_active := False\<rparr>}"
    by (simp add: token_db_def)
  note auth = gateway_authentication [of id rev "\<lambda>_. False" _ token_db None "[]" 0]
  obtain c where c: "GetConfig id rev (\<lambda>_. False) ''secret'' token_db = RpcOk c"
    using auth [of "''secret''", THEN conjunct1] by (auto simp: gws sample_gateway_row_def)
  moreover have "gc_GatewayId c = ''gw1'' \<and> gc_PrivateKey c = ''gw1-priv''"
    using auth [of "''secret''", THEN conjunct2, THEN conjunct1, rule_format, OF c]
    by (auto simp: gws sample_gateway_row_def hex_encode_inject)
  ultimately show ?thesis
    using auth [of "''other''", THEN conjunct1] by (auto simp: gws sample_gateway_row_def hex_encode_inject)
qed


section \<open>Health monitoring\<close>

fun ticks :: "time list \<Rightarrow> db \<Rightarrow> db" where
  "ticks [] s = s"
| "ticks (t # ts) s = ticks ts (snd (monitorGatewayHealthTick (\<lambda>_. False) t s))"

definition count_failure :: "time \<Rightarrow> gateway_row \<Rightarrow> gateway_row" where
  "count_failure now g = (if stale now g then g\<lparr>g_consecutive_failures := g_consecutive_failures g + 1\<rparr> else g)"

definition tick_row :: "time \<Rightarrow> gateway_row \<Rightarrow> gateway_row" where
  "tick_row now g =
     (let g1 = count_failure now g in if failing g1 then g1\<lparr>g_health_status := ''unhealthy''\<rparr> else g1)"

lemma tick_gateways:
  "tb_gateways (snd (monitorGatewayHealthTick (\<lambda>_. False) now s)) = map (tick_row now) (tb_gateways s)"
  "fst (monitorGatewayHealthTick (\<lambda>_. False) now s) = map g_id (filter failing (map (count_failure now) (tb_gateways s)))"
  by (simp_all add: monitorGatewayHealthTick_def Let_def upd_where_def tick_row_def count_failure_def [abs_def] comp_def cong: if_cong)

lemma ticks_gateways: "tb_gateways (ticks ts s) = map (\<lambda>g. fold tick_row ts g) (tb_gateways s)"
  by (induction ts arbitrary: s) (simp_all add: tick_gateways)

lemma tick_row_fresh:
  assumes "\<not> stale now g" "g_consecutive_failures g < 3 \<or> g_health_status g = ''unhealthy''"
  shows "tick_row now g = g"
  using assms by (auto simp: tick_row_def count_failure_def failing_def Let_def)

lemma ticks_fresh:
  "\<forall>t \<in> set ts. \<not> stale t g \<Longrightarrow> g_consecutive_failures g < 3 \<Longrightarrow> fold tick_row ts g = g"
  by (induction ts) (simp_all add: tick_row_fresh)

lemma tick_row_stale:
  assumes "stale now g"
  shows "tick_row now g = g\<lparr>g_consecutive_failures := g_consecutive_failures g + 1,
     g_health_status := (if 2 \<le> g_consecutive_failures g then ''unhealthy'' else g_health_status g)\<rparr>"
  using assms by (auto simp: tick_row_def count_failure_def failing_def stale_def Let_def)

text \<open>
  C31. A gateway that stops sending heartbeats is detected: once it has been silent for more than
  ninety seconds its third monitoring pass marks it unhealthy and reports it, not an earlier one,
  and a heartbeat makes it healthy again with its counter reset. A gateway heard of within ninety
  seconds of every pass is never touched, and neither is one that was never heard of.
\<close>

theorem silent_gateway_detected:
  assumes "g \<in> set (tb_gateways s)" "g_is_active g" "g_health_status g \<noteq> ''unhealthy''" "g_consecutive_failures g = 0"
  shows "(\<forall>t0. g_last_seen g = Some t0 \<and> t0 + seconds 90 < t1 \<and> t0 + seconds 90 < t2 \<and> t0 + seconds 90 < t3 \<longrightarrow>
      g\<lparr>g_consecutive_failures := 2\<rparr> \<in> set (tb_gateways (ticks [t1, t2] s)) \<and>
      g\<lparr>g_consecutive_failures := 3, g_health_status := ''unhealthy''\<rparr> \<in> set (tb_gateways (ticks [t1, t2, t3] s)) \<and>
      g_id g \<in> set (fst (monitorGatewayHealthTick (\<lambda>_. False) t3 (ticks [t1, t2] s))) \<and>
      g\<lparr>g_last_seen := Some now, g_health_status := ''healthy'', g_consecutive_failures := 0\<rparr>
        \<in> set (tb_gateways (mark_seen now (g_id g) (ticks [t1, t2, t3] s)))) \<and>
    ((\<forall>t0. g_last_seen g = Some t0 \<longrightarrow> (\<forall>t \<in> set ts. t \<le> t0 + seconds 90)) \<longrightarrow> g \<in> set (tb_gateways (ticks ts s)))"
proof (intro conjI allI impI)
  fix t0
  assume t0: "g_last_seen g = Some t0 \<and> t0 + seconds 90 < t1 \<and> t0 + seconds 90 < t2 \<and> t0 + seconds 90 < t3"
  let ?g = "\<lambda>n. g\<lparr>g_consecutive_failures := n\<rparr>"
  have stale: "stale t (?g n)" if "t \<in> {t1, t2, t3}" for t n
    using that t0 assms by (auto simp: stale_def)
  have "tick_row t1 (?g 0) = ?g 1" "tick_row t2 (?g 1) = ?g 2" "tick_row t3 (?g 2) = ?g 3\<lparr>g_health_status := ''unhealthy''\<rparr>"
    using tick_row_stale [OF stale, of t1 0] tick_row_stale [OF stale, of t2 1] tick_row_stale [OF stale, of t3 2]
    by simp_all
  moreover have "?g 0 = g" using assms(4) by (cases g) simp
  ultimately have rows: "fold tick_row [t1, t2] g = ?g 2"
      "fold tick_row [t1, t2, t3] g = ?g 3\<lparr>g_health_status := ''unhealthy''\<rparr>"
    by simp_all
  show two: "?g 2 \<in> set (tb_gateways (ticks [t1, t2] s))"
    unfolding ticks_gateways set_map using rows(1) assms(1) by (metis image_eqI)
  show three: "g\<lparr>g_consecutive_failures := 3, g_health_status := ''unhealthy''\<rparr> \<in> set (tb_gateways (ticks [t1, t2, t3] s))"
    unfolding ticks_gateways set_map using rows(2) assms(1) by (metis image_eqI)
  have "failing (count_failure t3 (?g 2))" "g_id (count_failure t3 (?g 2)) = g_id g"
    using stale [of t3 2] assms(2,3) by (simp_all add: count_failure_def failing_def)
  then show "g_id g \<in> set (fst (monitorGatewayHealthTick (\<lambda>_. False) t3 (ticks [t1, t2] s)))"
    unfolding tick_gateways using two by (force simp: image_iff)
  show "g\<lparr>g_last_seen := Some now, g_health_status := ''healthy'', g_consecutive_failures := 0\<rparr>
        \<in> set (tb_gateways (mark_seen now (g_id g) (ticks [t1, t2, t3] s)))"
    using imageI [OF three, of "\<lambda>r. if g_id r = g_id g then r\<lparr>g_last_seen := Some now, g_health_status := ''healthy'',
        g_consecutive_failures := 0\<rparr> else r"]
    by (simp add: mark_seen_def set_upd_where del: ticks.simps)
next
  assume fresh: "\<forall>t0. g_last_seen g = Some t0 \<longrightarrow> (\<forall>t \<in> set ts. t \<le> t0 + seconds 90)"
  have "\<not> stale t g" if "t \<in> set ts" for t
    using fresh that by (fastforce simp: stale_def split: option.splits)
  then have "fold tick_row ts g = g"
    using assms(4) by (simp add: ticks_fresh)
  then show "g \<in> set (tb_gateways (ticks ts s))"
    unfolding ticks_gateways set_map using assms(1) by (metis image_eqI)
qed

theorem silent_gateway_detected_witness:
  "(sample_gateway_row ''gw1'' ''n1'')\<lparr>g_consecutive_failures := 3, g_health_status := ''unhealthy''\<rparr>
     \<in> set (tb_gateways (ticks [seconds 120, seconds 180, seconds 240] sample_db)) \<and>
   sample_gateway_row ''gw1'' ''n1'' \<in> set (tb_gateways (ticks [seconds 60] sample_db))"
  using silent_gateway_detected [of "sample_gateway_row ''gw1'' ''n1''" sample_db "seconds 120" "seconds 180" "seconds 240" 0 "[seconds 60]"]
  by (simp add: sample_tables sample_gateway_row_def)

section \<open>Statistics\<close>

definition scoped :: "db \<Rightarrow> uuid \<Rightarrow> string set \<Rightarrow> device_row \<Rightarrow> bool" where
  "scoped s gw keys d \<longleftrightarrow> serves s gw d \<and> d_wireguard_pubkey d \<in> keys"

definition stats_effect :: "uuid \<Rightarrow> string set \<Rightarrow> db \<Rightarrow> db \<Rightarrow> bool" where
  "stats_effect gw keys s s' \<longleftrightarrow> (\<exists>h ps fl.
     s' = s\<lparr>tb_devices := map (\<lambda>d. d\<lparr>d_last_handshake := h d\<rparr>) (tb_devices s),
            tb_peer_stats := tb_peer_stats s @ ps, tb_flow_records := tb_flow_records s @ fl\<rparr> \<and>
     (\<forall>d. scoped s gw keys d \<or> h d = d_last_handshake d) \<and>
     (\<forall>r \<in> set ps. st_gateway_id r = gw \<and> (\<exists>d \<in> set (tb_devices s). d_id d = st_device_id r \<and> scoped s gw keys d)) \<and>
     (\<forall>r \<in> set fl. fl_gateway_id r = gw \<and>
        (\<exists>d \<in> set (tb_devices s). d_id d = fl_device_id r \<and> d_user_id d = fl_user_id r \<and> scoped s gw keys d)))"

lemma serves_update [simp]:
  "serves (s\<lparr>tb_devices := ds\<rparr>) = serves s" "serves (s\<lparr>tb_peer_stats := ps\<rparr>) = serves s"
  "serves (s\<lparr>tb_flow_records := fl\<rparr>) = serves s" "serves s gw (d\<lparr>d_last_handshake := h\<rparr>) = serves s gw d"
  by (simp_all add: serves_def fun_eq_iff split: option.split)

lemma scoped_update [simp]:
  "scoped (s\<lparr>tb_devices := ds\<rparr>) = scoped s" "scoped (s\<lparr>tb_peer_stats := ps\<rparr>) = scoped s"
  "scoped (s\<lparr>tb_flow_records := fl\<rparr>) = scoped s" "scoped s gw keys (d\<lparr>d_last_handshake := h\<rparr>) = scoped s gw keys d"
  by (simp_all add: scoped_def fun_eq_iff)

lemma scoped_mono: "scoped s gw keys d \<Longrightarrow> keys \<subseteq> keys' \<Longrightarrow> scoped s gw keys' d"
  by (auto simp: scoped_def)

lemma stats_effectI:
  assumes "s' = s\<lparr>tb_devices := map (\<lambda>d. d\<lparr>d_last_handshake := h d\<rparr>) (tb_devices s),
            tb_peer_stats := tb_peer_stats s @ ps, tb_flow_records := tb_flow_records s @ fl\<rparr>"
    and "\<And>d. \<not> scoped s gw keys d \<Longrightarrow> h d = d_last_handshake d"
    and "\<And>r. r \<in> set ps \<Longrightarrow> st_gateway_id r = gw \<and> (\<exists>d \<in> set (tb_devices s). d_id d = st_device_id r \<and> scoped s gw keys d)"
    and "\<And>r. r \<in> set fl \<Longrightarrow> fl_gateway_id r = gw \<and>
        (\<exists>d \<in> set (tb_devices s). d_id d = fl_device_id r \<and> d_user_id d = fl_user_id r \<and> scoped s gw keys d)"
  shows "stats_effect gw keys s s'"
  unfolding stats_effect_def using assms by blast

lemma stats_effect_refl: "stats_effect gw keys s s"
  by (rule stats_effectI [where h = d_last_handshake and ps = "[]" and fl = "[]"]) simp_all

lemma stats_effect_trans:
  assumes "stats_effect gw keys s s1" "stats_effect gw keys s1 s2"
  shows "stats_effect gw keys s s2"
proof -
  obtain h ps fl where s1: "s1 = s\<lparr>tb_devices := map (\<lambda>d. d\<lparr>d_last_handshake := h d\<rparr>) (tb_devices s),
        tb_peer_stats := tb_peer_stats s @ ps, tb_flow_records := tb_flow_records s @ fl\<rparr>"
    and one: "\<forall>d. scoped s gw keys d \<or> h d = d_last_handshake d"
      "\<forall>r \<in> set ps. st_gateway_id r = gw \<and> (\<exists>d \<in> set (tb_devices s). d_id d = st_device_id r \<and> scoped s gw keys d)"
      "\<forall>r \<in> set fl. fl_gateway_id r = gw \<and> (\<exists>d \<in> set (tb_devices s). d_id d = fl_device_id r \<and>
         d_user_id d = fl_user_id r \<and> scoped s gw keys d)"
    using assms(1) unfolding stats_effect_def by blast
  obtain h' ps' fl' where s2: "s2 = s1\<lparr>tb_devices := map (\<lambda>d. d\<lparr>d_last_handshake := h' d\<rparr>) (tb_devices s1),
        tb_peer_stats := tb_peer_stats s1 @ ps', tb_flow_records := tb_flow_records s1 @ fl'\<rparr>"
    and two: "\<forall>d. scoped s1 gw keys d \<or> h' d = d_last_handshake d"
      "\<forall>r \<in> set ps'. st_gateway_id r = gw \<and> (\<exists>d \<in> set (tb_devices s1). d_id d = st_device_id r \<and> scoped s1 gw keys d)"
      "\<forall>r \<in> set fl'. fl_gateway_id r = gw \<and> (\<exists>d \<in> set (tb_devices s1). d_id d = fl_device_id r \<and>
         d_user_id d = fl_user_id r \<and> scoped s1 gw keys d)"
    using assms(2) unfolding stats_effect_def by blast
  have sc: "scoped s1 = scoped s" by (simp add: s1)
  show ?thesis
  proof (rule stats_effectI [where h = "\<lambda>d. h' (d\<lparr>d_last_handshake := h d\<rparr>)" and ps = "ps @ ps'" and fl = "fl @ fl'"])
    show "s2 = s\<lparr>tb_devices := map (\<lambda>d. d\<lparr>d_last_handshake := h' (d\<lparr>d_last_handshake := h d\<rparr>)\<rparr>) (tb_devices s),
       tb_peer_stats := tb_peer_stats s @ ps @ ps', tb_flow_records := tb_flow_records s @ fl @ fl'\<rparr>"
      by (simp add: s2 s1 comp_def)
    show "h' (d\<lparr>d_last_handshake := h d\<rparr>) = d_last_handshake d" if "\<not> scoped s gw keys d" for d
      using that one(1) two(1) unfolding sc by (metis device_row.select_convs(8) device_row.surjective device_row.update_convs(8) scoped_update(4))
    show "st_gateway_id r = gw \<and> (\<exists>d \<in> set (tb_devices s). d_id d = st_device_id r \<and> scoped s gw keys d)"
      if "r \<in> set (ps @ ps')" for r
      using that one(2) two(2) unfolding sc by (auto simp: s1)
    show "fl_gateway_id r = gw \<and> (\<exists>d \<in> set (tb_devices s). d_id d = fl_device_id r \<and> d_user_id d = fl_user_id r \<and> scoped s gw keys d)"
      if "r \<in> set (fl @ fl')" for r
      using that one(3) two(3) unfolding sc by (auto simp: s1)
  qed
qed


lemma in_scope_scoped: "in_scope s gw pk d \<Longrightarrow> pk \<in> keys \<Longrightarrow> scoped s gw keys d"
  by (simp add: in_scope_def scoped_def)

lemma record_handshake_effect:
  assumes "ps_PublicKey ps \<in> keys"
  shows "stats_effect gw keys s (record_handshake fails gw ps s)"
proof (cases "handshake_of ps = None \<or> fails")
  case True
  then show ?thesis by (auto simp: record_handshake_def stats_effect_refl split: option.splits)
next
  case False
  then obtain t where t: "handshake_of ps = Some t" "\<not> fails" by auto
  show ?thesis
    by (rule stats_effectI [where ps = "[]" and fl = "[]" and
          h = "\<lambda>d. if in_scope s gw (ps_PublicKey ps) d then Some t else d_last_handshake d"])
      (auto simp: record_handshake_def t upd_where_def dest: in_scope_scoped [OF _ assms])
qed

lemma record_rows_effect:
  assumes "ps_PublicKey ps \<in> keys"
  shows "stats_effect gw keys s (record_peer_stats fails gw ps s)" "stats_effect gw keys s (record_flow fails gw ps s)"
proof -
  let ?ds = "filter (in_scope s gw (ps_PublicKey ps)) (tb_devices s)"
  show "stats_effect gw keys s (record_peer_stats fails gw ps s)"
    by (rule stats_effectI [where h = d_last_handshake and fl = "[]" and ps = "if fails then [] else
          map (\<lambda>d. \<lparr>st_gateway_id = gw, st_device_id = d_id d, st_rx_bytes = ps_RxBytes ps, st_tx_bytes = ps_TxBytes ps,
            st_last_handshake = handshake_of ps, st_endpoint = ps_Endpoint ps\<rparr>) ?ds"])
      (auto simp: record_peer_stats_def intro: in_scope_scoped [OF _ assms] split: if_splits)
  show "stats_effect gw keys s (record_flow fails gw ps s)"
    by (rule stats_effectI [where h = d_last_handshake and ps = "[]" and fl = "if fails then [] else
          map (\<lambda>d. \<lparr>fl_gateway_id = gw, fl_device_id = d_id d, fl_user_id = d_user_id d, fl_src_ip = d_assigned_ip d,
            fl_bytes_sent = ps_TxBytes ps, fl_bytes_recv = ps_RxBytes ps\<rparr>) ?ds"])
      (auto simp: record_flow_def intro: in_scope_scoped [OF _ assms] split: if_splits)
qed

lemma handlePeerStats_effect:
  "ps_PublicKey ` set stats \<subseteq> keys \<Longrightarrow> stats_effect gw keys s (handlePeerStats f gw stats s)"
proof (induction f gw stats s rule: handlePeerStats.induct)
  case (2 f gw ps rest s)
  then have "stats_effect gw keys s (stats_step f gw ps s)"
    unfolding stats_step_def
    by (intro stats_effect_trans [OF stats_effect_trans [OF record_handshake_effect record_rows_effect(1)] record_rows_effect(2)]) auto
  then show ?case
    using 2 by (auto intro: stats_effect_trans)
qed (simp add: stats_effect_refl)

text \<open>
  C32. A statistics report touches nothing outside the networks of the gateway that sent it: it
  changes at most the last handshake of devices it names that are on a network the gateway serves,
  appends statistics and flow rows of those devices under the gateway's own id, each flow with the
  owner of its device, and leaves every other row of every table as it was, whichever of its
  statements fail.
\<close>

theorem peer_stats_scoped:
  "\<exists>h ps fl. handlePeerStats f gw stats s =
       s\<lparr>tb_devices := map (\<lambda>d. d\<lparr>d_last_handshake := h d\<rparr>) (tb_devices s),
         tb_peer_stats := tb_peer_stats s @ ps, tb_flow_records := tb_flow_records s @ fl\<rparr> \<and>
     (\<forall>d. serves s gw d \<and> d_wireguard_pubkey d \<in> ps_PublicKey ` set stats \<or> h d = d_last_handshake d) \<and>
     list_all (\<lambda>r. st_gateway_id r = gw \<and> (\<exists>d \<in> set (tb_devices s). d_id d = st_device_id r \<and>
        serves s gw d \<and> d_wireguard_pubkey d \<in> ps_PublicKey ` set stats)) ps \<and>
     list_all (\<lambda>r. fl_gateway_id r = gw \<and> (\<exists>d \<in> set (tb_devices s). d_id d = fl_device_id r \<and>
        d_user_id d = fl_user_id r \<and> serves s gw d \<and> d_wireguard_pubkey d \<in> ps_PublicKey ` set stats)) fl"
  using handlePeerStats_effect [OF subset_refl, where gw = gw and s = s and f = f and stats = stats]
  unfolding stats_effect_def scoped_def list_all_iff by blast

end
