(* ===== verification/Stream_Hub.thy ===== *)
theory Stream_Hub
  imports Protocol "HOL-Library.AList"
begin

text \<open>
  The registry of connected gateways of a core instance (\<^verbatim>\<open>internal/core/stream_hub.go\<close>) and the
  propagation of events between instances through Redis Pub/Sub.

  A stream is a number. What a hub does is the list of its outputs: an event handed to a stream, or
  a message published for all instances. The encoding of messages is that of the protobuf package,
  and which published message reaches which instance is up to Redis; both are parameters.
\<close>

section \<open>One instance\<close>

datatype hub_out = Deliver nat CoreEvent | Publish string

text \<open>\<^verbatim>\<open>proto.Marshal\<close> and \<^verbatim>\<open>proto.Unmarshal\<close>, with \<open>None\<close> for their errors.\<close>

record wire =
  wr_Marshal :: "CoreEvent \<Rightarrow> string option"
  wr_Unmarshal :: "string \<Rightarrow> CoreEvent option"

text \<open>Without a Redis client \<open>hb_rdb\<close> is \<open>None\<close>; with one it is the encoding of what goes through it.\<close>

record StreamHub =
  hb_streams :: "(string \<times> nat) list"
  hb_rdb :: "wire option"

definition NewStreamHub :: "wire option \<Rightarrow> StreamHub" where
  "NewStreamHub rdb = \<lparr>hb_streams = [], hb_rdb = rdb\<rparr>"

definition Register :: "string \<Rightarrow> nat \<Rightarrow> StreamHub \<Rightarrow> StreamHub" where
  "Register gatewayID stream h = h\<lparr>hb_streams := AList.update gatewayID stream (hb_streams h)\<rparr>"

text \<open>The function that \<open>Register\<close> returns.\<close>

definition cleanup :: "string \<Rightarrow> StreamHub \<Rightarrow> StreamHub" where
  "cleanup gatewayID h = h\<lparr>hb_streams := AList.delete gatewayID (hb_streams h)\<rparr>"

text \<open>The command is issued; its error is only logged, so whether it took effect is seen at the receivers.\<close>

definition publish :: "CoreEvent \<Rightarrow> StreamHub \<Rightarrow> hub_out list" where
  "publish event h =
     (case hb_rdb h of
        None \<Rightarrow> []
      | Some w \<Rightarrow> (case wr_Marshal w event of None \<Rightarrow> [] | Some data \<Rightarrow> [Publish data]))"

definition broadcastLocal :: "CoreEvent \<Rightarrow> StreamHub \<Rightarrow> hub_out list" where
  "broadcastLocal event h = map (\<lambda>st. Deliver st event) (map snd (hb_streams h))"

definition Broadcast :: "CoreEvent \<Rightarrow> StreamHub \<Rightarrow> hub_out list" where
  "Broadcast event h = broadcastLocal event h @ publish event h"

definition BroadcastPeerUpdate :: "peer_action \<Rightarrow> Peer \<Rightarrow> StreamHub \<Rightarrow> hub_out list" where
  "BroadcastPeerUpdate action peer h = Broadcast (PeerUpdate action peer) h"

definition SendTo :: "string \<Rightarrow> CoreEvent \<Rightarrow> StreamHub \<Rightarrow> hub_out list" where
  "SendTo gatewayID event h = (case map_of (hb_streams h) gatewayID of None \<Rightarrow> [] | Some st \<Rightarrow> [Deliver st event])"

definition SendFirewallUpdate :: "string \<Rightarrow> FirewallConfig option \<Rightarrow> StreamHub \<Rightarrow> hub_out list" where
  "SendFirewallUpdate gatewayID config h =
     (let event = FirewallUpdate config in SendTo gatewayID event h @ publish event h)"

definition SendSmartRouteUpdate :: "string \<Rightarrow> SmartRouteConfig option \<Rightarrow> StreamHub \<Rightarrow> hub_out list" where
  "SendSmartRouteUpdate gatewayID config h =
     (let event = SmartRouteUpdate config in SendTo gatewayID event h @ publish event h)"

definition ConnectedCount :: "StreamHub \<Rightarrow> nat" where
  "ConnectedCount h = length (hb_streams h)"

text \<open>A message from the channel goes to the gateways of the instance and is not published again.\<close>

definition subscribe_msg :: "string \<Rightarrow> StreamHub \<Rightarrow> hub_out list" where
  "subscribe_msg payload h =
     (case hb_rdb h of
        None \<Rightarrow> []
      | Some w \<Rightarrow> (case wr_Unmarshal w payload of None \<Rightarrow> [] | Some event \<Rightarrow> broadcastLocal event h))"

section \<open>A cluster\<close>

text \<open>
  \<open>rd n i\<close> says that the \<open>n\<close>-th publication of a run reaches the \<open>i\<close>-th instance: Redis delivers a
  message at most once to each subscriber, and to none when the command failed or the subscriber
  was not connected. What the streams of all instances \<open>hubs\<close> receive for the outputs of one of
  them is then the following, with the messages of one publisher in the order of their publication.
\<close>

type_synonym pubsub = "nat \<Rightarrow> nat \<Rightarrow> bool"

fun handed :: "hub_out \<Rightarrow> (nat \<times> CoreEvent) option" where
  "handed (Deliver st e) = Some (st, e)"
| "handed (Publish data) = None"

definition relayed :: "(nat \<Rightarrow> bool) \<Rightarrow> string \<Rightarrow> StreamHub list \<Rightarrow> (nat \<times> CoreEvent) list" where
  "relayed got data hubs =
     concat (map (\<lambda>i. if got i then List.map_filter handed (subscribe_msg data (hubs ! i)) else []) [0..<length hubs])"

fun deliveries :: "pubsub \<Rightarrow> StreamHub list \<Rightarrow> hub_out list \<Rightarrow> (nat \<times> CoreEvent) list" where
  "deliveries rd hubs [] = []"
| "deliveries rd hubs (Deliver st e # outs) = (st, e) # deliveries rd hubs outs"
| "deliveries rd hubs (Publish data # outs) = relayed (rd 0) data hubs @ deliveries (\<lambda>n. rd (Suc n)) hubs outs"

definition publications :: "hub_out list \<Rightarrow> nat" where
  "publications outs = length (filter (\<lambda>out. handed out = None) outs)"

lemma publications_simps [simp]:
  "publications [] = 0" "publications (Deliver st e # outs) = publications outs"
  "publications (Publish data # outs) = Suc (publications outs)"
  by (simp_all add: publications_def)

lemma deliveries_append:
  "deliveries rd hubs (xs @ ys) = deliveries rd hubs xs @ deliveries (\<lambda>n. rd (n + publications xs)) hubs ys"
  by (induction rd hubs xs rule: deliveries.induct) simp_all

lemma set_relayed:
  "(st, e) \<in> set (relayed got data hubs) \<longleftrightarrow>
     (\<exists>i < length hubs. got i \<and> (\<exists>w. hb_rdb (hubs ! i) = Some w \<and> wr_Unmarshal w data = Some e) \<and>
        st \<in> snd ` set (hb_streams (hubs ! i)))"
  by (auto simp: relayed_def subscribe_msg_def broadcastLocal_def List.map_filter_def split: option.splits) force+

lemma delivered_direct: "Deliver st e \<in> set outs \<Longrightarrow> (st, e) \<in> set (deliveries rd hubs outs)"
  by (induction rd hubs outs rule: deliveries.induct) auto

lemma delivered_relay:
  assumes "i < length hubs" "hb_rdb (hubs ! i) = Some w" "wr_Unmarshal w data = Some e" "(g, st) \<in> set (hb_streams (hubs ! i))"
  shows "Publish data \<in> set outs \<Longrightarrow> (\<And>n. rd n i) \<Longrightarrow> (st, e) \<in> set (deliveries rd hubs outs)"
proof (induction outs arbitrary: rd)
  case (Cons out outs)
  have "(st, e) \<in> set (relayed (rd 0) data hubs)"
    using assms Cons.prems(2) unfolding set_relayed by force
  then show ?case using Cons by (cases out) auto
qed simp

text \<open>Whatever the streams receive is one of the events that a hub sends out.\<close>

definition carries :: "StreamHub \<Rightarrow> CoreEvent set \<Rightarrow> hub_out list \<Rightarrow> bool" where
  "carries h E outs \<longleftrightarrow> (\<forall>st e. Deliver st e \<in> set outs \<longrightarrow> e \<in> E) \<and>
     (\<forall>data. Publish data \<in> set outs \<longrightarrow> (\<exists>w e. hb_rdb h = Some w \<and> wr_Marshal w e = Some data \<and> e \<in> E))"

text \<open>The other instances decode a message to the event that was encoded, or not at all.\<close>

definition compatible :: "StreamHub \<Rightarrow> StreamHub list \<Rightarrow> bool" where
  "compatible h hubs \<longleftrightarrow> (\<forall>w h' w' e data e'. hb_rdb h = Some w \<and> h' \<in> set hubs \<and> hb_rdb h' = Some w' \<and>
     wr_Marshal w e = Some data \<and> wr_Unmarshal w' data = Some e' \<longrightarrow> e' = e)"

lemma carries_simps [simp]:
  "carries h E []" "carries h E (xs @ ys) \<longleftrightarrow> carries h E xs \<and> carries h E ys"
  "carries h E (Deliver st e # outs) \<longleftrightarrow> e \<in> E \<and> carries h E outs"
  by (auto simp: carries_def)

lemma carries_publish: "e \<in> E \<Longrightarrow> carries h E (publish e h)"
  by (cases "hb_rdb h"; cases "wr_Marshal (the (hb_rdb h)) e") (auto simp: carries_def publish_def)

lemma carries_sends:
  "e \<in> E \<Longrightarrow> carries h E (Broadcast e h)" "FirewallUpdate c \<in> E \<Longrightarrow> carries h E (SendFirewallUpdate gw c h)"
  by (auto simp: Broadcast_def SendFirewallUpdate_def Let_def carries_publish SendTo_def split: option.split)
    (auto simp: carries_def broadcastLocal_def)

lemma delivered_carried:
  assumes "carries h E outs" "compatible h hubs" "(st, e) \<in> set (deliveries rd hubs outs)"
  shows "e \<in> E"
  using assms(1,3)
proof (induction outs arbitrary: rd)
  case (Cons out outs)
  have rest: "carries h E outs" using Cons.prems(1) by (auto simp: carries_def)
  show ?case
  proof (cases out)
    case (Deliver st' e')
    then show ?thesis using Cons rest by auto
  next
    case (Publish data)
    then obtain w e' where e': "hb_rdb h = Some w" "wr_Marshal w e' = Some data" "e' \<in> E"
      using Cons.prems(1) by (auto simp: carries_def)
    then have "e = e'" if "(st, e) \<in> set (relayed (rd 0) data hubs)"
      using that assms(2) nth_mem unfolding set_relayed compatible_def by metis
    then show ?thesis using Cons Publish rest e' by auto
  qed
qed simp

text \<open>Without a Redis client the streams receive what they are handed.\<close>

lemma delivered_local:
  assumes "carries h E outs" "hb_rdb h = None"
  shows "(st, e) \<in> set (deliveries rd hubs outs) \<longleftrightarrow> Deliver st e \<in> set outs"
  using assms(1)
proof (induction outs arbitrary: rd)
  case (Cons out outs)
  then have "carries h E outs" by (auto simp: carries_def)
  then show ?case using Cons assms(2) by (cases out) (auto simp: carries_def)
qed simp

section \<open>The registry\<close>

definition hub_ok :: "StreamHub \<Rightarrow> bool" where
  "hub_ok h \<longleftrightarrow> distinct (map fst (hb_streams h))"

text \<open>Streams that open and end, in any order; the end of a stream runs the cleanup of its gateway.\<close>

datatype hub_event = Connect string nat | Disconnect string nat

fun hub_run :: "StreamHub \<Rightarrow> hub_event list \<Rightarrow> StreamHub" where
  "hub_run h [] = h"
| "hub_run h (Connect gw st # es) = hub_run (Register gw st h) es"
| "hub_run h (Disconnect gw st # es) = hub_run (cleanup gw h) es"

lemma hub_ok_ops:
  "hub_ok (NewStreamHub rdb)" "hub_ok h \<Longrightarrow> hub_ok (Register gw st h)" "hub_ok h \<Longrightarrow> hub_ok (cleanup gw h)"
  by (simp_all add: hub_ok_def NewStreamHub_def Register_def cleanup_def distinct_update distinct_delete)

lemma hub_run_ok: "hub_ok h \<Longrightarrow> hub_ok (hub_run h es)"
  by (induction h es rule: hub_run.induct) (simp_all add: hub_ok_ops)

lemma hub_lookup:
  "map_of (hb_streams (Register gw st h)) = (map_of (hb_streams h))(gw \<mapsto> st)"
  "map_of (hb_streams (cleanup gw h)) = (map_of (hb_streams h))(gw := None)"
  by (simp_all add: Register_def cleanup_def update_conv' delete_conv')

definition sample_hub :: "wire option \<Rightarrow> StreamHub" where
  "sample_hub rdb = hub_run (NewStreamHub rdb) [Connect ''gw1'' 1, Connect ''gw2'' 2]"

lemma sample_hub_streams [simp]: "hb_streams (sample_hub rdb) = [(''gw1'', 1), (''gw2'', 2)]" "hb_rdb (sample_hub rdb) = rdb"
  by (simp_all add: sample_hub_def NewStreamHub_def Register_def)

text \<open>An encoding of finitely many events: a message tells by its length which of them it is.\<close>

definition table_wire :: "CoreEvent list \<Rightarrow> wire" where
  "table_wire es = \<lparr>wr_Marshal = (\<lambda>e. if e \<in> set es then Some (replicate (length (takeWhile (\<lambda>x. x \<noteq> e) es)) CHR ''x'') else None),
     wr_Unmarshal = (\<lambda>data. if length data < length es then Some (es ! length data) else None)\<rparr>"

lemma takeWhile_index: "e \<in> set es \<Longrightarrow> length (takeWhile (\<lambda>x. x \<noteq> e) es) < length es \<and> es ! length (takeWhile (\<lambda>x. x \<noteq> e) es) = e"
  by (induction es) auto

lemma table_wire_compatible: "compatible (sample_hub (Some (table_wire es))) [sample_hub (Some (table_wire es))]"
  by (auto simp: compatible_def table_wire_def takeWhile_index split: if_splits)

text \<open>The streams that are open, and the runs in which a gateway never opens a second one.\<close>

fun live_run :: "(string \<times> nat) set \<Rightarrow> hub_event list \<Rightarrow> (string \<times> nat) set" where
  "live_run L [] = L"
| "live_run L (Connect gw st # es) = live_run (insert (gw, st) L) es"
| "live_run L (Disconnect gw st # es) = live_run (L - {(gw, st)}) es"

fun orderly :: "(string \<times> nat) set \<Rightarrow> hub_event list \<Rightarrow> bool" where
  "orderly L [] = True"
| "orderly L (Connect gw st # es) = (gw \<notin> fst ` L \<and> orderly (insert (gw, st) L) es)"
| "orderly L (Disconnect gw st # es) = ((gw, st) \<in> L \<and> orderly (L - {(gw, st)}) es)"

lemma update_fresh: "k \<notin> fst ` set al \<Longrightarrow> AList.update k v al = al @ [(k, v)]"
  by (induction al) auto

lemma set_streams_Register: "gw \<notin> fst ` set (hb_streams h) \<Longrightarrow>
    set (hb_streams (Register gw st h)) = insert (gw, st) (set (hb_streams h))"
  by (simp add: Register_def update_fresh)

lemma set_streams_cleanup: "hub_ok h \<Longrightarrow> (gw, st) \<in> set (hb_streams h) \<Longrightarrow>
    set (hb_streams (cleanup gw h)) = set (hb_streams h) - {(gw, st)}"
  by (auto simp: cleanup_def AList.delete_eq hub_ok_def dest: eq_key_imp_eq_value)

lemma hub_run_live: "hub_ok h \<Longrightarrow> orderly (set (hb_streams h)) es \<Longrightarrow> set (hb_streams (hub_run h es)) = live_run (set (hb_streams h)) es"
proof (induction h es rule: hub_run.induct)
  case (2 h gw st es)
  then show ?case by (simp add: hub_ok_ops set_streams_Register)
next
  case (3 h gw st es)
  then show ?case using set_streams_cleanup [of h gw st] by (simp add: hub_ok_ops)
qed simp

text \<open>
  C25. As long as no gateway opens a stream while an earlier one of it is still open, the registry
  holds exactly the open streams, one for each gateway. When a gateway reconnects before the end
  of its old stream is noticed, the cleanup of the old stream removes the new one: the gateway is
  connected but the registry has no stream for it, and events for it are lost.
\<close>

theorem registry_tracks_streams:
  "(orderly {} es \<longrightarrow> set (hb_streams (hub_run (NewStreamHub rdb) es)) = live_run {} es \<and>
      distinct (map fst (hb_streams (hub_run (NewStreamHub rdb) es)))) \<and>
   (st1 \<noteq> st2 \<longrightarrow> (gw, st2) \<in> live_run {} [Connect gw st1, Connect gw st2, Disconnect gw st1] \<and>
      SendTo gw e (hub_run h [Connect gw st1, Connect gw st2, Disconnect gw st1]) = [])"
  using hub_run_live [of "NewStreamHub rdb" es] hub_run_ok [of "NewStreamHub rdb" es]
  by (simp add: hub_ok_ops SendTo_def hub_lookup) (simp add: NewStreamHub_def hub_ok_def)

theorem registry_tracks_streams_witness:
  "set (hb_streams (hub_run (NewStreamHub None) [Connect ''gw1'' 1, Disconnect ''gw1'' 1, Connect ''gw1'' 2])) = {(''gw1'', 2)} \<and>
   SendTo ''gw1'' (FirewallUpdate None) (hub_run (NewStreamHub None) [Connect ''gw1'' 1, Connect ''gw1'' 2, Disconnect ''gw1'' 1]) = []"
  using registry_tracks_streams [of "[Connect ''gw1'' 1, Disconnect ''gw1'' 1, Connect ''gw1'' 2]" None 1 2 "''gw1''" "FirewallUpdate None" "NewStreamHub None"]
  by simp

end
