(* ===== verification/Peer_Notifier.thy ===== *)
theory Peer_Notifier
  imports Core_Gateway Stream_Hub
begin

text \<open>
  The notifications that keep gateways in step with the database
  (\<^verbatim>\<open>internal/core/peer_notifier.go\<close>): peers added and removed, firewalls and smart routes pushed
  again, tunnels sent again. The result is the outputs of the hub \<open>h\<close>.

  \<open>ord\<close> is the order of Go's map iteration; statement \<open>0\<close> of \<open>f\<close> finds the gateways and the statements
  from \<open>5 * i + 1\<close> build the firewall of the \<open>i\<close>-th one.
\<close>

section \<open>Which gateways\<close>

definition findGatewaysForPeer :: "bool \<Rightarrow> string \<Rightarrow> db \<Rightarrow> uuid list" where
  "findGatewaysForPeer fails pubkey s =
     (if fails then []
      else remdups [gw. d \<leftarrow> tb_devices s, d_wireguard_pubkey d = pubkey, (gw, n) \<leftarrow> tb_gateway_networks s, d_network_id d = Some n])"

text \<open>The rows of a left join: one row of nulls when nothing matches.\<close>

definition left_join :: "'a list \<Rightarrow> 'a option list" where
  "left_join xs = (if xs = [] then [None] else map Some xs)"

definition gateways_of_network :: "db \<Rightarrow> uuid option \<Rightarrow> uuid list" where
  "gateways_of_network s n =
     List.map_filter id
       [case a of None \<Rightarrow> b | Some x \<Rightarrow> Some x.
        a \<leftarrow> left_join (map fst (filter (\<lambda>gn. Some (snd gn) = n) (tb_gateway_networks s))),
        b \<leftarrow> left_join (map g_id (filter (\<lambda>g. n \<noteq> None \<and> g_network_id g = n) (tb_gateways s)))]"

definition gateways_of_user :: "db \<Rightarrow> uuid \<Rightarrow> uuid list" where
  "gateways_of_user s userID =
     remdups (concat (map (\<lambda>d. gateways_of_network s (d_network_id d))
       (filter (\<lambda>d. d_user_id d = userID \<and> connectable d) (tb_devices s))))"

definition gateways_of_group :: "db \<Rightarrow> uuid \<Rightarrow> uuid list" where
  "gateways_of_group s groupID =
     remdups (concat (map (\<lambda>a. gateways_of_network s (Some (a_network_id a)))
       (filter (\<lambda>a. a_group_id a = groupID) (tb_network_acls s))))"

definition gateways_of_smart_route :: "db \<Rightarrow> uuid \<Rightarrow> uuid list" where
  "gateways_of_smart_route s smartRouteID =
     remdups (concat (map (\<lambda>(n, sr). gateways_of_network s (Some n))
       (filter (\<lambda>(n, sr). sr = smartRouteID) (tb_network_smart_routes s))))"

section \<open>Firewalls\<close>

fun removeZTNABlockedPeers :: "string list \<Rightarrow> StreamHub \<Rightarrow> hub_out list" where
  "removeZTNABlockedPeers [] h = []"
| "removeZTNABlockedPeers (pk # pks) h =
     BroadcastPeerUpdate PEER_REMOVE \<lparr>pe_PublicKey = pk, pe_AllowedIps = [], pe_PersistentKeepalive = 0, pe_Endpoint = []\<rparr> h @
     removeZTNABlockedPeers pks h"

definition sendFirewallResult :: "uuid \<Rightarrow> firewallResult option \<Rightarrow> StreamHub \<Rightarrow> hub_out list" where
  "sendFirewallResult gatewayID result h =
     (case result of
        None \<Rightarrow> []
      | Some r \<Rightarrow> SendFirewallUpdate gatewayID (Some (fwr_Config r)) h @ removeZTNABlockedPeers (fwr_BlockedPubkeys r) h)"

fun RefreshFirewallForGateways :: "(ip4 list \<Rightarrow> ip4 list) \<Rightarrow> (nat \<Rightarrow> bool) \<Rightarrow> uuid list \<Rightarrow> db \<Rightarrow> StreamHub \<Rightarrow> hub_out list" where
  "RefreshFirewallForGateways ord f [] s h = []"
| "RefreshFirewallForGateways ord f (gw # gws) s h =
     sendFirewallResult gw (buildFirewallConfigFromPool ord f gw s) h @
     RefreshFirewallForGateways ord (\<lambda>n. f (n + 5)) gws s h"

definition refreshFirewallForPeer :: "(ip4 list \<Rightarrow> ip4 list) \<Rightarrow> (nat \<Rightarrow> bool) \<Rightarrow> string \<Rightarrow> db \<Rightarrow> StreamHub \<Rightarrow> hub_out list" where
  "refreshFirewallForPeer ord f pubkey s h =
     RefreshFirewallForGateways ord (\<lambda>n. f (n + 1)) (findGatewaysForPeer (f 0) pubkey s) s h"

definition NotifyPeerAdd :: "(ip4 list \<Rightarrow> ip4 list) \<Rightarrow> (nat \<Rightarrow> bool) \<Rightarrow> string \<Rightarrow> string list \<Rightarrow> db \<Rightarrow> StreamHub \<Rightarrow> hub_out list" where
  "NotifyPeerAdd ord f pubkey allowedIPs s h =
     BroadcastPeerUpdate PEER_ADD \<lparr>pe_PublicKey = pubkey, pe_AllowedIps = allowedIPs, pe_PersistentKeepalive = 25, pe_Endpoint = []\<rparr> h @
     refreshFirewallForPeer ord f pubkey s h"

definition NotifyPeerRemove :: "(ip4 list \<Rightarrow> ip4 list) \<Rightarrow> (nat \<Rightarrow> bool) \<Rightarrow> string \<Rightarrow> db \<Rightarrow> StreamHub \<Rightarrow> hub_out list" where
  "NotifyPeerRemove ord f pubkey s h =
     (let gatewayIDs = findGatewaysForPeer (f 0) pubkey s
      in BroadcastPeerUpdate PEER_REMOVE \<lparr>pe_PublicKey = pubkey, pe_AllowedIps = [], pe_PersistentKeepalive = 0, pe_Endpoint = []\<rparr> h @
         RefreshFirewallForGateways ord (\<lambda>n. f (n + 1)) gatewayIDs s h)"

definition RefreshFirewallForUser :: "(ip4 list \<Rightarrow> ip4 list) \<Rightarrow> (nat \<Rightarrow> bool) \<Rightarrow> uuid \<Rightarrow> db \<Rightarrow> StreamHub \<Rightarrow> hub_out list" where
  "RefreshFirewallForUser ord f userID s h =
     (if f 0 then [] else RefreshFirewallForGateways ord (\<lambda>n. f (n + 1)) (gateways_of_user s userID) s h)"

definition RefreshFirewallForGroup :: "(ip4 list \<Rightarrow> ip4 list) \<Rightarrow> (nat \<Rightarrow> bool) \<Rightarrow> uuid \<Rightarrow> db \<Rightarrow> StreamHub \<Rightarrow> hub_out list" where
  "RefreshFirewallForGroup ord f groupID s h =
     (if f 0 then [] else RefreshFirewallForGateways ord (\<lambda>n. f (n + 1)) (gateways_of_group s groupID) s h)"

definition RefreshAllFirewalls :: "(ip4 list \<Rightarrow> ip4 list) \<Rightarrow> (nat \<Rightarrow> bool) \<Rightarrow> db \<Rightarrow> StreamHub \<Rightarrow> hub_out list" where
  "RefreshAllFirewalls ord f s h =
     (if f 0 then []
      else RefreshFirewallForGateways ord (\<lambda>n. f (n + 1)) (remdups (map g_id (filter g_is_active (tb_gateways s)))) s h)"

text \<open>The refresh that a handler leaves to run in the background.\<close>

definition run_job :: "(ip4 list \<Rightarrow> ip4 list) \<Rightarrow> (nat \<Rightarrow> bool) \<Rightarrow> refresh_job \<Rightarrow> db \<Rightarrow> StreamHub \<Rightarrow> hub_out list" where
  "run_job ord f job s h =
     (case job of
        refresh_job.RefreshAllFirewalls \<Rightarrow> RefreshAllFirewalls ord f s h
      | refresh_job.RefreshFirewallForUser u \<Rightarrow> RefreshFirewallForUser ord f u s h
      | refresh_job.RefreshFirewallForGroup g \<Rightarrow> RefreshFirewallForGroup ord f g s h
      | refresh_job.RefreshFirewallForGateways gws \<Rightarrow> RefreshFirewallForGateways ord f gws s h)"

section \<open>Smart routes and tunnels\<close>

fun push_smart_routes :: "(nat \<Rightarrow> bool) \<Rightarrow> uuid list \<Rightarrow> db \<Rightarrow> StreamHub \<Rightarrow> hub_out list" where
  "push_smart_routes f [] s h = []"
| "push_smart_routes f (gw # gws) s h =
     SendSmartRouteUpdate gw (fetchSmartRoutesForGateway (f 0) gw s) h @ push_smart_routes (\<lambda>n. f (n + 1)) gws s h"

definition NotifySmartRouteUpdate :: "(nat \<Rightarrow> bool) \<Rightarrow> uuid \<Rightarrow> db \<Rightarrow> StreamHub \<Rightarrow> hub_out list" where
  "NotifySmartRouteUpdate f smartRouteID s h =
     (if f 0 then [] else push_smart_routes (\<lambda>n. f (n + 1)) (gateways_of_smart_route s smartRouteID) s h)"

text \<open>The query and the loops of \<open>fetchS2STunnels\<close>, written a second time in the source.\<close>

definition buildS2SConfigs :: "(nat \<Rightarrow> bool) \<Rightarrow> uuid \<Rightarrow> db \<Rightarrow> S2STunnelConfig list" where
  "buildS2SConfigs f gw s =
     (if f 0 then []
      else s2s_configs f s gw 1
        [(t, m). t \<leftarrow> tb_s2s_tunnels s, t_is_active t, m \<leftarrow> tb_s2s_members s, m_tunnel_id m = t_id t, m_gateway_id m = gw])"

definition NotifyS2SUpdate :: "(nat \<Rightarrow> bool) \<Rightarrow> uuid \<Rightarrow> db \<Rightarrow> StreamHub \<Rightarrow> hub_out list" where
  "NotifyS2SUpdate f gatewayID s h =
     concat (map (\<lambda>cfg. SendTo gatewayID (S2SUpdate S2S_ADD_TUNNEL (Some cfg)) h) (buildS2SConfigs f gatewayID s))"

definition s2s_peer_gateways :: "db \<Rightarrow> uuid \<Rightarrow> uuid list" where
  "s2s_peer_gateways s gw =
     remdups [m_gateway_id m2. m1 \<leftarrow> tb_s2s_members s, m_gateway_id m1 = gw, t \<leftarrow> tb_s2s_tunnels s, t_id t = m_tunnel_id m1,
              t_is_active t, m2 \<leftarrow> tb_s2s_members s, m_tunnel_id m2 = m_tunnel_id m1]"

text \<open>\<open>fs i\<close> are the faults of the configurations of the \<open>i\<close>-th peer gateway.\<close>

definition NotifyGatewayNetworksChanged :: "(ip4 list \<Rightarrow> ip4 list) \<Rightarrow> (nat \<Rightarrow> bool) \<Rightarrow> (uuid \<Rightarrow> nat \<Rightarrow> bool) \<Rightarrow> uuid \<Rightarrow> db
    \<Rightarrow> StreamHub \<Rightarrow> hub_out list" where
  "NotifyGatewayNetworksChanged ord f fs gatewayID s h =
     (case buildFirewallConfigFromPool ord f gatewayID s of
        None \<Rightarrow> [] | Some r \<Rightarrow> SendFirewallUpdate gatewayID (Some (fwr_Config r)) h) @
     (if f 5 then []
      else concat (map (\<lambda>gw. NotifyS2SUpdate (fs gw) gw s h) (s2s_peer_gateways s gatewayID)))"

end
