(* ===== verification/Gateway_Agent.thy ===== *)
theory Gateway_Agent
  imports Gateway_Firewall
begin

text \<open>
  The gateway agent: its WireGuard manager (\<^verbatim>\<open>internal/gateway/wg_manager.go\<close>) and its handlers
  for the events of the core (\<^verbatim>\<open>internal/gateway/agent.go\<close>).

  The kernel's WireGuard device is a parameter: \<open>configure\<close> is wgctrl's \<^verbatim>\<open>ConfigureDevice\<close> with
  one peer, \<open>parse_key\<close> is \<^verbatim>\<open>wgtypes.ParseKey\<close>, \<open>resolve\<close> is \<^verbatim>\<open>net.ResolveUDPAddr\<close> and \<open>ip\<close>
  runs the \<^verbatim>\<open>ip\<close> tool. The first argument of \<open>set_key\<close> is the private key.
\<close>

section \<open>The WireGuard manager\<close>

datatype ('key, 'ep) wg_op = SetPeer 'key "cidr list" "'ep option" | DropPeer 'key

fun contains :: "string \<Rightarrow> string \<Rightarrow> bool" where
  "contains sub [] = (sub = [])"
| "contains sub (c # s) = (cut_prefix sub (c # s) \<noteq> None \<or> contains sub s)"

fun assign_addresses :: "(string list \<Rightarrow> 'd \<Rightarrow> 'd \<times> bool \<times> string) \<Rightarrow> string \<Rightarrow> string list \<Rightarrow> 'd \<Rightarrow> 'd \<times> bool" where
  "assign_addresses ip iface [] d = (d, True)"
| "assign_addresses ip iface (addr # addrs) d =
     (let (d1, ok, out) = ip [''addr'', ''add'', addr, ''dev'', iface] d
      in if ok \<or> contains ''RTNETLINK answers: File exists'' out then assign_addresses ip iface addrs d1 else (d1, False))"

definition EnsureInterface :: "(string \<Rightarrow> 'key option) \<Rightarrow> ('d \<Rightarrow> bool) \<Rightarrow> (string list \<Rightarrow> 'd \<Rightarrow> 'd \<times> bool \<times> string)
    \<Rightarrow> ('key \<Rightarrow> int option \<Rightarrow> 'd \<Rightarrow> 'd \<times> bool) \<Rightarrow> string \<Rightarrow> string \<Rightarrow> int \<Rightarrow> string list \<Rightarrow> 'd \<Rightarrow> 'd \<times> bool" where
  "EnsureInterface parse_key device_exists ip set_key iface privateKey listenPort addresses d =
     (let (d1, created) = (if device_exists d then (d, True)
                           else let (d', ok, out) = ip [''link'', ''add'', iface, ''type'', ''wireguard''] d in (d', ok))
      in if \<not> created then (d1, False)
         else case parse_key privateKey of
           None \<Rightarrow> (d1, False)
         | Some key \<Rightarrow>
             (let (d2, configured) = set_key key (if 0 < listenPort then Some listenPort else None) d1
              in if \<not> configured then (d2, False)
                 else let d3 = fst (ip [''addr'', ''flush'', ''dev'', iface] d2);
                          (d4, assigned) = assign_addresses ip iface addresses d3
                      in if \<not> assigned then (d4, False)
                         else let (d5, up, out) = ip [''link'', ''set'', iface, ''up''] d4 in (d5, up)))"

definition AddPeer :: "(string \<Rightarrow> 'key option) \<Rightarrow> (string \<Rightarrow> 'ep option) \<Rightarrow> (('key, 'ep) wg_op \<Rightarrow> 'd \<Rightarrow> 'd \<times> bool)
    \<Rightarrow> string \<Rightarrow> string list \<Rightarrow> string \<Rightarrow> int \<Rightarrow> 'd \<Rightarrow> 'd \<times> bool" where
  "AddPeer parse_key resolve configure pubkey allowedIPs endpoint keepalive d =
     (case parse_key pubkey of
        None \<Rightarrow> (d, False)
      | Some key \<Rightarrow>
          configure (SetPeer key (List.map_filter parse_cidr allowedIPs) (if endpoint = [] then None else resolve endpoint)) d)"

definition RemovePeer :: "(string \<Rightarrow> 'key option) \<Rightarrow> (('key, 'ep) wg_op \<Rightarrow> 'd \<Rightarrow> 'd \<times> bool) \<Rightarrow> string \<Rightarrow> 'd \<Rightarrow> 'd \<times> bool" where
  "RemovePeer parse_key configure pubkey d =
     (case parse_key pubkey of None \<Rightarrow> (d, False) | Some key \<Rightarrow> configure (DropPeer key) d)"

section \<open>The agent\<close>

text \<open>The agent holds a manager or nil; the device and the packet filter are the kernel's state.\<close>

record ('k, 'd) Agent =
  ag_wg :: bool
  ag_fw :: bool
  ag_kernel :: 'k
  ag_device :: 'd

text \<open>The external functions that the handlers call.\<close>

record ('k, 'd, 'key, 'ep) externals =
  x_run :: "string list \<Rightarrow> 'k \<Rightarrow> 'k \<times> bool"
  x_ct_delete :: "string \<Rightarrow> 'k \<Rightarrow> 'k"
  x_ip_route :: "string option"
  x_parse_key :: "string \<Rightarrow> 'key option"
  x_resolve :: "string \<Rightarrow> 'ep option"
  x_configure :: "('key, 'ep) wg_op \<Rightarrow> 'd \<Rightarrow> 'd \<times> bool"

definition add_peer :: "('k, 'd, 'key, 'ep) externals \<Rightarrow> string \<Rightarrow> string list \<Rightarrow> string \<Rightarrow> int \<Rightarrow> ('k, 'd) Agent \<Rightarrow> ('k, 'd) Agent" where
  "add_peer x pubkey ips endpoint keepalive a =
     a\<lparr>ag_device := fst (AddPeer (x_parse_key x) (x_resolve x) (x_configure x) pubkey ips endpoint keepalive (ag_device a))\<rparr>"

definition remove_peer :: "('k, 'd, 'key, 'ep) externals \<Rightarrow> string \<Rightarrow> ('k, 'd) Agent \<Rightarrow> ('k, 'd) Agent" where
  "remove_peer x pubkey a = a\<lparr>ag_device := fst (RemovePeer (x_parse_key x) (x_configure x) pubkey (ag_device a))\<rparr>"

definition handlePeerUpdate :: "('k, 'd, 'key, 'ep) externals \<Rightarrow> peer_action \<Rightarrow> Peer \<Rightarrow> ('k, 'd) Agent \<Rightarrow> ('k, 'd) Agent" where
  "handlePeerUpdate x action peer a =
     (if \<not> ag_wg a then a
      else case action of
        PEER_ADD \<Rightarrow> add_peer x (pe_PublicKey peer) (pe_AllowedIps peer) (pe_Endpoint peer) (pe_PersistentKeepalive peer) a
      | PEER_MODIFY \<Rightarrow> add_peer x (pe_PublicKey peer) (pe_AllowedIps peer) (pe_Endpoint peer) (pe_PersistentKeepalive peer) a
      | PEER_REMOVE \<Rightarrow> remove_peer x (pe_PublicKey peer) a
      | PEER_UNSPECIFIED \<Rightarrow> a)"

fun add_s2s_peers :: "('k, 'd, 'key, 'ep) externals \<Rightarrow> S2SPeer list \<Rightarrow> ('k, 'd) Agent \<Rightarrow> ('k, 'd) Agent" where
  "add_s2s_peers x [] a = a"
| "add_s2s_peers x (p # ps) a =
     (if sp_PublicKey p = [] then add_s2s_peers x ps a
      else add_s2s_peers x ps (add_peer x (sp_PublicKey p) (sp_AllowedIps p) (sp_Endpoint p) (sp_PersistentKeepalive p) a))"

fun remove_s2s_peers :: "('k, 'd, 'key, 'ep) externals \<Rightarrow> S2SPeer list \<Rightarrow> ('k, 'd) Agent \<Rightarrow> ('k, 'd) Agent" where
  "remove_s2s_peers x [] a = a"
| "remove_s2s_peers x (p # ps) a =
     (if sp_PublicKey p = [] then remove_s2s_peers x ps a else remove_s2s_peers x ps (remove_peer x (sp_PublicKey p) a))"

definition handleS2SUpdate :: "('k, 'd, 'key, 'ep) externals \<Rightarrow> s2s_action \<Rightarrow> S2STunnelConfig option \<Rightarrow> ('k, 'd) Agent \<Rightarrow> ('k, 'd) Agent" where
  "handleS2SUpdate x action tunnel a =
     (case tunnel of
        None \<Rightarrow> a
      | Some t \<Rightarrow>
          if \<not> ag_wg a then a
          else if action \<in> {S2S_ADD_TUNNEL, S2S_UPDATE_ROUTES, S2S_UPDATE_PEERS} then add_s2s_peers x (stc_Peers t) a
          else if action = S2S_REMOVE_TUNNEL then remove_s2s_peers x (stc_Peers t) a
          else a)"

definition handleFirewallUpdate :: "('k, 'd, 'key, 'ep) externals \<Rightarrow> FirewallConfig option \<Rightarrow> ('k, 'd) Agent \<Rightarrow> ('k, 'd) Agent" where
  "handleFirewallUpdate x config a =
     (if \<not> ag_fw a then a else a\<lparr>ag_kernel := fst (Apply (x_run x) (x_ct_delete x) (x_ip_route x) config (ag_kernel a))\<rparr>)"

definition handleSmartRouteUpdate :: "('k, 'd, 'key, 'ep) externals \<Rightarrow> SmartRouteConfig option \<Rightarrow> ('k, 'd) Agent \<Rightarrow> ('k, 'd) Agent" where
  "handleSmartRouteUpdate x config a =
     (if \<not> ag_fw a then a else a\<lparr>ag_kernel := fst (ApplySmartRoutes (x_run x) config (ag_kernel a))\<rparr>)"

fun add_peers :: "('k, 'd, 'key, 'ep) externals \<Rightarrow> Peer list \<Rightarrow> ('k, 'd) Agent \<Rightarrow> ('k, 'd) Agent" where
  "add_peers x [] a = a"
| "add_peers x (p # ps) a =
     add_peers x ps (add_peer x (pe_PublicKey p) (pe_AllowedIps p) (pe_Endpoint p) (pe_PersistentKeepalive p) a)"

fun add_tunnels :: "('k, 'd, 'key, 'ep) externals \<Rightarrow> S2STunnelConfig list \<Rightarrow> ('k, 'd) Agent \<Rightarrow> ('k, 'd) Agent" where
  "add_tunnels x [] a = a"
| "add_tunnels x (t # ts) a = add_tunnels x ts (add_s2s_peers x (stc_Peers t) a)"

definition handleFullResync :: "('k, 'd, 'key, 'ep) externals \<Rightarrow> GatewayConfig \<Rightarrow> ('k, 'd) Agent \<Rightarrow> ('k, 'd) Agent" where
  "handleFullResync x cfg a =
     (if \<not> ag_wg a then a
      else let a1 = add_tunnels x (gc_S2STunnels cfg) (add_peers x (gc_Peers cfg) a)
           in if ag_fw a1 \<and> gc_SmartRoutes cfg \<noteq> None then handleSmartRouteUpdate x (gc_SmartRoutes cfg) a1 else a1)"

definition agent_event :: "('k, 'd, 'key, 'ep) externals \<Rightarrow> CoreEvent \<Rightarrow> ('k, 'd) Agent \<Rightarrow> ('k, 'd) Agent" where
  "agent_event x e a =
     (case e of
        PeerUpdate action peer \<Rightarrow> handlePeerUpdate x action peer a
      | S2SUpdate action tunnel \<Rightarrow> handleS2SUpdate x action tunnel a
      | FirewallUpdate config \<Rightarrow> handleFirewallUpdate x config a
      | SmartRouteUpdate config \<Rightarrow> handleSmartRouteUpdate x config a
      | FullResync cfg \<Rightarrow> handleFullResync x cfg a)"

fun agent_run :: "('k, 'd, 'key, 'ep) externals \<Rightarrow> CoreEvent list \<Rightarrow> ('k, 'd) Agent \<Rightarrow> ('k, 'd) Agent" where
  "agent_run x [] a = a"
| "agent_run x (e # es) a = agent_run x es (agent_event x e a)"

text \<open>
  What \<open>Run\<close> does with the first configuration. \<open>wg\<close> says that wgctrl is available; \<open>ensure\<close> is
  the interface set-up for the given private key, port and addresses.
\<close>

definition agent_start :: "('k, 'd, 'key, 'ep) externals \<Rightarrow> bool \<Rightarrow> (string \<Rightarrow> int \<Rightarrow> string list \<Rightarrow> 'd \<Rightarrow> 'd \<times> bool)
    \<Rightarrow> GatewayConfig \<Rightarrow> 'k \<Rightarrow> 'd \<Rightarrow> ('k, 'd) Agent" where
  "agent_start x wg ensure cfg k d =
     (let a0 = \<lparr>ag_wg = wg, ag_fw = False, ag_kernel = k, ag_device = d\<rparr>;
          a1 = (if \<not> wg then a0
                else let d1 = (if gc_PrivateKey cfg = [] then d
                               else fst (ensure (gc_PrivateKey cfg) (if gc_ListenPort cfg = 0 then 51820 else gc_ListenPort cfg)
                                           (gc_Addresses cfg) d))
                     in add_peers x (gc_Peers cfg) (a0\<lparr>ag_device := d1\<rparr>));
          (k1, ok) = Init (x_run x) k
      in if \<not> ok then a1\<lparr>ag_kernel := k1\<rparr>
         else let a2 = a1\<lparr>ag_fw := True, ag_kernel := k1\<rparr>;
                  a3 = (if gc_Firewall cfg \<noteq> None then handleFirewallUpdate x (gc_Firewall cfg) a2 else a2)
              in if gc_SmartRoutes cfg \<noteq> None then handleSmartRouteUpdate x (gc_SmartRoutes cfg) a3 else a3)"

text \<open>The statistics of a tick: \<open>peers\<close> is what the device reports.\<close>

record wg_peer =
  wp_PublicKey :: string
  wp_ReceiveBytes :: int
  wp_TransmitBytes :: int
  wp_Endpoint :: "string option"
  wp_LastHandshakeTime :: time

definition peer_stats_of :: "wg_peer \<Rightarrow> PeerStats" where
  "peer_stats_of p =
     \<lparr>ps_PublicKey = wp_PublicKey p, ps_Endpoint = (case wp_Endpoint p of None \<Rightarrow> [] | Some e \<Rightarrow> e),
      ps_RxBytes = wp_ReceiveBytes p, ps_TxBytes = wp_TransmitBytes p,
      ps_LastHandshake = (if wp_LastHandshakeTime p = zero_time then None else Some (wp_LastHandshakeTime p))\<rparr>"

definition stats_tick :: "bool \<Rightarrow> wg_peer list option \<Rightarrow> PeerStats list option" where
  "stats_tick wg peers = (if \<not> wg then None else map_option (map peer_stats_of) peers)"

text \<open>The pause before the next attempt to reach the core.\<close>

definition retry_delay :: "nat \<Rightarrow> duration" where
  "retry_delay attempt = seconds (int (min (attempt * 2) 30))"


section \<open>The kernel's device\<close>

text \<open>
  What WireGuard promises: a peer is set with exactly the given networks, which move away from any
  other peer; a removed peer is gone; a refused operation changes nothing.
\<close>

locale wireguard =
  fixes configure :: "('key, 'ep) wg_op \<Rightarrow> 'd \<Rightarrow> 'd \<times> bool"
    and peers :: "'d \<Rightarrow> 'key \<Rightarrow> cidr list option"
  assumes set_peer: "configure (SetPeer k nets ep) d = (d', True) \<Longrightarrow>
      peers d' = (\<lambda>k'. if k' = k then Some nets else map_option (filter (\<lambda>c. c \<notin> set nets)) (peers d k'))"
    and drop_peer: "configure (DropPeer k) d = (d', True) \<Longrightarrow> peers d' = (peers d)(k := None)"
    and refused: "configure op d = (d', False) \<Longrightarrow> peers d' = peers d"
begin

lemma add_peer_keeps:
  assumes "x_configure x = configure" "peers (ag_device a) k \<noteq> None"
  shows "peers (ag_device (add_peer x pk ips ep ka a)) k \<noteq> None"
proof (cases "x_parse_key x pk")
  case (Some key)
  let ?op = "SetPeer key (List.map_filter parse_cidr ips) (if ep = [] then None else x_resolve x ep)"
  obtain d' ok where "configure ?op (ag_device a) = (d', ok)" by force
  then show ?thesis
    using assms set_peer [of key _ _ "ag_device a" d'] refused [of ?op "ag_device a" d']
    by (cases ok) (auto simp: add_peer_def AddPeer_def Some)
qed (simp add: add_peer_def AddPeer_def assms)

lemma remove_peer_effect:
  assumes "x_configure x = configure" "snd (configure (DropPeer key) (ag_device a))" "x_parse_key x pk = Some key"
  shows "peers (ag_device (remove_peer x pk a)) = (peers (ag_device a))(key := None)"
  using assms drop_peer [of key "ag_device a"] by (auto simp: remove_peer_def RemovePeer_def prod_eq_iff)

lemma add_s2s_peers_keeps:
  "x_configure x = configure \<Longrightarrow> peers (ag_device a) k \<noteq> None \<Longrightarrow> peers (ag_device (add_s2s_peers x ps a)) k \<noteq> None"
  by (induction x ps a rule: add_s2s_peers.induct) (simp_all add: add_peer_keeps del: not_None_eq)

lemma add_peers_keeps:
  "x_configure x = configure \<Longrightarrow> peers (ag_device a) k \<noteq> None \<Longrightarrow> peers (ag_device (add_peers x ps a)) k \<noteq> None"
  by (induction x ps a rule: add_peers.induct) (simp_all add: add_peer_keeps del: not_None_eq)

lemma add_tunnels_keeps:
  "x_configure x = configure \<Longrightarrow> peers (ag_device a) k \<noteq> None \<Longrightarrow> peers (ag_device (add_tunnels x ts a)) k \<noteq> None"
  by (induction x ts a rule: add_tunnels.induct) (simp_all add: add_s2s_peers_keeps del: not_None_eq)

end

text \<open>A device that keeps the promises: a map from keys to networks.\<close>

fun ref_configure :: "(string, string) wg_op \<Rightarrow> (string \<Rightarrow> cidr list option) \<Rightarrow> (string \<Rightarrow> cidr list option) \<times> bool" where
  "ref_configure (SetPeer k nets ep) d =
     ((\<lambda>k'. if k' = k then Some nets else map_option (filter (\<lambda>c. c \<notin> set nets)) (d k')), True)"
| "ref_configure (DropPeer k) d = (d(k := None), True)"

lemma ref_configure_ok [simp]: "snd (ref_configure op d)"
  by (cases op) simp_all

interpretation refdev: wireguard ref_configure id
proof unfold_locales
  fix op :: "(string, string) wg_op" and d d'
  show "ref_configure op d = (d', False) \<Longrightarrow> id d' = id d"
    by (cases op) simp_all
qed auto

section \<open>Frames\<close>

lemma agent_frames [simp]:
  "ag_kernel (add_peer x pk ips ep ka a) = ag_kernel a" "ag_fw (add_peer x pk ips ep ka a) = ag_fw a"
  "ag_kernel (remove_peer x pk a) = ag_kernel a" "ag_fw (remove_peer x pk a) = ag_fw a"
  "ag_wg (add_peer x pk ips ep ka a) = ag_wg a" "ag_wg (remove_peer x pk a) = ag_wg a"
  by (simp_all add: add_peer_def remove_peer_def)

lemma add_s2s_peers_frame [simp]:
  "ag_kernel (add_s2s_peers x ps a) = ag_kernel a" "ag_fw (add_s2s_peers x ps a) = ag_fw a"
  by (induction x ps a rule: add_s2s_peers.induct) simp_all

lemma add_peers_frame [simp]: "ag_kernel (add_peers x ps a) = ag_kernel a" "ag_fw (add_peers x ps a) = ag_fw a"
  by (induction x ps a rule: add_peers.induct) simp_all

lemma add_tunnels_frame [simp]: "ag_kernel (add_tunnels x ts a) = ag_kernel a" "ag_fw (add_tunnels x ts a) = ag_fw a"
  by (induction x ts a rule: add_tunnels.induct) simp_all

lemma handleSmartRouteUpdate_frame [simp]:
  "ag_device (handleSmartRouteUpdate x config a) = ag_device a" "ag_fw (handleSmartRouteUpdate x config a) = ag_fw a"
  "ag_wg (handleSmartRouteUpdate x config a) = ag_wg a"
  by (simp_all add: handleSmartRouteUpdate_def)

context netfilter
begin

lemma run_frame:
  assumes "c' \<noteq> c"
  shows "chain (fst (run [''-N'', c] k)) c' = chain k c'" "chain (fst (run [''-F'', c] k)) c' = chain k c'"
    "chain (fst (run (''-A'' # c # spec) k)) c' = chain k c'" "chain (fst (run (''-I'' # c # ''1'' # spec) k)) c' = chain k c'"
    "chain (fst (run (''-C'' # c # spec) k)) c' = chain k c'" "chain (fst (run (''-D'' # c # spec) k)) c' = chain k c'"
    "chain (fst (run [''-X'', c] k)) c' = chain k c'"
  using assms new_chain [of c k] flush_chain [of c k] append_other [of c' c spec k] insert_other [of c' c spec k]
    check_rule [of c spec k] delete_rule [of c spec k] drop_chain [of c k]
  by (simp_all split: option.split)

lemma smart_rules_frame: "c \<noteq> smartChain \<Longrightarrow> chain (apply_smart_rules run rules k) c = chain k c"
  by (induction rules arbitrary: k) (simp_all add: run_frame)

lemma smart_routes_frame:
  assumes "c \<noteq> smartChain" "c \<noteq> ''FORWARD''"
  shows "chain (fst (ApplySmartRoutes run config k)) c = chain k c"
proof -
  have rm: "chain (remove_chain run smartChain k) c = chain k c"
    using assms by (simp add: remove_chain_def run_frame)
  show ?thesis
  proof (cases "config = None \<or> config = Some []")
    case True
    then show ?thesis using rm by (auto simp: ApplySmartRoutes_def)
  next
    case False
    then obtain rules where rules: "config = Some rules" "rules \<noteq> []" by auto
    define k1 where "k1 = fst (run [''-N'', smartChain] k)"
    obtain k2 ok where k2: "run [''-F'', smartChain] k1 = (k2, ok)" by force
    obtain k3 pr where k3: "run [''-C'', ''FORWARD'', ''-j'', smartChain] k2 = (k3, pr)" by force
    obtain k4 ok' where k4: "(if pr then (k3, True) else run [''-I'', ''FORWARD'', ''1'', ''-j'', smartChain] k3) = (k4, ok')"
      by force
    have "chain k1 c = chain k c" "chain k2 c = chain k1 c" "chain k3 c = chain k2 c"
      using run_frame [OF assms(1)] run_frame [OF assms(2)] k2 k3 by (simp_all add: k1_def) (metis fst_conv)+
    moreover have "chain k4 c = chain k3 c"
      using k4 run_frame(4) [OF assms(2), of "[''-j'', smartChain]" k3] by (cases pr) auto
    ultimately show ?thesis
      using assms(1) by (simp add: ApplySmartRoutes_def rules k1_def [symmetric] k2 k3 k4 smart_rules_frame)
  qed
qed

end


section \<open>Resynchronisation\<close>

text \<open>
  C27. A full resynchronisation only adds: every peer on the device stays on it, whether or not the
  configuration still lists it, and the access chain stays as it was, whatever firewall the
  configuration carries; the firewall of the configuration is never looked at.
\<close>

theorem resync_only_adds:
  assumes "wireguard (x_configure x) peers" "netfilter (x_run x) chain (x_ct_delete x) flows"
  shows "(\<forall>key. peers (ag_device a) key \<noteq> None \<longrightarrow> peers (ag_device (handleFullResync x cfg a)) key \<noteq> None) \<and>
    chain (ag_kernel (handleFullResync x cfg a)) outpostChain = chain (ag_kernel a) outpostChain \<and>
    handleFullResync x (cfg\<lparr>gc_Firewall := fw\<rparr>) a = handleFullResync x cfg a"
proof (intro conjI allI impI)
  fix key assume key: "peers (ag_device a) key \<noteq> None"
  have "peers (ag_device (add_tunnels x (gc_S2STunnels cfg) (add_peers x (gc_Peers cfg) a))) key \<noteq> None"
    by (rule wireguard.add_tunnels_keeps [OF assms(1) refl], rule wireguard.add_peers_keeps [OF assms(1) refl key])
  then show "peers (ag_device (handleFullResync x cfg a)) key \<noteq> None"
    using key by (simp add: handleFullResync_def Let_def del: not_None_eq)
next
  show "chain (ag_kernel (handleFullResync x cfg a)) outpostChain = chain (ag_kernel a) outpostChain"
    using netfilter.smart_routes_frame [OF assms(2), of outpostChain]
    by (simp add: handleFullResync_def handleSmartRouteUpdate_def Let_def outpostChain_def smartChain_def)
qed (auto simp: handleFullResync_def Let_def)

definition ref_externals :: "(ref_kernel, string \<Rightarrow> cidr list option, string, string) externals" where
  "ref_externals = \<lparr>x_run = ref_run, x_ct_delete = ref_ct_delete, x_ip_route = None, x_parse_key = Some,
     x_resolve = Some, x_configure = ref_configure\<rparr>"

lemma ref_externals_simps [simp]:
  "x_run ref_externals = ref_run" "x_ct_delete ref_externals = ref_ct_delete" "x_ip_route ref_externals = None"
  "x_parse_key ref_externals = Some" "x_configure ref_externals = ref_configure"
  by (simp_all add: ref_externals_def)

definition sample_agent :: "(ref_kernel, string \<Rightarrow> cidr list option) Agent" where
  "sample_agent = \<lparr>ag_wg = True, ag_fw = True, ag_kernel = sample_kernel,
     ag_device = [''pk1'' \<mapsto> [host_cidr 0x0A080002], ''pk9'' \<mapsto> [host_cidr 0x0A080003]]\<rparr>"

definition empty_config :: GatewayConfig where
  "empty_config = \<lparr>gc_GatewayId = [], gc_NetworkName = [], gc_PrivateKey = [], gc_ListenPort = 0, gc_Addresses = [],
     gc_Peers = [], gc_Firewall = Some (plain_config sample_rules), gc_S2STunnels = [], gc_SmartRoutes = None\<rparr>"

theorem resync_only_adds_witness:
  "ag_device (handleFullResync ref_externals empty_config sample_agent) ''pk1'' \<noteq> None \<and>
   rk_chains (ag_kernel (handleFullResync ref_externals empty_config sample_agent)) outpostChain = rk_chains sample_kernel outpostChain"
proof -
  have "wireguard (x_configure ref_externals) id" "netfilter (x_run ref_externals) rk_chains (x_ct_delete ref_externals) rk_flows"
    using refdev.wireguard_axioms ref.netfilter_axioms by simp_all
  from resync_only_adds [OF this, of sample_agent empty_config None]
  show ?thesis by (simp add: sample_agent_def)
qed

end
