(* ===== verification/Enforcement.thy ===== *)
theory Enforcement
  imports Peer_Notifier Gateway_Agent
begin

text \<open>
  From a change in the database to the kernel of a gateway: the refresh computes the rules
  (\<open>Core_Firewall\<close>), the notifier turns them into events (\<open>Peer_Notifier\<close>), the hub hands them to the
  stream of the gateway and, with Redis, to those of all instances (\<open>Stream_Hub\<close>), and the agent
  applies them (\<open>Gateway_Agent\<close>).
\<close>

section \<open>Events of one stream\<close>

definition events_to :: "nat \<Rightarrow> pubsub \<Rightarrow> StreamHub list \<Rightarrow> hub_out list \<Rightarrow> CoreEvent list" where
  "events_to st rd hubs outs = map snd (filter (\<lambda>d. fst d = st) (deliveries rd hubs outs))"

lemma set_events_to: "e \<in> set (events_to st rd hubs outs) \<longleftrightarrow> (st, e) \<in> set (deliveries rd hubs outs)"
  by (force simp: events_to_def)

lemma events_to_append:
  "events_to st rd hubs (xs @ ys) = events_to st rd hubs xs @ events_to st (\<lambda>n. rd (n + publications xs)) hubs ys"
  by (simp add: events_to_def deliveries_append)

text \<open>The streams of an instance are all different.\<close>

definition hub_streams_ok :: "StreamHub \<Rightarrow> bool" where
  "hub_streams_ok h \<longleftrightarrow> hub_ok h \<and> distinct (map snd (hb_streams h))"

lemma distinct_streams:
  assumes "hub_streams_ok h" "map_of (hb_streams h) gw = Some st"
  shows "map_of (hb_streams h) gw' = Some st \<longleftrightarrow> gw' = gw"
proof -
  have "gw' = gw" if "(gw', st) \<in> set (hb_streams h)" "(gw, st) \<in> set (hb_streams h)"
    using that assms(1) by (fastforce simp: hub_streams_ok_def distinct_map inj_on_def)
  then show ?thesis using assms(2) by (auto dest: map_of_SomeD)
qed

text \<open>
  A hub from which a gateway gets no rules of another one when those of \<open>gws\<close> are refreshed: it has
  no Redis client, or no other gateway is concerned.
\<close>

definition own_updates :: "StreamHub \<Rightarrow> StreamHub list \<Rightarrow> uuid \<Rightarrow> uuid list \<Rightarrow> bool" where
  "own_updates h hubs gw gws \<longleftrightarrow> hub_streams_ok h \<and> (hb_rdb h = None \<or> set gws \<subseteq> {gw} \<and> compatible h hubs)"

abbreviation drop_event :: "string \<Rightarrow> CoreEvent" where
  "drop_event pk \<equiv> PeerUpdate PEER_REMOVE \<lparr>pe_PublicKey = pk, pe_AllowedIps = [], pe_PersistentKeepalive = 0, pe_Endpoint = []\<rparr>"

lemma broadcast_direct: "map_of (hb_streams h) gw = Some st \<Longrightarrow> Deliver st e \<in> set (Broadcast e h)"
  by (force simp: Broadcast_def broadcastLocal_def dest: map_of_SomeD)

lemma firewall_direct:
  "Deliver st e \<in> set (SendFirewallUpdate gw c h) \<longleftrightarrow> map_of (hb_streams h) gw = Some st \<and> e = FirewallUpdate c"
  by (auto simp: SendFirewallUpdate_def SendTo_def publish_def Let_def split: option.splits)

lemma removals_carry: "carries h (range drop_event) (removeZTNABlockedPeers pks h)"
  by (induction pks) (simp_all add: BroadcastPeerUpdate_def carries_sends)

lemma removals_direct:
  "pk \<in> set pks \<Longrightarrow> map_of (hb_streams h) gw = Some st \<Longrightarrow> Deliver st (drop_event pk) \<in> set (removeZTNABlockedPeers pks h)"
  by (induction pks) (auto simp: BroadcastPeerUpdate_def broadcast_direct)

lemma carries_mono: "carries h E outs \<Longrightarrow> E \<subseteq> E' \<Longrightarrow> carries h E' outs"
  by (fastforce simp: carries_def)

text \<open>The outputs of a refresh: the firewall of each gateway, and removals.\<close>

lemma result_built: "\<exists>r. buildFirewallConfigFromPool ord (\<lambda>_. False) gw s = Some r"
  by (simp add: buildFirewallConfigFromPool_def Let_def)

lemma refresh_append:
  "RefreshFirewallForGateways ord (\<lambda>_. False) (xs @ ys) s h =
     RefreshFirewallForGateways ord (\<lambda>_. False) xs s h @ RefreshFirewallForGateways ord (\<lambda>_. False) ys s h"
  by (induction xs) simp_all

lemma refresh_carries:
  "carries h ((\<lambda>gw. FirewallUpdate (buildFirewallConfig ord (\<lambda>_. False) gw s)) ` set gws \<union> range drop_event)
     (RefreshFirewallForGateways ord (\<lambda>_. False) gws s h)"
proof (induction gws)
  case (Cons gw gws)
  obtain r where r: "buildFirewallConfigFromPool ord (\<lambda>_. False) gw s = Some r" using result_built by blast
  show ?case
    by (auto simp: r sendFirewallResult_def buildFirewallConfig_def intro: carries_sends carries_mono [OF Cons.IH]
        carries_mono [OF removals_carry])
qed simp

lemma removals_no_firewall: "Deliver st (FirewallUpdate c) \<notin> set (removeZTNABlockedPeers pks h)"
  using removals_carry [of h pks] by (auto simp: carries_def)

lemma refresh_direct:
  "Deliver st (FirewallUpdate c) \<in> set (RefreshFirewallForGateways ord (\<lambda>_. False) gws s h) \<longleftrightarrow>
     (\<exists>gw \<in> set gws. map_of (hb_streams h) gw = Some st \<and> c = buildFirewallConfig ord (\<lambda>_. False) gw s)"
proof (induction gws)
  case (Cons gw gws)
  obtain r where r: "buildFirewallConfigFromPool ord (\<lambda>_. False) gw s = Some r" using result_built by blast
  show ?case
    using Cons by (auto simp: r sendFirewallResult_def buildFirewallConfig_def firewall_direct removals_no_firewall)
qed simp

lemma refresh_removes:
  assumes "gw \<in> set gws" "buildFirewallConfigFromPool ord (\<lambda>_. False) gw s = Some r" "pk \<in> set (fwr_BlockedPubkeys r)"
    and "map_of (hb_streams h) gw' = Some st"
  shows "Deliver st (drop_event pk) \<in> set (RefreshFirewallForGateways ord (\<lambda>_. False) gws s h)"
  using assms(1) by (induction gws) (auto simp: assms(2) sendFirewallResult_def removals_direct [OF assms(3,4)])

section \<open>What the agent makes of them\<close>

definition refresh_event :: "FirewallConfig \<Rightarrow> CoreEvent \<Rightarrow> bool" where
  "refresh_event cfg e \<longleftrightarrow> e = FirewallUpdate (Some cfg) \<or> (\<exists>pk. e = drop_event pk)"

text \<open>A kernel whose packet filter and device keep their promises, and on which removals succeed.\<close>

locale gateway_kernel =
  netfilter run chain ct_delete flows + wireguard configure peers
  for run :: "string list \<Rightarrow> 'k \<Rightarrow> 'k \<times> bool" and chain :: "'k \<Rightarrow> string \<Rightarrow> string list list option"
    and ct_delete :: "string \<Rightarrow> 'k \<Rightarrow> 'k" and flows :: "'k \<Rightarrow> flow set"
    and configure :: "('key, 'ep) wg_op \<Rightarrow> 'd \<Rightarrow> 'd \<times> bool" and peers :: "'d \<Rightarrow> 'key \<Rightarrow> cidr list option" +
  fixes x :: "('k, 'd, 'key, 'ep) externals"
  assumes externals: "x_run x = run" "x_ct_delete x = ct_delete" "x_configure x = configure"
    and removal: "snd (configure (DropPeer key) d)"
begin

lemma drop_event_effect:
  assumes "ag_wg a"
  shows "agent_event x (drop_event pk) a = remove_peer x pk a"
  using assms by (simp add: agent_event_def handlePeerUpdate_def)

lemma firewall_event_effect:
  assumes "ag_fw a" "chain (ag_kernel a) outpostChain \<noteq> None" "\<forall>r \<in> set (fc_Rules cfg). rule_readable r"
  defines "a' \<equiv> agent_event x (FirewallUpdate (Some cfg)) a"
  shows "chain (ag_kernel a') outpostChain = Some (conntrack_spec # installed_specs (fc_Rules cfg)) \<and>
    flows (ag_kernel a') = {fl \<in> flows (ag_kernel a). fst fl \<notin> dropped_sources (fc_Rules cfg)} \<and>
    ag_device a' = ag_device a \<and> ag_wg a' = ag_wg a \<and> ag_fw a'"
proof -
  obtain k' ok where "Apply run ct_delete (x_ip_route x) (Some cfg) (ag_kernel a) = (k', ok)" by force
  then show ?thesis
    using apply_effect [OF assms(2,3)] assms(1)
    by (simp add: a'_def agent_event_def handleFirewallUpdate_def externals)
qed

text \<open>Rules of any gateway and removals leave the chain in place.\<close>

lemma run_rules_keep:
  assumes "ag_fw a" "ag_wg a" "chain (ag_kernel a) outpostChain \<noteq> None"
    and "\<forall>e \<in> set es. \<exists>cfg. refresh_event cfg e \<and> (\<forall>r \<in> set (fc_Rules cfg). rule_readable r)"
  shows "ag_fw (agent_run x es a) \<and> ag_wg (agent_run x es a) \<and> chain (ag_kernel (agent_run x es a)) outpostChain \<noteq> None \<and>
    flows (ag_kernel (agent_run x es a)) \<subseteq> flows (ag_kernel a)"
  using assms
proof (induction es arbitrary: a)
  case (Cons e es)
  then obtain cfg where cfg: "refresh_event cfg e" "\<forall>r \<in> set (fc_Rules cfg). rule_readable r" by auto
  have step: "ag_fw (agent_event x e a) \<and> ag_wg (agent_event x e a) \<and> chain (ag_kernel (agent_event x e a)) outpostChain \<noteq> None \<and>
      flows (ag_kernel (agent_event x e a)) \<subseteq> flows (ag_kernel a)"
  proof (cases "e = FirewallUpdate (Some cfg)")
    case True
    show ?thesis using firewall_event_effect [OF Cons.prems(1,3) cfg(2)] Cons.prems(2) unfolding True by simp
  next
    case False
    then show ?thesis using cfg(1) Cons.prems(1-3) by (auto simp: refresh_event_def drop_event_effect)
  qed
  have "\<forall>e \<in> set es. \<exists>cfg. refresh_event cfg e \<and> (\<forall>r \<in> set (fc_Rules cfg). rule_readable r)" using Cons.prems(4) by simp
  from Cons.IH [OF _ _ _ this, of "agent_event x e a"] step show ?case
    unfolding agent_run.simps by (meson order_trans)
qed simp

lemma run_refresh_kernel:
  assumes "ag_fw a" "ag_wg a" "chain (ag_kernel a) outpostChain \<noteq> None" "\<forall>r \<in> set (fc_Rules cfg). rule_readable r"
    and "\<forall>e \<in> set es. refresh_event cfg e"
    and "FirewallUpdate (Some cfg) \<in> set es \<or>
      chain (ag_kernel a) outpostChain = Some (conntrack_spec # installed_specs (fc_Rules cfg)) \<and>
      (\<forall>fl \<in> flows (ag_kernel a). fst fl \<notin> dropped_sources (fc_Rules cfg))"
  shows "chain (ag_kernel (agent_run x es a)) outpostChain = Some (conntrack_spec # installed_specs (fc_Rules cfg)) \<and>
    (\<forall>fl \<in> flows (ag_kernel (agent_run x es a)). fst fl \<notin> dropped_sources (fc_Rules cfg))"
  using assms
proof (induction es arbitrary: a)
  case (Cons e es)
  have rest: "\<forall>e \<in> set es. refresh_event cfg e" using Cons.prems by simp
  show ?case
  proof (cases "e = FirewallUpdate (Some cfg)")
    case True
    have "ag_fw (agent_event x e a) \<and> ag_wg (agent_event x e a) \<and>
      chain (ag_kernel (agent_event x e a)) outpostChain = Some (conntrack_spec # installed_specs (fc_Rules cfg)) \<and>
      (\<forall>fl \<in> flows (ag_kernel (agent_event x e a)). fst fl \<notin> dropped_sources (fc_Rules cfg))"
      using firewall_event_effect [OF Cons.prems(1,3,4)] Cons.prems(2) by (simp add: True)
    then show ?thesis
      using Cons.IH [of "agent_event x e a"] Cons.prems(4) rest by simp
  next
    case False
    then obtain pk where e: "e = drop_event pk" using Cons.prems(5) by (auto simp: refresh_event_def)
    then show ?thesis
      using Cons.IH [of "agent_event x e a"] Cons.prems rest by (auto simp: drop_event_effect)
  qed
qed simp

lemma run_refresh_peers:
  assumes "ag_fw a" "ag_wg a" "chain (ag_kernel a) outpostChain \<noteq> None" "\<forall>r \<in> set (fc_Rules cfg). rule_readable r"
    and "\<forall>e \<in> set es. refresh_event cfg e" "x_parse_key x pk = Some key"
    and "drop_event pk \<in> set es \<or> peers (ag_device a) key = None"
  shows "peers (ag_device (agent_run x es a)) key = None"
  using assms
proof (induction es arbitrary: a)
  case (Cons e es)
  have rest: "\<forall>e \<in> set es. refresh_event cfg e" using Cons.prems by simp
  show ?case
  proof (cases "e = FirewallUpdate (Some cfg)")
    case True
    then show ?thesis
      using Cons.IH [of "agent_event x e a"] firewall_event_effect [OF Cons.prems(1,3,4)] Cons.prems rest by auto
  next
    case False
    then obtain pk' where e: "e = drop_event pk'" using Cons.prems(5) by (auto simp: refresh_event_def)
    have dev: "peers (ag_device (remove_peer x pk' a)) key = None"
      if "pk' = pk \<or> peers (ag_device a) key = None"
    proof (cases "x_parse_key x pk'")
      case None
      then show ?thesis using that Cons.prems(6) by (auto simp: remove_peer_def RemovePeer_def)
    next
      case (Some key')
      then show ?thesis
        using that Cons.prems(6) remove_peer_effect [OF externals(3) removal Some] by auto
    qed
    show ?thesis
      using Cons.IH [of "agent_event x e a"] Cons.prems rest dev by (auto simp: e drop_event_effect)
  qed
qed simp

end

interpretation refk: gateway_kernel ref_run rk_chains ref_ct_delete rk_flows ref_configure id ref_externals
  by unfold_locales simp_all


section \<open>From the refresh to the kernel\<close>

lemma device_has_drop:
  assumes "\<And>xs. set (ord xs) = set xs" "\<not> f 1" "d \<in> set (gateway_devices s gw)"
  shows "(host_cidr (d_assigned_ip d), None, ACTION_DROP) \<in> set (firewall_plain ord f gw s)"
proof (cases "d_assigned_ip d \<in> fst ` set (acl_rows s gw)")
  case True
  have "(host_cidr (d_assigned_ip d), None, ACTION_DROP) \<in> set (device_rules blocked (acl_rows s gw) (d_assigned_ip d))" for blocked
    by (simp add: device_rules_def)
  moreover have "d_assigned_ip d \<in> set (ord (remdups (map fst (acl_rows s gw))))"
    using True by (simp add: assms(1))
  ultimately show ?thesis
    unfolding firewall_plain_def Let_def set_append set_concat set_map by blast
next
  case False
  have "d_assigned_ip d \<in> fst ` set (all_device_rows s gw)"
    using assms(3) by (simp add: all_device_rows_ips)
  then show ?thesis
    using False assms(2) unfolding firewall_plain_def Let_def default_deny_rules_def by auto
qed

lemma left_join_Some: "Some x \<in> set (left_join xs) \<longleftrightarrow> x \<in> set xs"
  by (auto simp: left_join_def)

lemma left_join_ex: "\<exists>y. y \<in> set (left_join xs)"
  by (cases xs) (auto simp: left_join_def)

lemma gateways_of_served_network:
  assumes "(gw, n) \<in> set (tb_gateway_networks s)"
  shows "gw \<in> set (gateways_of_network s (Some n))"
proof -
  have "gw \<in> set (map fst (filter (\<lambda>gn. Some (snd gn) = Some n) (tb_gateway_networks s)))"
    using assms by force
  then have "Some gw \<in> set (left_join (map fst (filter (\<lambda>gn. Some (snd gn) = Some n) (tb_gateway_networks s))))"
    by (simp only: left_join_Some)
  moreover obtain b where "b \<in> set (left_join (map g_id (filter (\<lambda>g. Some n \<noteq> None \<and> g_network_id g = Some n) (tb_gateways s))))"
    using left_join_ex by blast
  ultimately show ?thesis
    unfolding gateways_of_network_def List.map_filter_def by force
qed

lemma serving_gateway_of_user:
  assumes "d \<in> set (gateway_devices s gw)"
  shows "gw \<in> set (gateways_of_user s (d_user_id d))"
proof -
  obtain n where n: "d_network_id d = Some n" "(gw, n) \<in> set (tb_gateway_networks s)"
    using assms by (auto simp: gateway_devices_def serves_def split: option.splits)
  then have "gw \<in> set (gateways_of_network s (d_network_id d))"
    by (simp add: gateways_of_served_network)
  then show ?thesis
    using assms by (auto simp: gateways_of_user_def gateway_devices_def)
qed


lemma built_config:
  assumes "buildFirewallConfigFromPool ord f gw s = Some r"
  shows "fc_Rules (fwr_Config r) = render_rules (firewall_plain ord f gw s)"
  using assms by (auto simp: buildFirewallConfigFromPool_def Let_def split: if_splits)

lemma built_readable:
  assumes "db_ok s"
  shows "\<exists>cfg. buildFirewallConfig ord (\<lambda>_. False) gw s = Some cfg \<and> (\<forall>r \<in> set (fc_Rules cfg). rule_readable r)"
proof -
  obtain r where r: "buildFirewallConfigFromPool ord (\<lambda>_. False) gw s = Some r" using result_built by blast
  then show ?thesis
    using render_readable [OF firewall_plain_ok [OF assms]] built_config [OF r] by (simp add: buildFirewallConfig_def)
qed

lemma built_access:
  assumes "db_ok s" "\<And>xs. set (ord xs) = set xs" "buildFirewallConfigFromPool ord (\<lambda>_. False) gw s = Some r"
  shows "chain_verdict fl (installed_specs (fc_Rules (fwr_Config r))) p = access_verdict s gw p"
  unfolding built_config [OF assms(3)] rendered_verdict [OF firewall_plain_ok [OF assms(1)]]
  by (rule firewall_plain_access [OF assms(1,2)]) simp

lemma access_unserved:
  assumes "db_ok s" "d \<in> set (tb_devices s)" "d_assigned_ip d = pk_src p" "\<not> serves s gw d" "\<not> serves_legacy s gw d"
  shows "access_verdict s gw p = None"
proof -
  have "d_assigned_ip d \<notin> d_assigned_ip ` (set (gateway_devices s gw) \<union> set (legacy_devices s gw))"
    using device_ip_unique [OF assms(1,2)] assms(4,5) by (auto simp: gateway_devices_def legacy_devices_def)
  then show ?thesis
    using assms(3) unfolding access_verdict_def by (metis (no_types, lifting) UnI1 image_eqI)
qed

lemma agent_run_append: "agent_run x (xs @ ys) a = agent_run x ys (agent_run x xs a)"
  by (induction xs arbitrary: a) simp_all

lemma refresh_events:
  fixes rd :: pubsub
  assumes "own_updates h hubs gw gws" "map_of (hb_streams h) gw = Some st" "gw \<in> set gws"
    and "buildFirewallConfigFromPool ord (\<lambda>_. False) gw s = Some r"
  defines "es \<equiv> events_to st rd hubs (RefreshFirewallForGateways ord (\<lambda>_. False) gws s h)"
  shows "\<forall>e \<in> set es. refresh_event (fwr_Config r) e" "FirewallUpdate (Some (fwr_Config r)) \<in> set es"
    "pk \<in> set (fwr_BlockedPubkeys r) \<Longrightarrow> drop_event pk \<in> set es"
proof -
  let ?outs = "RefreshFirewallForGateways ord (\<lambda>_. False) gws s h"
  have cfg: "buildFirewallConfig ord (\<lambda>_. False) gw s = Some (fwr_Config r)" by (simp add: buildFirewallConfig_def assms(4))
  have "Deliver st (FirewallUpdate (Some (fwr_Config r))) \<in> set ?outs"
    using assms(2,3) cfg by (auto simp: refresh_direct)
  then show "FirewallUpdate (Some (fwr_Config r)) \<in> set es"
    by (simp add: es_def set_events_to delivered_direct)
  show "pk \<in> set (fwr_BlockedPubkeys r) \<Longrightarrow> drop_event pk \<in> set es"
    using refresh_removes [OF assms(3,4) _ assms(2)] by (simp add: es_def set_events_to delivered_direct)
  have carried: "e \<in> (\<lambda>gw. FirewallUpdate (buildFirewallConfig ord (\<lambda>_. False) gw s)) ` set gws \<union> range drop_event"
    if "Deliver st e \<in> set ?outs" for e
    using that refresh_carries [of h ord s gws] by (auto simp: carries_def)
  show "\<forall>e \<in> set es. refresh_event (fwr_Config r) e"
  proof
    fix e assume "e \<in> set es"
    then have e: "(st, e) \<in> set (deliveries rd hubs ?outs)" by (simp add: es_def set_events_to)
    show "refresh_event (fwr_Config r) e"
    proof (cases "hb_rdb h")
      case None
      then have d: "Deliver st e \<in> set ?outs" using e delivered_local [OF refresh_carries None] by simp
      then show ?thesis
        using carried [OF d] distinct_streams [of h gw st] assms(1,2) cfg
        by (auto simp: refresh_event_def refresh_direct own_updates_def)
    next
      case (Some w)
      then have "set gws \<subseteq> {gw}" "compatible h hubs" using assms(1) by (auto simp: own_updates_def)
      then show ?thesis
        using delivered_carried [OF refresh_carries _ e] cfg by (auto simp: refresh_event_def)
    qed
  qed
qed

text \<open>
  C1. A refresh for a user reaches the kernel of every gateway of the user's devices, on a core
  without Redis, and with Redis if the refresh concerns no other gateway: once the agent has
  handled the events sent to its stream, a packet of no tracked connection gets in the access
  chain the verdict of the access policy on the database as it was at the refresh, no connection
  opened by the device is tracked any more, and a device that is blocked is no longer a WireGuard
  peer. Published copies may be lost or arrive, at whichever instances.
\<close>

theorem refresh_reaches_kernel:
  assumes "gateway_kernel run chain ct_delete flows configure peers x" "db_ok s" "\<And>xs. set (ord xs) = set xs"
    and "own_updates h hubs gw (gateways_of_user s (d_user_id d))" "map_of (hb_streams h) gw = Some st" "d \<in> set (gateway_devices s gw)"
    and "ag_wg a" "ag_fw a" "chain (ag_kernel a) outpostChain \<noteq> None"
    and "a' = agent_run x (events_to st rd hubs (run_job ord (\<lambda>_. False) (refresh_job.RefreshFirewallForUser (d_user_id d)) s h)) a"
  shows "(\<exists>specs. chain (ag_kernel a') outpostChain = Some specs \<and>
      (\<forall>p. \<not> established (flows (ag_kernel a')) p \<longrightarrow> chain_verdict (flows (ag_kernel a')) specs p = access_verdict s gw p)) \<and>
    (\<forall>dst. (d_assigned_ip d, dst) \<notin> flows (ag_kernel a')) \<and>
    (\<forall>key. ztna_blocked s d \<and> x_parse_key x (d_wireguard_pubkey d) = Some key \<longrightarrow> peers (ag_device a') key = None)"
proof -
  obtain r where r: "buildFirewallConfigFromPool ord (\<lambda>_. False) gw s = Some r" using result_built by blast
  let ?rules = "fc_Rules (fwr_Config r)"
  have rules: "?rules = render_rules (firewall_plain ord (\<lambda>_. False) gw s)" by (rule built_config [OF r])
  then have src: "\<forall>r \<in> set ?rules. rule_readable r" using render_readable [OF firewall_plain_ok [OF assms(2)]] by simp
  note es = refresh_events [OF assms(4,5) serving_gateway_of_user [OF assms(6)] r, where rd = rd]
  have run: "a' = agent_run x (events_to st rd hubs (RefreshFirewallForGateways ord (\<lambda>_. False) (gateways_of_user s (d_user_id d)) s h)) a"
    by (simp add: assms(10) run_job_def RefreshFirewallForUser_def)
  note kernel = gateway_kernel.run_refresh_kernel [OF assms(1,8,7,9) src es(1) disjI1, OF es(2), folded run]
  have "chain_verdict fl (conntrack_spec # installed_specs ?rules) p = access_verdict s gw p" if "\<not> established fl p" for fl p
    unfolding chain_verdict_conntrack rules rendered_verdict [OF firewall_plain_ok [OF assms(2)]]
    using that firewall_plain_access [OF assms(2,3), of "\<lambda>_. False"] by simp
  moreover have "d_assigned_ip d \<in> dropped_sources ?rules"
    using device_has_drop [of ord "\<lambda>_. False", OF assms(3) _ assms(6)]
    by (auto simp: rules dropped_render host_cidr_def intro!: exI [of _ "host_cidr (d_assigned_ip d)"])
  moreover have "peers (ag_device a') key = None"
    if "ztna_blocked s d" "x_parse_key x (d_wireguard_pubkey d) = Some key" for key
  proof -
    have "d_wireguard_pubkey d \<in> set (fwr_BlockedPubkeys r)"
      using blocked_pubkeys [OF assms(2,3) _ r] assms(6) that(1) by auto
    then show ?thesis
      using gateway_kernel.run_refresh_peers [OF assms(1,8,7,9) src es(1) that(2) disjI1, OF es(3)] run by simp
  qed
  ultimately show ?thesis
    using kernel by force
qed


lemma sample_hub_ok: "hub_streams_ok (sample_hub rdb)"
  by (simp add: hub_streams_ok_def hub_ok_def)

lemma sample_hub_local: "own_updates (sample_hub None) hubs gw gws"
  by (simp add: own_updates_def sample_hub_ok)

theorem refresh_reaches_kernel_witness:
  "(case agent_run ref_externals (events_to 1 (\<lambda>_ _. True) [sample_hub None]
        (run_job rev (\<lambda>_. False) (refresh_job.RefreshFirewallForUser ''u1'') blocking_db (sample_hub None))) sample_agent of
      a' \<Rightarrow> ag_device a' ''pk1'' = None \<and> (0x0A080002, 0x0A0A0005) \<notin> rk_flows (ag_kernel a') \<and>
        rk_chains (ag_kernel a') outpostChain \<noteq> None) \<and>
   ag_device sample_agent ''pk1'' \<noteq> None"
proof -
  let ?d = "sample_device ''d1'' ''u1'' ''pk1'' 0x0A080002"
  have d: "?d \<in> set (gateway_devices blocking_db ''gw1'')"
    by (simp add: sample_gateway_devices blocking_tables sample_tables)
  have u: "d_user_id ?d = ''u1''" "d_assigned_ip ?d = 0x0A080002" "d_wireguard_pubkey ?d = ''pk1''"
    by (simp_all add: sample_device_def)
  have a: "map_of (hb_streams (sample_hub None)) ''gw1'' = Some 1" "ag_wg sample_agent" "ag_fw sample_agent"
      "rk_chains (ag_kernel sample_agent) outpostChain \<noteq> None"
    by (simp_all add: sample_agent_def sample_kernel_def)
  show ?thesis
    using refresh_reaches_kernel [OF refk.gateway_kernel_axioms blocking_db_ok set_rev sample_hub_local a(1) d a(2-4) refl,
        where rd = "\<lambda>_ _. True" and hubs = "[sample_hub None]"]
      blocking_ztna(1) by (auto simp: u) (simp add: sample_agent_def)
qed

text \<open>A refresh through Redis: after everything else, a stream gets the rules of the last gateway.\<close>

lemma last_refresh_events:
  assumes "compatible h hubs" "i < length hubs" "\<forall>n. rd n i" "(gw, st) \<in> set (hb_streams (hubs ! i))"
    and "hb_rdb h = Some w" "wr_Marshal w (FirewallUpdate (buildFirewallConfig ord (\<lambda>_. False) last_gw s)) = Some data"
    and "hb_rdb (hubs ! i) = Some w'" "wr_Unmarshal w' data \<noteq> None" "buildFirewallConfig ord (\<lambda>_. False) last_gw s = Some cfg"
  shows "\<exists>es1 es2. events_to st rd hubs (RefreshFirewallForGateways ord (\<lambda>_. False) (gws @ [last_gw]) s h) = es1 @ es2 \<and>
    (\<forall>e \<in> set es1. \<exists>g. refresh_event (the (buildFirewallConfig ord (\<lambda>_. False) g s)) e) \<and>
    (\<forall>e \<in> set es2. refresh_event cfg e) \<and> FirewallUpdate (Some cfg) \<in> set es2"
proof (intro exI conjI)
  let ?pre = "RefreshFirewallForGateways ord (\<lambda>_. False) gws s h" and ?rest = "RefreshFirewallForGateways ord (\<lambda>_. False) [last_gw] s h"
  let ?rd = "\<lambda>n. rd (n + publications ?pre)"
  show "events_to st rd hubs (RefreshFirewallForGateways ord (\<lambda>_. False) (gws @ [last_gw]) s h) =
      events_to st rd hubs ?pre @ events_to st ?rd hubs ?rest"
    by (simp only: refresh_append events_to_append)
  have carried: "e \<in> (\<lambda>gw. FirewallUpdate (buildFirewallConfig ord (\<lambda>_. False) gw s)) ` set gws' \<union> range drop_event"
    if "e \<in> set (events_to st rd' hubs (RefreshFirewallForGateways ord (\<lambda>_. False) gws' s h))" for e rd' gws'
    using delivered_carried [OF refresh_carries assms(1)] that unfolding set_events_to by blast
  have built: "\<exists>c. buildFirewallConfig ord (\<lambda>_. False) g s = Some c" for g
    using result_built [of ord g s] by (auto simp: buildFirewallConfig_def)
  show "\<forall>e \<in> set (events_to st rd hubs ?pre). \<exists>g. refresh_event (the (buildFirewallConfig ord (\<lambda>_. False) g s)) e"
    using carried [of _ rd gws] built unfolding refresh_event_def by fastforce
  show "\<forall>e \<in> set (events_to st ?rd hubs ?rest). refresh_event cfg e"
    using carried [of _ ?rd "[last_gw]"] assms(9) unfolding refresh_event_def by fastforce
  obtain r where r: "buildFirewallConfigFromPool ord (\<lambda>_. False) last_gw s = Some r" using result_built by blast
  then have c: "cfg = fwr_Config r" using assms(9) by (simp add: buildFirewallConfig_def)
  have "Publish data \<in> set ?rest"
    using assms(6) by (simp add: assms(9) r sendFirewallResult_def SendFirewallUpdate_def publish_def assms(5) c Let_def)
  moreover obtain e where e: "wr_Unmarshal w' data = Some e" using assms(8) by blast
  moreover have "e = FirewallUpdate (Some cfg)"
    using assms(1,2,5,6,7) e nth_mem unfolding compatible_def assms(9) by metis
  ultimately show "FirewallUpdate (Some cfg) \<in> set (events_to st ?rd hubs ?rest)"
    using delivered_relay [OF assms(2,7) _ assms(4), of data e ?rest] assms(3) by (simp only: set_events_to)
qed

text \<open>
  C24. With Redis a refresh leaves gateways with the rules of another one. The published copy of a
  firewall update names no gateway and is handed to every stream of every instance it reaches, so
  after a refresh of several gateways a gateway on such an instance has the rules of the last one,
  whichever gateway it is itself: it decides packets by the access policy of the last gateway, and
  a device that the last gateway does not serve gets no verdict from it, not even a drop. No
  tracked connection is added meanwhile. This needs that the messages reach the instance and that
  the last update is encoded and decoded.
\<close>

theorem redis_refresh_installs_last:
  assumes "gateway_kernel run chain ct_delete flows configure peers x" "db_ok s" "\<And>xs. set (ord xs) = set xs"
    and "compatible h hubs" "i < length hubs" "\<forall>n. rd n i" "(gw, st) \<in> set (hb_streams (hubs ! i))"
    and "hb_rdb h = Some w" "wr_Marshal w (FirewallUpdate (buildFirewallConfig ord (\<lambda>_. False) last_gw s)) = Some data"
    and "hb_rdb (hubs ! i) = Some w'" "wr_Unmarshal w' data \<noteq> None"
    and "ag_wg a" "ag_fw a" "chain (ag_kernel a) outpostChain \<noteq> None"
    and "a' = agent_run x (events_to st rd hubs
           (run_job ord (\<lambda>_. False) (refresh_job.RefreshFirewallForGateways (gws @ [last_gw])) s h)) a"
  shows "flows (ag_kernel a') \<subseteq> flows (ag_kernel a) \<and> (\<exists>specs. chain (ag_kernel a') outpostChain = Some specs \<and>
    (\<forall>p. \<not> established (flows (ag_kernel a')) p \<longrightarrow>
       chain_verdict (flows (ag_kernel a')) specs p = access_verdict s last_gw p \<and>
       (\<forall>d \<in> set (tb_devices s). d_assigned_ip d = pk_src p \<and> \<not> serves s last_gw d \<and> \<not> serves_legacy s last_gw d \<longrightarrow>
          chain_verdict (flows (ag_kernel a')) specs p = None)))"
proof -
  obtain r where r: "buildFirewallConfigFromPool ord (\<lambda>_. False) last_gw s = Some r" using result_built by blast
  then have cfg: "buildFirewallConfig ord (\<lambda>_. False) last_gw s = Some (fwr_Config r)" by (simp add: buildFirewallConfig_def)
  let ?specs = "conntrack_spec # installed_specs (fc_Rules (fwr_Config r))"
  obtain es1 es2 where es: "events_to st rd hubs (RefreshFirewallForGateways ord (\<lambda>_. False) (gws @ [last_gw]) s h) = es1 @ es2"
      "\<forall>e \<in> set es1. \<exists>g. refresh_event (the (buildFirewallConfig ord (\<lambda>_. False) g s)) e"
      "\<forall>e \<in> set es2. refresh_event (fwr_Config r) e" "FirewallUpdate (Some (fwr_Config r)) \<in> set es2"
    using last_refresh_events [where rd = rd and i = i and gws = gws, OF assms(4-11) cfg] by blast
  have readable: "\<forall>r \<in> set (fc_Rules (the (buildFirewallConfig ord (\<lambda>_. False) g s))). rule_readable r" for g
    using built_readable [OF assms(2), of ord g] by auto
  then have "\<forall>e \<in> set es1. \<exists>c. refresh_event c e \<and> (\<forall>r \<in> set (fc_Rules c). rule_readable r)"
    using es(2) by blast
  note keep = gateway_kernel.run_rules_keep [OF assms(1,13,12,14) this]
  have run: "a' = agent_run x es2 (agent_run x es1 a)"
    by (simp add: assms(15) run_job_def es(1) agent_run_append)
  have "\<forall>e \<in> set es2. \<exists>c. refresh_event c e \<and> (\<forall>r \<in> set (fc_Rules c). rule_readable r)"
    using es(3) readable [of last_gw] by (auto simp: cfg)
  then have "flows (ag_kernel a') \<subseteq> flows (ag_kernel a)"
    using gateway_kernel.run_rules_keep [OF assms(1), of "agent_run x es1 a" es2] keep unfolding run by (meson order_trans)
  moreover have chain: "chain (ag_kernel a') outpostChain = Some ?specs"
    using gateway_kernel.run_refresh_kernel [OF assms(1) _ _ _ _ es(3), of "agent_run x es1 a"] keep readable [of last_gw] es(4) cfg
    by (simp add: run)
  have verdict: "chain_verdict fl ?specs p = access_verdict s last_gw p" if "\<not> established fl p" for fl p
    unfolding chain_verdict_conntrack using that built_access [OF assms(2,3) r] by simp
  ultimately show ?thesis
    unfolding chain using verdict access_unserved [OF assms(2)] by (intro conjI exI [of _ ?specs]) simp_all
qed

definition refreshed_wire :: wire where
  "refreshed_wire = table_wire [FirewallUpdate (buildFirewallConfig rev (\<lambda>_. False) ''gw2'' sample_db)]"

theorem redis_refresh_installs_last_witness:
  "(case agent_run ref_externals (events_to 1 (\<lambda>_ _. True) [sample_hub (Some refreshed_wire)]
        (run_job rev (\<lambda>_. False) (refresh_job.RefreshFirewallForGateways [''gw1'', ''gw2'']) sample_db (sample_hub (Some refreshed_wire)))) sample_agent of
      a' \<Rightarrow> \<exists>specs. rk_chains (ag_kernel a') outpostChain = Some specs \<and>
        chain_verdict (rk_flows (ag_kernel a')) specs (sample_packet 0x0A140005) = None) \<and>
   access_verdict sample_db ''gw1'' (sample_packet 0x0A140005) = Some Dropped"
proof -
  let ?d = "sample_device ''d1'' ''u1'' ''pk1'' 0x0A080002" and ?h = "sample_hub (Some refreshed_wire)"
  let ?a' = "agent_run ref_externals (events_to 1 (\<lambda>_ _. True) [?h]
    (run_job rev (\<lambda>_. False) (refresh_job.RefreshFirewallForGateways [''gw1'', ''gw2'']) sample_db ?h)) sample_agent"
  have wire: "wr_Marshal refreshed_wire (FirewallUpdate (buildFirewallConfig rev (\<lambda>_. False) ''gw2'' sample_db)) = Some []"
      "wr_Unmarshal refreshed_wire [] \<noteq> None" "compatible ?h [?h]"
    by (simp_all add: refreshed_wire_def table_wire_compatible) (simp_all add: table_wire_def)
  have hub: "(0 :: nat) < length [?h]" "(''gw1'', 1) \<in> set (hb_streams ([?h] ! 0))" "hb_rdb ?h = Some refreshed_wire"
      "hb_rdb ([?h] ! 0) = Some refreshed_wire"
    by simp_all
  have all: "\<forall>n. (\<lambda>_ _. True) (n :: nat) (0 :: nat)" by simp
  have a: "ag_wg sample_agent" "ag_fw sample_agent" "rk_chains (ag_kernel sample_agent) outpostChain \<noteq> None"
    by (simp_all add: sample_agent_def sample_kernel_def)
  have d: "?d \<in> set (tb_devices sample_db)" "d_assigned_ip ?d = pk_src (sample_packet 0x0A140005)"
      "\<not> serves sample_db ''gw2'' ?d" "\<not> serves_legacy sample_db ''gw2'' ?d"
    by (simp_all add: sample_tables serves_def serves_legacy_def sample_device_def sample_gateway_row_def sample_packet_def)
  have free: "\<not> established fl (sample_packet 0x0A140005)" if "fl \<subseteq> rk_flows (ag_kernel sample_agent)" for fl
    using that by (auto simp: established_def sample_packet_def sample_agent_def sample_kernel_def)
  have "access_verdict sample_db ''gw1'' (sample_packet 0x0A140005) = Some Dropped"
    by (simp add: access_verdict_def sample_gateway_devices acl_allows_def)
      (simp add: sample_tables sample_device_def sample_packet_def sample_network_def sample_user_def net_10_10_def net_10_20_def
        in_cidr_def mask_ip_def)
  moreover note last = redis_refresh_installs_last [where rd = "\<lambda>_ _. True" and i = 0 and gws = "[''gw1'']",
      OF refk.gateway_kernel_axioms sample_db_ok set_rev wire(3) hub(1) all hub(2,3) wire(1) hub(4) wire(2) a refl]
  obtain specs where specs: "rk_chains (ag_kernel ?a') outpostChain = Some specs"
      "chain_verdict (rk_flows (ag_kernel ?a')) specs (sample_packet 0x0A140005) = None"
    using last [THEN conjunct2] free [OF last [THEN conjunct1, unfolded append.simps]] d unfolding append.simps by blast
  ultimately show ?thesis by simp
qed

text \<open>
  C26. A peer that is added is announced to every connected gateway, also to those that do not
  serve its network. The rules of such a gateway have no entry for the address of the device, so
  its packets get no verdict from the access rules there, not even a drop.
\<close>

theorem peer_add_without_rules:
  assumes "map_of (hb_streams h) gw = Some st" "db_ok s" "\<And>xs. set (ord xs) = set xs"
    and "d \<in> set (tb_devices s)" "\<not> serves s gw d" "\<not> serves_legacy s gw d"
    and "buildFirewallConfigFromPool ord (\<lambda>_. False) gw s = Some r" "pk_src p = d_assigned_ip d"
  shows "PeerUpdate PEER_ADD \<lparr>pe_PublicKey = pubkey, pe_AllowedIps = ips, pe_PersistentKeepalive = 25, pe_Endpoint = []\<rparr>
      \<in> set (events_to st rd hubs (NotifyPeerAdd ord f pubkey ips s h)) \<and>
    chain_verdict fl (installed_specs (fc_Rules (fwr_Config r))) p = None"
proof -
  have "chain_verdict fl (installed_specs (fc_Rules (fwr_Config r))) p = None"
    using built_access [OF assms(2,3,7)] access_unserved [OF assms(2,4) _ assms(5,6)] assms(8) by simp
  then show ?thesis
    using broadcast_direct [OF assms(1)] by (simp add: set_events_to delivered_direct NotifyPeerAdd_def BroadcastPeerUpdate_def)
qed

theorem peer_add_without_rules_witness:
  "PeerUpdate PEER_ADD \<lparr>pe_PublicKey = ''pk1'', pe_AllowedIps = [''10.8.0.2/32''], pe_PersistentKeepalive = 25, pe_Endpoint = []\<rparr>
      \<in> set (events_to 2 (\<lambda>_ _. True) [sample_hub None] (NotifyPeerAdd rev (\<lambda>_. False) ''pk1'' [''10.8.0.2/32''] sample_db (sample_hub None))) \<and>
   chain_verdict {} (installed_specs (fc_Rules (fwr_Config (the (buildFirewallConfigFromPool rev (\<lambda>_. False) ''gw2'' sample_db)))))
      (sample_packet 0x0A140005) = None"
proof -
  let ?d = "sample_device ''d1'' ''u1'' ''pk1'' 0x0A080002"
  have d: "?d \<in> set (tb_devices sample_db)" "\<not> serves sample_db ''gw2'' ?d" "\<not> serves_legacy sample_db ''gw2'' ?d"
    by (simp_all add: sample_tables serves_def serves_legacy_def sample_device_def sample_gateway_row_def)
  obtain r where r: "buildFirewallConfigFromPool rev (\<lambda>_. False) ''gw2'' sample_db = Some r"
    by (simp add: buildFirewallConfigFromPool_def Let_def)
  have p: "pk_src (sample_packet 0x0A140005) = d_assigned_ip ?d"
    by (simp add: sample_packet_def sample_device_def)
  have st: "map_of (hb_streams (sample_hub None)) ''gw2'' = Some 2" by simp
  show ?thesis
    using peer_add_without_rules [OF st sample_db_ok set_rev d r p, where pubkey = "''pk1''" and ips = "[''10.8.0.2/32'']" and f = "\<lambda>_. False"
        and fl = "{}" and rd = "\<lambda>_ _. True" and hubs = "[sample_hub None]"]
    by (simp add: r)
qed

end
