(* ===== verification/Device_Alloc.thy ===== *)
theory Device_Alloc
  imports Schema
begin

text \<open>
  Allocation of tunnel addresses: the statement with which \<^verbatim>\<open>create\<close> and \<^verbatim>\<open>enroll\<close> of
  \<^verbatim>\<open>internal/core/handler/device.go\<close> insert a device with an unused address, and the loop that
  repeats it when a concurrent request was faster.

  \<open>others i\<close> is what concurrent transactions commit: with an even index before the statement of an
  attempt takes its snapshot, with an odd one between the snapshot and the insertion. \<open>pick\<close> is the row that \<open>LIMIT 1\<close>
  keeps, which the statement does not order.
\<close>

section \<open>Candidates\<close>

text \<open>
  \<open>(1 << (32 - masklen(cidr))) - 2\<close> in 32-bit arithmetic: the shift takes its count modulo 32, and
  the subtraction reports an overflow.
\<close>

definition last_offset :: "nat \<Rightarrow> int option" where
  "last_offset len =
     (let x = signed_take_bit 31 (2 ^ ((32 - len) mod 32)) - 2 :: int in if int4_range x then Some x else None)"

definition free_addresses :: "cidr \<Rightarrow> db \<Rightarrow> ip4 list option" where
  "free_addresses c s =
     map_option (\<lambda>l. filter (\<lambda>ip. ip \<notin> d_assigned_ip ` set (tb_devices s)) (map (\<lambda>off. c_net c + word_of_int off) [2..l]))
       (last_offset (c_len c))"

section \<open>The statement\<close>

record device_values =
  dv_user_id :: uuid
  dv_name :: string
  dv_pubkey :: string
  dv_privkey :: "string option"
  dv_approved :: bool
  dv_network_id :: uuid

datatype insert_error = NoRows | PkeyDup | PubkeyDup | AddressDup | OtherError

definition device_of :: "device_values \<Rightarrow> uuid \<Rightarrow> time \<Rightarrow> ip4 \<Rightarrow> device_row" where
  "device_of v new_id now ip =
     \<lparr>d_id = new_id, d_user_id = dv_user_id v, d_name = dv_name v, d_wireguard_pubkey = dv_pubkey v,
      d_wireguard_privkey = dv_privkey v, d_assigned_ip = ip, d_is_approved = dv_approved v, d_last_handshake = None,
      d_network_id = Some (dv_network_id v), d_created_at = now, d_updated_at = now\<rparr>"

text \<open>
  The unique indexes are checked in the order of their creation, the foreign keys at the end of the
  statement.
\<close>

definition insert_row :: "device_row \<Rightarrow> db \<Rightarrow> (insert_error + device_row) \<times> db" where
  "insert_row d s =
     (if d_id d \<in> d_id ` set (tb_devices s) then (Inl PkeyDup, s)
      else if d_wireguard_pubkey d \<in> d_wireguard_pubkey ` set (tb_devices s) then (Inl PubkeyDup, s)
      else if d_assigned_ip d \<in> d_assigned_ip ` set (tb_devices s) then (Inl AddressDup, s)
      else if d_user_id d \<notin> u_id ` set (tb_users s) \<or> d_network_id d \<notin> Some ` n_id ` set (tb_networks s)
      then (Inl OtherError, s)
      else (Inr d, s\<lparr>tb_devices := tb_devices s @ [d]\<rparr>))"

definition insert_device :: "(ip4 list \<Rightarrow> ip4) \<Rightarrow> uuid \<Rightarrow> time \<Rightarrow> (nat \<Rightarrow> db \<Rightarrow> db) \<Rightarrow> nat \<Rightarrow> bool \<Rightarrow> device_values \<Rightarrow> cidr \<Rightarrow> db
    \<Rightarrow> (insert_error + device_row) \<times> db" where
  "insert_device pick new_id now others attempt fails v c s =
     (let snapshot = others (2 * attempt) s; s' = others (2 * attempt + 1) snapshot
      in if fails then (Inl OtherError, s')
         else case free_addresses c snapshot of
             None \<Rightarrow> (Inl OtherError, s')
           | Some ips \<Rightarrow> if ips = [] then (Inl NoRows, s') else insert_row (device_of v new_id now (pick ips)) s')"

text \<open>\<open>left\<close> counts the attempts that remain; the handlers start with \<open>maxRetries\<close> of them.\<close>

fun alloc_loop :: "(ip4 list \<Rightarrow> ip4) \<Rightarrow> (nat \<Rightarrow> uuid) \<Rightarrow> time \<Rightarrow> (nat \<Rightarrow> db \<Rightarrow> db) \<Rightarrow> (nat \<Rightarrow> bool) \<Rightarrow> device_values \<Rightarrow> cidr \<Rightarrow>
    nat \<Rightarrow> nat \<Rightarrow> db \<Rightarrow> (insert_error + device_row) \<times> db" where
  "alloc_loop pick new_id now others f v c attempt 0 s = (Inl AddressDup, s)"
| "alloc_loop pick new_id now others f v c attempt (Suc left) s =
     (case insert_device pick (new_id attempt) now others attempt (f attempt) v c s of
        (Inl AddressDup, s') \<Rightarrow> alloc_loop pick new_id now others f v c (Suc attempt) left s'
      | r \<Rightarrow> r)"

definition maxRetries :: nat where "maxRetries = 5"

section \<open>Which addresses\<close>

lemma last_offset_mid: "2 \<le> len \<Longrightarrow> len \<le> 32 \<Longrightarrow> last_offset len = Some (2 ^ (32 - len) - 2)"
proof -
  assume len: "2 \<le> len" "len \<le> 32"
  have small: "signed_take_bit 31 x = x \<and> int4_range (x - 2)" if "1 \<le> x" "x \<le> 2 ^ 30" for x :: int
    using that by (auto simp: int4_range_def intro!: signed_take_bit_int_eq_self)
  have "(2 :: int) ^ (32 - len) \<le> 2 ^ 30" using len by (intro power_increasing) auto
  then have "signed_take_bit 31 (2 ^ (32 - len)) = (2 ^ (32 - len) :: int)" "int4_range (2 ^ (32 - len) - 2)"
    using small [of "2 ^ (32 - len)"] by simp_all
  then show ?thesis using len by (simp add: last_offset_def)
qed

lemma last_offset_wide: "last_offset 0 = Some (- 1)" "last_offset 1 = None"
  by (simp_all add: last_offset_def int4_range_def signed_take_bit_eq_take_bit_shift take_bit_eq_mod)

text \<open>Only networks with a prefix between 2 and 30 have candidates.\<close>

lemma last_offset_candidates:
  assumes "last_offset len = Some l" "2 \<le> l" "len \<le> 32"
  shows "2 \<le> len \<and> len \<le> 30 \<and> l = 2 ^ (32 - len) - 2"
proof -
  have ge: "2 \<le> len"
    using assms(1,2) last_offset_wide by (cases "len = 0 \<or> len = 1") auto
  then have l: "l = 2 ^ (32 - len) - 2" using last_offset_mid [of len] assms(1,3) by simp
  have "len = 31 \<or> len = 32 \<or> len \<le> 30" using assms(3) by linarith
  then show ?thesis using l ge assms(2) by auto
qed

lemma unat_of_small: "n < 2 ^ 32 \<Longrightarrow> unat (word_of_nat n :: ip4) = n"
  by (simp add: unat_of_nat take_bit_eq_mod)

lemma cidr_base:
  assumes "cidr_ok c"
  obtains q where "unat (c_net c) = q * 2 ^ (32 - c_len c)" "(q + 1) * 2 ^ (32 - c_len c) \<le> 2 ^ 32"
proof -
  let ?k = "32 - c_len c" and ?n = "unat (c_net c)"
  have n: "?n < 2 ^ 32" using unsigned_less [of "c_net c", where ?'a = nat] by simp
  have "?n div 2 ^ ?k * 2 ^ ?k < 2 ^ 32" using n by (meson div_times_less_eq_dividend le_less_trans)
  then have "unat (mask_ip (c_len c) (c_net c)) = ?n div 2 ^ ?k * 2 ^ ?k"
    unfolding mask_ip_def by (rule unat_of_small)
  then have e: "?n = ?n div 2 ^ ?k * 2 ^ ?k" using assms by (simp add: cidr_ok_def)
  have "?n div 2 ^ ?k < 2 ^ (32 - ?k)"
    using n by (simp add: less_mult_imp_div_less power_add [symmetric])
  then have "(?n div 2 ^ ?k + 1) * 2 ^ ?k \<le> 2 ^ (32 - ?k) * 2 ^ ?k" by (intro mult_right_mono) auto
  then show thesis using that [of "?n div 2 ^ ?k"] e by (simp add: power_add [symmetric])
qed

lemma unat_offset:
  assumes "cidr_ok c" "off < 2 ^ (32 - c_len c)"
  shows "unat (c_net c + word_of_nat off) = unat (c_net c) + off"
    and "in_cidr (c_net c + word_of_nat off) c"
proof -
  obtain q where q: "unat (c_net c) = q * 2 ^ (32 - c_len c)" "(q + 1) * 2 ^ (32 - c_len c) \<le> 2 ^ 32"
    using cidr_base [OF assms(1)] .
  then have b: "unat (c_net c) + off < 2 ^ 32" using assms(2) by (simp add: distrib_right)
  show u: "unat (c_net c + word_of_nat off) = unat (c_net c) + off"
    using b by (simp add: unat_word_ariths unat_of_nat take_bit_eq_mod)
  have "(q * 2 ^ (32 - c_len c) + off) div 2 ^ (32 - c_len c) = q" using assms(2) by simp
  then have "mask_ip (c_len c) (c_net c + word_of_nat off) = word_of_nat (unat (c_net c))"
    unfolding mask_ip_def u q(1) by simp
  then show "in_cidr (c_net c + word_of_nat off) c" by (simp add: in_cidr_def)
qed

lemma in_cidr_offset:
  assumes "cidr_ok c"
  shows "in_cidr ip c \<longleftrightarrow> (\<exists>off < 2 ^ (32 - c_len c). ip = c_net c + word_of_nat off)"
proof
  assume "in_cidr ip c"
  then have "c_net c + word_of_nat (unat ip mod 2 ^ (32 - c_len c)) =
      word_of_nat (unat ip div 2 ^ (32 - c_len c) * 2 ^ (32 - c_len c) + unat ip mod 2 ^ (32 - c_len c))"
    by (simp only: in_cidr_def mask_ip_def of_nat_add)
  then have "ip = c_net c + word_of_nat (unat ip mod 2 ^ (32 - c_len c))" by (simp only: div_mult_mod_eq) simp
  then show "\<exists>off < 2 ^ (32 - c_len c). ip = c_net c + word_of_nat off" by (metis mod_less_divisor zero_less_numeral zero_less_power)
qed (use unat_offset(2) [OF assms] in auto)

text \<open>The addresses that are never handed out: the network, the first host (the gateway) and the broadcast address.\<close>

definition usable_address :: "cidr \<Rightarrow> ip4 \<Rightarrow> bool" where
  "usable_address c ip \<longleftrightarrow> in_cidr ip c \<and> ip \<noteq> c_net c \<and> ip \<noteq> c_net c + 1 \<and> ip \<noteq> c_net c + word_of_nat (2 ^ (32 - c_len c) - 1)"

definition has_pool :: "cidr \<Rightarrow> bool" where
  "has_pool c \<longleftrightarrow> cidr_ok c \<and> 2 \<le> c_len c \<and> c_len c \<le> 30"

lemma has_pool_size: "has_pool c \<Longrightarrow> 4 \<le> (2 :: nat) ^ (32 - c_len c)"
  using power_increasing [of 2 "32 - c_len c" "2 :: nat"] by (auto simp: has_pool_def)

lemma usable_address_iff:
  assumes "has_pool c"
  shows "usable_address c ip \<longleftrightarrow> (\<exists>off. 2 \<le> off \<and> off + 2 \<le> 2 ^ (32 - c_len c) \<and> ip = c_net c + word_of_nat off)"
proof -
  let ?N = "2 ^ (32 - c_len c) :: nat"
  have c: "cidr_ok c" and N: "4 \<le> ?N" using assms has_pool_size by (auto simp: has_pool_def)
  have eq: "c_net c + word_of_nat a = c_net c + word_of_nat b \<longleftrightarrow> a = b" if "a < ?N" "b < ?N" for a b
    using unat_offset(1) [OF c that(1)] unat_offset(1) [OF c that(2)] by (metis add_left_cancel)
  have "usable_address c ip \<longleftrightarrow> (\<exists>off < ?N. ip = c_net c + word_of_nat off \<and> off \<noteq> 0 \<and> off \<noteq> 1 \<and> off \<noteq> ?N - 1)"
    unfolding usable_address_def in_cidr_offset [OF c]
    using eq [of _ 0] eq [of _ 1] eq [of _ "?N - 1"] N by (auto simp del: of_nat_diff)
  also have "\<dots> \<longleftrightarrow> (\<exists>off. 2 \<le> off \<and> off + 2 \<le> ?N \<and> ip = c_net c + word_of_nat off)"
    by (rule iff_exI) auto
  finally show ?thesis .
qed

text \<open>The candidates are the usable addresses that no device has.\<close>

lemma free_addresses_pool:
  assumes "has_pool c"
  obtains ips where "free_addresses c s = Some ips"
    "set ips = {ip. usable_address c ip \<and> ip \<notin> d_assigned_ip ` set (tb_devices s)}"
proof -
  let ?N = "2 ^ (32 - c_len c) :: nat"
  have "(\<lambda>off. c_net c + word_of_int off) ` {2..int ?N - 2} = {ip. usable_address c ip}" (is "?L = ?R")
  proof
    show "?L \<subseteq> ?R"
    proof clarify
      fix off :: int assume "off \<in> {2..int ?N - 2}"
      then have "2 \<le> nat off" "int (nat off + 2) \<le> int ?N" "word_of_int off = (word_of_nat (nat off) :: ip4)" by auto
      then have "2 \<le> nat off \<and> nat off + 2 \<le> ?N \<and> word_of_int off = (word_of_nat (nat off) :: ip4)"
        by (simp only: of_nat_le_iff)
      then show "usable_address c (c_net c + word_of_int off)" using usable_address_iff [OF assms] by auto
    qed
    show "?R \<subseteq> ?L"
    proof clarify
      fix ip assume "usable_address c ip"
      then obtain off where "2 \<le> off" "off + 2 \<le> ?N" "ip = c_net c + word_of_nat off"
        using usable_address_iff [OF assms] by auto
      moreover have "int off \<in> {2..int ?N - 2}"
        using \<open>2 \<le> off\<close> of_nat_mono [OF \<open>off + 2 \<le> ?N\<close>, where ?'a = int] by simp
      ultimately show "ip \<in> ?L" by (intro image_eqI [of _ _ "int off"]) auto
    qed
  qed
  then show thesis
    using assms that by (auto simp: free_addresses_def has_pool_def last_offset_mid)
qed

lemma free_addresses_no_pool:
  assumes "cidr_ok c" "\<not> has_pool c"
  shows "free_addresses c s = None \<or> free_addresses c s = Some []"
proof (cases "last_offset (c_len c)")
  case (Some l)
  then have "l < 2" using last_offset_candidates [OF Some] assms by (cases "2 \<le> l") (auto simp: has_pool_def cidr_ok_def)
  then show ?thesis using Some by (simp add: free_addresses_def)
qed (simp add: free_addresses_def)

lemma free_addressD:
  assumes "cidr_ok c" "free_addresses c s = Some ips" "ip \<in> set ips"
  shows "has_pool c \<and> usable_address c ip \<and> ip \<notin> d_assigned_ip ` set (tb_devices s)"
proof -
  have p: "has_pool c"
  proof (rule ccontr)
    assume "\<not> has_pool c"
    then have "free_addresses c s = None \<or> free_addresses c s = Some []" by (rule free_addresses_no_pool [OF assms(1)])
    then show False using assms(2,3) by auto
  qed
  then obtain ips' where "free_addresses c s = Some ips'"
    "set ips' = {ip. usable_address c ip \<and> ip \<notin> d_assigned_ip ` set (tb_devices s)}"
    by (rule free_addresses_pool)
  then show ?thesis using p assms(2,3) by auto
qed

section \<open>The loop\<close>

lemma insert_row_ok:
  assumes "devices_ok s" "insert_row d s = (r, s')"
  shows "devices_ok s'"
  using assms by (auto simp: insert_row_def devices_ok_def split: if_splits)

lemma insert_row_Inr:
  "insert_row d s = (Inr d', s') \<longleftrightarrow>
     d' = d \<and> s' = s\<lparr>tb_devices := tb_devices s @ [d]\<rparr> \<and> d_id d \<notin> d_id ` set (tb_devices s) \<and>
     d_wireguard_pubkey d \<notin> d_wireguard_pubkey ` set (tb_devices s) \<and> d_assigned_ip d \<notin> d_assigned_ip ` set (tb_devices s) \<and>
     d_user_id d \<in> u_id ` set (tb_users s) \<and> d_network_id d \<in> Some ` n_id ` set (tb_networks s)"
  by (auto simp: insert_row_def)

lemma device_of_simps [simp]:
  "d_id (device_of v i now ip) = i" "d_user_id (device_of v i now ip) = dv_user_id v"
  "d_wireguard_pubkey (device_of v i now ip) = dv_pubkey v" "d_assigned_ip (device_of v i now ip) = ip"
  "d_network_id (device_of v i now ip) = Some (dv_network_id v)" "d_is_approved (device_of v i now ip) = dv_approved v"
  "d_wireguard_privkey (device_of v i now ip) = dv_privkey v" "d_name (device_of v i now ip) = dv_name v"
  by (simp_all add: device_of_def)

text \<open>Concurrent transactions that keep the constraints of the table, and a choice among the candidates.\<close>

locale concurrent_store =
  fixes others :: "nat \<Rightarrow> db \<Rightarrow> db" and pick :: "ip4 list \<Rightarrow> ip4"
  assumes others_ok: "devices_ok s \<Longrightarrow> devices_ok (others n s)"
    and pick_in: "xs \<noteq> [] \<Longrightarrow> pick xs \<in> set xs"
begin

lemma insert_device_ok:
  assumes "devices_ok s" "cidr_ok c" "insert_device pick i now others k fails v c s = (r, s')"
  shows "devices_ok s' \<and> (\<forall>d. r = Inr d \<longrightarrow> has_pool c \<and> usable_address c (d_assigned_ip d) \<and>
    d = device_of v i now (d_assigned_ip d) \<and> d \<in> set (tb_devices s'))"
proof -
  let ?s1 = "others (2 * k) s" and ?s2 = "others (2 * k + 1) (others (2 * k) s)"
  have ok: "devices_ok ?s2" by (intro others_ok assms(1))
  consider "\<forall>d. r \<noteq> Inr d" "s' = ?s2"
    | ips where "free_addresses c ?s1 = Some ips" "ips \<noteq> []" "insert_row (device_of v i now (pick ips)) ?s2 = (r, s')"
    using assms(3) by (auto simp: insert_device_def Let_def split: if_splits option.splits)
  then show ?thesis
  proof cases
    case 2
    have "has_pool c \<and> usable_address c (pick ips)"
      using free_addressD [OF assms(2) 2(1) pick_in [OF 2(2)]] by simp
    then show ?thesis using insert_row_ok [OF ok 2(3)] 2(3) by (auto simp: insert_row_Inr)
  qed (use ok in auto)
qed

lemma alloc_loop_ok:
  assumes "devices_ok s" "cidr_ok c" "alloc_loop pick new_id now others f v c k left s = (r, s')"
  shows "devices_ok s' \<and> (\<forall>d. r = Inr d \<longrightarrow> has_pool c \<and> usable_address c (d_assigned_ip d) \<and>
    (\<exists>i. d = device_of v i now (d_assigned_ip d)) \<and> d \<in> set (tb_devices s'))"
  using assms
proof (induction left arbitrary: k s)
  case (Suc left)
  obtain r1 s1 where i: "insert_device pick (new_id k) now others k (f k) v c s = (r1, s1)" by force
  note one = insert_device_ok [OF Suc.prems(1,2) i]
  show ?case
  proof (cases "r1 = Inl AddressDup")
    case True
    then show ?thesis using Suc.IH [of s1 "Suc k"] Suc.prems one i by simp
  next
    case False
    then have "r = r1" "s' = s1" using Suc.prems(3) i by (auto split: sum.splits insert_error.splits)
    then show ?thesis using one by blast
  qed
qed auto

end

text \<open>The state of the database in which the insertion of \<open>v\<close> can only fail for want of an address.\<close>

definition insertable :: "device_values \<Rightarrow> (nat \<Rightarrow> uuid) \<Rightarrow> db \<Rightarrow> bool" where
  "insertable v new_id s \<longleftrightarrow>
     dv_user_id v \<in> u_id ` set (tb_users s) \<and> dv_network_id v \<in> n_id ` set (tb_networks s) \<and>
     dv_pubkey v \<notin> d_wireguard_pubkey ` set (tb_devices s) \<and> (\<forall>k. new_id k \<notin> d_id ` set (tb_devices s))"

definition address_left :: "cidr \<Rightarrow> db \<Rightarrow> bool" where
  "address_left c s \<longleftrightarrow> (\<exists>ip. usable_address c ip \<and> ip \<notin> d_assigned_ip ` set (tb_devices s))"

lemma insert_device_progress:
  assumes pick: "\<And>xs. xs \<noteq> [] \<Longrightarrow> pick xs \<in> set xs" and "has_pool c"
    and "insertable v new_id (others (2 * k + 1) (others (2 * k) s))" "address_left c (others (2 * k) s)"
  obtains (inserted) d s' where "insert_device pick (new_id k) now others k False v c s = (Inr d, s')"
  | (collision) "insert_device pick (new_id k) now others k False v c s = (Inl AddressDup, others (2 * k + 1) (others (2 * k) s))"
      "others (2 * k + 1) (others (2 * k) s) \<noteq> others (2 * k) s"
proof -
  obtain ips where ips: "free_addresses c (others (2 * k) s) = Some ips"
    "set ips = {ip. usable_address c ip \<and> ip \<notin> d_assigned_ip ` set (tb_devices (others (2 * k) s))}"
    using free_addresses_pool [OF assms(2)] .
  then have ne: "ips \<noteq> []" using assms(4) by (auto simp: address_left_def)
  show thesis
  proof (cases "pick ips \<in> d_assigned_ip ` set (tb_devices (others (2 * k + 1) (others (2 * k) s)))")
    case True
    then have "others (2 * k + 1) (others (2 * k) s) \<noteq> others (2 * k) s" using pick [OF ne] ips(2) by auto
    then show ?thesis using collision assms(3) True ips(1) ne
      by (auto simp: insert_device_def insert_row_def insertable_def Let_def)
  next
    case False
    then show ?thesis using inserted assms(3) ips(1) ne
      by (auto simp: insert_device_def insert_row_def insertable_def Let_def)
  qed
qed

lemma alloc_loop_progress:
  assumes pick: "\<And>xs. xs \<noteq> [] \<Longrightarrow> pick xs \<in> set xs" and pool: "has_pool c"
    and keep: "\<And>n s. insertable v new_id s \<Longrightarrow> insertable v new_id (others n s)"
      "\<And>n s. address_left c s \<Longrightarrow> address_left c (others n s)"
    and quiet: "\<And>s. others (2 * j + 1) s = s"
  shows "insertable v new_id s \<Longrightarrow> address_left c s \<Longrightarrow> k \<le> j \<Longrightarrow> j < k + left \<Longrightarrow>
    \<exists>d s'. alloc_loop pick new_id now others (\<lambda>_. False) v c k left s = (Inr d, s')"
proof (induction left arbitrary: k s)
  case (Suc left)
  have ins: "insertable v new_id (others (2 * k + 1) (others (2 * k) s))"
    and adr: "address_left c (others (2 * k) s)" "address_left c (others (2 * k + 1) (others (2 * k) s))"
    using keep Suc.prems(1,2) by blast+
  show ?case
  proof (rule insert_device_progress [where now = now, OF pick pool ins adr(1)])
    assume i: "insert_device pick (new_id k) now others k False v c s = (Inl AddressDup, others (2 * k + 1) (others (2 * k) s))"
      and "others (2 * k + 1) (others (2 * k) s) \<noteq> others (2 * k) s"
    then have "k \<noteq> j" using quiet [of "others (2 * k) s"] by auto
    then show ?thesis using Suc.IH [OF ins adr(2), of "Suc k"] Suc.prems(3,4) i by simp
  qed simp_all
qed simp

lemma alloc_loop_exhausted:
  assumes "has_pool c" "\<not> address_left c s"
  shows "alloc_loop pick new_id now (\<lambda>_ s. s) (\<lambda>_. False) v c k (Suc left) s = (Inl NoRows, s)"
proof -
  obtain ips where "free_addresses c s = Some ips"
    "set ips = {ip. usable_address c ip \<and> ip \<notin> d_assigned_ip ` set (tb_devices s)}"
    using free_addresses_pool [OF assms(1)] .
  moreover from this(2) have "set ips = {}" using assms(2) by (auto simp: address_left_def)
  ultimately show ?thesis by (simp add: insert_device_def)
qed

text \<open>
  C23. The retry loop makes progress: as long as the other transactions leave an unused address and
  do not take the key or the identifiers, one attempt out of five during which the table stands
  still is enough for the device to be inserted, whichever candidate the database picks. When every
  usable address is taken the first attempt says so.
\<close>

theorem allocation_progress:
  assumes "\<And>xs. xs \<noteq> [] \<Longrightarrow> pick xs \<in> set xs" and "has_pool c"
    and "\<And>n s. insertable v new_id s \<Longrightarrow> insertable v new_id (others n s)"
    and "\<And>n s. address_left c s \<Longrightarrow> address_left c (others n s)"
    and "j < maxRetries" "\<And>s. others (2 * j + 1) s = s"
  shows "(insertable v new_id s \<and> address_left c s \<longrightarrow>
      (\<exists>d s'. alloc_loop pick new_id now others (\<lambda>_. False) v c 0 maxRetries s = (Inr d, s'))) \<and>
    (\<not> address_left c s \<longrightarrow>
      alloc_loop pick new_id now (\<lambda>_ s. s) (\<lambda>_. False) v c 0 maxRetries s = (Inl NoRows, s))"
proof (intro conjI impI)
  assume "insertable v new_id s \<and> address_left c s"
  then show "\<exists>d s'. alloc_loop pick new_id now others (\<lambda>_. False) v c 0 maxRetries s = (Inr d, s')"
    using assms(5) by (intro alloc_loop_progress [where j = j and others = others] assms(1-4,6)) auto
next
  assume "\<not> address_left c s"
  then show "alloc_loop pick new_id now (\<lambda>_ s. s) (\<lambda>_. False) v c 0 maxRetries s = (Inl NoRows, s)"
    using alloc_loop_exhausted [OF assms(2), of s pick new_id now v 0 4] by (simp add: maxRetries_def numeral_eq_Suc)
qed

definition sample_values :: device_values where
  "sample_values = \<lparr>dv_user_id = ''u1'', dv_name = ''phone'', dv_pubkey = ''pk2'', dv_privkey = None,
     dv_approved = True, dv_network_id = ''n1''\<rparr>"

definition sample_id :: "nat \<Rightarrow> uuid" where
  "sample_id k = ''new-'' @ dec_nat k"

lemma sample_insertable: "insertable sample_values sample_id sample_db"
  by (auto simp: insertable_def sample_values_def sample_id_def sample_tables sample_user_def sample_device_def sample_network_def)

lemma sample_address_left: "address_left net_10_8 sample_db"
  unfolding address_left_def
  by (rule exI [of _ "0x0A080004"])
    (simp add: usable_address_def in_cidr_def mask_ip_def net_10_8_def sample_tables sample_device_def)

lemma net_10_8_pool: "has_pool net_10_8"
  by (simp add: has_pool_def) (simp add: net_10_8_def)

theorem allocation_progress_witness:
  "insertable sample_values sample_id sample_db \<and> address_left net_10_8 sample_db \<and>
   (\<exists>d s'. alloc_loop hd sample_id 0 (\<lambda>_ s. s) (\<lambda>_. False) sample_values net_10_8 0 maxRetries sample_db = (Inr d, s'))"
  using allocation_progress [of hd net_10_8 sample_values sample_id "\<lambda>_ s. s" 0 sample_db 0] net_10_8_pool
    sample_insertable sample_address_left by (simp add: maxRetries_def)

section \<open>Requests as each other's environment\<close>

text \<open>A concurrent creation of a device is such a transaction, and its own environment is one in turn.\<close>

interpretation alone: concurrent_store "\<lambda>_ s. s" hd
  by unfold_locales auto

definition rival :: "(nat \<Rightarrow> uuid) \<Rightarrow> time \<Rightarrow> (nat \<Rightarrow> device_values) \<Rightarrow> network_row \<Rightarrow> nat \<Rightarrow> db \<Rightarrow> db" where
  "rival new_id now vs n k s =
     (if cidr_ok (n_address n) then snd (alloc_loop hd new_id now (\<lambda>_ s. s) (\<lambda>_. False) (vs k) (n_address n) 0 maxRetries s) else s)"

interpretation rivals: concurrent_store "rival new_id now vs n" hd for new_id now vs n
proof
  fix s k assume "devices_ok s"
  then show "devices_ok (rival new_id now vs n k s)"
    using alone.alloc_loop_ok [of s "n_address n" new_id now _ "vs k" 0 maxRetries, OF _ _ prod.collapse [symmetric]]
    by (simp add: rival_def)
qed simp

end
