(* ===== verification/Wireguard.thy ===== *)
theory Wireguard
  imports Go_Std
begin

text \<open>
  WireGuard keys as text (\<^verbatim>\<open>validWireGuardKey\<close> of \<^verbatim>\<open>internal/core/handler/helpers.go\<close> on top of
  \<^verbatim>\<open>base64.StdEncoding\<close>) and wg-quick configuration files (\<^verbatim>\<open>internal/wireguard/config.go\<close>).
  A byte is a number below 256.
\<close>

section \<open>Base64\<close>

definition b64_char :: "nat \<Rightarrow> char" where
  "b64_char n =
     char_of (if n < 26 then 65 + n else if n < 52 then 71 + n else if n < 62 then n - 4 else if n = 62 then 43 else 47 :: nat)"

definition b64_val :: "char \<Rightarrow> nat option" where
  "b64_val c =
     (let n = of_char c :: nat
      in if 65 \<le> n \<and> n \<le> 90 then Some (n - 65)
         else if 97 \<le> n \<and> n \<le> 122 then Some (n - 71)
         else if 48 \<le> n \<and> n \<le> 57 then Some (n + 4)
         else if n = 43 then Some 62 else if n = 47 then Some 63 else None)"

fun b64_encode :: "nat list \<Rightarrow> string" where
  "b64_encode [] = []"
| "b64_encode [a] = [b64_char (a div 4), b64_char (a mod 4 * 16), CHR ''='', CHR ''='']"
| "b64_encode [a, b] = [b64_char (a div 4), b64_char (a mod 4 * 16 + b div 16), b64_char (b mod 16 * 4), CHR ''='']"
| "b64_encode (a # b # c # bs) =
     b64_char (a div 4) # b64_char (a mod 4 * 16 + b div 16) # b64_char (b mod 16 * 4 + c div 64) # b64_char (c mod 64) #
     b64_encode bs"

text \<open>
  Groups of four characters; the last may be padded, and the bits of its last character that do not
  belong to a byte are not looked at.
\<close>

fun b64_groups :: "string \<Rightarrow> nat list option" where
  "b64_groups [] = Some []"
| "b64_groups (c1 # c2 # c3 # c4 # cs) =
     (case (b64_val c1, b64_val c2) of
        (Some v1, Some v2) \<Rightarrow>
          if c4 = CHR ''='' then
            (if cs \<noteq> [] then None
             else if c3 = CHR ''='' then Some [v1 * 4 + v2 div 16]
             else case b64_val c3 of None \<Rightarrow> None | Some v3 \<Rightarrow> Some [v1 * 4 + v2 div 16, v2 mod 16 * 16 + v3 div 4])
          else (case (b64_val c3, b64_val c4, b64_groups cs) of
                  (Some v3, Some v4, Some bs) \<Rightarrow>
                    Some ((v1 * 4 + v2 div 16) # (v2 mod 16 * 16 + v3 div 4) # (v3 mod 4 * 64 + v4) # bs)
                | _ \<Rightarrow> None)
      | _ \<Rightarrow> None)"
| "b64_groups _ = None"

text \<open>\<^verbatim>\<open>DecodeString\<close> skips line breaks wherever they are.\<close>

definition b64_decode :: "string \<Rightarrow> nat list option" where
  "b64_decode s = b64_groups (filter (\<lambda>c. c \<noteq> CHR 0x0A \<and> c \<noteq> CHR 0x0D) s)"

definition validWireGuardKey :: "string \<Rightarrow> bool" where
  "validWireGuardKey s \<longleftrightarrow> length s = 44 \<and> s ! 43 = CHR ''='' \<and>
     (case b64_decode s of None \<Rightarrow> False | Some b \<Rightarrow> length b = 32)"

section \<open>Configuration files\<close>

record PeerConfig =
  pcf_PublicKey :: string
  pcf_AllowedIPs :: "string list"
  pcf_Endpoint :: string
  pcf_PresharedKey :: string
  pcf_PersistentKeepalive :: int

record InterfaceConfig =
  icf_PrivateKey :: string
  icf_Address :: string
  icf_ListenPort :: int
  icf_DNS :: "string list"
  icf_MTU :: int
  icf_Peers :: "PeerConfig list"

definition nl :: string where "nl = [CHR 0x0A]"

definition RenderPeerConfig :: "PeerConfig \<Rightarrow> string" where
  "RenderPeerConfig peer =
     ''[Peer]'' @ nl @ ''PublicKey = '' @ pcf_PublicKey peer @ nl @
     (if pcf_PresharedKey peer \<noteq> [] then ''PresharedKey = '' @ pcf_PresharedKey peer @ nl else []) @
     (if pcf_AllowedIPs peer \<noteq> [] then ''AllowedIPs = '' @ go_join '', '' (pcf_AllowedIPs peer) @ nl else []) @
     (if pcf_Endpoint peer \<noteq> [] then ''Endpoint = '' @ pcf_Endpoint peer @ nl else []) @
     (if 0 < pcf_PersistentKeepalive peer then ''PersistentKeepalive = '' @ itoa (pcf_PersistentKeepalive peer) @ nl else [])"

definition RenderConfig :: "InterfaceConfig \<Rightarrow> string" where
  "RenderConfig iface =
     ''[Interface]'' @ nl @ ''PrivateKey = '' @ icf_PrivateKey iface @ nl @
     (if icf_Address iface \<noteq> [] then ''Address = '' @ icf_Address iface @ nl else []) @
     (if 0 < icf_ListenPort iface then ''ListenPort = '' @ itoa (icf_ListenPort iface) @ nl else []) @
     (if icf_DNS iface \<noteq> [] then ''DNS = '' @ go_join '', '' (icf_DNS iface) @ nl else []) @
     (if 0 < icf_MTU iface then ''MTU = '' @ itoa (icf_MTU iface) @ nl else []) @
     concat (map (\<lambda>peer. nl @ RenderPeerConfig peer) (icf_Peers iface))"

section \<open>Characters\<close>

lemma b64_val_char: "n < 64 \<Longrightarrow> b64_val (b64_char n) = Some n"
  by (auto simp: b64_val_def b64_char_def Let_def)

lemma b64_char_not_special: "n < 64 \<Longrightarrow> b64_char n \<noteq> CHR ''='' \<and> b64_char n \<noteq> CHR 0x0A \<and> b64_char n \<noteq> CHR 0x0D"
  using b64_val_char [of n] by (auto simp: b64_val_def)

lemma b64_val_bound: "b64_val c = Some v \<Longrightarrow> v < 64 \<and> b64_char v = c"
  by (auto simp: b64_val_def b64_char_def Let_def split: if_splits) (metis char_of_char)+


section \<open>Round trip\<close>

lemma byte_arith:
  fixes a b c :: nat
  assumes "a < 256" "b < 256" "c < 256"
  shows "a div 4 < 64" "a mod 4 * 16 + b div 16 < 64" "b mod 16 * 4 + c div 64 < 64" "c mod 64 < 64"
    "b div 16 < 16" "c div 64 < 4"
proof -
  have "b div 16 < 16" "c div 64 < 4" "a mod 4 < 4" "b mod 16 < 16"
    using assms by (simp_all add: less_mult_imp_div_less)
  then show "a mod 4 * 16 + b div 16 < 64" "b mod 16 * 4 + c div 64 < 64" "c mod 64 < 64" "a div 4 < 64"
      "b div 16 < 16" "c div 64 < 4"
    using assms(1) by (linarith, linarith, simp_all add: less_mult_imp_div_less)
qed

lemma b64_groups_encode: "\<forall>b \<in> set bs. b < 256 \<Longrightarrow> b64_groups (b64_encode bs) = Some bs"
proof (induction bs rule: b64_encode.induct)
  case (2 a)
  then show ?case using byte_arith [of a 0 0] by (simp add: b64_val_char)
next
  case (3 a b)
  then show ?case using byte_arith [of a b 0] by (simp add: b64_val_char b64_char_not_special)
next
  case (4 a b c bs)
  then show ?case using byte_arith [of a b c] by (simp add: b64_val_char b64_char_not_special)
qed simp

lemma b64_encode_no_break: "\<forall>b \<in> set bs. b < 256 \<Longrightarrow> \<forall>c \<in> set (b64_encode bs). c \<noteq> CHR 0x0A \<and> c \<noteq> CHR 0x0D"
proof (induction bs rule: b64_encode.induct)
  case (2 a)
  then show ?case using byte_arith [of a 0 0] by (simp add: b64_char_not_special)
next
  case (3 a b)
  then show ?case using byte_arith [of a b 0] by (simp add: b64_char_not_special)
next
  case (4 a b c bs)
  then show ?case using byte_arith [of a b c] by (simp add: b64_char_not_special)
qed simp

lemma b64_decode_encode: "\<forall>b \<in> set bs. b < 256 \<Longrightarrow> b64_decode (b64_encode bs) = Some bs"
  using b64_encode_no_break [of bs] b64_groups_encode [of bs] by (simp add: b64_decode_def filter_id_conv)

lemma length_b64_encode: "length (b64_encode bs) = 4 * ((length bs + 2) div 3)"
proof (induction bs rule: b64_encode.induct)
  case (4 a b c bs)
  have "(length (a # b # c # bs) + 2) div 3 = Suc ((length bs + 2) div 3)"
    by (simp add: div_add_self1 [symmetric])
  then show ?case using 4 by simp
qed simp_all

lemma b64_groups_more:
  "b64_groups (c1 # c2 # c3 # c4 # cs) = Some bs \<Longrightarrow> c4 \<noteq> CHR ''='' \<Longrightarrow>
   \<exists>x y z bs'. bs = x # y # z # bs' \<and> b64_groups cs = Some bs'"
  by (simp split: option.splits) blast

lemma b64_groups_last:
  "b64_groups (c1 # c2 # c3 # CHR ''='' # cs) = Some bs \<Longrightarrow> cs = [] \<and> length bs \<le> 2"
  by (auto split: option.splits if_splits)

lemma b64_groups_length: "length s < 4 * k + 4 \<Longrightarrow> b64_groups s = Some bs \<Longrightarrow> length bs \<le> 3 * k"
proof (induction k arbitrary: s bs)
  case 0
  then have "s = []" by (cases s rule: b64_groups.cases) simp_all
  then show ?case using 0 by simp
next
  case (Suc k)
  show ?case
  proof (cases s rule: b64_groups.cases)
    case (2 c1 c2 c3 c4 cs)
    show ?thesis
    proof (cases "c4 = CHR ''=''")
      case True
      then show ?thesis using Suc.prems b64_groups_last [of c1 c2 c3 cs bs] 2 by simp
    next
      case False
      then obtain x y z bs' where "bs = x # y # z # bs'" "b64_groups cs = Some bs'"
        using b64_groups_more Suc.prems(2) 2 by blast
      then show ?thesis using Suc.IH [of cs bs'] Suc.prems(1) 2 by simp
    qed
  qed (use Suc.prems in simp_all)
qed

lemma b64_groups_append:
  "length xs = 4 * k \<Longrightarrow> CHR ''='' \<notin> set xs \<Longrightarrow>
   b64_groups (xs @ ys) = (case (b64_groups xs, b64_groups ys) of (Some us, Some vs) \<Rightarrow> Some (us @ vs) | _ \<Rightarrow> None)"
proof (induction k arbitrary: xs)
  case (Suc k)
  then obtain a b c d xs' where xs: "xs = a # b # c # d # xs'"
    by (auto simp: length_Suc_conv numeral_eq_Suc)
  then show ?case
    using Suc by (auto split: option.splits)
qed (simp split: option.split)

lemma b64_groups_no_pad:
  "length xs = 4 * k \<Longrightarrow> ys \<noteq> [] \<Longrightarrow> b64_groups (xs @ ys) \<noteq> None \<Longrightarrow> CHR ''='' \<notin> set xs"
proof (induction k arbitrary: xs)
  case (Suc k)
  then obtain a b c d xs' where xs: "xs = a # b # c # d # xs'"
    by (auto simp: length_Suc_conv numeral_eq_Suc)
  have "b64_val (CHR ''='') = None" by (simp add: b64_val_def)
  then show ?case
    using Suc by (auto simp: xs split: option.splits if_splits)
qed simp


section \<open>Valid keys\<close>

lemma key_groups:
  assumes "validWireGuardKey s"
  obtains xs c1 c2 v1 v2 v3 us where "s = xs @ [c1, c2, b64_char v3, CHR ''='']" "length xs = 40" "v3 < 64"
    "CHR ''='' \<notin> set xs" "b64_groups xs = Some us" "b64_val c1 = Some v1" "b64_val c2 = Some v2"
    "b64_decode s = Some (us @ [v1 * 4 + v2 div 16, v2 mod 16 * 16 + v3 div 4])" "length us = 30"
    "\<forall>c \<in> set s. c \<noteq> CHR 0x0A \<and> c \<noteq> CHR 0x0D"
proof -
  obtain bs where bs: "b64_decode s = Some bs" "length bs = 32" and s: "length s = 44" "s ! 43 = CHR ''=''"
    using assms by (auto simp: validWireGuardKey_def split: option.splits)
  let ?ok = "\<lambda>c. c \<noteq> CHR 0x0A \<and> c \<noteq> CHR 0x0D"
  have "\<not> length (filter ?ok s) < 4 * 10 + 4"
    using b64_groups_length [of "filter ?ok s" 10 bs] bs by (auto simp: b64_decode_def)
  then have all: "\<forall>c \<in> set s. ?ok c"
    using length_filter_less [of _ s ?ok] s(1) by fastforce
  then have dec: "b64_groups s = Some bs"
    using bs(1) filter_id_conv [of ?ok s] by (simp add: b64_decode_def)
  obtain c1 c2 c3 where tl: "drop 40 s = [c1, c2, c3, CHR ''='']"
    using s by (auto simp: list_eq_iff_nth_eq nth_append less_Suc_eq numeral_eq_Suc intro!: that)
  define xs where "xs = take 40 s"
  have split: "s = xs @ [c1, c2, c3, CHR ''='']" using tl append_take_drop_id [of 40 s] by (simp add: xs_def)
  have len: "length xs = 4 * 10" using s(1) by (simp add: xs_def)
  have pad: "CHR ''='' \<notin> set xs"
    using b64_groups_no_pad [OF len, of "[c1, c2, c3, CHR ''='']"] dec by (simp add: split)
  obtain us vs where uv: "b64_groups xs = Some us" "b64_groups [c1, c2, c3, CHR ''=''] = Some vs" "bs = us @ vs"
    using dec b64_groups_append [OF len pad, of "[c1, c2, c3, CHR ''='']"] unfolding split
    by (auto split: option.splits simp del: b64_groups.simps)
  have "length us \<le> 30" using b64_groups_length [of xs 10 us] uv(1) len by simp
  then have two: "length vs \<ge> 2" using bs(2) uv(3) by simp
  then obtain v1 v2 v3 where v: "b64_val c1 = Some v1" "b64_val c2 = Some v2" "b64_val c3 = Some v3"
      "vs = [v1 * 4 + v2 div 16, v2 mod 16 * 16 + v3 div 4]"
    using uv(2) by (auto split: option.splits if_splits)
  have "length us = 30" using bs(2) uv(3) v(4) by simp
  then show ?thesis
    using that [of xs c1 c2 v3 us v1 v2] split len pad uv v all bs(1) b64_val_bound [OF v(3)] by simp
qed


lemma last_b64_encode: "length bs mod 3 = 2 \<Longrightarrow> last (b64_encode bs) = CHR ''=''"
proof (induction bs rule: b64_encode.induct)
  case (4 a b c bs)
  have "length (a # b # c # bs) mod 3 = length bs mod 3"
    using mod_add_self1 [of 3 "length bs"] by simp
  then have "length bs mod 3 = 2" using 4(2) by simp
  moreover have "b64_encode bs \<noteq> []" using calculation by (cases bs rule: b64_encode.cases) simp_all
  ultimately show ?case using 4(1) by simp
qed simp_all

lemma valid_encoding:
  assumes "\<forall>b \<in> set bs. b < 256" "length bs = 32"
  shows "validWireGuardKey (b64_encode bs)"
proof -
  have len: "length (b64_encode bs) = 44" using length_b64_encode [of bs] assms(2) by simp
  then have "b64_encode bs \<noteq> []" by auto
  then have "b64_encode bs ! 43 = CHR ''=''"
    using last_b64_encode [of bs] assms(2) len by (simp add: last_conv_nth)
  then show ?thesis
    using assms(2) len b64_decode_encode [OF assms(1)] by (simp add: validWireGuardKey_def)
qed

text \<open>
  The text of every 32-byte key is accepted as a WireGuard key and decodes to the key. But the
  check does not make texts and keys one to one: every accepted text has a different accepted
  text for the same 32 bytes, because the unused bits of its last character are not looked at.
\<close>

theorem wireguard_key_texts:
  "((\<forall>b \<in> set bs. b < 256) \<and> length bs = 32 \<longrightarrow>
      validWireGuardKey (b64_encode bs) \<and> b64_decode (b64_encode bs) = Some bs) \<and>
   (validWireGuardKey s \<longrightarrow> (\<exists>t. t \<noteq> s \<and> validWireGuardKey t \<and> b64_decode t = b64_decode s))"
proof (intro conjI impI)
  assume s: "validWireGuardKey s"
  then obtain xs c1 c2 v1 v2 v3 us where g: "s = xs @ [c1, c2, b64_char v3, CHR ''='']" "length xs = 40" "v3 < 64"
    "CHR ''='' \<notin> set xs" "b64_groups xs = Some us" "b64_val c1 = Some v1" "b64_val c2 = Some v2"
    "b64_decode s = Some (us @ [v1 * 4 + v2 div 16, v2 mod 16 * 16 + v3 div 4])" "length us = 30"
    "\<forall>c \<in> set s. c \<noteq> CHR 0x0A \<and> c \<noteq> CHR 0x0D"
    by (rule key_groups)
  define w where "w = v3 div 4 * 4 + (v3 + 1) mod 4"
  have q: "v3 div 4 < 16" "(v3 + 1) mod 4 < 4" "(v3 + 1) mod 4 \<noteq> v3 mod 4"
    using g(3) mod_less_divisor [of 4 v3] by (auto simp add: less_mult_imp_div_less mod_Suc)
  have w: "w < 64" "w div 4 = v3 div 4"
    using q by (simp_all add: w_def)
  have "w \<noteq> v3"
    using q(3) div_mult_mod_eq [of v3 4] unfolding w_def by (metis add_left_cancel)
  note w = w this
  define t where "t = xs @ [c1, c2, b64_char w, CHR ''='']"
  have "b64_groups t = Some (us @ [v1 * 4 + v2 div 16, v2 mod 16 * 16 + v3 div 4])"
    using b64_groups_append [of xs 10] g w(1,2) b64_char_not_special [OF w(1)] by (simp add: t_def b64_val_char)
  moreover have "\<forall>c \<in> set t. c \<noteq> CHR 0x0A \<and> c \<noteq> CHR 0x0D"
    using g(1,10) b64_char_not_special [OF w(1)] by (auto simp: t_def)
  ultimately have dec: "b64_decode t = b64_decode s"
    using filter_id_conv [of "\<lambda>c. c \<noteq> CHR 0x0A \<and> c \<noteq> CHR 0x0D" t] g(8) by (simp add: b64_decode_def)
  have "t \<noteq> s" using w(3) b64_val_char [OF w(1)] b64_val_char [OF g(3)] by (auto simp: t_def g(1))
  moreover have "validWireGuardKey t"
    using g(2,8,9) dec by (simp add: validWireGuardKey_def t_def nth_append)
  ultimately show "\<exists>t. t \<noteq> s \<and> validWireGuardKey t \<and> b64_decode t = b64_decode s"
    using dec by blast
qed (simp_all add: valid_encoding b64_decode_encode)


theorem wireguard_key_texts_witness:
  "validWireGuardKey (b64_encode (replicate 32 0)) \<and>
   (\<exists>t. t \<noteq> b64_encode (replicate 32 0) \<and> validWireGuardKey t \<and> b64_decode t = Some (replicate 32 0))"
  using wireguard_key_texts [of "replicate 32 0" "b64_encode (replicate 32 0)"] by auto

end
