(* ===== verification/Device_Handler.thy ===== *)
theory Device_Handler
  imports Device_Alloc Wireguard Http_Helpers Peer_Notifier
begin

text \<open>
  The device endpoints (\<^verbatim>\<open>internal/core/handler/device.go\<close>). A handler yields its answer, the
  database after it, and the notifications it gives to the peer notifier, in order; \<open>run_note\<close> is
  what the notifier makes of them.

  \<open>uuid_parse\<close> stands for \<^verbatim>\<open>uuid.Parse\<close>, \<open>cast_uuid\<close> for the conversion of a text
  parameter to a \<open>uuid\<close> by the database driver, \<open>gen\<close> and \<open>pub\<close> for the generation of a
  private key and the derivation of its public key (\<^verbatim>\<open>wgtypes\<close>), \<open>inet_text\<close> for the driver's
  reading of an \<open>inet\<close> value into a string.
\<close>

section \<open>Requests and answers\<close>

record deviceResponse =
  dvr_ID :: uuid
  dvr_UserID :: uuid
  dvr_OwnerName :: string
  dvr_Name :: string
  dvr_WireguardPubkey :: string
  dvr_AssignedIP :: string
  dvr_IsApproved :: bool
  dvr_LastHandshake :: "time option"
  dvr_NetworkID :: "uuid option"
  dvr_NetworkName :: "string option"
  dvr_CreatedAt :: time
  dvr_UpdatedAt :: time

record createDeviceRequest =
  cdv_Name :: string
  cdv_WireguardPubkey :: string
  cdv_UserID :: string
  cdv_NetworkID :: string

record enrollRequest =
  enq_Name :: string
  enq_WireguardPubkey :: string

record gatewayEndpointResponse =
  gep_ID :: string
  gep_Endpoint :: string
  gep_ServerPublicKey :: string
  gep_Priority :: int
  gep_HealthStatus :: string

record enrollResponse =
  enr_DeviceID :: uuid
  enr_Address :: string
  enr_DNS :: "string list"
  enr_Endpoint :: string
  enr_ServerPublicKey :: string
  enr_AllowedIPs :: "string list"
  enr_PersistentKeepalive :: int
  enr_Gateways :: "gatewayEndpointResponse list"

record configResponse =
  cfr_Config :: string
  cfr_PrivateKey :: string
  cfr_PublicKey :: string
  cfr_Gateways :: "gatewayEndpointResponse list"

record updateDeviceRequest =
  udv_Name :: "string option"

record device_page =
  dpg_devices :: "deviceResponse list"
  dpg_total :: nat
  dpg_page :: int
  dpg_per_page :: int

text \<open>The calls of the \<^verbatim>\<open>PeerNotifier\<close> interface.\<close>

datatype peer_note = PeerAdd string "string list" | PeerRemove string

definition run_note :: "(ip4 list \<Rightarrow> ip4 list) \<Rightarrow> (nat \<Rightarrow> bool) \<Rightarrow> peer_note \<Rightarrow> db \<Rightarrow> StreamHub \<Rightarrow> hub_out list" where
  "run_note ord f note s h =
     (case note of PeerAdd pk ips \<Rightarrow> NotifyPeerAdd ord f pk ips s h | PeerRemove pk \<Rightarrow> NotifyPeerRemove ord f pk s h)"

section \<open>Listing\<close>

text \<open>A row of \<open>devices\<close> with the names of its owner and its network.\<close>

definition device_response :: "db \<Rightarrow> device_row \<Rightarrow> deviceResponse" where
  "device_response s d =
     \<lparr>dvr_ID = d_id d, dvr_UserID = d_user_id d,
      dvr_OwnerName = (case find (\<lambda>u. u_id u = d_user_id d) (tb_users s) of None \<Rightarrow> [] | Some u \<Rightarrow> u_username u),
      dvr_Name = d_name d, dvr_WireguardPubkey = d_wireguard_pubkey d, dvr_AssignedIP = host (d_assigned_ip d),
      dvr_IsApproved = d_is_approved d, dvr_LastHandshake = d_last_handshake d, dvr_NetworkID = d_network_id d,
      dvr_NetworkName = map_option n_name (find (\<lambda>n. d_network_id d = Some (n_id n)) (tb_networks s)),
      dvr_CreatedAt = d_created_at d, dvr_UpdatedAt = d_updated_at d\<rparr>"

definition device_list_page :: "(nat \<Rightarrow> bool) \<Rightarrow> url_query \<Rightarrow> device_row list \<Rightarrow> db \<Rightarrow> device_page resp" where
  "device_list_page f q ds s =
     (let (page, perPage) = parsePagination q
      in if f 0 then Err 500 ''failed to count devices''
         else if f 1 then Err 500 ''failed to query devices''
         else case sql_page d_created_at perPage (page_offset page perPage) ds of
             None \<Rightarrow> Err 500 ''failed to query devices''
           | Some rows \<Rightarrow> Ok 200 \<lparr>dpg_devices = map (device_response s) rows, dpg_total = length ds, dpg_page = page,
                                  dpg_per_page = perPage\<rparr>)"

definition device_list :: "(nat \<Rightarrow> bool) \<Rightarrow> url_query \<Rightarrow> db \<Rightarrow> device_page resp" where
  "device_list f q s = device_list_page f q (tb_devices s) s"

definition device_listMy :: "(string \<Rightarrow> string + uuid) \<Rightarrow> (nat \<Rightarrow> bool) \<Rightarrow> TokenClaims option \<Rightarrow> url_query \<Rightarrow> db \<Rightarrow> device_page resp" where
  "device_listMy uuid_parse f claims q s =
     (case claims of
        None \<Rightarrow> Err 401 ''authentication required''
      | Some cl \<Rightarrow>
          (case uuid_parse (cl_UserID cl) of
             Inl _ \<Rightarrow> Err 500 ''invalid user ID in token''
           | Inr userID \<Rightarrow> device_list_page f q (filter (\<lambda>d. d_user_id d = userID) (tb_devices s)) s))"

section \<open>Creation\<close>

text \<open>The given key, or a generated pair; an error is a status and a message.\<close>

definition create_keys :: "string option \<Rightarrow> (string \<Rightarrow> string option) \<Rightarrow> string \<Rightarrow> (nat \<times> string) + (string \<times> string)" where
  "create_keys gen pub key =
     (if key = [] \<or> key = ''auto-generated'' then
        (case gen of
           None \<Rightarrow> Inl (500, ''failed to generate key pair'')
         | Some privKey \<Rightarrow>
             (case pub privKey of
                None \<Rightarrow> Inl (500, ''failed to derive public key'')
              | Some pubKey \<Rightarrow> Inr (pubKey, privKey)))
      else if \<not> validWireGuardKey key then Inl (400, ''invalid WireGuard public key: must be 44-character base64 (32 bytes)'')
      else Inr (key, []))"

text \<open>\<open>COALESCE(tunnel_cidr, address)\<close>.\<close>

definition alloc_cidr :: "network_row \<Rightarrow> cidr" where
  "alloc_cidr n = (case n_tunnel_cidr n of Some c \<Rightarrow> c | None \<Rightarrow> n_address n)"

definition first_active_network :: "db \<Rightarrow> network_row option" where
  "first_active_network s = (case sort_key n_created_at (filter n_is_active (tb_networks s)) of [] \<Rightarrow> None | n # _ \<Rightarrow> Some n)"

definition create_network :: "(string \<Rightarrow> uuid option) \<Rightarrow> bool \<Rightarrow> string \<Rightarrow> db \<Rightarrow> (nat \<times> string) + network_row" where
  "create_network cast_uuid fails networkID s =
     (let row = (if networkID \<noteq> []
                 then map_option (\<lambda>i. find (\<lambda>n. n_id n = i \<and> n_is_active n) (tb_networks s)) (cast_uuid networkID)
                 else Some (first_active_network s))
      in if fails then Inl (500, ''failed to read network'')
         else case row of
             None \<Rightarrow> Inl (500, ''failed to read network'')
           | Some None \<Rightarrow> Inl (422, ''no active network found'')
           | Some (Some n) \<Rightarrow> Inr n)"

definition create_error :: "insert_error \<Rightarrow> 'a resp" where
  "create_error e =
     (case e of
        AddressDup \<Rightarrow> Err 500 ''failed to allocate IP address after retries''
      | PubkeyDup \<Rightarrow> Err 409 ''device with this public key already exists''
      | PkeyDup \<Rightarrow> Err 409 ''device already exists''
      | NoRows \<Rightarrow> Err 500 ''no available IP addresses in the network''
      | OtherError \<Rightarrow> Err 500 ''failed to create device'')"

text \<open>The columns the insertion returns; the other fields stay empty.\<close>

definition inserted_response :: "device_row \<Rightarrow> deviceResponse" where
  "inserted_response d =
     \<lparr>dvr_ID = d_id d, dvr_UserID = d_user_id d, dvr_OwnerName = [], dvr_Name = d_name d,
      dvr_WireguardPubkey = d_wireguard_pubkey d, dvr_AssignedIP = host (d_assigned_ip d), dvr_IsApproved = d_is_approved d,
      dvr_LastHandshake = d_last_handshake d, dvr_NetworkID = None, dvr_NetworkName = None,
      dvr_CreatedAt = d_created_at d, dvr_UpdatedAt = d_updated_at d\<rparr>"

text \<open>What surrounds a request: the database's choices and clock, and the concurrent transactions.\<close>

record surroundings =
  sur_pick :: "ip4 list \<Rightarrow> ip4"
  sur_new_id :: "nat \<Rightarrow> uuid"
  sur_now :: time
  sur_others :: "nat \<Rightarrow> db \<Rightarrow> db"
  sur_uuid_parse :: "string \<Rightarrow> string + uuid"
  sur_cast_uuid :: "string \<Rightarrow> uuid option"

definition create_user :: "TokenClaims \<Rightarrow> string \<Rightarrow> url_query \<Rightarrow> string" where
  "create_user cl userID q =
     (if userID \<noteq> [] then userID else if q ''user_id'' \<noteq> [] then q ''user_id'' else cl_UserID cl)"

text \<open>The checks before the insertion, with their answers, up to the values to insert and the network.\<close>

definition create_checks :: "surroundings \<Rightarrow> string option \<Rightarrow> (string \<Rightarrow> string option) \<Rightarrow> bool \<Rightarrow> TokenClaims option \<Rightarrow>
    url_query \<Rightarrow> createDeviceRequest body \<Rightarrow> db \<Rightarrow> (nat \<times> string) + (device_values \<times> network_row)" where
  "create_checks w gen pub fails claims q bd s =
     (case bd of Inl e \<Rightarrow> Inl (400, e)
      | Inr req \<Rightarrow>
      if cdv_Name req = [] then Inl (400, ''name is required'')
      else (case create_keys gen pub (cdv_WireguardPubkey req) of Inl e \<Rightarrow> Inl e
      | Inr (pubKey, privKey) \<Rightarrow>
     (case claims of None \<Rightarrow> Inl (401, ''authentication required'')
      | Some cl \<Rightarrow>
      let rawUserID = create_user cl (cdv_UserID req) q in
      if \<not> cl_IsAdmin cl \<and> rawUserID \<noteq> cl_UserID cl then Inl (403, ''you can only create devices for yourself'')
      else (case sur_uuid_parse w rawUserID of Inl _ \<Rightarrow> Inl (400, ''invalid user_id'')
      | Inr userID \<Rightarrow>
     (case create_network (sur_cast_uuid w) fails (cdv_NetworkID req) s of Inl e \<Rightarrow> Inl e
      | Inr n \<Rightarrow>
          Inr (\<lparr>dv_user_id = userID, dv_name = cdv_Name req, dv_pubkey = pubKey, dv_privkey = ptrOrNil privKey,
                dv_approved = False, dv_network_id = n_id n\<rparr>, n))))))"

definition device_create :: "surroundings \<Rightarrow> string option \<Rightarrow> (string \<Rightarrow> string option) \<Rightarrow> (nat \<Rightarrow> bool) \<Rightarrow> TokenClaims option \<Rightarrow>
    url_query \<Rightarrow> createDeviceRequest body \<Rightarrow> db \<Rightarrow> deviceResponse resp \<times> db" where
  "device_create w gen pub f claims q bd s =
     (case create_checks w gen pub (f 0) claims q bd s of
        Inl (st, m) \<Rightarrow> (Err st m, s)
      | Inr (v, n) \<Rightarrow>
     (case alloc_loop (sur_pick w) (sur_new_id w) (sur_now w) (sur_others w) (\<lambda>k. f (Suc k)) v (alloc_cidr n) 0 maxRetries s of
        (Inr d, s') \<Rightarrow> (Ok 201 (inserted_response d), s')
      | (Inl e, s') \<Rightarrow> (create_error e, s')))"

section \<open>One device\<close>

text \<open>\<open>id = $1 AND (user_id = $2 OR $3 = true)\<close>; a user id that is not a UUID is an error of the statement.\<close>

definition owned_device :: "(string \<Rightarrow> uuid option) \<Rightarrow> TokenClaims \<Rightarrow> uuid \<Rightarrow> db \<Rightarrow> device_row option option" where
  "owned_device cast_uuid cl i s =
     map_option (\<lambda>u. find (\<lambda>d. d_id d = i \<and> (d_user_id d = u \<or> cl_IsAdmin cl)) (tb_devices s)) (cast_uuid (cl_UserID cl))"

definition device_get :: "(string \<Rightarrow> string + uuid) \<Rightarrow> (string \<Rightarrow> uuid option) \<Rightarrow> (nat \<Rightarrow> bool) \<Rightarrow> TokenClaims option \<Rightarrow> string \<Rightarrow> db
    \<Rightarrow> deviceResponse resp" where
  "device_get uuid_parse cast_uuid f claims raw s =
     (case parseUUID uuid_parse raw of Inl e \<Rightarrow> Err 400 e
      | Inr i \<Rightarrow>
     (case claims of None \<Rightarrow> Err 401 ''authentication required''
      | Some cl \<Rightarrow>
          if f 0 then Err 500 ''failed to get device''
          else (case owned_device cast_uuid cl i s of
             None \<Rightarrow> Err 500 ''failed to get device''
           | Some None \<Rightarrow> Err 404 ''device not found''
           | Some (Some d) \<Rightarrow> Ok 200 ((device_response s d)\<lparr>dvr_NetworkID := None, dvr_NetworkName := None\<rparr>))))"

text \<open>The statement changes the row before the driver reads what it returned.\<close>

definition device_update :: "(string \<Rightarrow> string + uuid) \<Rightarrow> (string \<Rightarrow> uuid option) \<Rightarrow> (ip4 \<Rightarrow> string option) \<Rightarrow> time \<Rightarrow> (nat \<Rightarrow> bool) \<Rightarrow>
    TokenClaims option \<Rightarrow> string \<Rightarrow> updateDeviceRequest body \<Rightarrow> db \<Rightarrow> deviceResponse resp \<times> db" where
  "device_update uuid_parse cast_uuid inet_text now f claims raw bd s =
     (case parseUUID uuid_parse raw of Inl e \<Rightarrow> (Err 400 e, s)
      | Inr i \<Rightarrow>
     (case bd of Inl e \<Rightarrow> (Err 400 e, s)
      | Inr req \<Rightarrow>
     (case udv_Name req of None \<Rightarrow> (Err 400 ''no fields to update'', s)
      | Some name \<Rightarrow>
     (case claims of None \<Rightarrow> (Err 401 ''authentication required'', s)
      | Some cl \<Rightarrow>
          if f 0 then (Err 500 ''failed to update device'', s)
          else (case owned_device cast_uuid cl i s of
             None \<Rightarrow> (Err 500 ''failed to update device'', s)
           | Some None \<Rightarrow> (Err 404 ''device not found'', s)
           | Some (Some d) \<Rightarrow>
               let d' = d\<lparr>d_name := name, d_updated_at := now\<rparr>;
                   s' = s\<lparr>tb_devices := upd_where (\<lambda>x. d_id x = d_id d) (\<lambda>x. x\<lparr>d_name := name, d_updated_at := now\<rparr>) (tb_devices s)\<rparr>
               in (case inet_text (d_assigned_ip d) of
                     None \<Rightarrow> (Err 500 ''failed to update device'', s')
                   | Some ip \<Rightarrow> (Ok 200 ((inserted_response d')\<lparr>dvr_AssignedIP := ip, dvr_NetworkID := d_network_id d\<rparr>), s')))))))"

text \<open>Deleting a device deletes the rows with a foreign key to it; flow records have none and stay.\<close>

definition delete_device :: "uuid \<Rightarrow> db \<Rightarrow> db" where
  "delete_device i s = s\<lparr>tb_devices := del_where (\<lambda>d. d_id d = i) (tb_devices s),
     tb_device_posture := del_where (\<lambda>p. p_device_id p = i) (tb_device_posture s),
     tb_trust_scores := del_where (\<lambda>t. ts_device_id t = i) (tb_trust_scores s)\<rparr>"

definition remove_note :: "bool \<Rightarrow> string \<Rightarrow> peer_note list" where
  "remove_note notifier pubkey = (if notifier \<and> pubkey \<noteq> [] then [PeerRemove pubkey] else [])"

definition add_note :: "bool \<Rightarrow> string \<Rightarrow> ip4 \<Rightarrow> peer_note list" where
  "add_note notifier pubkey ip = (if notifier \<and> pubkey \<noteq> [] then [PeerAdd pubkey [host ip @ ''/32'']] else [])"

definition device_delete :: "(string \<Rightarrow> string + uuid) \<Rightarrow> (string \<Rightarrow> uuid option) \<Rightarrow> bool \<Rightarrow> (nat \<Rightarrow> bool) \<Rightarrow> TokenClaims option \<Rightarrow>
    string \<Rightarrow> db \<Rightarrow> unit resp \<times> db \<times> peer_note list" where
  "device_delete uuid_parse cast_uuid notifier f claims raw s =
     (case parseUUID uuid_parse raw of Inl e \<Rightarrow> (Err 400 e, s, [])
      | Inr i \<Rightarrow>
     (case claims of None \<Rightarrow> (Err 401 ''authentication required'', s, [])
      | Some cl \<Rightarrow>
          if f 0 then (Err 500 ''failed to fetch device'', s, [])
          else (case owned_device cast_uuid cl i s of
             None \<Rightarrow> (Err 500 ''failed to fetch device'', s, [])
           | Some None \<Rightarrow> (Err 404 ''device not found'', s, [])
           | Some (Some d) \<Rightarrow>
               if f 1 then (Err 500 ''failed to delete device'', s, [])
               else (Ok 204 (), delete_device i s, remove_note notifier (d_wireguard_pubkey d)))))"

definition set_approved :: "bool \<Rightarrow> time \<Rightarrow> uuid \<Rightarrow> db \<Rightarrow> db" where
  "set_approved b now i s =
     s\<lparr>tb_devices := upd_where (\<lambda>d. d_id d = i) (\<lambda>d. d\<lparr>d_is_approved := b, d_updated_at := now\<rparr>) (tb_devices s)\<rparr>"

definition device_approve :: "(string \<Rightarrow> string + uuid) \<Rightarrow> bool \<Rightarrow> time \<Rightarrow> (nat \<Rightarrow> bool) \<Rightarrow> string \<Rightarrow> db
    \<Rightarrow> string resp \<times> db \<times> peer_note list" where
  "device_approve uuid_parse notifier now f raw s =
     (case parseUUID uuid_parse raw of Inl e \<Rightarrow> (Err 400 e, s, [])
      | Inr i \<Rightarrow>
          if f 0 then (Err 500 ''failed to approve device'', s, [])
          else (case find (\<lambda>d. d_id d = i) (tb_devices s) of
             None \<Rightarrow> (Err 404 ''device not found'', s, [])
           | Some d \<Rightarrow> (Ok 200 ''approved'', set_approved True now i s, add_note notifier (d_wireguard_pubkey d) (d_assigned_ip d))))"

definition device_revoke :: "(string \<Rightarrow> string + uuid) \<Rightarrow> bool \<Rightarrow> time \<Rightarrow> (nat \<Rightarrow> bool) \<Rightarrow> string \<Rightarrow> db
    \<Rightarrow> string resp \<times> db \<times> peer_note list" where
  "device_revoke uuid_parse notifier now f raw s =
     (case parseUUID uuid_parse raw of Inl e \<Rightarrow> (Err 400 e, s, [])
      | Inr i \<Rightarrow>
          if f 0 then (Err 500 ''failed to revoke device'', s, [])
          else (case find (\<lambda>d. d_id d = i) (tb_devices s) of
             None \<Rightarrow> (Err 404 ''device not found'', s, [])
           | Some d \<Rightarrow> (Ok 200 ''revoked'', set_approved False now i s, remove_note notifier (d_wireguard_pubkey d))))"

section \<open>Gateways of a configuration\<close>

text \<open>\<open>ORDER BY priority DESC, created_at\<close>.\<close>

definition by_priority :: "('a \<Rightarrow> gateway_row) \<Rightarrow> 'a list \<Rightarrow> 'a list" where
  "by_priority k rows = sort_key (\<lambda>r. - g_priority (k r)) (sort_key (\<lambda>r. g_created_at (k r)) rows)"

text \<open>The public address with the port of the network, or the configured endpoint.\<close>

definition client_endpoint :: "gateway_row \<Rightarrow> int \<Rightarrow> string" where
  "client_endpoint g port = (case g_public_ip g of Some ip \<Rightarrow> host ip @ '':'' @ itoa port | None \<Rightarrow> g_endpoint g)"

definition gateway_entry :: "gateway_row \<Rightarrow> int \<Rightarrow> gatewayEndpointResponse" where
  "gateway_entry g port =
     \<lparr>gep_ID = g_id g, gep_Endpoint = client_endpoint g port, gep_ServerPublicKey = g_wireguard_pubkey g,
      gep_Priority = g_priority g, gep_HealthStatus = g_health_status g\<rparr>"

definition default_dns :: "string list \<Rightarrow> string list" where
  "default_dns dns = (if dns = [] then [''1.1.1.1'', ''8.8.8.8''] else dns)"

text \<open>\<open>net.ParseCIDR\<close> on the text of the allocation network, of which only the mask is used.\<close>

definition address_with_mask :: "string \<Rightarrow> network_row \<Rightarrow> string" where
  "address_with_mask ip n = ip @ ''/'' @ (case parse_cidr (cidr_text (alloc_cidr n)) of None \<Rightarrow> [] | Some c \<Rightarrow> dec_nat (c_len c))"

section \<open>Enrolment\<close>

definition enroll_rows :: "db \<Rightarrow> (gateway_row \<times> network_row) list" where
  "enroll_rows s = by_priority fst
     [(g, n). g \<leftarrow> tb_gateways s, g_is_active g, (gw, ni) \<leftarrow> tb_gateway_networks s, gw = g_id g,
              n \<leftarrow> tb_networks s, n_id n = ni, n_is_active n]"

definition enroll_answer :: "(gateway_row \<times> network_row) list \<Rightarrow> gateway_row \<Rightarrow> network_row \<Rightarrow> device_row \<Rightarrow> enrollResponse" where
  "enroll_answer rows g n d =
     \<lparr>enr_DeviceID = d_id d, enr_Address = address_with_mask (host (d_assigned_ip d)) n, enr_DNS = default_dns (n_dns n),
      enr_Endpoint = client_endpoint g (n_port n), enr_ServerPublicKey = g_wireguard_pubkey g,
      enr_AllowedIPs = [cidr_text (n_address n)], enr_PersistentKeepalive = 25,
      enr_Gateways = map (\<lambda>(g, n). gateway_entry g (n_port n)) rows\<rparr>"

definition enroll_checks :: "surroundings \<Rightarrow> bool \<Rightarrow> TokenClaims option \<Rightarrow> enrollRequest body \<Rightarrow> db
    \<Rightarrow> (nat \<times> string) + (device_values \<times> gateway_row \<times> network_row)" where
  "enroll_checks w fails claims bd s =
     (case bd of Inl e \<Rightarrow> Inl (400, e)
      | Inr req \<Rightarrow>
      if enq_Name req = [] then Inl (400, ''name is required'')
      else if enq_WireguardPubkey req = [] then Inl (400, ''wireguard_pubkey is required'')
      else if \<not> validWireGuardKey (enq_WireguardPubkey req)
      then Inl (400, ''invalid WireGuard public key: must be 44-character base64 (32 bytes)'')
      else if fails then Inl (500, ''failed to read gateway/network configuration'')
      else (case enroll_rows s of
        [] \<Rightarrow> Inl (422, ''no active gateway with an active network '' @ em_dash @ '' create and activate a gateway first'')
      | (g, n) # _ \<Rightarrow>
     (case claims of None \<Rightarrow> Inl (401, ''authentication required'')
      | Some cl \<Rightarrow>
     (case sur_uuid_parse w (cl_UserID cl) of Inl _ \<Rightarrow> Inl (500, ''invalid user ID in token'')
      | Inr userID \<Rightarrow>
          Inr (\<lparr>dv_user_id = userID, dv_name = enq_Name req, dv_pubkey = enq_WireguardPubkey req, dv_privkey = None,
                dv_approved = True, dv_network_id = n_id n\<rparr>, g, n)))))"

text \<open>Statement \<open>0\<close> of \<open>f\<close> finds the gateways, \<open>1\<close> looks an existing device up, the others insert.\<close>

definition device_enroll :: "surroundings \<Rightarrow> bool \<Rightarrow> (nat \<Rightarrow> bool) \<Rightarrow> TokenClaims option \<Rightarrow> enrollRequest body \<Rightarrow> db
    \<Rightarrow> enrollResponse resp \<times> db \<times> peer_note list" where
  "device_enroll w notifier f claims bd s =
     (case enroll_checks w (f 0) claims bd s of
        Inl (st, m) \<Rightarrow> (Err st m, s, [])
      | Inr (v, g, n) \<Rightarrow>
     (case alloc_loop (sur_pick w) (sur_new_id w) (sur_now w) (sur_others w) (\<lambda>k. f (Suc (Suc k))) v (alloc_cidr n) 0 maxRetries s of
        (Inr d, s') \<Rightarrow> (Ok 201 (enroll_answer (enroll_rows s) g n d), s', add_note notifier (dv_pubkey v) (d_assigned_ip d))
      | (Inl AddressDup, s') \<Rightarrow> (Err 500 ''failed to allocate IP address after retries'', s', [])
      | (Inl PubkeyDup, s') \<Rightarrow>
          if f 1 then (Err 500 ''failed to look up existing device'', s', [])
          else (case find (\<lambda>d. d_wireguard_pubkey d = dv_pubkey v) (tb_devices s') of
                  None \<Rightarrow> (Err 500 ''failed to look up existing device'', s', [])
                | Some d \<Rightarrow> (Ok 200 (enroll_answer (enroll_rows s) g n d), s', []))
      | (Inl PkeyDup, s') \<Rightarrow> (Err 409 ''device with this name already exists'', s', [])
      | (Inl NoRows, s') \<Rightarrow> (Err 500 ''no available IP addresses in the network'', s', [])
      | (Inl OtherError, s') \<Rightarrow> (Err 500 ''failed to create device'', s', [])))"

section \<open>Configuration files\<close>

definition wildcard_cidr :: cidr where
  "wildcard_cidr = \<lparr>c_net = 0, c_len = 0\<rparr>"

text \<open>The rules of the groups of a user for active networks; \<open>collate\<close> is the order of the database's collation.\<close>

definition user_acls :: "db \<Rightarrow> uuid \<Rightarrow> (acl_row \<times> network_row) list" where
  "user_acls s userID =
     [(a, n). a \<leftarrow> tb_network_acls s, (u, g) \<leftarrow> tb_user_groups s, g = a_group_id a, u = userID,
              n \<leftarrow> tb_networks s, n_id n = a_network_id a, n_is_active n]"

definition resolveAllowedIPs :: "(string list \<Rightarrow> string list) \<Rightarrow> bool \<Rightarrow> db \<Rightarrow> uuid \<Rightarrow> string \<Rightarrow> string list" where
  "resolveAllowedIPs collate fails s userID fallbackCIDR =
     (let cidrs = collate (remdups (concat (map (\<lambda>(a, n).
                    if a_allowed_ips a = [wildcard_cidr] then [cidr_text (n_address n)] else map cidr_text (a_allowed_ips a))
                    (user_acls s userID))))
      in if fails \<or> cidrs = [] then [fallbackCIDR] else cidrs)"

definition device_network :: "db \<Rightarrow> uuid option \<Rightarrow> network_row option" where
  "device_network s ni = (case ni of Some i \<Rightarrow> find (\<lambda>n. n_id n = i) (tb_networks s) | None \<Rightarrow> first_active_network s)"

text \<open>The gateways of the network of the device, or of any network, with their ports.\<close>

definition config_gateways :: "db \<Rightarrow> uuid option \<Rightarrow> (gateway_row \<times> int) list" where
  "config_gateways s ni = by_priority fst
     (case ni of
        Some i \<Rightarrow> [(g, n_port n). g \<leftarrow> tb_gateways s, g_is_active g, (gw, i') \<leftarrow> tb_gateway_networks s, gw = g_id g, i' = i,
                                   n \<leftarrow> tb_networks s, n_id n = i']
      | None \<Rightarrow> map (\<lambda>g. (g, case find (\<lambda>n. g_network_id g = Some (n_id n)) (tb_networks s) of Some n \<Rightarrow> n_port n | None \<Rightarrow> 51820))
                  (filter g_is_active (tb_gateways s)))"

definition config_port :: "gateway_row \<times> int \<Rightarrow> int" where
  "config_port gp = (if snd gp = 0 then 51820 else snd gp)"

definition client_config :: "string \<Rightarrow> string \<Rightarrow> string list \<Rightarrow> string \<Rightarrow> string list \<Rightarrow> string \<Rightarrow> InterfaceConfig" where
  "client_config privateKey address dns gwPubkey allowedIPs endpoint =
     \<lparr>icf_PrivateKey = privateKey, icf_Address = address, icf_ListenPort = 0, icf_DNS = dns, icf_MTU = 0,
      icf_Peers = [\<lparr>pcf_PublicKey = gwPubkey, pcf_AllowedIPs = allowedIPs, pcf_Endpoint = endpoint, pcf_PresharedKey = [],
                    pcf_PersistentKeepalive = 25\<rparr>]\<rparr>"

definition device_downloadConfig :: "(string \<Rightarrow> string + uuid) \<Rightarrow> (string list \<Rightarrow> string list) \<Rightarrow> (string \<Rightarrow> string option) \<Rightarrow> (nat \<Rightarrow> bool) \<Rightarrow>
    TokenClaims option \<Rightarrow> string \<Rightarrow> db \<Rightarrow> configResponse resp" where
  "device_downloadConfig uuid_parse collate pub f claims raw s =
     (case parseUUID uuid_parse raw of Inl e \<Rightarrow> Err 400 e
      | Inr i \<Rightarrow>
     (case claims of None \<Rightarrow> Err 401 ''authentication required''
      | Some cl \<Rightarrow>
      if f 0 then Err 500 ''failed to fetch device''
      else (case find (\<lambda>d. d_id d = i) (tb_devices s) of None \<Rightarrow> Err 404 ''device not found''
      | Some d \<Rightarrow>
      if \<not> cl_IsAdmin cl \<and> cl_UserID cl \<noteq> d_user_id d then Err 403 ''you can only download config for your own devices''
      else (case (if f 1 then None else device_network s (d_network_id d)) of None \<Rightarrow> Err 500 ''failed to read network mask''
      | Some n \<Rightarrow>
      if f 2 then Err 500 ''failed to read gateway configuration''
      else (case find (\<lambda>gp. g_endpoint (fst gp) \<noteq> []) (config_gateways s (d_network_id d)) of
        None \<Rightarrow> Err 422 (''no active gateway available '' @ em_dash @ '' create and activate a gateway first'')
      | Some gp \<Rightarrow>
     (case (if f 3 then None else Option.bind (d_wireguard_privkey d) ptrOrNil) of
        None \<Rightarrow> Err 422 (''config download unavailable: this device was enrolled with a user-provided key. '' @
                         ''Re-create the device with auto-generated keys or use your own WireGuard config file.'')
      | Some privateKey \<Rightarrow>
     (case pub privateKey of None \<Rightarrow> Err 500 ''failed to derive public key''
      | Some publicKey \<Rightarrow>
          Ok 200 \<lparr>cfr_Config = RenderConfig (client_config privateKey (address_with_mask (host (d_assigned_ip d)) n) (default_dns (n_dns n))
                                 (g_wireguard_pubkey (fst gp)) (resolveAllowedIPs collate (f 4) s (d_user_id d) (cidr_text (n_address n)))
                                 (client_endpoint (fst gp) (config_port gp))),
                  cfr_PrivateKey = privateKey, cfr_PublicKey = publicKey,
                  cfr_Gateways = map (\<lambda>gp. gateway_entry (fst gp) (config_port gp)) (config_gateways s (d_network_id d))\<rparr>)))))))"

text \<open>
  \<open>mail\<close> tells whether the mail server takes a message (recipient, device name, configuration); the
  result carries the messages sent. The address of the device is read again, and an error of that
  statement leaves it empty.
\<close>

definition mail_gateway :: "db \<Rightarrow> (gateway_row \<times> network_row) option" where
  "mail_gateway s = (case by_priority fst
       [(g, n). g \<leftarrow> tb_gateways s, g_is_active g, n \<leftarrow> tb_networks s, g_network_id g = Some (n_id n), n_is_active n]
     of [] \<Rightarrow> None | gn # _ \<Rightarrow> Some gn)"

definition device_owner :: "db \<Rightarrow> uuid \<Rightarrow> (device_row \<times> user_row) option" where
  "device_owner s i =
     (case [(d, u). d \<leftarrow> tb_devices s, d_id d = i, u \<leftarrow> tb_users s, u_id u = d_user_id d] of [] \<Rightarrow> None | du # _ \<Rightarrow> Some du)"

definition device_sendConfig :: "(string \<Rightarrow> string + uuid) \<Rightarrow> (string \<times> string \<times> string \<Rightarrow> bool) option \<Rightarrow> (nat \<Rightarrow> bool) \<Rightarrow>
    TokenClaims option \<Rightarrow> string \<Rightarrow> db \<Rightarrow> (string \<times> string) resp \<times> (string \<times> string \<times> string) list" where
  "device_sendConfig uuid_parse mailer f claims raw s =
     (case mailer of None \<Rightarrow> (Err 422 ''email is not configured on this instance'', [])
      | Some mail \<Rightarrow>
     (case parseUUID uuid_parse raw of Inl e \<Rightarrow> (Err 400 e, [])
      | Inr i \<Rightarrow>
     (case claims of None \<Rightarrow> (Err 401 ''authentication required'', [])
      | Some cl \<Rightarrow>
      if f 0 then (Err 500 ''failed to fetch device'', [])
      else (case device_owner s i of None \<Rightarrow> (Err 404 ''device not found'', [])
      | Some (d, u) \<Rightarrow>
      if \<not> cl_IsAdmin cl \<and> cl_UserID cl \<noteq> d_user_id d then (Err 403 ''you can only send config for your own devices'', [])
      else (case (if f 2 then None else device_network s (if f 1 then None else d_network_id d)) of
        None \<Rightarrow> (Err 500 ''failed to read network configuration'', [])
      | Some n \<Rightarrow>
     (case (if f 3 then None else mail_gateway s) of None \<Rightarrow> (Err 500 ''failed to read gateway configuration'', [])
      | Some (g, gn) \<Rightarrow>
     (case (if f 4 then None else Option.bind (d_wireguard_privkey d) ptrOrNil) of
        None \<Rightarrow> (Err 422 ''config email unavailable: this device was enrolled with a user-provided key'', [])
      | Some privateKey \<Rightarrow>
          let assignedIP = (if f 1 then [] else host (d_assigned_ip d));
              text = RenderConfig (client_config privateKey (address_with_mask assignedIP n)
                       (default_dns (n_dns n)) (g_wireguard_pubkey g) [cidr_text (n_address n)] (client_endpoint g (n_port gn)));
              message = (u_email u, d_name d, text)
          in if mail message then (Ok 200 (''sent'', u_email u), [message])
             else (Err 500 ''failed to send configuration email'', []))))))))"

section \<open>Ownership\<close>

lemma owned_device_SomeD:
  assumes "owned_device cast_uuid cl i s = Some (Some d)"
  shows "d \<in> set (tb_devices s) \<and> d_id d = i \<and> (cl_IsAdmin cl \<or> cast_uuid (cl_UserID cl) = Some (d_user_id d))"
  using assms by (auto simp: owned_device_def dest!: find_SomeD)

lemma device_by_id:
  assumes "devices_ok s" "d \<in> set (tb_devices s)"
  shows "find (\<lambda>x. d_id x = d_id d) (tb_devices s) = Some d"
  using assms find_unique_key [of d_id "tb_devices s" d] by (simp add: devices_ok_def)

lemma stranger_owns_nothing:
  assumes "devices_ok s" "d \<in> set (tb_devices s)" "\<not> cl_IsAdmin cl" "cast_uuid (cl_UserID cl) \<noteq> Some (d_user_id d)"
  shows "owned_device cast_uuid cl (d_id d) s \<noteq> Some (Some d')"
proof
  assume "owned_device cast_uuid cl (d_id d) s = Some (Some d')"
  note o = owned_device_SomeD [OF this]
  then have "d' = d" using assms(1,2) distinct_key_eq [of d_id] by (auto simp: devices_ok_def)
  then show False using o assms(3,4) by simp
qed

lemma list_page_subset:
  "device_list_page f q ds s = Ok st pg \<Longrightarrow> dvr_ID ` set (dpg_devices pg) \<subseteq> d_id ` set ds"
  using set_drop_subset set_take_subset
  by (fastforce simp: device_list_page_def sql_page_def device_response_def image_image split: prod.splits if_splits)

lemma device_ownerD:
  assumes "device_owner s i = Some (d, u)"
  shows "d \<in> set (tb_devices s) \<and> d_id d = i"
proof -
  let ?rows = "[(d, u). d \<leftarrow> tb_devices s, d_id d = i, u \<leftarrow> tb_users s, u_id u = d_user_id d]"
  have "(d, u) \<in> set ?rows"
    using assms unfolding device_owner_def by (cases ?rows) (simp_all only: list.case list.set option.inject insert_iff option.distinct simp_thms)
  then show ?thesis by auto
qed

text \<open>
  C16. A user who is not an administrator can neither see, rename, delete nor list a device of
  somebody else, nor download its configuration or have it mailed: every such request is refused,
  whatever else fails, and changes nothing, notifies nobody and sends no mail.
\<close>

theorem device_ownership:
  assumes ok: "devices_ok s" and d: "d \<in> set (tb_devices s)"
    and canonical: "cast_uuid (d_user_id d) = Some (d_user_id d)"
    and stranger: "\<not> cl_IsAdmin cl" "cast_uuid (cl_UserID cl) \<noteq> Some (d_user_id d)" "uuid_parse (cl_UserID cl) \<noteq> Inr (d_user_id d)"
    and raw: "parseUUID uuid_parse raw = Inr (d_id d)"
  shows "(\<exists>st m. device_get uuid_parse cast_uuid f (Some cl) raw s = Err st m) \<and>
    (\<exists>st m. device_update uuid_parse cast_uuid inet_text now f (Some cl) raw bd s = (Err st m, s)) \<and>
    (\<exists>st m. device_delete uuid_parse cast_uuid notifier f (Some cl) raw s = (Err st m, s, [])) \<and>
    (\<exists>st m. device_downloadConfig uuid_parse collate pub f (Some cl) raw s = Err st m) \<and>
    (\<exists>st m. device_sendConfig uuid_parse mailer f (Some cl) raw s = (Err st m, [])) \<and>
    (\<forall>st pg. device_listMy uuid_parse f (Some cl) q s = Ok st pg \<longrightarrow> d_id d \<notin> dvr_ID ` set (dpg_devices pg))"
proof (intro conjI allI impI)
  note none = stranger_owns_nothing [of s d cl cast_uuid, OF ok d stranger(1,2)]
  have other: "cl_UserID cl \<noteq> d_user_id d" using canonical stranger(2) by auto
  show "\<exists>st m. device_get uuid_parse cast_uuid f (Some cl) raw s = Err st m"
    using none by (auto simp: device_get_def raw split: option.splits)
  show "\<exists>st m. device_update uuid_parse cast_uuid inet_text now f (Some cl) raw bd s = (Err st m, s)"
    using none by (auto simp: device_update_def raw split: option.splits sum.splits)
  show "\<exists>st m. device_delete uuid_parse cast_uuid notifier f (Some cl) raw s = (Err st m, s, [])"
    using none by (auto simp: device_delete_def raw split: option.splits)
  show "\<exists>st m. device_downloadConfig uuid_parse collate pub f (Some cl) raw s = Err st m"
    using stranger(1) other by (auto simp: device_downloadConfig_def raw device_by_id [OF ok d])
  show "\<exists>st m. device_sendConfig uuid_parse mailer f (Some cl) raw s = (Err st m, [])"
  proof -
    have "x = d" if "device_owner s (d_id d) = Some (x, u)" for x u
      using device_ownerD [OF that] ok d distinct_key_eq [of d_id "tb_devices s" x d] by (simp add: devices_ok_def)
    then show ?thesis
      using stranger(1) other by (auto simp: device_sendConfig_def raw split: option.split)
  qed
  fix st pg assume "device_listMy uuid_parse f (Some cl) q s = Ok st pg"
  then obtain u where u: "uuid_parse (cl_UserID cl) = Inr u"
    "device_list_page f q (filter (\<lambda>x. d_user_id x = u) (tb_devices s)) s = Ok st pg"
    by (auto simp: device_listMy_def split: sum.splits)
  have "d_id d \<notin> d_id ` set (filter (\<lambda>x. d_user_id x = u) (tb_devices s))"
    using u(1) stranger(3) d ok distinct_key_eq [of d_id "tb_devices s" d] by (auto simp: devices_ok_def)
  then show "d_id d \<notin> dvr_ID ` set (dpg_devices pg)" using list_page_subset [OF u(2)] by blast
qed

theorem device_ownership_witness:
  "(\<exists>st m. device_delete Inr Some True (\<lambda>_. False) (Some (sample_claims ''u1'' False)) ''d9'' sample_db = (Err st m, sample_db, [])) \<and>
   (\<exists>st m. device_downloadConfig Inr id Some (\<lambda>_. False) (Some (sample_claims ''u1'' False)) ''d9'' sample_db = Err st m)"
proof -
  have "devices_ok sample_db" using sample_db_ok by (simp add: db_ok_def)
  moreover have "sample_device ''d9'' ''u9'' ''pk9'' 0x0A080003 \<in> set (tb_devices sample_db)" by (simp add: sample_tables)
  ultimately show ?thesis
    using device_ownership [of sample_db "sample_device ''d9'' ''u9'' ''pk9'' 0x0A080003" Some "sample_claims ''u1'' False" Inr
        "''d9''" "\<lambda>_. False" "\<lambda>_. None" 0 "Inl []" True id Some None "\<lambda>_. []"]
    by (simp add: sample_device_def sample_claims_def parseUUID_def)
qed

section \<open>Addresses\<close>

lemma create_network_active:
  "create_network cast_uuid fails i s = Inr n \<Longrightarrow> n \<in> set (tb_networks s) \<and> n_is_active n"
proof -
  have "n \<in> set (tb_networks s) \<and> n_is_active n" if "first_active_network s = Some n"
  proof -
    have "n \<in> set (sort_key n_created_at (filter n_is_active (tb_networks s)))"
      using that by (cases "sort_key n_created_at (filter n_is_active (tb_networks s))")
        (simp_all only: first_active_network_def list.case option.distinct option.inject list.set insert_iff simp_thms)
    then show ?thesis by simp
  qed
  moreover assume "create_network cast_uuid fails i s = Inr n"
  ultimately show ?thesis
    by (auto simp: create_network_def Let_def split: if_splits option.splits dest: find_SomeD)
qed

lemma enroll_rows_active:
  assumes "enroll_rows s = (g, n) # rest"
  shows "g \<in> set (tb_gateways s) \<and> g_is_active g \<and> n \<in> set (tb_networks s) \<and> n_is_active n \<and>
    (g_id g, n_id n) \<in> set (tb_gateway_networks s)"
proof -
  have "(g, n) \<in> set (enroll_rows s)" by (simp add: assms)
  then show ?thesis by (auto simp: enroll_rows_def by_priority_def)
qed

lemma alloc_cidr_ok: "networks_ok s \<Longrightarrow> n \<in> set (tb_networks s) \<Longrightarrow> cidr_ok (alloc_cidr n)"
  by (auto simp: networks_ok_def alloc_cidr_def split: option.splits)

lemma create_checksD:
  assumes "create_checks w gen pub fails claims q bd s = Inr (v, n)"
  obtains cl where "claims = Some cl" "cl_IsAdmin cl \<or> sur_uuid_parse w (cl_UserID cl) = Inr (dv_user_id v)"
    "n \<in> set (tb_networks s)" "n_is_active n" "dv_network_id v = n_id n" "\<not> dv_approved v"
  using assms create_network_active [of "sur_cast_uuid w" fails _ s n]
  by (auto simp: create_checks_def Let_def split: sum.splits option.splits if_splits)

lemma enroll_checksD:
  assumes "enroll_checks w fails claims bd s = Inr (v, g, n)"
  obtains cl req rest where "claims = Some cl" "bd = Inr req" "sur_uuid_parse w (cl_UserID cl) = Inr (dv_user_id v)"
    "enroll_rows s = (g, n) # rest" "n \<in> set (tb_networks s)" "n_is_active n" "dv_network_id v = n_id n" "dv_approved v"
    "dv_pubkey v = enq_WireguardPubkey req"
  using assms enroll_rows_active [of s g n]
  by (auto simp: enroll_checks_def split: sum.splits option.splits if_splits list.splits)

text \<open>What the values tell of the inserted row.\<close>

lemma device_of_row:
  assumes "\<exists>i. d = device_of v i now (d_assigned_ip d)"
  shows "d_user_id d = dv_user_id v" "d_network_id d = Some (dv_network_id v)" "d_is_approved d = dv_approved v"
    "d_wireguard_pubkey d = dv_pubkey v"
  using assms by (metis device_of_simps)+

lemma created_device:
  assumes ok: "devices_ok s" "networks_ok s" and store: "concurrent_store (sur_others w) (sur_pick w)"
    and c: "device_create w gen pub f (Some cl) q bd s = (r, s1)"
  shows "devices_ok s1 \<and> (\<forall>a. r = Ok 201 a \<longrightarrow> (\<exists>d \<in> set (tb_devices s1). \<exists>n \<in> set (tb_networks s). n_is_active n \<and>
    a = inserted_response d \<and> usable_address (alloc_cidr n) (d_assigned_ip d) \<and> d_network_id d = Some (n_id n) \<and>
    \<not> d_is_approved d \<and> (cl_IsAdmin cl \<or> sur_uuid_parse w (cl_UserID cl) = Inr (d_user_id d))))"
proof (cases "create_checks w gen pub (f 0) (Some cl) q bd s")
  case (Inr vn)
  obtain v n where vn: "vn = (v, n)" by force
  obtain x s' where l: "alloc_loop (sur_pick w) (sur_new_id w) (sur_now w) (sur_others w) (\<lambda>k. f (Suc k)) v (alloc_cidr n) 0 maxRetries s = (x, s')"
    by force
  from create_checksD [OF Inr [unfolded vn]] have v: "cl_IsAdmin cl \<or> sur_uuid_parse w (cl_UserID cl) = Inr (dv_user_id v)"
    "n \<in> set (tb_networks s)" "n_is_active n" "dv_network_id v = n_id n" "\<not> dv_approved v" by auto
  note loop = concurrent_store.alloc_loop_ok [OF store ok(1) alloc_cidr_ok [OF ok(2) v(2)] l]
  show ?thesis
  proof (cases x)
    case (Inl e)
    then show ?thesis using c loop by (cases e) (auto simp: device_create_def Inr vn l create_error_def)
  next
    case (Inr d)
    then have "r = Ok 201 (inserted_response d)" "s1 = s'"
      using c by (simp_all add: device_create_def \<open>create_checks _ _ _ _ _ _ _ _ = _\<close> vn l)
    moreover have d: "usable_address (alloc_cidr n) (d_assigned_ip d)" "d \<in> set (tb_devices s')" "\<exists>i. d = device_of v i (sur_now w) (d_assigned_ip d)"
      using loop Inr by blast+
    moreover note device_of_row [OF d(3)]
    ultimately show ?thesis using v loop [THEN conjunct1] by (auto intro!: bexI [of _ d] bexI [of _ n])
  qed
qed (use c ok(1) in \<open>auto simp: device_create_def\<close>)

lemma enrolled_device:
  assumes ok: "devices_ok s" "networks_ok s" and store: "concurrent_store (sur_others w) (sur_pick w)"
    and e: "device_enroll w notifier f (Some cl) bd s = (r, s1, notes)"
  shows "devices_ok s1 \<and> (\<forall>a. r = Ok 201 a \<longrightarrow> (\<exists>d \<in> set (tb_devices s1). \<exists>n \<in> set (tb_networks s). n_is_active n \<and>
    enr_DeviceID a = d_id d \<and> usable_address (alloc_cidr n) (d_assigned_ip d) \<and> d_network_id d = Some (n_id n) \<and> d_is_approved d \<and>
    sur_uuid_parse w (cl_UserID cl) = Inr (d_user_id d) \<and> notes = add_note notifier (d_wireguard_pubkey d) (d_assigned_ip d)))"
proof (cases "enroll_checks w (f 0) (Some cl) bd s")
  case (Inr vgn)
  obtain v g n where vgn: "vgn = (v, g, n)" by (metis prod_cases3)
  obtain x s' where l: "alloc_loop (sur_pick w) (sur_new_id w) (sur_now w) (sur_others w) (\<lambda>k. f (Suc (Suc k))) v (alloc_cidr n) 0 maxRetries s = (x, s')"
    by force
  from enroll_checksD [OF Inr [unfolded vgn]] have v: "sur_uuid_parse w (cl_UserID cl) = Inr (dv_user_id v)"
    "n \<in> set (tb_networks s)" "n_is_active n" "dv_network_id v = n_id n" "dv_approved v" by auto
  note loop = concurrent_store.alloc_loop_ok [OF store ok(1) alloc_cidr_ok [OF ok(2) v(2)] l]
  show ?thesis
  proof (cases x)
    case (Inl err)
    then show ?thesis
      using e loop by (cases err) (auto simp: device_enroll_def Inr vgn l split: if_splits option.splits)
  next
    case (Inr d)
    then have "r = Ok 201 (enroll_answer (enroll_rows s) g n d)" "s1 = s'" "notes = add_note notifier (dv_pubkey v) (d_assigned_ip d)"
      using e by (simp_all add: device_enroll_def \<open>enroll_checks _ _ _ _ _ = _\<close> vgn l)
    moreover have d: "usable_address (alloc_cidr n) (d_assigned_ip d)" "d \<in> set (tb_devices s')" "\<exists>i. d = device_of v i (sur_now w) (d_assigned_ip d)"
      using loop Inr by blast+
    moreover note device_of_row [OF d(3)]
    ultimately show ?thesis using v loop [THEN conjunct1] by (auto simp: enroll_answer_def intro!: bexI [of _ d] bexI [of _ n])
  qed
qed (use e ok(1) in \<open>auto simp: device_enroll_def\<close>)

text \<open>
  C22. However concurrent requests interleave with it, creating or enrolling a device leaves
  identifiers, keys and addresses of all devices distinct, and a device that was inserted has an
  unused address of the tunnel range of an active network: not the network address, not the first
  one, which the gateway has, and not the broadcast address. Only an administrator creates devices
  for others, and a created device is not approved, while an enrolled one is.
\<close>

theorem device_addresses:
  assumes ok: "devices_ok s" "networks_ok s"
    and others: "\<And>k s. devices_ok s \<Longrightarrow> devices_ok (sur_others w k s)" and pick: "\<And>xs. xs \<noteq> [] \<Longrightarrow> sur_pick w xs \<in> set xs"
    and c: "device_create w gen pub f (Some cl) q bd s = (r, s1)" and e: "device_enroll w notifier f (Some cl) bd' s = (r', s2, notes)"
  shows "devices_ok s1 \<and> devices_ok s2 \<and>
    (\<forall>a. r = Ok 201 a \<longrightarrow> (\<exists>d \<in> set (tb_devices s1). \<exists>n \<in> set (tb_networks s). n_is_active n \<and> a = inserted_response d \<and>
       usable_address (alloc_cidr n) (d_assigned_ip d) \<and> d_network_id d = Some (n_id n) \<and> \<not> d_is_approved d \<and>
       (cl_IsAdmin cl \<or> sur_uuid_parse w (cl_UserID cl) = Inr (d_user_id d)))) \<and>
    (\<forall>a. r' = Ok 201 a \<longrightarrow> (\<exists>d \<in> set (tb_devices s2). \<exists>n \<in> set (tb_networks s). n_is_active n \<and> enr_DeviceID a = d_id d \<and>
       usable_address (alloc_cidr n) (d_assigned_ip d) \<and> d_network_id d = Some (n_id n) \<and> d_is_approved d \<and>
       sur_uuid_parse w (cl_UserID cl) = Inr (d_user_id d) \<and> notes = add_note notifier (d_wireguard_pubkey d) (d_assigned_ip d)))"
proof -
  have "concurrent_store (sur_others w) (sur_pick w)" using others pick by unfold_locales
  from created_device [OF ok this c] enrolled_device [OF ok this e] show ?thesis by blast
qed

definition sample_surroundings :: "(nat \<Rightarrow> db \<Rightarrow> db) \<Rightarrow> surroundings" where
  "sample_surroundings others = \<lparr>sur_pick = hd, sur_new_id = sample_id, sur_now = 1, sur_others = others,
     sur_uuid_parse = Inr, sur_cast_uuid = Some\<rparr>"

text \<open>Every concurrent transaction is a creation for the second network.\<close>

definition sample_rivals :: "nat \<Rightarrow> db \<Rightarrow> db" where
  "sample_rivals = rival (\<lambda>k. ''other-'' @ dec_nat k) 1 (\<lambda>k. sample_values\<lparr>dv_pubkey := dec_nat k, dv_network_id := ''n2''\<rparr>)
     (sample_network ''n2'' net_10_20 None)"

theorem device_addresses_witness:
  "devices_ok (snd (device_create (sample_surroundings sample_rivals) (Some ''priv'') Some (\<lambda>_. False) (Some (sample_claims ''u1'' False))
     (\<lambda>_. []) (Inr \<lparr>cdv_Name = ''phone'', cdv_WireguardPubkey = [], cdv_UserID = [], cdv_NetworkID = ''n1''\<rparr>) sample_db))"
proof -
  let ?w = "sample_surroundings sample_rivals" and ?cl = "sample_claims ''u1'' False"
  have ok: "devices_ok sample_db" "networks_ok sample_db" using sample_db_ok by (simp_all add: db_ok_def)
  have env: "devices_ok s \<Longrightarrow> devices_ok (sur_others ?w k s)" "xs \<noteq> [] \<Longrightarrow> sur_pick ?w xs \<in> set xs" for s k xs
    by (simp_all add: sample_surroundings_def sample_rivals_def rivals.others_ok)
  obtain r s1 where c: "device_create ?w (Some ''priv'') Some (\<lambda>_. False) (Some ?cl) (\<lambda>_. [])
      (Inr \<lparr>cdv_Name = ''phone'', cdv_WireguardPubkey = [], cdv_UserID = [], cdv_NetworkID = ''n1''\<rparr>) sample_db = (r, s1)" by force
  obtain r' s2 nts where e: "device_enroll ?w True (\<lambda>_. False) (Some ?cl) (Inl []) sample_db = (r', s2, nts)"
    by (metis prod_cases3)
  show ?thesis using device_addresses [OF ok env c e] by (simp add: c)
qed

section \<open>Enrolling a known key\<close>

lemma alloc_loop_pubkey:
  assumes "has_pool c" "address_left c s" "dv_pubkey v \<in> d_wireguard_pubkey ` set (tb_devices s)" "new_id 0 \<notin> d_id ` set (tb_devices s)"
  shows "alloc_loop pick new_id now (\<lambda>_ s. s) (\<lambda>_. False) v c 0 maxRetries s = (Inl PubkeyDup, s)"
proof -
  obtain ips where ips: "free_addresses c s = Some ips"
    "set ips = {ip. usable_address c ip \<and> ip \<notin> d_assigned_ip ` set (tb_devices s)}"
    using free_addresses_pool [OF assms(1)] .
  then have "ips \<noteq> []" using assms(2) by (auto simp: address_left_def)
  then show ?thesis using assms(3,4) ips(1) by (simp add: maxRetries_def numeral_eq_Suc insert_device_def insert_row_def)
qed

text \<open>
  C38. Enrolling a key that some device already has succeeds for every authenticated user, whoever
  owns that device and whether it is approved or revoked: the answer carries its identifier and its
  address, although the caller could not read the device. Nothing changes, and no gateway is
  told. This needs an address left in the network of the request, which is chosen before the key is
  found to be known, and no other request at work in between.
\<close>

theorem enroll_known_key:
  assumes "devices_ok s" "networks_ok s" "d \<in> set (tb_devices s)"
    and "enroll_checks w False (Some cl) bd s = Inr (v, g, n)" "dv_pubkey v = d_wireguard_pubkey d"
    and "sur_others w = (\<lambda>_ s. s)" "sur_new_id w 0 \<notin> d_id ` set (tb_devices s)"
    and "has_pool (alloc_cidr n)" "address_left (alloc_cidr n) s"
  shows "\<exists>a. device_enroll w notifier (\<lambda>_. False) (Some cl) bd s = (Ok 200 a, s, []) \<and> enr_DeviceID a = d_id d \<and>
    enr_Address a = host (d_assigned_ip d) @ ''/'' @ dec_nat (c_len (alloc_cidr n))"
proof -
  have known: "dv_pubkey v \<in> d_wireguard_pubkey ` set (tb_devices s)" using assms(3,5) by simp
  have "find (\<lambda>x. d_wireguard_pubkey x = dv_pubkey v) (tb_devices s) = Some d"
    using assms(1,3,5) find_unique_key [of d_wireguard_pubkey "tb_devices s" d] by (simp add: devices_ok_def)
  moreover have "cidr_ok (alloc_cidr n)" using assms(8) by (simp add: has_pool_def)
  ultimately show ?thesis
    using assms(4,6) alloc_loop_pubkey [where new_id = "sur_new_id w", OF assms(8,9) known assms(7)]
    by (simp add: device_enroll_def enroll_answer_def address_with_mask_def parse_cidr_text)
qed

text \<open>The installation with one more device, whose key is a proper one and which has been revoked.\<close>

definition zero_key :: string where
  "zero_key = b64_encode (replicate 32 0)"

definition keyed_db :: db where
  "keyed_db = sample_db\<lparr>tb_devices := [(sample_device ''d9'' ''u9'' zero_key 0x0A080003)\<lparr>d_is_approved := False\<rparr>]\<rparr>"

lemma zero_key_valid: "validWireGuardKey zero_key \<and> zero_key \<noteq> []"
proof -
  have "validWireGuardKey zero_key" unfolding zero_key_def by (rule valid_encoding) auto
  then show ?thesis by (auto simp: validWireGuardKey_def)
qed

lemma keyed_tables:
  "tb_devices keyed_db = [(sample_device ''d9'' ''u9'' zero_key 0x0A080003)\<lparr>d_is_approved := False\<rparr>]"
  "tb_users keyed_db = tb_users sample_db" "tb_networks keyed_db = tb_networks sample_db"
  "tb_gateways keyed_db = tb_gateways sample_db" "tb_gateway_networks keyed_db = tb_gateway_networks sample_db"
  by (simp_all add: keyed_db_def)

lemma keyed_enrolment:
  "enroll_checks (sample_surroundings (\<lambda>_ s. s)) False (Some (sample_claims ''u1'' False))
     (Inr \<lparr>enq_Name = ''mine'', enq_WireguardPubkey = zero_key\<rparr>) keyed_db =
   Inr (\<lparr>dv_user_id = ''u1'', dv_name = ''mine'', dv_pubkey = zero_key, dv_privkey = None, dv_approved = True, dv_network_id = ''n1''\<rparr>,
        sample_gateway_row ''gw1'' ''n1'', sample_network ''n1'' net_10_10 (Some net_10_8))"
  using zero_key_valid
  by (simp add: enroll_checks_def enroll_rows_def by_priority_def keyed_tables sample_tables sample_gateway_row_def sample_network_def
      sample_surroundings_def sample_claims_def)

theorem enroll_known_key_witness:
  "\<exists>a. device_enroll (sample_surroundings (\<lambda>_ s. s)) True (\<lambda>_. False) (Some (sample_claims ''u1'' False))
     (Inr \<lparr>enq_Name = ''mine'', enq_WireguardPubkey = zero_key\<rparr>) keyed_db = (Ok 200 a, keyed_db, []) \<and> enr_DeviceID a = ''d9''"
proof -
  have "devices_ok keyed_db" "networks_ok keyed_db"
    using sample_db_ok
    by (simp_all add: db_ok_def devices_ok_def networks_ok_def keyed_tables sample_tables sample_device_def sample_user_def)
  moreover have "address_left net_10_8 keyed_db"
    unfolding address_left_def
    by (rule exI [of _ "0x0A080004"])
      (simp add: usable_address_def in_cidr_def mask_ip_def net_10_8_def keyed_tables sample_device_def)
  moreover have "alloc_cidr (sample_network ''n1'' net_10_10 (Some net_10_8)) = net_10_8"
    by (simp add: alloc_cidr_def sample_network_def)
  ultimately show ?thesis
    using enroll_known_key [OF _ _ _ keyed_enrolment, of "(sample_device ''d9'' ''u9'' zero_key 0x0A080003)\<lparr>d_is_approved := False\<rparr>" True]
      net_10_8_pool by (auto simp: keyed_tables sample_device_def sample_surroundings_def sample_id_def)
qed

section \<open>Removal\<close>

lemma unique_row_concat:
  "distinct (map k xs) \<Longrightarrow> d \<in> set xs \<Longrightarrow> concat (map (\<lambda>x. if k x = k d then F x else []) xs) = F d"
proof (induction xs)
  case (Cons a xs)
  have "concat (map (\<lambda>x. if k x = k d then F x else []) xs) = []" if "k d \<notin> k ` set xs"
    using that by (auto simp: image_iff)
  then show ?case using Cons by (cases "a = d") (auto simp: rev_image_eqI)
qed simp

lemma gateways_of_known_peer:
  assumes "distinct (map d_wireguard_pubkey (tb_devices s))" "d \<in> set (tb_devices s)"
  shows "findGatewaysForPeer False (d_wireguard_pubkey d) s =
    remdups (map fst (filter (\<lambda>gn. d_network_id d = Some (snd gn)) (tb_gateway_networks s)))"
proof -
  have "concat (map (\<lambda>(gw, n). if d_network_id d = Some n then [gw] else []) xs) =
      map fst (filter (\<lambda>gn. d_network_id d = Some (snd gn)) xs)" for xs :: "(uuid \<times> uuid) list"
    by (induction xs) auto
  then show ?thesis
    unfolding findGatewaysForPeer_def
    using unique_row_concat [OF assms, of "\<lambda>x. concat (map (\<lambda>(gw, n). if d_network_id x = Some n then [gw] else []) (tb_gateway_networks s))"]
    by simp
qed

lemma gateways_of_unknown_peer:
  "pk \<notin> d_wireguard_pubkey ` set (tb_devices s) \<Longrightarrow> findGatewaysForPeer fails pk s = []"
proof -
  assume "pk \<notin> d_wireguard_pubkey ` set (tb_devices s)"
  then have "concat (map (\<lambda>x. if d_wireguard_pubkey x = pk then F x else []) (tb_devices s)) = []" for F :: "device_row \<Rightarrow> uuid list"
    by auto
  then show ?thesis by (simp add: findGatewaysForPeer_def)
qed

lemma delete_devicesE:
  assumes "devices_ok s" "d \<in> set (tb_devices s)"
  shows "d_wireguard_pubkey d \<notin> d_wireguard_pubkey ` set (tb_devices (delete_device (d_id d) s))"
proof
  assume "d_wireguard_pubkey d \<in> d_wireguard_pubkey ` set (tb_devices (delete_device (d_id d) s))"
  then obtain x where x: "x \<in> set (tb_devices s)" "d_id x \<noteq> d_id d" "d_wireguard_pubkey x = d_wireguard_pubkey d"
    by (auto simp: delete_device_def)
  then have "x = d" using assms distinct_key_eq [of d_wireguard_pubkey "tb_devices s" x d] by (simp add: devices_ok_def)
  then show False using x(2) by simp
qed

lemma revoked_device:
  fixes now :: time
  assumes "devices_ok s" "d \<in> set (tb_devices s)"
  defines "s' \<equiv> set_approved False now (d_id d) s" and "d' \<equiv> d\<lparr>d_is_approved := False, d_updated_at := now\<rparr>"
  shows "d' \<in> set (tb_devices s')" "distinct (map d_wireguard_pubkey (tb_devices s'))" "tb_gateway_networks s' = tb_gateway_networks s"
proof -
  have "map d_wireguard_pubkey (tb_devices s') = map d_wireguard_pubkey (tb_devices s)"
    unfolding s'_def set_approved_def by simp (rule map_upd_where_frame, simp)
  then show "distinct (map d_wireguard_pubkey (tb_devices s'))" using assms(1) by (simp add: devices_ok_def)
  show "d' \<in> set (tb_devices s')" "tb_gateway_networks s' = tb_gateway_networks s"
    using assms(2) by (auto simp: s'_def d'_def set_approved_def set_upd_where image_iff intro!: bexI [of _ d])
qed

text \<open>
  C39. Revoking a device removes its peer from every gateway and pushes new rules to every gateway of
  its network. Deleting it removes the peer as well, but pushes no rules anywhere: the notifier
  looks for the gateways of the device in a database that no longer has it, so the rules for its
  address stay on the gateways and apply to whichever device gets that address next.
\<close>

theorem device_removal_notices:
  assumes ok: "devices_ok s" and d: "d \<in> set (tb_devices s)" "d_wireguard_pubkey d \<noteq> []"
    and raw: "parseUUID uuid_parse raw = Inr (d_id d)"
    and del: "device_delete uuid_parse cast_uuid True (\<lambda>_. False) (Some cl) raw s = (Ok 204 (), s1, n1)"
    and rev: "device_revoke uuid_parse True now (\<lambda>_. False) raw s = (r, s2, n2)"
  shows "concat (map (\<lambda>note. run_note ord f note s1 h) n1) =
      BroadcastPeerUpdate PEER_REMOVE \<lparr>pe_PublicKey = d_wireguard_pubkey d, pe_AllowedIps = [], pe_PersistentKeepalive = 0, pe_Endpoint = []\<rparr> h \<and>
    concat (map (\<lambda>note. run_note ord (\<lambda>_. False) note s2 h) n2) =
      BroadcastPeerUpdate PEER_REMOVE \<lparr>pe_PublicKey = d_wireguard_pubkey d, pe_AllowedIps = [], pe_PersistentKeepalive = 0, pe_Endpoint = []\<rparr> h @
      RefreshFirewallForGateways ord (\<lambda>_. False)
        (remdups (map fst (filter (\<lambda>gn. d_network_id d = Some (snd gn)) (tb_gateway_networks s)))) s2 h"
proof
  from del obtain x where x: "owned_device cast_uuid cl (d_id d) s = Some (Some x)" "s1 = delete_device (d_id d) s"
    "n1 = remove_note True (d_wireguard_pubkey x)"
    by (auto simp: device_delete_def raw split: option.splits)
  then have "x = d" using owned_device_SomeD [OF x(1)] ok d(1) distinct_key_eq [of d_id "tb_devices s" x d] by (simp add: devices_ok_def)
  then show "concat (map (\<lambda>note. run_note ord f note s1 h) n1) =
      BroadcastPeerUpdate PEER_REMOVE \<lparr>pe_PublicKey = d_wireguard_pubkey d, pe_AllowedIps = [], pe_PersistentKeepalive = 0, pe_Endpoint = []\<rparr> h"
    using x(2,3) d gateways_of_unknown_peer [OF delete_devicesE [OF ok d(1)]]
    by (simp add: remove_note_def run_note_def NotifyPeerRemove_def)
next
  let ?d = "d\<lparr>d_is_approved := False, d_updated_at := now\<rparr>"
  from rev have s2: "s2 = set_approved False now (d_id d) s" "n2 = remove_note True (d_wireguard_pubkey d)"
    by (simp_all add: device_revoke_def raw device_by_id [OF ok d(1)])
  note upd = revoked_device [OF ok d(1), of now, folded s2(1)]
  show "concat (map (\<lambda>note. run_note ord (\<lambda>_. False) note s2 h) n2) =
      BroadcastPeerUpdate PEER_REMOVE \<lparr>pe_PublicKey = d_wireguard_pubkey d, pe_AllowedIps = [], pe_PersistentKeepalive = 0, pe_Endpoint = []\<rparr> h @
      RefreshFirewallForGateways ord (\<lambda>_. False)
        (remdups (map fst (filter (\<lambda>gn. d_network_id d = Some (snd gn)) (tb_gateway_networks s)))) s2 h"
    using s2(2) d gateways_of_known_peer [OF upd(2,1)] upd(3) by (simp add: remove_note_def run_note_def NotifyPeerRemove_def)
qed

theorem device_removal_notices_witness:
  "\<exists>s1 n1. device_delete Inr Some True (\<lambda>_. False) (Some (sample_claims ''u1'' False)) ''d1'' sample_db = (Ok 204 (), s1, n1) \<and>
     concat (map (\<lambda>note. run_note id (\<lambda>_. False) note s1 (sample_hub None)) n1) = BroadcastPeerUpdate PEER_REMOVE
       \<lparr>pe_PublicKey = ''pk1'', pe_AllowedIps = [], pe_PersistentKeepalive = 0, pe_Endpoint = []\<rparr> (sample_hub None)"
proof -
  let ?d = "sample_device ''d1'' ''u1'' ''pk1'' 0x0A080002" and ?cl = "sample_claims ''u1'' False"
  have d: "devices_ok sample_db" "?d \<in> set (tb_devices sample_db)" "d_wireguard_pubkey ?d \<noteq> []" "parseUUID Inr ''d1'' = Inr (d_id ?d)"
    using sample_db_ok by (simp_all add: db_ok_def sample_tables sample_device_def parseUUID_def)
  have "owned_device Some ?cl ''d1'' sample_db = Some (Some ?d)"
    by (simp add: owned_device_def sample_claims_def sample_tables sample_device_def)
  then have del: "device_delete Inr Some True (\<lambda>_. False) (Some ?cl) ''d1'' sample_db =
      (Ok 204 (), delete_device ''d1'' sample_db, remove_note True ''pk1'')"
    by (simp add: device_delete_def parseUUID_def) (simp add: sample_device_def)
  obtain r s2 n2 where rev: "device_revoke Inr True 1 (\<lambda>_. False) ''d1'' sample_db = (r, s2, n2)" by (metis prod_cases3)
  show ?thesis
    using device_removal_notices [OF d del rev, of id "\<lambda>_. False" "sample_hub None"] del by (simp add: sample_device_def)
qed

end
