(* ===== verification/Auth_Core.thy ===== *)
theory Auth_Core
  imports Schema Http_Helpers
begin

text \<open>
  Passwords, tokens, the blacklist of revoked tokens, and the middleware that guards the API
  (\<^verbatim>\<open>internal/auth/password_policy.go\<close>, \<^verbatim>\<open>jwt.go\<close>, \<^verbatim>\<open>blacklist.go\<close>, \<^verbatim>\<open>middleware.go\<close>,
  \<^verbatim>\<open>rbac/enforcer.go\<close>).

  The JWT library is a parameter: \<open>jw_sign\<close> signs claims with a secret (HS256), \<open>jw_parse\<close>
  verifies a token at an instant, and \<open>jw_date\<close> is the precision at which it stores instants.
  \<open>sha256\<close> is a parameter as well.
\<close>

section \<open>Text as code points\<close>

text \<open>A \<^verbatim>\<open>range\<close> loop over a string: a byte that does not start a valid encoding counts as U+FFFD.\<close>

definition continues :: "nat \<Rightarrow> nat \<Rightarrow> nat \<Rightarrow> bool" where
  "continues lo hi b \<longleftrightarrow> lo \<le> b \<and> b \<le> hi"

definition rune_at :: "nat \<Rightarrow> nat list \<Rightarrow> (nat \<times> nat) option" where
  "rune_at b bs =
     (if b < 0x80 then Some (b, 0)
      else if 0xC2 \<le> b \<and> b \<le> 0xDF then
        (case bs of c1 # _ \<Rightarrow> if continues 0x80 0xBF c1 then Some ((b - 0xC0) * 64 + (c1 - 0x80), 1) else None | _ \<Rightarrow> None)
      else if 0xE0 \<le> b \<and> b \<le> 0xEF then
        (case bs of
           c1 # c2 # _ \<Rightarrow>
             if continues (if b = 0xE0 then 0xA0 else 0x80) (if b = 0xED then 0x9F else 0xBF) c1 \<and> continues 0x80 0xBF c2
             then Some (((b - 0xE0) * 64 + (c1 - 0x80)) * 64 + (c2 - 0x80), 2) else None
         | _ \<Rightarrow> None)
      else if 0xF0 \<le> b \<and> b \<le> 0xF4 then
        (case bs of
           c1 # c2 # c3 # _ \<Rightarrow>
             if continues (if b = 0xF0 then 0x90 else 0x80) (if b = 0xF4 then 0x8F else 0xBF) c1 \<and>
                continues 0x80 0xBF c2 \<and> continues 0x80 0xBF c3
             then Some ((((b - 0xF0) * 64 + (c1 - 0x80)) * 64 + (c2 - 0x80)) * 64 + (c3 - 0x80), 3) else None
         | _ \<Rightarrow> None)
      else None)"

fun runes :: "nat list \<Rightarrow> nat list" where
  "runes [] = []"
| "runes (b # bs) = (case rune_at b bs of Some (r, n) \<Rightarrow> r # runes (drop n bs) | None \<Rightarrow> 0xFFFD # runes bs)"

definition go_runes :: "string \<Rightarrow> nat list" where
  "go_runes s = runes (map of_char s)"

lemma runes_ascii: "\<forall>b \<in> set bs. b < 0x80 \<Longrightarrow> runes bs = bs"
  by (induction bs) (simp_all add: rune_at_def)

section \<open>Password policy\<close>

text \<open>The tables of package \<^verbatim>\<open>unicode\<close>.\<close>

record unicode_tables =
  uc_upper :: "nat \<Rightarrow> bool"
  uc_lower :: "nat \<Rightarrow> bool"
  uc_digit :: "nat \<Rightarrow> bool"

definition special_rune :: "unicode_tables \<Rightarrow> nat \<Rightarrow> bool" where
  "special_rune uc r \<longleftrightarrow> \<not> uc_upper uc r \<and> \<not> uc_lower uc r \<and> \<not> uc_digit uc r"

definition password_missing :: "unicode_tables \<Rightarrow> string \<Rightarrow> string list" where
  "password_missing uc password =
     (let rs = go_runes password;
          hasUpper = list_ex (uc_upper uc) rs;
          hasLower = list_ex (\<lambda>r. \<not> uc_upper uc r \<and> uc_lower uc r) rs;
          hasDigit = list_ex (\<lambda>r. \<not> uc_upper uc r \<and> \<not> uc_lower uc r \<and> uc_digit uc r) rs;
          hasSpecial = list_ex (special_rune uc) rs
      in (if length password < 8 then [''at least 8 characters''] else []) @
         (if hasUpper then [] else [''at least one uppercase letter'']) @
         (if hasLower then [] else [''at least one lowercase letter'']) @
         (if hasDigit then [] else [''at least one digit'']) @
         (if hasSpecial then [] else [''at least one special character'']))"

text \<open>\<open>None\<close> is acceptance, \<open>Some\<close> the text of the error.\<close>

definition ValidatePasswordPolicy :: "unicode_tables \<Rightarrow> string \<Rightarrow> string option" where
  "ValidatePasswordPolicy uc password =
     (let missing = password_missing uc password
      in if missing = [] then None else Some (''password does not meet requirements: '' @ go_join ''; '' missing))"

section \<open>Tokens\<close>

record jwt_lib =
  jw_sign :: "string \<Rightarrow> TokenClaims \<Rightarrow> string option"
  jw_parse :: "string \<Rightarrow> time \<Rightarrow> string \<Rightarrow> TokenClaims option"
  jw_date :: "time \<Rightarrow> time"

definition GenerateToken :: "jwt_lib \<Rightarrow> string \<Rightarrow> time \<Rightarrow> TokenClaims \<Rightarrow> string option" where
  "GenerateToken lib secret now claims =
     (let claims = (if cl_ExpiresAt claims = None then claims\<lparr>cl_ExpiresAt := Some (jw_date lib (now + hours 24))\<rparr> else claims);
          claims = (if cl_IssuedAt claims = None then claims\<lparr>cl_IssuedAt := Some (jw_date lib now)\<rparr> else claims)
      in jw_sign lib secret claims)"

definition ValidateToken :: "jwt_lib \<Rightarrow> string \<Rightarrow> time \<Rightarrow> string \<Rightarrow> TokenClaims option" where
  "ValidateToken lib secret now tokenStr = jw_parse lib secret now tokenStr"

section \<open>Blacklist\<close>

definition HashToken :: "(string \<Rightarrow> string) \<Rightarrow> string \<Rightarrow> string" where
  "HashToken sha256 rawToken = hex_encode (sha256 rawToken)"

text \<open>\<open>None\<close> is an error of the statement.\<close>

definition IsBlacklisted :: "(string \<Rightarrow> string) \<Rightarrow> bool \<Rightarrow> string \<Rightarrow> db \<Rightarrow> bool option" where
  "IsBlacklisted sha256 fails rawToken s =
     (if fails then None else Some (HashToken sha256 rawToken \<in> fst ` set (tb_token_blacklist s)))"

definition Blacklist_Add :: "(string \<Rightarrow> string) \<Rightarrow> bool \<Rightarrow> string \<Rightarrow> time \<Rightarrow> db \<Rightarrow> bool \<times> db" where
  "Blacklist_Add sha256 fails rawToken expiresAt s =
     (if fails then (False, s)
      else if HashToken sha256 rawToken \<in> fst ` set (tb_token_blacklist s) then (True, s)
      else (True, s\<lparr>tb_token_blacklist := tb_token_blacklist s @ [(HashToken sha256 rawToken, expiresAt)]\<rparr>))"

definition Blacklist_Cleanup :: "time \<Rightarrow> db \<Rightarrow> db" where
  "Blacklist_Cleanup now s = s\<lparr>tb_token_blacklist := del_where (\<lambda>e. snd e < now) (tb_token_blacklist s)\<rparr>"

section \<open>Middleware\<close>

text \<open>The claims handed to the next handler, or the answer; \<open>bl\<close> tells whether a blacklist is configured.\<close>

definition JWTMiddleware :: "jwt_lib \<Rightarrow> (string \<Rightarrow> string) \<Rightarrow> string \<Rightarrow> bool \<Rightarrow> time \<Rightarrow> bool \<Rightarrow> string \<Rightarrow> db
    \<Rightarrow> (nat \<times> string) + TokenClaims" where
  "JWTMiddleware lib sha256 secret bl now fails header s =
     (if header = [] then Inl (401, ''missing authorization header'')
      else (case cut_prefix ''Bearer '' header of
        None \<Rightarrow> Inl (401, ''invalid authorization header format'')
      | Some tokenStr \<Rightarrow>
     (case ValidateToken lib secret now tokenStr of
        None \<Rightarrow> Inl (401, ''invalid token'')
      | Some claims \<Rightarrow>
          if cl_TokenType claims = ''mfa'' then Inl (401, ''mfa verification required'')
          else if bl then
            (case IsBlacklisted sha256 fails tokenStr s of
               None \<Rightarrow> Inl (500, ''failed to check token status'')
             | Some True \<Rightarrow> Inl (401, ''token has been revoked'')
             | Some False \<Rightarrow> Inr claims)
          else Inr claims)))"

definition RequireAdmin :: "TokenClaims option \<Rightarrow> (nat \<times> string) option" where
  "RequireAdmin claims =
     (case claims of
        None \<Rightarrow> Some (401, ''unauthenticated'')
      | Some c \<Rightarrow> if cl_IsAdmin c then None else Some (403, ''admin access required''))"

section \<open>Roles\<close>

record Role =
  ro_Name :: string
  ro_Permissions :: "string list"

text \<open>A later role of the same name replaces an earlier one.\<close>

definition LoadRoles :: "Role list \<Rightarrow> string \<Rightarrow> string set option" where
  "LoadRoles roles = fold (\<lambda>r m. m(ro_Name r \<mapsto> set (ro_Permissions r))) roles (\<lambda>_. None)"

fun Can :: "(string \<Rightarrow> string set option) \<Rightarrow> string list \<Rightarrow> string \<Rightarrow> string \<Rightarrow> bool" where
  "Can roles [] resource action = False"
| "Can roles (roleName # rs) resource action =
     (case roles roleName of
        None \<Rightarrow> Can roles rs resource action
      | Some perms \<Rightarrow>
          if ''*'' \<in> perms then True
          else if resource @ '':'' @ action \<in> perms then True
          else Can roles rs resource action)"

lemma Can_iff:
  "Can roles userRoles resource action \<longleftrightarrow>
     (\<exists>r \<in> set userRoles. \<exists>perms. roles r = Some perms \<and> (''*'' \<in> perms \<or> resource @ '':'' @ action \<in> perms))"
  by (induction userRoles) (auto split: option.splits)

lemma LoadRoles_last: "LoadRoles (rs @ [r]) = (LoadRoles rs)(ro_Name r \<mapsto> set (ro_Permissions r))"
  by (simp add: LoadRoles_def)

lemma password_policy_iff:
  "ValidatePasswordPolicy uc pw = None \<longleftrightarrow>
     8 \<le> length pw \<and> (\<exists>r \<in> set (go_runes pw). uc_upper uc r) \<and> (\<exists>r \<in> set (go_runes pw). \<not> uc_upper uc r \<and> uc_lower uc r) \<and>
     (\<exists>r \<in> set (go_runes pw). \<not> uc_upper uc r \<and> \<not> uc_lower uc r \<and> uc_digit uc r) \<and> (\<exists>r \<in> set (go_runes pw). special_rune uc r)"
  by (auto simp: ValidatePasswordPolicy_def password_missing_def Let_def list_ex_iff)

section \<open>Frames\<close>

lemma Blacklist_Add_frame: "Blacklist_Add sha256 fails tok e s = (ok, s') \<Longrightarrow>
    s' = s\<lparr>tb_token_blacklist := tb_token_blacklist s'\<rparr>"
  by (auto simp: Blacklist_Add_def split: if_splits)

lemma HashToken_inject: "HashToken sha256 a = HashToken sha256 b \<longleftrightarrow> sha256 a = sha256 b"
  by (simp add: HashToken_def hex_encode_inject)

end
