(* ===== verification/Auth_Handler.thy ===== *)
theory Auth_Handler
  imports Auth_Core
begin

text \<open>
  Login, second factor, refresh, logout and passwords (\<^verbatim>\<open>internal/core/handler/auth.go\<close>). Every
  handler gets the instant \<open>now\<close> at which it runs, on the clock of the database as well, and the
  faults of its statements.

  Third-party code is in \<open>auth_env\<close>: the JWT library, SHA-256, bcrypt (\<open>ae_check\<close> compares a hash
  with a password, \<open>ae_hash\<close> makes one), the TOTP check, and the driver's conversion of text to
  a UUID.
\<close>

section \<open>Requests and answers\<close>

record auth_env =
  ae_lib :: jwt_lib
  ae_secret :: string
  ae_sha256 :: "string \<Rightarrow> string"
  ae_bl :: bool
  ae_check :: "string \<Rightarrow> string \<Rightarrow> bool"
  ae_hash :: "string \<Rightarrow> string option"
  ae_totp :: "time \<Rightarrow> string \<Rightarrow> string \<Rightarrow> bool"
  ae_cast_uuid :: "string \<Rightarrow> uuid option"
  ae_uc :: unicode_tables

record loginRequest =
  lq_Username :: string
  lq_Password :: string

record loginResponse =
  lr_Token :: string
  lr_ExpiresAt :: int
  lr_MFARequired :: bool
  lr_MFAToken :: string
  lr_PasswordMustChange :: bool

record mfaVerifyRequest =
  mq_MFAToken :: string
  mq_Code :: string
  mq_Method :: string

record resetPasswordRequest =
  rq_Token :: string
  rq_NewPassword :: string

record changePasswordRequest =
  cq_CurrentPassword :: string
  cq_NewPassword :: string

text \<open>The claims of a token: the user, no roles, no subject; the lifetime is left to \<open>GenerateToken\<close>.\<close>

definition session_claims :: "string \<Rightarrow> string \<Rightarrow> string \<Rightarrow> bool \<Rightarrow> TokenClaims" where
  "session_claims userID username email isAdmin =
     \<lparr>cl_UserID = userID, cl_Username = username, cl_Email = email, cl_IsAdmin = isAdmin, cl_Roles = [], cl_TokenType = [],
      cl_ExpiresAt = None, cl_IssuedAt = None, cl_Subject = [], cl_ID = []\<rparr>"

definition unix :: "time \<Rightarrow> int" where
  "unix t = t div 1000000000"

definition session_answer :: "time \<Rightarrow> string \<Rightarrow> bool \<Rightarrow> loginResponse" where
  "session_answer now token mustChange =
     \<lparr>lr_Token = token, lr_ExpiresAt = unix (now + hours 24), lr_MFARequired = False, lr_MFAToken = [],
      lr_PasswordMustChange = mustChange\<rparr>"

section \<open>Login\<close>

text \<open>\<^verbatim>\<open>Duration.String\<close> of a whole number of seconds.\<close>

definition duration_text :: "int \<Rightarrow> string" where
  "duration_text secs =
     (let h = secs div 3600; m = secs mod 3600 div 60; sc = secs mod 60
      in (if h > 0 then itoa h @ ''h'' else []) @ (if h > 0 \<or> m > 0 then itoa m @ ''m'' else []) @ itoa sc @ ''s'')"

definition set_lock :: "uuid \<Rightarrow> int \<Rightarrow> time option \<Rightarrow> db \<Rightarrow> db" where
  "set_lock i attempts locked s =
     s\<lparr>tb_users := upd_where (\<lambda>u. u_id u = i) (\<lambda>u. u\<lparr>u_failed_login_attempts := attempts, u_locked_until := locked\<rparr>) (tb_users s)\<rparr>"

text \<open>A failed attempt; the error of the statement, also for a count the column cannot hold, is ignored.\<close>

definition count_failed_login :: "time \<Rightarrow> bool \<Rightarrow> user_row \<Rightarrow> db \<Rightarrow> db" where
  "count_failed_login now fails u s =
     (let newAttempts = u_failed_login_attempts u + 1
      in if fails \<or> \<not> int4_range newAttempts then s
         else if newAttempts \<ge> 5 then set_lock (u_id u) newAttempts (Some (now + minutes 15)) s
         else set_lock (u_id u) newAttempts (u_locked_until u) s)"

definition reset_lock :: "bool \<Rightarrow> user_row \<Rightarrow> db \<Rightarrow> db" where
  "reset_lock fails u s =
     (if (u_failed_login_attempts u > 0 \<or> u_locked_until u \<noteq> None) \<and> \<not> fails then set_lock (u_id u) 0 None s else s)"

definition is_locked :: "time \<Rightarrow> user_row \<Rightarrow> bool" where
  "is_locked now u = (case u_locked_until u of None \<Rightarrow> False | Some t \<Rightarrow> now < t)"

definition login_tokens :: "auth_env \<Rightarrow> time \<Rightarrow> user_row \<Rightarrow> loginResponse resp" where
  "login_tokens e now u =
     (if u_mfa_enabled u then
        (case GenerateToken (ae_lib e) (ae_secret e) now
           ((session_claims (u_id u) (u_username u) (u_email u) False)\<lparr>cl_TokenType := ''mfa'',
              cl_ExpiresAt := Some (jw_date (ae_lib e) (now + minutes 10))\<rparr>) of
           None \<Rightarrow> Err 500 ''failed to generate mfa token''
         | Some mfaToken \<Rightarrow> Ok 200 \<lparr>lr_Token = [], lr_ExpiresAt = 0, lr_MFARequired = True, lr_MFAToken = mfaToken,
                                    lr_PasswordMustChange = False\<rparr>)
      else
        (case GenerateToken (ae_lib e) (ae_secret e) now (session_claims (u_id u) (u_username u) (u_email u) (u_is_admin u)) of
           None \<Rightarrow> Err 500 ''failed to generate token''
         | Some token \<Rightarrow> Ok 200 (session_answer now token (u_password_must_change u))))"

definition login :: "auth_env \<Rightarrow> time \<Rightarrow> (nat \<Rightarrow> bool) \<Rightarrow> loginRequest body \<Rightarrow> db \<Rightarrow> loginResponse resp \<times> db" where
  "login e now f bd s =
     (case bd of Inl _ \<Rightarrow> (Err 400 ''invalid request body'', s)
      | Inr req \<Rightarrow>
      if lq_Username req = [] \<or> lq_Password req = [] then (Err 400 ''username and password are required'', s)
      else (case (if f 0 then None else find (\<lambda>u. u_username u = lq_Username req) (tb_users s)) of
        None \<Rightarrow> (Err 401 ''invalid credentials'', s)
      | Some u \<Rightarrow>
     (case u_password_hash u of
        None \<Rightarrow> (Err 401 ''invalid credentials'', s)
      | Some hash \<Rightarrow>
          if \<not> u_is_active u then (Err 403 ''account is disabled'', s)
          else if is_locked now u
          then (Err 403 (''account is locked, try again after '' @ duration_text ((the (u_locked_until u) - now) div 1000000000)), s)
          else if \<not> ae_check e hash (lq_Password req) then (Err 401 ''invalid credentials'', count_failed_login now (f 1) u s)
          else (login_tokens e now u, reset_lock (f 1) u s))))"

section \<open>Second factor\<close>

fun use_backup_code :: "auth_env \<Rightarrow> (nat \<Rightarrow> bool) \<Rightarrow> string \<Rightarrow> backup_code_row list \<Rightarrow> db \<Rightarrow> bool \<times> db" where
  "use_backup_code e f code [] s = (False, s)"
| "use_backup_code e f code (r # rows) s =
     (if ae_check e (bc_code_hash r) code then
        (if f 0 then use_backup_code e (\<lambda>n. f (Suc n)) code rows s
         else (True, s\<lparr>tb_mfa_backup_codes := upd_where (\<lambda>x. bc_id x = bc_id r \<and> \<not> bc_used x) (\<lambda>x. x\<lparr>bc_used := True\<rparr>)
                         (tb_mfa_backup_codes s)\<rparr>))
      else use_backup_code e f code rows s)"

definition tryBackupCode :: "auth_env \<Rightarrow> (nat \<Rightarrow> bool) \<Rightarrow> string \<Rightarrow> string \<Rightarrow> db \<Rightarrow> bool \<times> db" where
  "tryBackupCode e f userID code s =
     (case (if f 0 then None else ae_cast_uuid e userID) of
        None \<Rightarrow> (False, s)
      | Some u \<Rightarrow> use_backup_code e (\<lambda>n. f (Suc n)) code (filter (\<lambda>r. bc_user_id r = u \<and> \<not> bc_used r) (tb_mfa_backup_codes s)) s)"

text \<open>Statement \<open>0\<close> of \<open>f\<close> reads the secret, \<open>1\<close> the user; the backup codes have those from \<open>2\<close> on.\<close>

definition verifyMFA :: "auth_env \<Rightarrow> time \<Rightarrow> (nat \<Rightarrow> bool) \<Rightarrow> mfaVerifyRequest body \<Rightarrow> db \<Rightarrow> loginResponse resp \<times> db" where
  "verifyMFA e now f bd s =
     (case bd of Inl _ \<Rightarrow> (Err 400 ''invalid request body'', s)
      | Inr req \<Rightarrow>
      if mq_MFAToken req = [] \<or> mq_Code req = [] then (Err 400 ''mfa_token and code are required'', s)
      else (case ValidateToken (ae_lib e) (ae_secret e) now (mq_MFAToken req) of
        None \<Rightarrow> (Err 401 ''invalid or expired mfa token'', s)
      | Some claims \<Rightarrow>
      if cl_TokenType claims \<noteq> ''mfa'' then (Err 401 ''invalid mfa token type'', s)
      else (case (if f 0 then None else Option.bind (ae_cast_uuid e (cl_UserID claims))
                    (\<lambda>i. find (\<lambda>t. tt_user_id t = i) (tb_mfa_totp s))) of
        None \<Rightarrow> (Err 500 ''mfa not configured'', s)
      | Some t \<Rightarrow>
          let (valid, s') =
            (if ae_totp e now (mq_Code req) (tt_secret t) then (True, s)
             else if mq_Method req = ''backup'' \<or> length (mq_Code req) = 8
             then tryBackupCode e (\<lambda>n. f (n + 2)) (cl_UserID claims) (mq_Code req) s
             else (False, s))
          in if \<not> valid then (Err 401 ''invalid mfa code'', s')
             else (case (if f 1 then None else Option.bind (ae_cast_uuid e (cl_UserID claims))
                           (\<lambda>i. find (\<lambda>u. u_id u = i) (tb_users s'))) of
                None \<Rightarrow> (Err 500 ''failed to read user info'', s')
              | Some u \<Rightarrow>
             (case GenerateToken (ae_lib e) (ae_secret e) now
                     (session_claims (cl_UserID claims) (cl_Username claims) (cl_Email claims) (u_is_admin u)) of
                None \<Rightarrow> (Err 500 ''failed to generate token'', s')
              | Some token \<Rightarrow> (Ok 200 (session_answer now token (u_password_must_change u)), s'))))))"

section \<open>Refresh and logout\<close>

definition refresh_header :: "string \<Rightarrow> string option" where
  "refresh_header header = (if length header > 7 then cut_prefix ''Bearer '' header else None)"

definition refreshToken :: "auth_env \<Rightarrow> time \<Rightarrow> (nat \<Rightarrow> bool) \<Rightarrow> string \<Rightarrow> db \<Rightarrow> loginResponse resp \<times> db" where
  "refreshToken e now f header s =
     (case refresh_header header of None \<Rightarrow> (Err 401 ''missing authorization header'', s)
      | Some tokenStr \<Rightarrow>
     (case ValidateToken (ae_lib e) (ae_secret e) now tokenStr of
        None \<Rightarrow> (Err 401 ''invalid or expired token'', s)
      | Some claims \<Rightarrow>
     (case (if ae_bl e then IsBlacklisted (ae_sha256 e) (f 0) tokenStr s else Some False) of
        None \<Rightarrow> (Err 500 ''failed to check token status'', s)
      | Some True \<Rightarrow> (Err 401 ''token has been revoked'', s)
      | Some False \<Rightarrow>
          if cl_TokenType claims = ''mfa'' then (Err 401 ''mfa verification required'', s)
          else (case (if f 1 then None else Option.bind (ae_cast_uuid e (cl_UserID claims)) (\<lambda>i. find (\<lambda>u. u_id u = i) (tb_users s))) of
             None \<Rightarrow> (Err 500 ''failed to verify account status'', s)
           | Some u \<Rightarrow>
               if \<not> u_is_active u then (Err 403 ''account is disabled'', s)
               else (case GenerateToken (ae_lib e) (ae_secret e) now
                            (session_claims (cl_UserID claims) (cl_Username claims) (cl_Email claims) (u_is_admin u)) of
                  None \<Rightarrow> (Err 500 ''failed to generate token'', s)
                | Some newToken \<Rightarrow>
                    (Ok 200 (session_answer now newToken False),
                     (case (ae_bl e, cl_ExpiresAt claims) of
                        (True, Some ex) \<Rightarrow> snd (Blacklist_Add (ae_sha256 e) (f 2) tokenStr ex s)
                      | _ \<Rightarrow> s)))))))"

definition logout :: "auth_env \<Rightarrow> time \<Rightarrow> (nat \<Rightarrow> bool) \<Rightarrow> string \<Rightarrow> db \<Rightarrow> string resp \<times> db" where
  "logout e now f header s =
     (case cut_prefix ''Bearer '' header of None \<Rightarrow> (Ok 200 ''ok'', s)
      | Some tokenStr \<Rightarrow>
      if tokenStr = [] then (Ok 200 ''ok'', s)
      else (case ValidateToken (ae_lib e) (ae_secret e) now tokenStr of
        None \<Rightarrow> (Ok 200 ''ok'', s)
      | Some claims \<Rightarrow>
     (case (ae_bl e, cl_ExpiresAt claims) of
        (True, Some ex) \<Rightarrow>
          (case Blacklist_Add (ae_sha256 e) (f 0) tokenStr ex s of
             (True, s') \<Rightarrow> (Ok 200 ''ok'', s')
           | (False, s') \<Rightarrow> (Err 500 ''failed to invalidate token'', s'))
      | _ \<Rightarrow> (Ok 200 ''ok'', s))))"

section \<open>Passwords\<close>

text \<open>\<open>rnd\<close> are the 32 random bytes, if the system has them; the result carries the mails sent in the background.\<close>

definition forgotPassword :: "auth_env \<Rightarrow> bool \<Rightarrow> string \<Rightarrow> uuid \<Rightarrow> string option \<Rightarrow> time \<Rightarrow> (nat \<Rightarrow> bool) \<Rightarrow> string body \<Rightarrow> db
    \<Rightarrow> string resp \<times> db \<times> (string \<times> string) list" where
  "forgotPassword e mailer baseURL new_id rnd now f bd s =
     (case bd of Inl _ \<Rightarrow> (Err 400 ''invalid request body'', s, [])
      | Inr email \<Rightarrow>
      if email = [] then (Err 400 ''email is required'', s, [])
      else let answer = Ok 200 ''if the email exists, a reset link has been sent'' in
     (case (if f 0 then None else find (\<lambda>u. u_email u = email \<and> u_is_active u) (tb_users s)) of
        None \<Rightarrow> (answer, s, [])
      | Some u \<Rightarrow>
     (case rnd of
        None \<Rightarrow> (answer, s, [])
      | Some tokenBytes \<Rightarrow>
          if f 1 then (answer, s, [])
          else (answer,
            s\<lparr>tb_password_reset_tokens := tb_password_reset_tokens s @
               [\<lparr>rt_id = new_id, rt_user_id = u_id u, rt_token_hash = hex_encode (ae_sha256 e (hex_encode tokenBytes)),
                 rt_expires_at = now + hours 1, rt_used = False\<rparr>]\<rparr>,
            if mailer then [(email, baseURL @ ''/login?reset_token='' @ hex_encode tokenBytes)] else []))))"

definition live_token :: "string \<Rightarrow> time \<Rightarrow> reset_token_row \<Rightarrow> bool" where
  "live_token h now r \<longleftrightarrow> rt_token_hash r = h \<and> \<not> rt_used r \<and> now < rt_expires_at r"

definition set_password :: "uuid \<Rightarrow> string \<Rightarrow> db \<Rightarrow> db" where
  "set_password i hash s =
     s\<lparr>tb_users := upd_where (\<lambda>u. u_id u = i) (\<lambda>u. u\<lparr>u_password_hash := Some hash, u_password_must_change := False\<rparr>) (tb_users s)\<rparr>"

definition resetPassword :: "auth_env \<Rightarrow> time \<Rightarrow> (nat \<Rightarrow> bool) \<Rightarrow> resetPasswordRequest body \<Rightarrow> db \<Rightarrow> string resp \<times> db" where
  "resetPassword e now f bd s =
     (case bd of Inl _ \<Rightarrow> (Err 400 ''invalid request body'', s)
      | Inr req \<Rightarrow>
      if rq_Token req = [] \<or> rq_NewPassword req = [] then (Err 400 ''token and new_password are required'', s)
      else (case ValidatePasswordPolicy (ae_uc e) (rq_NewPassword req) of Some err \<Rightarrow> (Err 400 err, s)
      | None \<Rightarrow>
      let tokenHashHex = hex_encode (ae_sha256 e (rq_Token req)) in
      if f 0 then (Err 500 ''failed to validate token'', s)
      else (case find (live_token tokenHashHex now) (tb_password_reset_tokens s) of
        None \<Rightarrow> (Err 400 ''invalid or expired reset token'', s)
      | Some r \<Rightarrow>
          let s' = s\<lparr>tb_password_reset_tokens :=
                     upd_where (live_token tokenHashHex now) (\<lambda>x. x\<lparr>rt_used := True\<rparr>) (tb_password_reset_tokens s)\<rparr>
          in (case ae_hash e (rq_NewPassword req) of
                None \<Rightarrow> (Err 500 ''failed to hash password'', s')
              | Some hash \<Rightarrow>
                  if f 1 then (Err 500 ''failed to update password'', s')
                  else (Ok 200 ''password has been reset'', set_password (rt_user_id r) hash s')))))"

definition changePassword :: "auth_env \<Rightarrow> (nat \<Rightarrow> bool) \<Rightarrow> TokenClaims option \<Rightarrow> changePasswordRequest body \<Rightarrow> db \<Rightarrow> string resp \<times> db" where
  "changePassword e f claims bd s =
     (case claims of None \<Rightarrow> (Err 401 ''authentication required'', s)
      | Some cl \<Rightarrow>
     (case bd of Inl _ \<Rightarrow> (Err 400 ''invalid request body'', s)
      | Inr req \<Rightarrow>
      if cq_CurrentPassword req = [] \<or> cq_NewPassword req = [] then (Err 400 ''current_password and new_password are required'', s)
      else (case ValidatePasswordPolicy (ae_uc e) (cq_NewPassword req) of Some err \<Rightarrow> (Err 400 err, s)
      | None \<Rightarrow>
     (case (if f 0 then None else Option.bind (ae_cast_uuid e (cl_UserID cl)) (\<lambda>i. Option.bind (find (\<lambda>u. u_id u = i) (tb_users s))
              (\<lambda>u. map_option (\<lambda>hash. (u_id u, hash)) (u_password_hash u)))) of
        None \<Rightarrow> (Err 500 ''failed to read user'', s)
      | Some (i, hash) \<Rightarrow>
          if \<not> ae_check e hash (cq_CurrentPassword req) then (Err 401 ''current password is incorrect'', s)
          else (case ae_hash e (cq_NewPassword req) of
             None \<Rightarrow> (Err 500 ''failed to hash password'', s)
           | Some newHash \<Rightarrow>
               if f 1 then (Err 500 ''failed to update password'', s)
               else (Ok 200 ''password changed successfully'', set_password i newHash s))))))"

section \<open>Sequences of requests\<close>

text \<open>
  The requests of this theory on a clock that does not run backwards, the periodic clean-up of the
  blacklist, and whatever the rest of the program does to the database, which does not touch the
  blacklist.
\<close>

inductive auth_step :: "auth_env \<Rightarrow> time \<times> db \<Rightarrow> time \<times> db \<Rightarrow> bool" for e where
  Tick: "t \<le> t' \<Longrightarrow> auth_step e (t, s) (t', s)"
| Login: "login e t f bd s = (r, s') \<Longrightarrow> auth_step e (t, s) (t, s')"
| VerifyMFA: "verifyMFA e t f bd' s = (r, s') \<Longrightarrow> auth_step e (t, s) (t, s')"
| Refresh: "refreshToken e t f header s = (r, s') \<Longrightarrow> auth_step e (t, s) (t, s')"
| Logout: "logout e t f header s = (r', s') \<Longrightarrow> auth_step e (t, s) (t, s')"
| Forgot: "forgotPassword e mailer url new_id rnd t f email s = (r', s', mails) \<Longrightarrow> auth_step e (t, s) (t, s')"
| Reset: "resetPassword e t f rbd s = (r', s') \<Longrightarrow> auth_step e (t, s) (t, s')"
| Change: "changePassword e f claims cbd s = (r', s') \<Longrightarrow> auth_step e (t, s) (t, s')"
| Cleanup: "auth_step e (t, s) (t, Blacklist_Cleanup t s)"
| Elsewhere: "tb_token_blacklist s' = tb_token_blacklist s \<Longrightarrow> auth_step e (t, s) (t, s')"

inductive_cases auth_stepE: "auth_step e (t, s) (t', s')"

section \<open>What leaves the blacklist alone\<close>

lemma login_blacklist: "login e t f bd s = (r, s') \<Longrightarrow> tb_token_blacklist s' = tb_token_blacklist s"
  by (auto simp: login_def count_failed_login_def reset_lock_def set_lock_def Let_def split: sum.splits if_splits option.splits)

lemma use_backup_code_blacklist:
  "use_backup_code e f code rows s = (ok, s') \<Longrightarrow> tb_token_blacklist s' = tb_token_blacklist s \<and> tb_users s' = tb_users s"
  by (induction e f code rows s rule: use_backup_code.induct) (auto split: if_splits)

lemma verifyMFA_blacklist: "verifyMFA e t f bd s = (r, s') \<Longrightarrow> tb_token_blacklist s' = tb_token_blacklist s"
  by (auto simp: verifyMFA_def tryBackupCode_def Let_def split: sum.splits if_splits option.splits prod.splits
      dest!: use_backup_code_blacklist)

lemma forgotPassword_blacklist:
  "forgotPassword e mailer url new_id rnd t f email s = (r, s', mails) \<Longrightarrow> tb_token_blacklist s' = tb_token_blacklist s"
  by (auto simp: forgotPassword_def Let_def split: sum.splits if_splits option.splits)

lemma resetPassword_blacklist: "resetPassword e t f bd s = (r, s') \<Longrightarrow> tb_token_blacklist s' = tb_token_blacklist s"
  by (auto simp: resetPassword_def set_password_def Let_def split: sum.splits if_splits option.splits)

lemma changePassword_blacklist: "changePassword e f claims bd s = (r, s') \<Longrightarrow> tb_token_blacklist s' = tb_token_blacklist s"
  by (auto simp: changePassword_def set_password_def split: sum.splits if_splits option.splits)

lemmas blacklist_frames = login_blacklist verifyMFA_blacklist forgotPassword_blacklist resetPassword_blacklist changePassword_blacklist

lemma refresh_blacklist:
  assumes "refreshToken e t f header s = (r, s')"
  shows "tb_token_blacklist s' = tb_token_blacklist s \<or>
    (\<exists>tok c ex. ValidateToken (ae_lib e) (ae_secret e) t tok = Some c \<and> cl_ExpiresAt c = Some ex \<and>
       tb_token_blacklist s' = tb_token_blacklist s @ [(HashToken (ae_sha256 e) tok, ex)])"
  using assms
  by (auto simp: refreshToken_def Blacklist_Add_def split: option.splits bool.splits if_splits) blast

lemma logout_blacklist:
  assumes "logout e t f header s = (r, s')"
  shows "tb_token_blacklist s' = tb_token_blacklist s \<or>
    (\<exists>tok c ex. ValidateToken (ae_lib e) (ae_secret e) t tok = Some c \<and> cl_ExpiresAt c = Some ex \<and>
       tb_token_blacklist s' = tb_token_blacklist s @ [(HashToken (ae_sha256 e) tok, ex)])"
  using assms
  by (auto simp: logout_def Blacklist_Add_def split: option.splits bool.splits if_splits) blast

section \<open>Revoked tokens\<close>

text \<open>
  What is asked of the libraries for one token: its claims do not depend on when it is parsed, an
  expired token is refused, and no other token has its hash.
\<close>

definition token_laws :: "auth_env \<Rightarrow> string \<Rightarrow> bool" where
  "token_laws e tok \<longleftrightarrow>
     (\<forall>t t' c c'. jw_parse (ae_lib e) (ae_secret e) t tok = Some c \<longrightarrow> jw_parse (ae_lib e) (ae_secret e) t' tok = Some c' \<longrightarrow> c' = c) \<and>
     (\<forall>t c ex. jw_parse (ae_lib e) (ae_secret e) t tok = Some c \<longrightarrow> cl_ExpiresAt c = Some ex \<longrightarrow> t < ex) \<and>
     (\<forall>tok'. ae_sha256 e tok' = ae_sha256 e tok \<longrightarrow> tok' = tok)"

text \<open>The token is on the blacklist until its expiry, or that has passed.\<close>

definition revoked :: "auth_env \<Rightarrow> string \<Rightarrow> time \<Rightarrow> time \<times> db \<Rightarrow> bool" where
  "revoked e tok ex = (\<lambda>(t, s).
     (\<forall>x. (HashToken (ae_sha256 e) tok, x) \<in> set (tb_token_blacklist s) \<longrightarrow> x = ex) \<and>
     ((HashToken (ae_sha256 e) tok, ex) \<in> set (tb_token_blacklist s) \<or> ex < t))"

lemma revoked_add:
  assumes "token_laws e tok" "ValidateToken (ae_lib e) (ae_secret e) t0 tok = Some c" "cl_ExpiresAt c = Some ex"
    and "ValidateToken (ae_lib e) (ae_secret e) t tok' = Some c'" "cl_ExpiresAt c' = Some ex'"
    and "tb_token_blacklist s' = tb_token_blacklist s @ [(HashToken (ae_sha256 e) tok', ex')]" "revoked e tok ex (t, s)"
  shows "revoked e tok ex (t, s')"
proof -
  have "ex' = ex" if "HashToken (ae_sha256 e) tok = HashToken (ae_sha256 e) tok'"
  proof -
    have "tok' = tok" using that assms(1) by (simp add: HashToken_inject token_laws_def)
    then have "c' = c" using assms(1,2,4) by (simp add: token_laws_def ValidateToken_def)
    then show ?thesis using assms(3,5) by simp
  qed
  then show ?thesis using assms(6,7) by (auto simp: revoked_def)
qed

lemma revoked_frame: "tb_token_blacklist s' = tb_token_blacklist s \<Longrightarrow> t \<le> t' \<Longrightarrow> revoked e tok ex (t, s) \<Longrightarrow> revoked e tok ex (t', s')"
  by (auto simp: revoked_def)

lemma revoked_step:
  assumes "token_laws e tok" "ValidateToken (ae_lib e) (ae_secret e) t0 tok = Some c" "cl_ExpiresAt c = Some ex"
    and "auth_step e x y" "revoked e tok ex x"
  shows "revoked e tok ex y"
  using assms(4,5)
proof (induction rule: auth_step.induct)
  case (Refresh t f header s r s')
  then show ?case using refresh_blacklist [OF Refresh(1)] revoked_add [OF assms(1-3)] revoked_frame by (metis order_refl)
next
  case (Logout t f header s r' s')
  then show ?case using logout_blacklist [OF Logout(1)] revoked_add [OF assms(1-3)] revoked_frame by (metis order_refl)
next
  case (Cleanup t s)
  then show ?case by (auto simp: revoked_def Blacklist_Cleanup_def)
qed (auto intro: revoked_frame dest: blacklist_frames)

lemma revoked_refused:
  assumes "token_laws e tok" "ae_bl e" "ValidateToken (ae_lib e) (ae_secret e) t0 tok = Some c" "cl_ExpiresAt c = Some ex"
    and "revoked e tok ex (t, s)"
  shows "ValidateToken (ae_lib e) (ae_secret e) t tok = None \<or> HashToken (ae_sha256 e) tok \<in> fst ` set (tb_token_blacklist s)"
proof (cases "ValidateToken (ae_lib e) (ae_secret e) t tok")
  case (Some c')
  then have "c' = c" using assms(1,3) unfolding token_laws_def ValidateToken_def by blast
  then have "t < ex" using Some assms(1,4) unfolding token_laws_def ValidateToken_def by blast
  then have "(HashToken (ae_sha256 e) tok, ex) \<in> set (tb_token_blacklist s)" using assms(5) by (auto simp: revoked_def)
  then show ?thesis by (auto intro: rev_image_eqI)
qed simp

text \<open>
  C5. Logging out is final. Once it has succeeded for a token that was valid, no later sequence of
  logins, refreshes, logouts, password changes and clean-ups of the blacklist, nor anything the
  rest of the program does, makes the API accept that token or exchange it for a new one.
\<close>

theorem logout_is_final:
  assumes "token_laws e tok" "ae_bl e" "tok \<noteq> []"
    and "ValidateToken (ae_lib e) (ae_secret e) t tok = Some c" "cl_ExpiresAt c = Some ex"
    and "HashToken (ae_sha256 e) tok \<notin> fst ` set (tb_token_blacklist s)"
    and "logout e t f (''Bearer '' @ tok) s = (Ok st m, s1)" "(auth_step e)\<^sup>*\<^sup>* (t, s1) (t', s')"
  shows "(\<exists>code msg. JWTMiddleware (ae_lib e) (ae_sha256 e) (ae_secret e) (ae_bl e) t' fails (''Bearer '' @ tok) s' = Inl (code, msg)) \<and>
    (\<exists>code msg. refreshToken e t' g (''Bearer '' @ tok) s' = (Err code msg, s'))"
proof -
  have "tb_token_blacklist s1 = tb_token_blacklist s @ [(HashToken (ae_sha256 e) tok, ex)]"
    using assms(2-7) by (auto simp: logout_def Blacklist_Add_def split: if_splits)
  then have "revoked e tok ex (t, s1)" using assms(6) by (auto simp: revoked_def rev_image_eqI)
  from assms(8) this have "revoked e tok ex (t', s')"
    by (induction rule: rtranclp_induct) (auto intro: revoked_step [OF assms(1,4,5)])
  note gone = revoked_refused [OF assms(1,2,4,5) this]
  have h: "refresh_header (''Bearer '' @ tok) = Some tok" "cut_prefix ''Bearer '' (''Bearer '' @ tok) = Some tok"
    using assms(3) by (simp_all add: refresh_header_def)
  show ?thesis
  proof (cases "ValidateToken (ae_lib e) (ae_secret e) t' tok")
    case None
    then show ?thesis unfolding JWTMiddleware_def refreshToken_def h by simp
  next
    case (Some c')
    then have "IsBlacklisted (ae_sha256 e) b tok s' = (if b then None else Some True)" for b
      using gone by (simp add: IsBlacklisted_def)
    then show ?thesis using assms(2) Some unfolding JWTMiddleware_def refreshToken_def h by simp
  qed
qed

text \<open>A token service that knows a list of tokens, and hashes that are the texts themselves.\<close>

definition sample_token_claims :: TokenClaims where
  "sample_token_claims = (session_claims ''u1'' ''u1-name'' ''u1@example.org'' False)\<lparr>cl_ExpiresAt := Some 100, cl_IssuedAt := Some 0\<rparr>"

definition sample_env :: "(string \<times> TokenClaims) list \<Rightarrow> auth_env" where
  "sample_env cs = \<lparr>ae_lib = \<lparr>jw_sign = (\<lambda>_ c. map_option fst (find (\<lambda>p. snd p = c) cs)),
       jw_parse = (\<lambda>_ t tok. Option.bind (map_of cs tok) (\<lambda>c. if pred_option (\<lambda>ex. t < ex) (cl_ExpiresAt c) then Some c else None)),
       jw_date = id\<rparr>,
     ae_secret = ''secret'', ae_sha256 = id, ae_bl = True, ae_check = (\<lambda>hash pw. hash = ''hash-'' @ pw), ae_hash = (\<lambda>pw. Some (''hash-'' @ pw)),
     ae_totp = (\<lambda>_ code secret. code = secret), ae_cast_uuid = Some,
     ae_uc = \<lparr>uc_upper = (\<lambda>n. 65 \<le> n \<and> n \<le> 90), uc_lower = (\<lambda>n. 97 \<le> n \<and> n \<le> 122), uc_digit = (\<lambda>n. 48 \<le> n \<and> n \<le> 57)\<rparr>\<rparr>"

lemma sample_no_tokens: "tb_token_blacklist sample_db = []"
  by (simp add: sample_db_def empty_db_def)

theorem logout_is_final_witness:
  "\<exists>s1 code msg. logout (sample_env [(''tok'', sample_token_claims)]) 0 (\<lambda>_. False) ''Bearer tok'' sample_db = (Ok 200 ''ok'', s1) \<and>
     JWTMiddleware (ae_lib (sample_env [(''tok'', sample_token_claims)])) id ''secret'' True 50 False ''Bearer tok'' (Blacklist_Cleanup 50 s1) = Inl (code, msg)"
proof -
  let ?e = "sample_env [(''tok'', sample_token_claims)]"
  obtain s1 where s1: "logout ?e 0 (\<lambda>_. False) (''Bearer '' @ ''tok'') sample_db = (Ok 200 ''ok'', s1)"
    by (simp add: logout_def sample_env_def sample_token_claims_def session_claims_def ValidateToken_def Blacklist_Add_def sample_no_tokens)
  have "token_laws ?e ''tok''" by (auto simp: token_laws_def sample_env_def sample_token_claims_def session_claims_def split: if_splits)
  moreover have "ValidateToken (ae_lib ?e) (ae_secret ?e) 0 ''tok'' = Some sample_token_claims"
    by (simp add: ValidateToken_def sample_env_def sample_token_claims_def session_claims_def)
  moreover have "(auth_step ?e)\<^sup>*\<^sup>* (0, s1) (50, Blacklist_Cleanup 50 s1)"
    by (rule converse_rtranclp_into_rtranclp [of "auth_step ?e" _ "(50, s1)"], rule auth_step.Tick, simp,
        rule r_into_rtranclp, rule auth_step.Cleanup)
  ultimately show ?thesis
    using logout_is_final [OF _ _ _ _ _ _ s1, of sample_token_claims 100 50 "Blacklist_Cleanup 50 s1" False "\<lambda>_. False"] s1
    by (auto simp: sample_env_def sample_token_claims_def session_claims_def sample_no_tokens)
qed

section \<open>Second factor\<close>

lemma use_backup_codeD:
  assumes "use_backup_code e f code rows s = (True, s')"
  shows "\<exists>r \<in> set rows. ae_check e (bc_code_hash r) code \<and> s' = s\<lparr>tb_mfa_backup_codes :=
    upd_where (\<lambda>x. bc_id x = bc_id r \<and> \<not> bc_used x) (\<lambda>x. x\<lparr>bc_used := True\<rparr>) (tb_mfa_backup_codes s)\<rparr>"
  using assms by (induction e f code rows s rule: use_backup_code.induct) (auto split: if_splits)

lemma tryBackupCodeD:
  assumes "tryBackupCode e f userID code s = (True, s')"
  obtains u r where "ae_cast_uuid e userID = Some u" "r \<in> set (tb_mfa_backup_codes s)" "bc_user_id r = u" "\<not> bc_used r"
    "ae_check e (bc_code_hash r) code" "\<forall>x \<in> set (tb_mfa_backup_codes s'). bc_id x = bc_id r \<longrightarrow> bc_used x"
proof -
  obtain u where u: "ae_cast_uuid e userID = Some u"
    "use_backup_code e (\<lambda>n. f (Suc n)) code (filter (\<lambda>r. bc_user_id r = u \<and> \<not> bc_used r) (tb_mfa_backup_codes s)) s = (True, s')"
    using assms by (cases "f 0"; cases "ae_cast_uuid e userID") (simp_all add: tryBackupCode_def)
  from use_backup_codeD [OF u(2)] obtain r where r: "r \<in> set (filter (\<lambda>r. bc_user_id r = u \<and> \<not> bc_used r) (tb_mfa_backup_codes s))"
    "ae_check e (bc_code_hash r) code"
    "s' = s\<lparr>tb_mfa_backup_codes := upd_where (\<lambda>x. bc_id x = bc_id r \<and> \<not> bc_used x) (\<lambda>x. x\<lparr>bc_used := True\<rparr>) (tb_mfa_backup_codes s)\<rparr>"
    by blast
  have "\<forall>x \<in> set (tb_mfa_backup_codes s'). bc_id x = bc_id r \<longrightarrow> bc_used x"
    by (auto simp: r(3) set_upd_where)
  then show thesis using that [OF u(1) _ _ _ r(2)] r(1) by simp
qed

lemma verifyMFA_ok:
  assumes "verifyMFA e t f (Inr req) s = (Ok st a, s')"
  obtains c tr where "ValidateToken (ae_lib e) (ae_secret e) t (mq_MFAToken req) = Some c" "cl_TokenType c = ''mfa''"
    "tr \<in> set (tb_mfa_totp s)" "ae_cast_uuid e (cl_UserID c) = Some (tt_user_id tr)"
    "ae_totp e t (mq_Code req) (tt_secret tr) \<or> tryBackupCode e (\<lambda>n. f (n + 2)) (cl_UserID c) (mq_Code req) s = (True, s')"
  using assms
  by (auto simp: verifyMFA_def Let_def split: option.splits if_splits prod.splits bind_splits dest!: find_SomeD)

lemma login_answer:
  assumes "login e t f (Inr req) s = (Ok st a, s')" "find (\<lambda>u. u_username u = lq_Username req) (tb_users s) = Some u"
  shows "login_tokens e t u = Ok st a \<and> u_is_active u \<and> \<not> is_locked t u \<and> (\<exists>h. u_password_hash u = Some h \<and> ae_check e h (lq_Password req))"
  using assms by (auto simp: login_def split: if_splits option.splits)

lemma mfa_token_refused:
  assumes "\<And>t' c'. ValidateToken (ae_lib e) (ae_secret e) t' tok = Some c' \<Longrightarrow> cl_TokenType c' = ''mfa''"
  shows "\<exists>code msg. JWTMiddleware (ae_lib e) (ae_sha256 e) (ae_secret e) (ae_bl e) t fails (''Bearer '' @ tok) s = Inl (code, msg)"
    and "\<exists>code msg. refreshToken e t g (''Bearer '' @ tok) s = (Err code msg, s)"
proof -
  have h: "cut_prefix ''Bearer '' (''Bearer '' @ tok) = Some tok" by simp
  show "\<exists>code msg. JWTMiddleware (ae_lib e) (ae_sha256 e) (ae_secret e) (ae_bl e) t fails (''Bearer '' @ tok) s = Inl (code, msg)"
    unfolding JWTMiddleware_def h using assms [of t] by (simp split: option.split)
  show "\<exists>code msg. refreshToken e t g (''Bearer '' @ tok) s = (Err code msg, s)"
    unfolding refreshToken_def refresh_header_def h using assms [of t]
    by (auto split: option.split bool.split)
qed

text \<open>
  C8. With a second factor a password alone opens nothing: the login of such a user yields no
  session token but one for the second step, which neither the API nor the refresh endpoint ever
  accepts. The second step succeeds only with such a token and with either the current code of
  the user's authenticator or an unused backup code of the same user, which is used up by it.
\<close>

theorem second_factor_required:
  assumes sign: "\<And>c tok t' c'. jw_sign (ae_lib e) (ae_secret e) c = Some tok \<Longrightarrow>
      jw_parse (ae_lib e) (ae_secret e) t' tok = Some c' \<Longrightarrow> c' = c"
    and log: "login e t f (Inr req) s = (Ok st a, s')" "find (\<lambda>u. u_username u = lq_Username req) (tb_users s) = Some u" "u_mfa_enabled u"
    and ver: "verifyMFA e t2 f2 (Inr mq) s2 = (Ok st2 a2, s3)"
  shows "lr_Token a = [] \<and> lr_MFARequired a \<and>
    (\<exists>code msg. JWTMiddleware (ae_lib e) (ae_sha256 e) (ae_secret e) (ae_bl e) t1 fails (''Bearer '' @ lr_MFAToken a) s1 = Inl (code, msg)) \<and>
    (\<exists>code msg. refreshToken e t1 g (''Bearer '' @ lr_MFAToken a) s1 = (Err code msg, s1)) \<and>
    (\<exists>c tr. ValidateToken (ae_lib e) (ae_secret e) t2 (mq_MFAToken mq) = Some c \<and> cl_TokenType c = ''mfa'' \<and>
       tr \<in> set (tb_mfa_totp s2) \<and> ae_cast_uuid e (cl_UserID c) = Some (tt_user_id tr) \<and>
       (ae_totp e t2 (mq_Code mq) (tt_secret tr) \<or>
        (\<exists>r \<in> set (tb_mfa_backup_codes s2). bc_user_id r = tt_user_id tr \<and> \<not> bc_used r \<and> ae_check e (bc_code_hash r) (mq_Code mq) \<and>
           (\<forall>x \<in> set (tb_mfa_backup_codes s3). bc_id x = bc_id r \<longrightarrow> bc_used x))))"
proof -
  have lt: "login_tokens e t u = Ok st a" using login_answer [OF log(1,2)] by simp
  then obtain c where c: "jw_sign (ae_lib e) (ae_secret e) c = Some (lr_MFAToken a)" "cl_TokenType c = ''mfa''"
    "lr_Token a = []" "lr_MFARequired a"
    using log(3) by (auto simp: login_tokens_def GenerateToken_def Let_def session_claims_def split: option.splits)
  then have refused: "cl_TokenType c' = ''mfa''" if "ValidateToken (ae_lib e) (ae_secret e) t' (lr_MFAToken a) = Some c'" for t' c'
    using that sign [OF c(1), of t' c'] by (simp add: ValidateToken_def)
  obtain c2 tr where v: "ValidateToken (ae_lib e) (ae_secret e) t2 (mq_MFAToken mq) = Some c2" "cl_TokenType c2 = ''mfa''"
    "tr \<in> set (tb_mfa_totp s2)" "ae_cast_uuid e (cl_UserID c2) = Some (tt_user_id tr)"
    "ae_totp e t2 (mq_Code mq) (tt_secret tr) \<or> tryBackupCode e (\<lambda>n. f2 (n + 2)) (cl_UserID c2) (mq_Code mq) s2 = (True, s3)"
    using verifyMFA_ok [OF ver] .
  have "ae_totp e t2 (mq_Code mq) (tt_secret tr) \<or>
      (\<exists>r \<in> set (tb_mfa_backup_codes s2). bc_user_id r = tt_user_id tr \<and> \<not> bc_used r \<and> ae_check e (bc_code_hash r) (mq_Code mq) \<and>
         (\<forall>x \<in> set (tb_mfa_backup_codes s3). bc_id x = bc_id r \<longrightarrow> bc_used x))"
    using v(4,5) by (auto elim!: tryBackupCodeD)
  moreover have "\<exists>code msg. JWTMiddleware (ae_lib e) (ae_sha256 e) (ae_secret e) (ae_bl e) t1 fails (''Bearer '' @ lr_MFAToken a) s1 = Inl (code, msg)"
    "\<exists>code msg. refreshToken e t1 g (''Bearer '' @ lr_MFAToken a) s1 = (Err code msg, s1)"
    by (rule mfa_token_refused, rule refused, assumption)+
  ultimately show ?thesis using c(3,4) v(1-4) by blast
qed

text \<open>The first user with a second factor, and the two tokens of a login.\<close>

definition mfa_db :: db where
  "mfa_db = sample_db\<lparr>tb_users := [(sample_user ''u1'' False)\<lparr>u_mfa_enabled := True\<rparr>],
     tb_mfa_totp := [\<lparr>tt_user_id = ''u1'', tt_secret = ''123456'', tt_verified = True\<rparr>]\<rparr>"

definition mfa_env :: auth_env where
  "mfa_env = sample_env
     [(''mfa-token'', (session_claims ''u1'' ''u1-name'' ''u1@example.org'' False)\<lparr>cl_TokenType := ''mfa'', cl_ExpiresAt := Some (minutes 10),
         cl_IssuedAt := Some 0\<rparr>),
      (''session-token'', (session_claims ''u1'' ''u1-name'' ''u1@example.org'' False)\<lparr>cl_ExpiresAt := Some (1 + hours 24), cl_IssuedAt := Some 1\<rparr>)]"

lemma mfa_tables:
  "tb_users mfa_db = [(sample_user ''u1'' False)\<lparr>u_mfa_enabled := True\<rparr>]"
  "tb_mfa_totp mfa_db = [\<lparr>tt_user_id = ''u1'', tt_secret = ''123456'', tt_verified = True\<rparr>]"
  by (simp_all add: mfa_db_def)

theorem second_factor_required_witness:
  "\<exists>a s' a2 s3. login mfa_env 0 (\<lambda>_. False) (Inr \<lparr>lq_Username = ''u1-name'', lq_Password = ''u1''\<rparr>) mfa_db = (Ok 200 a, s') \<and> lr_Token a = [] \<and>
     verifyMFA mfa_env 1 (\<lambda>_. False) (Inr \<lparr>mq_MFAToken = ''mfa-token'', mq_Code = ''123456'', mq_Method = ''totp''\<rparr>) mfa_db = (Ok 200 a2, s3)"
proof -
  let ?u = "(sample_user ''u1'' False)\<lparr>u_mfa_enabled := True\<rparr>"
  have sign: "c' = c" if "jw_sign (ae_lib mfa_env) (ae_secret mfa_env) c = Some tok" "jw_parse (ae_lib mfa_env) (ae_secret mfa_env) t tok = Some c'" for c tok t c'
    using that by (auto simp: mfa_env_def sample_env_def split: if_splits bind_splits)
  obtain a s' where l: "login mfa_env 0 (\<lambda>_. False) (Inr \<lparr>lq_Username = ''u1-name'', lq_Password = ''u1''\<rparr>) mfa_db = (Ok 200 a, s')"
    by (simp add: login_def login_tokens_def is_locked_def mfa_tables sample_user_def mfa_env_def sample_env_def GenerateToken_def session_claims_def)
  obtain a2 s3 where v: "verifyMFA mfa_env 1 (\<lambda>_. False) (Inr \<lparr>mq_MFAToken = ''mfa-token'', mq_Code = ''123456'', mq_Method = ''totp''\<rparr>) mfa_db
      = (Ok 200 a2, s3)"
    by (simp add: verifyMFA_def ValidateToken_def mfa_tables sample_user_def mfa_env_def sample_env_def GenerateToken_def session_claims_def)
  have "find (\<lambda>u. u_username u = lq_Username \<lparr>lq_Username = ''u1-name'', lq_Password = ''u1''\<rparr>) (tb_users mfa_db) = Some ?u" "u_mfa_enabled ?u"
    by (simp_all add: mfa_tables sample_user_def)
  then have "lr_Token a = []"
    by (intro conjunct1 [OF second_factor_required [OF _ l _ _ v]]) (rule sign, assumption+)
  then show ?thesis using l v by blast
qed

section \<open>Lockout\<close>

text \<open>One user's attempts, each an instant and a password.\<close>

fun login_run :: "auth_env \<Rightarrow> string \<Rightarrow> (time \<times> string) list \<Rightarrow> db \<Rightarrow> loginResponse resp list" where
  "login_run e name [] s = []"
| "login_run e name ((t, pw) # as) s =
     (let (r, s') = login e t (\<lambda>_. False) (Inr \<lparr>lq_Username = name, lq_Password = pw\<rparr>) s in r # login_run e name as s')"

abbreviation guess_compared :: "loginResponse resp \<Rightarrow> bool" where
  "guess_compared r \<equiv> r = Err 401 ''invalid credentials''"

text \<open>The row of the user, which attempts change only in its counter and lock.\<close>

definition account :: "string \<Rightarrow> string \<Rightarrow> int \<Rightarrow> time option \<Rightarrow> db \<Rightarrow> bool" where
  "account name h n l s \<longleftrightarrow> users_ok s \<and> (\<exists>u. find (\<lambda>u. u_username u = name) (tb_users s) = Some u \<and> u_password_hash u = Some h \<and>
     u_is_active u \<and> u_failed_login_attempts u = n \<and> u_locked_until u = l)"

lemma set_lock_account:
  assumes "account name h n l s" "find (\<lambda>u. u_username u = name) (tb_users s) = Some u"
  shows "account name h n' l' (set_lock (u_id u) n' l' s)"
proof -
  have "users_ok (set_lock (u_id u) n' l' s)"
    using assms(1) unfolding account_def users_ok_def set_lock_def
    by (simp add: map_upd_where_frame)
  moreover have "find (\<lambda>u. u_username u = name) (tb_users (set_lock (u_id u) n' l' s)) =
      Some (u\<lparr>u_failed_login_attempts := n', u_locked_until := l'\<rparr>)"
    using assms(2) by (simp add: set_lock_def find_upd_where)
  ultimately show ?thesis using assms by (auto simp: account_def)
qed

lemma wrong_login:
  assumes "account name h n l s" "name \<noteq> []" "pw \<noteq> []" "\<not> ae_check e h pw" "int4_range (n + 1)"
    and "login e t (\<lambda>_. False) (Inr \<lparr>lq_Username = name, lq_Password = pw\<rparr>) s = (r, s')"
  shows "(case l of Some x \<Rightarrow> t < x | None \<Rightarrow> False) \<and> \<not> guess_compared r \<and> s' = s \<or>
    \<not> (case l of Some x \<Rightarrow> t < x | None \<Rightarrow> False) \<and> guess_compared r \<and> account name h (n + 1) (if n + 1 \<ge> 5 then Some (t + minutes 15) else l) s'"
proof -
  obtain u where u: "find (\<lambda>u. u_username u = name) (tb_users s) = Some u" "u_password_hash u = Some h" "u_is_active u"
    "u_failed_login_attempts u = n" "u_locked_until u = l"
    using assms(1) by (auto simp: account_def)
  note upd = set_lock_account [OF assms(1) u(1)]
  show ?thesis
    using assms(2-6) u upd by (auto simp: login_def is_locked_def count_failed_login_def split: option.splits if_splits)
qed

lemma locked_run:
  assumes "account name h n (Some x) s" "name \<noteq> []" "\<forall>(t, pw) \<in> set as. t < x \<and> pw \<noteq> [] \<and> \<not> ae_check e h pw" "int4_range (n + 1)"
  shows "filter guess_compared (login_run e name as s) = []"
  using assms(1,3)
proof (induction as arbitrary: s)
  case (Cons a as)
  obtain t pw where a: "a = (t, pw)" by force
  obtain r s' where l: "login e t (\<lambda>_. False) (Inr \<lparr>lq_Username = name, lq_Password = pw\<rparr>) s = (r, s')" by force
  have "\<not> guess_compared r \<and> s' = s"
    using wrong_login [OF Cons.prems(1) assms(2) _ _ assms(4) l] Cons.prems(2) by (simp add: a)
  then show ?case using Cons by (simp add: a l)
qed simp

lemma guesses_bounded:
  assumes "name \<noteq> []" "0 \<le> n" "int4_range (n + 6)"
    and "\<forall>(t, pw) \<in> set as. t0 \<le> t \<and> t < t0 + minutes 15 \<and> pw \<noteq> [] \<and> \<not> ae_check e h pw"
    and "account name h n l s"
  shows "length (filter guess_compared (login_run e name as s)) \<le> max 1 (nat (5 - n))"
  using assms(2-5)
proof (induction as arbitrary: s n l)
  case (Cons a as)
  obtain t pw where a: "a = (t, pw)" by force
  obtain r s' where l: "login e t (\<lambda>_. False) (Inr \<lparr>lq_Username = name, lq_Password = pw\<rparr>) s = (r, s')" by force
  have i: "int4_range (n + 1)" "int4_range (n + 1 + 1)" using Cons.prems(1,2) by (auto simp: int4_range_def)
  have pw: "pw \<noteq> []" "\<not> ae_check e h pw" "t0 \<le> t" using Cons.prems(3) by (auto simp: a)
  have rest: "\<forall>(t, pw) \<in> set as. t0 \<le> t \<and> t < t0 + minutes 15 \<and> pw \<noteq> [] \<and> \<not> ae_check e h pw" using Cons.prems(3) by simp
  from wrong_login [OF Cons.prems(4) assms(1) pw(1,2) i(1) l] consider
    (locked) "\<not> guess_compared r" "s' = s"
    | (counted) "guess_compared r" "account name h (n + 1) (if n + 1 \<ge> 5 then Some (t + minutes 15) else l) s'" by blast
  then show ?case
  proof cases
    case locked
    then show ?thesis using Cons.IH [OF Cons.prems(1,2) rest Cons.prems(4)] by (simp add: a l)
  next
    case counted
    show ?thesis
    proof (cases "n + 1 \<ge> 5")
      case True
      then have "account name h (n + 1) (Some (t + minutes 15)) s'" using counted(2) by simp
      from locked_run [OF this assms(1) _ i(2), of as e] rest pw(3)
      have "filter guess_compared (login_run e name as s') = []" by fastforce
      then show ?thesis using counted(1) by (simp add: a l)
    next
      case False
      have "length (filter guess_compared (login_run e name as s')) \<le> max 1 (nat (5 - (n + 1)))"
        using Cons.IH [OF _ _ rest, of "n + 1"] counted(2) Cons.prems(1,2) False by (auto simp: int4_range_def)
      then show ?thesis using counted(1) False by (simp add: a l)
    qed
  qed
qed simp

text \<open>
  C11. The lockout bounds guessing: of any number of wrong passwords tried one after the other for an
  account within a quarter of an hour, at most five are compared with its hash, and only one if
  the account was locked before, since the counter survives the lock. The others are refused.
\<close>

theorem login_lockout:
  assumes "users_ok s" "u \<in> set (tb_users s)" "u_username u \<noteq> []" "u_password_hash u = Some h" "u_is_active u"
    and "0 \<le> u_failed_login_attempts u" "int4_range (u_failed_login_attempts u + 6)"
    and "\<forall>(t, pw) \<in> set as. t0 \<le> t \<and> t < t0 + minutes 15 \<and> pw \<noteq> [] \<and> \<not> ae_check e h pw"
  shows "length (filter (\<lambda>r. r = Err 401 ''invalid credentials'') (login_run e (u_username u) as s)) \<le>
    (if 5 \<le> u_failed_login_attempts u then 1 else 5)"
proof -
  have "find (\<lambda>x. u_username x = u_username u) (tb_users s) = Some u"
    using assms(1,2) find_unique_key [of u_username "tb_users s" u] by (simp add: users_ok_def)
  then have "account (u_username u) h (u_failed_login_attempts u) (u_locked_until u) s"
    using assms(1,4,5) by (auto simp: account_def)
  from guesses_bounded [OF assms(3,6,7,8) this] assms(6) show ?thesis by auto
qed

theorem login_lockout_witness:
  "length (filter (\<lambda>r. r = Err 401 ''invalid credentials'') (login_run (sample_env [(''tok'', sample_token_claims)]) ''u1-name''
     (map (\<lambda>k. (int k, ''guess'')) [0..<100]) sample_db)) \<le> 5"
proof -
  have "users_ok sample_db" using sample_db_ok by (simp add: db_ok_def)
  then show ?thesis
    using login_lockout [of sample_db "sample_user ''u1'' False" "''hash-u1''" "map (\<lambda>k. (int k, ''guess'')) [0..<100]" 0
        "sample_env [(''tok'', sample_token_claims)]"]
    by (auto simp: sample_tables sample_user_def sample_env_def int4_range_def)
qed

end
