(* ===== verification/Rate_Limiter.thy ===== *)
theory Rate_Limiter
  imports Go_Std
begin

text \<open>
  The limiter of the authentication endpoints (\<^verbatim>\<open>internal/core/server.go\<close>): a list of
  request times per client address in memory, or counters in Redis when several instances of the
  control plane share them. The decisions in memory are those of a reference that remembers every
  request it let through, however often the clean-up runs.
\<close>

section \<open>The limiter in memory\<close>

text \<open>
  The two commands of the Redis client that are used, at a moment and on a state of the server;
  \<open>None\<close> is an error of the first, and a failure of the second goes unnoticed.
\<close>

record 'r counter_client =
  cc_Incr :: "time \<Rightarrow> string \<Rightarrow> 'r \<Rightarrow> int option \<times> 'r"
  cc_Expire :: "time \<Rightarrow> string \<Rightarrow> duration \<Rightarrow> 'r \<Rightarrow> 'r"

record 'r ipRateLimiter =
  rl_attempts :: "string \<rightharpoonup> time list"
  rl_limit :: int
  rl_window :: duration
  rl_rdb :: "'r counter_client option"

definition newIPRateLimiter :: "int \<Rightarrow> duration \<Rightarrow> 'r counter_client option \<Rightarrow> 'r ipRateLimiter" where
  "newIPRateLimiter limit window rdb = \<lparr>rl_attempts = Map.empty, rl_limit = limit, rl_window = window, rl_rdb = rdb\<rparr>"

definition rl_valid :: "time \<Rightarrow> duration \<Rightarrow> time list \<Rightarrow> time list" where
  "rl_valid now window attempts = filter (\<lambda>t. now - window < t) attempts"

text \<open>
  One tick of the clean-up, which only runs without a Redis client; the loop over the map treats
  each address on its own.
\<close>

definition cleanup_tick :: "time \<Rightarrow> 'r ipRateLimiter \<Rightarrow> 'r ipRateLimiter" where
  "cleanup_tick now rl =
     (if rl_rdb rl \<noteq> None then rl
      else rl\<lparr>rl_attempts := (\<lambda>ip.
        case rl_attempts rl ip of None \<Rightarrow> None
        | Some attempts \<Rightarrow>
            let valid = rl_valid now (rl_window rl) attempts in if valid = [] then None else Some valid)\<rparr>)"

definition allow_memory :: "time \<Rightarrow> string \<Rightarrow> 'r ipRateLimiter \<Rightarrow> bool \<times> 'r ipRateLimiter" where
  "allow_memory now ip rl =
     (let attempts = (case rl_attempts rl ip of None \<Rightarrow> [] | Some ts \<Rightarrow> ts);
          valid = rl_valid now (rl_window rl) attempts;
          m = (if valid = [] \<and> attempts \<noteq> [] then (rl_attempts rl)(ip := None) else rl_attempts rl)
      in if rl_limit rl \<le> int (length valid)
         then (False, rl\<lparr>rl_attempts := m(ip \<mapsto> valid)\<rparr>)
         else (True, rl\<lparr>rl_attempts := m(ip \<mapsto> valid @ [now])\<rparr>))"

section \<open>The limiter in Redis\<close>

definition redis_key :: "string \<Rightarrow> string" where
  "redis_key ip = ''ratelimit:'' @ ip"

definition allowRedis :: "'r counter_client \<Rightarrow> int \<Rightarrow> duration \<Rightarrow> time \<Rightarrow> string \<Rightarrow> 'r \<Rightarrow> bool \<times> 'r" where
  "allowRedis rdb limit window now ip r =
     (let key = redis_key ip in
      case cc_Incr rdb now key r of
        (None, r') \<Rightarrow> (True, r')
      | (Some count, r') \<Rightarrow>
          (count \<le> limit, if count = 1 then cc_Expire rdb now key window r' else r'))"

text \<open>With a client the counters decide and the memory stays empty; without one the server is not asked.\<close>

definition allow :: "time \<Rightarrow> string \<Rightarrow> 'r ipRateLimiter \<Rightarrow> 'r \<Rightarrow> bool \<times> 'r ipRateLimiter \<times> 'r" where
  "allow now ip rl r =
     (case rl_rdb rl of
        Some rdb \<Rightarrow> (case allowRedis rdb (rl_limit rl) (rl_window rl) now ip r of (ok, r') \<Rightarrow> (ok, rl, r'))
      | None \<Rightarrow> (case allow_memory now ip rl of (ok, rl') \<Rightarrow> (ok, rl', r)))"

section \<open>The address of a request\<close>

text \<open>
  \<^verbatim>\<open>net.SplitHostPort\<close>: the port follows the last colon; a host with a colon stands in
  brackets, which occur nowhere else. \<open>None\<close> is any of its errors.
\<close>

fun cut_last :: "char \<Rightarrow> string \<Rightarrow> (string \<times> string) option" where
  "cut_last c [] = None"
| "cut_last c (x # xs) = (case cut_last c xs of
     Some (a, b) \<Rightarrow> Some (x # a, b)
   | None \<Rightarrow> if x = c then Some ([], xs) else None)"

definition split_host_port :: "string \<Rightarrow> (string \<times> string) option" where
  "split_host_port s =
     (case cut_last CHR '':'' s of None \<Rightarrow> None
      | Some (a, port) \<Rightarrow>
          if hd s = CHR ''[''
          then (if CHR '']'' \<notin> set s then None
                else let h = takeWhile (\<lambda>c. c \<noteq> CHR '']'') (tl s) in
                     if a \<noteq> CHR ''['' # h @ '']'' \<or> CHR ''['' \<in> set (h @ port) \<or> CHR '']'' \<in> set port then None
                     else Some (h, port))
          else if CHR '':'' \<in> set a \<or> CHR ''['' \<in> set s \<or> CHR '']'' \<in> set s then None
          else Some (a, port))"

definition client_ip :: "string \<Rightarrow> string" where
  "client_ip remoteAddr = (case split_host_port remoteAddr of None \<Rightarrow> remoteAddr | Some (h, _) \<Rightarrow> h)"

text \<open>The middleware: the answer when the request is not passed on.\<close>

definition rateLimitMiddleware :: "time \<Rightarrow> string \<Rightarrow> 'r ipRateLimiter \<Rightarrow> 'r \<Rightarrow> (nat \<times> string) option \<times> 'r ipRateLimiter \<times> 'r" where
  "rateLimitMiddleware now remoteAddr rl r =
     (case allow now (client_ip remoteAddr) rl r of
        (False, rl', r') \<Rightarrow> (Some (429, ''too many requests''), rl', r')
      | (True, rl', r') \<Rightarrow> (None, rl', r'))"

section \<open>A reference for the decisions\<close>

datatype rl_event = Request time string | Tick time

fun event_time :: "rl_event \<Rightarrow> time" where
  "event_time (Request t ip) = t"
| "event_time (Tick t) = t"

fun rl_run :: "rl_event list \<Rightarrow> 'r ipRateLimiter \<Rightarrow> 'r \<Rightarrow> bool list" where
  "rl_run [] rl r = []"
| "rl_run (Request t ip # es) rl r = (case allow t ip rl r of (ok, rl', r') \<Rightarrow> ok # rl_run es rl' r')"
| "rl_run (Tick t # es) rl r = rl_run es (cleanup_tick t rl) r"

definition recent :: "duration \<Rightarrow> time \<Rightarrow> string \<Rightarrow> (time \<times> string) list \<Rightarrow> nat" where
  "recent window now ip log = length (filter (\<lambda>(t, a). a = ip \<and> now - window < t) log)"

text \<open>The log holds every request that was let through, with its time.\<close>

fun rl_spec :: "int \<Rightarrow> duration \<Rightarrow> rl_event list \<Rightarrow> (time \<times> string) list \<Rightarrow> bool list \<times> (time \<times> string) list" where
  "rl_spec limit window [] log = ([], log)"
| "rl_spec limit window (Tick t # es) log = rl_spec limit window es log"
| "rl_spec limit window (Request t ip # es) log =
     (let ok = int (recent window t ip log) < limit;
          (oks, log') = rl_spec limit window es (if ok then log @ [(t, ip)] else log)
      in (ok # oks, log'))"

definition attempts_of :: "'r ipRateLimiter \<Rightarrow> string \<Rightarrow> time list" where
  "attempts_of rl ip = (case rl_attempts rl ip of None \<Rightarrow> [] | Some ts \<Rightarrow> ts)"

definition rl_log :: "time \<Rightarrow> (time \<times> string) list \<Rightarrow> 'r ipRateLimiter \<Rightarrow> bool" where
  "rl_log now log rl \<longleftrightarrow> (\<forall>ip. rl_valid now (rl_window rl) (attempts_of rl ip) =
     map fst (filter (\<lambda>(t, a). a = ip \<and> now - rl_window rl < t) log))"

lemma rl_valid_later: "t \<le> now \<Longrightarrow> rl_valid now w (rl_valid t w ts) = rl_valid now w ts"
  by (auto simp: rl_valid_def intro!: filter_cong)

lemma rl_valid_append: "rl_valid now w (a @ b) = rl_valid now w a @ rl_valid now w b"
  by (simp add: rl_valid_def)

lemma attempts_of_allow: "allow_memory now ip rl = (ok, rl') \<Longrightarrow>
  attempts_of rl' a = (if a = ip then rl_valid now (rl_window rl) (attempts_of rl ip) @ (if ok then [now] else []) else attempts_of rl a)"
  by (auto simp: allow_memory_def Let_def attempts_of_def split: if_splits)

lemma attempts_of_tick: "rl_rdb rl = None \<Longrightarrow> attempts_of (cleanup_tick now rl) a = rl_valid now (rl_window rl) (attempts_of rl a)"
  by (auto simp: cleanup_tick_def attempts_of_def Let_def rl_valid_def split: option.splits)

lemma allow_frame: "allow_memory now ip rl = (ok, rl') \<Longrightarrow> rl_window rl' = rl_window rl \<and> rl_limit rl' = rl_limit rl \<and> rl_rdb rl' = rl_rdb rl"
  by (auto simp: allow_memory_def Let_def split: if_splits)

lemma cleanup_frame [simp]:
  "rl_window (cleanup_tick now rl) = rl_window rl" "rl_limit (cleanup_tick now rl) = rl_limit rl" "rl_rdb (cleanup_tick now rl) = rl_rdb rl"
  by (simp_all add: cleanup_tick_def)

lemma rl_log_later:
  assumes "rl_log t log rl" "t \<le> now"
  shows "rl_log now log rl"
  unfolding rl_log_def
proof
  fix ip
  have "rl_valid now (rl_window rl) (attempts_of rl ip) = rl_valid now (rl_window rl) (rl_valid t (rl_window rl) (attempts_of rl ip))"
    using assms(2) by (simp add: rl_valid_later)
  also have "\<dots> = rl_valid now (rl_window rl) (map fst (filter (\<lambda>(t', a). a = ip \<and> t - rl_window rl < t') log))"
    using assms(1) by (simp add: rl_log_def)
  also have "\<dots> = map fst (filter (\<lambda>(t', a). a = ip \<and> now - rl_window rl < t') log)"
    using assms(2) by (auto simp: rl_valid_def filter_map intro!: arg_cong [of _ _ "map fst"] filter_cong)
  finally show "rl_valid now (rl_window rl) (attempts_of rl ip) = map fst (filter (\<lambda>(t', a). a = ip \<and> now - rl_window rl < t') log)" .
qed

lemma recent_log: "rl_log now log rl \<Longrightarrow>
  length (rl_valid now (rl_window rl) (attempts_of rl ip)) = recent (rl_window rl) now ip log"
  by (simp add: rl_log_def recent_def)

lemma allow_decision: "rl_log now log rl \<Longrightarrow> fst (allow_memory now ip rl) \<longleftrightarrow> int (recent (rl_window rl) now ip log) < rl_limit rl"
  using recent_log [of now log rl ip] by (auto simp: allow_memory_def Let_def attempts_of_def)

lemma rl_log_allow:
  assumes "rl_log now log rl" "allow_memory now ip rl = (ok, rl')"
  shows "rl_log now (if ok then log @ [(now, ip)] else log) rl'"
  using assms(1) attempts_of_allow [OF assms(2)] allow_frame [OF assms(2)]
  by (auto simp: rl_log_def rl_valid_append rl_valid_later) (auto simp: rl_valid_def)

lemma rl_log_tick:
  assumes "rl_rdb rl = None" "rl_log now log rl"
  shows "rl_log now log (cleanup_tick now rl)"
proof -
  have "rl_valid now (rl_window rl) (attempts_of (cleanup_tick now rl) ip) = rl_valid now (rl_window rl) (attempts_of rl ip)" for ip
    using assms(1) by (simp add: attempts_of_tick rl_valid_later)
  then show ?thesis using assms(2) by (simp add: rl_log_def)
qed

lemma rl_run_spec:
  "sorted (map event_time es) \<Longrightarrow> (\<And>e. e \<in> set es \<Longrightarrow> now \<le> event_time e) \<Longrightarrow> rl_log now log rl \<Longrightarrow> rl_rdb rl = None \<Longrightarrow>
   rl_run es rl r = fst (rl_spec (rl_limit rl) (rl_window rl) es log)"
proof (induction es arbitrary: now log rl)
  case (Cons e es)
  have later: "rl_log (event_time e) log rl" using rl_log_later [OF Cons.prems(3)] Cons.prems(2) [of e] by simp
  have IH: "rl_run es rl' r = fst (rl_spec (rl_limit rl') (rl_window rl') es log')"
    if "rl_log (event_time e) log' rl'" "rl_rdb rl' = None" for log' rl'
    using Cons.IH [OF _ _ that] Cons.prems(1) by simp
  show ?case
  proof (cases e)
    case (Request t ip)
    obtain ok rl' where a: "allow_memory t ip rl = (ok, rl')" by fastforce
    show ?thesis
      using IH [of _ rl'] rl_log_allow [OF later [unfolded Request event_time.simps] a] a
        allow_decision [OF later [unfolded Request event_time.simps], of ip] allow_frame [OF a]
        Cons.prems(4) by (auto simp: Request allow_def split: prod.splits)
  next
    case (Tick t)
    then show ?thesis using IH [OF rl_log_tick [OF Cons.prems(4) later]] Cons.prems(4) by simp
  qed
qed simp

text \<open>What the limiter let through.\<close>

fun let_through :: "rl_event list \<Rightarrow> bool list \<Rightarrow> (time \<times> string) list" where
  "let_through (Tick t # es) oks = let_through es oks"
| "let_through (Request t ip # es) (ok # oks) = (if ok then [(t, ip)] else []) @ let_through es oks"
| "let_through _ _ = []"

lemma let_through_spec: "log @ let_through es (fst (rl_spec limit window es log)) = snd (rl_spec limit window es log)"
proof (induction es arbitrary: log)
  case (Cons e es)
  show ?case
  proof (cases e)
    case (Request t ip)
    then show ?thesis using Cons.IH [of log] Cons.IH [of "log @ [(t, ip)]"] by (simp add: Let_def case_prod_beta)
  next
    case (Tick t)
    then show ?thesis using Cons.IH [of log] by simp
  qed
qed simp

definition in_window :: "duration \<Rightarrow> time \<Rightarrow> string \<Rightarrow> (time \<times> string) list \<Rightarrow> nat" where
  "in_window window now ip log = length (filter (\<lambda>(t, a). a = ip \<and> now - window < t \<and> t \<le> now) log)"

lemma length_filter_mono: "(\<And>x. x \<in> set xs \<Longrightarrow> p x \<Longrightarrow> q x) \<Longrightarrow> length (filter p xs) \<le> length (filter q xs)"
  by (induction xs) (auto simp: le_Suc_eq)

lemma in_window_append:
  assumes "\<forall>T. int (in_window w T a log) \<le> limit" "int (recent w t ip log) < limit" "\<forall>(u, b) \<in> set log. u \<le> t"
  shows "int (in_window w T a (log @ [(t, ip)])) \<le> limit"
proof (cases "a = ip \<and> T - w < t \<and> t \<le> T")
  case True
  have "in_window w T ip log \<le> recent w t ip log"
    using True unfolding in_window_def recent_def
    by (intro length_filter_mono) auto
  then show ?thesis using True assms(2) by (simp add: in_window_def)
next
  case False
  then show ?thesis using assms(1) by (auto simp: in_window_def)
qed

lemma rl_spec_window:
  "sorted (map event_time es) \<Longrightarrow> (\<And>e. e \<in> set es \<Longrightarrow> \<forall>(u, b) \<in> set log. u \<le> event_time e) \<Longrightarrow>
   \<forall>T a. int (in_window w T a log) \<le> limit \<Longrightarrow>
   int (in_window w T a (snd (rl_spec limit w es log))) \<le> limit"
proof (induction es arbitrary: log)
  case (Cons e es)
  show ?case
  proof (cases e)
    case (Request t ip)
    let ?log = "if int (recent w t ip log) < limit then log @ [(t, ip)] else log"
    have "\<forall>T a. int (in_window w T a ?log) \<le> limit"
      using in_window_append [of w _ log limit t ip] Cons.prems(2) [of e] Cons.prems(3) Request by simp
    moreover have "\<forall>(u, b) \<in> set ?log. u \<le> event_time e'" if "e' \<in> set es" for e'
      using Cons.prems(1) Cons.prems(2) [of e'] Request that by auto
    ultimately show ?thesis
      using Cons.IH [of ?log] Cons.prems(1) Request by (simp add: Let_def case_prod_beta)
  next
    case (Tick t)
    then show ?thesis using Cons.IH [of log] Cons.prems by simp
  qed
qed simp

lemma rl_log_new: "rl_log now [] (newIPRateLimiter limit window None)"
  by (simp add: rl_log_def newIPRateLimiter_def attempts_of_def rl_valid_def)

text \<open>
  C13. Without Redis, over any history of requests and clean-ups the limiter decides as if it remembered every
  request it ever let through: a request passes exactly if fewer than \<open>limit\<close> from its address
  passed within the window before it; and so no window, wherever it lies, holds more than
  \<open>limit\<close> of them.
\<close>

theorem rate_limiter_window:
  assumes "sorted (map event_time es)" and "0 \<le> limit"
  shows "rl_run es (newIPRateLimiter limit window None) r = fst (rl_spec limit window es []) \<and>
    int (in_window window T ip (let_through es (rl_run es (newIPRateLimiter limit window None) r))) \<le> limit"
proof -
  obtain now where "\<And>e. e \<in> set es \<Longrightarrow> now \<le> event_time e"
    using assms(1) by (cases es) auto
  then have run: "rl_run es (newIPRateLimiter limit window None) r = fst (rl_spec limit window es [])"
    using rl_run_spec [OF assms(1) _ rl_log_new [of now limit window], of r] by (simp add: newIPRateLimiter_def)
  then show ?thesis
    using rl_spec_window [OF assms(1), of "[]" window limit T ip] assms(2) let_through_spec [of "[]" es limit window]
    by (simp add: in_window_def)
qed

theorem rate_limiter_window_witness:
  "rl_run [Request 0 ''a'', Request 1 ''a'', Tick 2, Request 2 ''b'', Request 3 ''a'', Request 61 ''a''] (newIPRateLimiter 2 60 None) () =
     [True, True, True, False, True] \<and>
   int (in_window 60 61 ''a'' (let_through [Request 0 ''a'', Request 1 ''a'', Tick 2, Request 2 ''b'', Request 3 ''a'', Request 61 ''a'']
     (rl_run [Request 0 ''a'', Request 1 ''a'', Tick 2, Request 2 ''b'', Request 3 ''a'', Request 61 ''a''] (newIPRateLimiter 2 60 None) ()))) \<le> 2"
proof -
  let ?es = "[Request 0 ''a'', Request 1 ''a'', Tick 2, Request 2 ''b'', Request 3 ''a'', Request 61 ''a'']"
  have "fst (rl_spec 2 60 ?es []) = [True, True, True, False, True]" by (simp add: recent_def Let_def)
  moreover have "sorted (map event_time ?es)" by simp
  ultimately show ?thesis using rate_limiter_window [of ?es 2 60 "()" 61 "''a''"] by (metis zero_le_numeral)
qed

section \<open>The counters in Redis\<close>

text \<open>
  What Redis documents of the two commands, over the entries of the server: a counter and the
  moment it expires, if it has one. \<open>INCR\<close> keeps the deadline of a live counter and starts an
  absent or expired one at 1 without a deadline; \<open>EXPIRE\<close> sets a deadline, or is lost.
\<close>

type_synonym redis_entry = "(int \<times> time option) option"

definition live_entry :: "time \<Rightarrow> redis_entry \<Rightarrow> redis_entry" where
  "live_entry now e = (case e of Some (c, Some d) \<Rightarrow> if now < d then e else None | _ \<Rightarrow> e)"

definition incr_entry :: "time \<Rightarrow> redis_entry \<Rightarrow> int \<times> time option" where
  "incr_entry now e = (case live_entry now e of None \<Rightarrow> (1, None) | Some (c, d) \<Rightarrow> (c + 1, d))"

locale redis_counters =
  fixes incr :: "time \<Rightarrow> string \<Rightarrow> 'r \<Rightarrow> int option \<times> 'r"
    and expire :: "time \<Rightarrow> string \<Rightarrow> duration \<Rightarrow> 'r \<Rightarrow> 'r"
    and entry :: "'r \<Rightarrow> string \<Rightarrow> redis_entry"
  assumes incr_count: "incr now k r = (Some c, r') \<Longrightarrow> c = fst (incr_entry now (entry r k))"
    and incr_stored: "incr now k r = (Some c, r') \<Longrightarrow> entry r' k = Some (incr_entry now (entry r k))"
    and expire_deadline: "entry r k = Some (c, d) \<Longrightarrow> \<exists>d'. entry (expire now k w r) k = Some (c, d') \<and> d' \<in> {d, Some (now + w)}"
begin

lemma allowRedis_counts:
  assumes "allowRedis \<lparr>cc_Incr = incr, cc_Expire = expire\<rparr> limit window now ip r = (ok, r')" "fst (incr now (redis_key ip) r) \<noteq> None"
  shows "(ok \<longleftrightarrow> fst (incr_entry now (entry r (redis_key ip))) \<le> limit) \<and>
    (\<exists>d. entry r' (redis_key ip) = Some (fst (incr_entry now (entry r (redis_key ip))), d))"
proof -
  let ?k = "redis_key ip" and ?e = "incr_entry now (entry r (redis_key ip))"
  obtain c r1 where i: "incr now ?k r = (Some c, r1)" using assms(2) by (cases "incr now ?k r") auto
  have e: "entry r1 ?k = Some (fst ?e, snd ?e)" using incr_stored [OF i] by simp
  obtain d where "entry (expire now ?k window r1) ?k = Some (fst ?e, d)"
    using expire_deadline [OF e, of now window] by blast
  then show ?thesis
    using assms(1) i e incr_count [OF i] by (cases "c = 1") (auto simp: allowRedis_def prod_eq_iff)
qed

lemma lost_deadline_blocks:
  assumes "entry r (redis_key ip) = Some (c, None)" "limit \<le> c" "1 \<le> c"
    and "allowRedis \<lparr>cc_Incr = incr, cc_Expire = expire\<rparr> limit window now ip r = (ok, r')" "fst (incr now (redis_key ip) r) \<noteq> None"
  shows "\<not> ok \<and> entry r' (redis_key ip) = Some (c + 1, None)"
proof -
  obtain n r1 where i: "incr now (redis_key ip) r = (Some n, r1)"
    using assms(5) by (cases "incr now (redis_key ip) r") auto
  have "incr_entry now (entry r (redis_key ip)) = (c + 1, None)"
    by (simp add: incr_entry_def live_entry_def assms(1))
  then show ?thesis
    using assms(2-4) i incr_stored [OF i] incr_count [OF i] by (auto simp: allowRedis_def Let_def)
qed

end

text \<open>A server that executes both commands, and one to which every \<open>EXPIRE\<close> is lost.\<close>

definition ref_incr :: "time \<Rightarrow> string \<Rightarrow> (string \<rightharpoonup> int \<times> time option) \<Rightarrow> int option \<times> (string \<rightharpoonup> int \<times> time option)" where
  "ref_incr now k r = (Some (fst (incr_entry now (r k))), r(k \<mapsto> incr_entry now (r k)))"

definition ref_expire :: "time \<Rightarrow> string \<Rightarrow> duration \<Rightarrow> (string \<rightharpoonup> int \<times> time option) \<Rightarrow> (string \<rightharpoonup> int \<times> time option)" where
  "ref_expire now k w r = (case r k of None \<Rightarrow> r | Some (c, _) \<Rightarrow> r(k \<mapsto> (c, Some (now + w))))"

definition lost_expire :: "time \<Rightarrow> string \<Rightarrow> duration \<Rightarrow> (string \<rightharpoonup> int \<times> time option) \<Rightarrow> (string \<rightharpoonup> int \<times> time option)" where
  "lost_expire now k w r = r"

interpretation redis: redis_counters ref_incr ref_expire id
  by unfold_locales (auto simp: ref_incr_def ref_expire_def)

interpretation lossy: redis_counters ref_incr lost_expire id
  by unfold_locales (auto simp: ref_incr_def lost_expire_def)

fun redis_run :: "(time \<Rightarrow> string \<Rightarrow> 'r \<Rightarrow> bool \<times> 'r) \<Rightarrow> (time \<times> string) list \<Rightarrow> 'r \<Rightarrow> bool list" where
  "redis_run step [] r = []"
| "redis_run step ((t, ip) # es) r = (case step t ip r of (ok, r') \<Rightarrow> ok # redis_run step es r')"

lemma ref_incr_answers [simp]: "fst (ref_incr now k r) \<noteq> None"
  by (simp add: ref_incr_def)

text \<open>Once its deadline is lost a counter that has reached the limit refuses an address for ever.\<close>

lemma lost_expire_refuses:
  "r (redis_key ip) = Some (c, None) \<Longrightarrow> limit \<le> c \<Longrightarrow> 1 \<le> c \<Longrightarrow>
   redis_run (allowRedis \<lparr>cc_Incr = ref_incr, cc_Expire = lost_expire\<rparr> limit window) (map (\<lambda>t. (t, ip)) ts) r = map (\<lambda>_. False) ts"
proof (induction ts arbitrary: r c)
  case (Cons t ts)
  obtain ok r' where a: "allowRedis \<lparr>cc_Incr = ref_incr, cc_Expire = lost_expire\<rparr> limit window t ip r = (ok, r')" by fastforce
  from Cons.prems lossy.lost_deadline_blocks [OF _ _ _ a, of c] have "\<not> ok \<and> r' (redis_key ip) = Some (c + 1, None)"
    by simp
  then show ?case using a Cons.IH [of r' "c + 1"] Cons.prems by simp
qed simp

section \<open>The address\<close>

lemma cut_last_None: "c \<notin> set b \<Longrightarrow> cut_last c b = None"
  by (induction b) auto

lemma cut_last_append: "c \<notin> set b \<Longrightarrow> cut_last c (a @ c # b) = Some (a, b)"
  by (induction a) (simp_all add: cut_last_None)

lemma client_ip_v4: "CHR '':'' \<notin> set (h @ p) \<Longrightarrow> CHR ''['' \<notin> set (h @ p) \<Longrightarrow> CHR '']'' \<notin> set (h @ p) \<Longrightarrow>
  client_ip (h @ '':'' @ p) = h"
  by (cases h) (auto simp: client_ip_def split_host_port_def cut_last_append cut_last_None)

lemma client_ip_v6:
  assumes "CHR '':'' \<notin> set p" "CHR ''['' \<notin> set (h @ p)" "CHR '']'' \<notin> set (h @ p)"
  shows "client_ip (''['' @ h @ '']:'' @ p) = h"
proof -
  have "cut_last CHR '':'' (CHR ''['' # h @ CHR '']'' # CHR '':'' # p) = Some (CHR ''['' # h @ '']'', p)"
    using cut_last_append [of "CHR '':''" p "CHR ''['' # h @ '']''"] assms(1) by simp
  moreover have "takeWhile (\<lambda>c. c \<noteq> CHR '']'') (h @ CHR '']'' # CHR '':'' # p) = h"
    using assms(3) by (subst takeWhile_append2) auto
  ultimately show ?thesis
    using assms by (simp add: client_ip_def split_host_port_def Let_def del: cut_last.simps)
qed

end
