(* ===== verification/Sessions.thy ===== *)
theory Sessions
  imports Schema Http_Helpers "HOL-Library.AList"
begin

text \<open>
  Sessions (\<^verbatim>\<open>internal/session\<close>): the \<open>Store\<close> interface with its two implementations, in
  memory and in Redis, and the manager that keeps a session in a store and in the database.

  A store is a record of its operations over a state of any type; every operation takes the
  current time. The laws that the manager relies on are the locale \<open>session_store\<close>; both
  implementations satisfy them, the second over any Redis server with the documented commands.
\<close>

section \<open>Sessions and stores\<close>

record Session =
  ss_ID :: string
  ss_UserID :: string
  ss_IPAddress :: string
  ss_UserAgent :: string
  ss_CreatedAt :: time
  ss_ExpiresAt :: time
  ss_Data :: "(string \<times> json) list"

definition isExpired :: "time \<Rightarrow> Session \<Rightarrow> bool" where
  "isExpired now s \<longleftrightarrow> ss_ExpiresAt s < now"

text \<open>An error of an operation is \<open>False\<close> or \<open>None\<close>; the callers never look at its text.\<close>

record 'st Store =
  so_Create :: "time \<Rightarrow> Session \<Rightarrow> 'st \<Rightarrow> bool \<times> 'st"
  so_Get :: "time \<Rightarrow> string \<Rightarrow> 'st \<Rightarrow> Session option \<times> 'st"
  so_Delete :: "time \<Rightarrow> string \<Rightarrow> 'st \<Rightarrow> bool \<times> 'st"
  so_DeleteByUser :: "time \<Rightarrow> string \<Rightarrow> 'st \<Rightarrow> bool \<times> 'st"
  so_List :: "time \<Rightarrow> string \<Rightarrow> 'st \<Rightarrow> Session list option \<times> 'st"
  so_Touch :: "time \<Rightarrow> string \<Rightarrow> duration \<Rightarrow> 'st \<Rightarrow> bool \<times> 'st"

section \<open>The store in memory\<close>

text \<open>A \<^verbatim>\<open>sync.Map\<close> as an association list; \<open>ord\<close> is the order in which \<open>Range\<close> visits it.\<close>

type_synonym memory_map = "(string \<times> Session) list"

definition Memory_Create :: "time \<Rightarrow> Session \<Rightarrow> memory_map \<Rightarrow> bool \<times> memory_map" where
  "Memory_Create now s m = (True, AList.update (ss_ID s) s m)"

definition Memory_Get :: "time \<Rightarrow> string \<Rightarrow> memory_map \<Rightarrow> Session option \<times> memory_map" where
  "Memory_Get now i m =
     (case map_of m i of None \<Rightarrow> (None, m)
      | Some s \<Rightarrow> if isExpired now s then (None, AList.delete i m) else (Some s, m))"

definition Memory_Delete :: "time \<Rightarrow> string \<Rightarrow> memory_map \<Rightarrow> bool \<times> memory_map" where
  "Memory_Delete now i m = (True, AList.delete i m)"

definition Memory_DeleteByUser :: "time \<Rightarrow> string \<Rightarrow> memory_map \<Rightarrow> bool \<times> memory_map" where
  "Memory_DeleteByUser now userID m = (True, filter (\<lambda>(k, _). map_option ss_UserID (map_of m k) \<noteq> Some userID) m)"

definition Memory_List :: "(memory_map \<Rightarrow> memory_map) \<Rightarrow> time \<Rightarrow> string \<Rightarrow> memory_map \<Rightarrow> Session list option \<times> memory_map" where
  "Memory_List ord now userID m =
     (Some (filter (\<lambda>s. ss_UserID s = userID \<and> now < ss_ExpiresAt s) (map snd (ord m))), m)"

definition Memory_Touch :: "time \<Rightarrow> string \<Rightarrow> duration \<Rightarrow> memory_map \<Rightarrow> bool \<times> memory_map" where
  "Memory_Touch now i ttl m =
     (case map_of m i of None \<Rightarrow> (False, m)
      | Some old \<Rightarrow> (True, AList.update i (old\<lparr>ss_ExpiresAt := now + ttl\<rparr>) m))"

definition MemoryStore :: "(memory_map \<Rightarrow> memory_map) \<Rightarrow> memory_map Store" where
  "MemoryStore ord = \<lparr>so_Create = Memory_Create, so_Get = Memory_Get, so_Delete = Memory_Delete,
     so_DeleteByUser = Memory_DeleteByUser, so_List = Memory_List ord, so_Touch = Memory_Touch\<rparr>"

section \<open>The store in Redis\<close>

text \<open>
  The commands of the client that the store uses, each at a moment on a state of the server, with
  whether it succeeded. A session is stored as its JSON text, which decodes to the same session.
\<close>

record 'r redis_client =
  rd_get :: "time \<Rightarrow> string \<Rightarrow> 'r \<Rightarrow> Session option"
  rd_set :: "time \<Rightarrow> string \<Rightarrow> Session \<Rightarrow> duration \<Rightarrow> 'r \<Rightarrow> bool \<times> 'r"
  rd_del :: "time \<Rightarrow> string list \<Rightarrow> 'r \<Rightarrow> bool \<times> 'r"
  rd_sadd :: "time \<Rightarrow> string \<Rightarrow> string \<Rightarrow> 'r \<Rightarrow> bool \<times> 'r"
  rd_srem :: "time \<Rightarrow> string \<Rightarrow> string \<Rightarrow> 'r \<Rightarrow> bool \<times> 'r"
  rd_smembers :: "time \<Rightarrow> string \<Rightarrow> 'r \<Rightarrow> string list option"
  rd_expire :: "time \<Rightarrow> string \<Rightarrow> duration \<Rightarrow> 'r \<Rightarrow> bool \<times> 'r"

definition redis_session_key :: "string \<Rightarrow> string" where
  "redis_session_key i = ''session:'' @ i"

definition userKey :: "string \<Rightarrow> string" where
  "userKey userID = ''user_sessions:'' @ userID"

text \<open>The three commands of the pipeline are sent together; it fails if one of them does.\<close>

definition Redis_Create :: "'r redis_client \<Rightarrow> time \<Rightarrow> Session \<Rightarrow> 'r \<Rightarrow> bool \<times> 'r" where
  "Redis_Create rc now s r =
     (let ttl = ss_ExpiresAt s - now in
      if ttl \<le> 0 then (False, r)
      else let (ok1, r1) = rd_set rc now (redis_session_key (ss_ID s)) s ttl r;
               (ok2, r2) = rd_sadd rc now (userKey (ss_UserID s)) (ss_ID s) r1;
               (ok3, r3) = rd_expire rc now (userKey (ss_UserID s)) (hours 24) r2
           in (ok1 \<and> ok2 \<and> ok3, r3))"

definition Redis_Get :: "'r redis_client \<Rightarrow> time \<Rightarrow> string \<Rightarrow> 'r \<Rightarrow> Session option \<times> 'r" where
  "Redis_Get rc now i r =
     (case rd_get rc now (redis_session_key i) r of None \<Rightarrow> (None, r)
      | Some s \<Rightarrow> if isExpired now s then (None, snd (rd_del rc now [redis_session_key i] r)) else (Some s, r))"

definition Redis_Delete :: "'r redis_client \<Rightarrow> time \<Rightarrow> string \<Rightarrow> 'r \<Rightarrow> bool \<times> 'r" where
  "Redis_Delete rc now i r =
     (let (s, r1) = Redis_Get rc now i r;
          r2 = (case s of None \<Rightarrow> r1 | Some s \<Rightarrow> snd (rd_srem rc now (userKey (ss_UserID s)) i r1))
      in rd_del rc now [redis_session_key i] r2)"

definition Redis_DeleteByUser :: "'r redis_client \<Rightarrow> time \<Rightarrow> string \<Rightarrow> 'r \<Rightarrow> bool \<times> 'r" where
  "Redis_DeleteByUser rc now userID r =
     (case rd_smembers rc now (userKey userID) r of None \<Rightarrow> (False, r)
      | Some members \<Rightarrow>
          let r1 = (if members = [] then r else snd (rd_del rc now (map redis_session_key members) r))
          in rd_del rc now [userKey userID] r1)"

fun redis_collect :: "'r redis_client \<Rightarrow> time \<Rightarrow> string \<Rightarrow> string list \<Rightarrow> 'r \<Rightarrow> Session list \<times> 'r" where
  "redis_collect rc now userID [] r = ([], r)"
| "redis_collect rc now userID (i # is) r =
     (case Redis_Get rc now i r of
        (None, r1) \<Rightarrow> redis_collect rc now userID is (snd (rd_srem rc now (userKey userID) i r1))
      | (Some s, r1) \<Rightarrow> (let (ss, r2) = redis_collect rc now userID is r1 in (s # ss, r2)))"

definition Redis_List :: "'r redis_client \<Rightarrow> time \<Rightarrow> string \<Rightarrow> 'r \<Rightarrow> Session list option \<times> 'r" where
  "Redis_List rc now userID r =
     (case rd_smembers rc now (userKey userID) r of None \<Rightarrow> (None, r)
      | Some members \<Rightarrow> (let (ss, r1) = redis_collect rc now userID members r in (Some ss, r1)))"

definition Redis_Touch :: "'r redis_client \<Rightarrow> time \<Rightarrow> string \<Rightarrow> duration \<Rightarrow> 'r \<Rightarrow> bool \<times> 'r" where
  "Redis_Touch rc now i ttl r =
     (case Redis_Get rc now i r of
        (None, r1) \<Rightarrow> (False, r1)
      | (Some s, r1) \<Rightarrow> rd_set rc now (redis_session_key i) (s\<lparr>ss_ExpiresAt := now + ttl\<rparr>) ttl r1)"

definition RedisStore :: "'r redis_client \<Rightarrow> 'r Store" where
  "RedisStore rc = \<lparr>so_Create = Redis_Create rc, so_Get = Redis_Get rc, so_Delete = Redis_Delete rc,
     so_DeleteByUser = Redis_DeleteByUser rc, so_List = Redis_List rc, so_Touch = Redis_Touch rc\<rparr>"

section \<open>The manager\<close>

text \<open>
  \<open>cast_uuid\<close> and \<open>inet\<close> are the conversions of the parameters of a statement to the column
  types \<open>uuid\<close> and \<open>inet\<close>, \<open>inet_text\<close> the driver's reading of an \<open>inet\<close> into a string.
\<close>

definition generateSessionID :: "string option \<Rightarrow> string option" where
  "generateSessionID rnd = map_option hex_encode rnd"

definition insert_session :: "(string \<Rightarrow> uuid option) \<Rightarrow> (string \<Rightarrow> string option) \<Rightarrow> bool \<Rightarrow> Session \<Rightarrow> db \<Rightarrow> db" where
  "insert_session cast_uuid inet fails s d =
     (case (cast_uuid (ss_UserID s), inet (ss_IPAddress s)) of
        (Some u, Some ip) \<Rightarrow>
          if fails \<or> u \<notin> u_id ` set (tb_users d) \<or> ss_ID s \<in> se_id ` set (tb_sessions d) then d
          else d\<lparr>tb_sessions := tb_sessions d @ [\<lparr>se_id = ss_ID s, se_user_id = u, se_ip_address = ip,
                  se_user_agent = ss_UserAgent s, se_created_at = ss_CreatedAt s, se_expires_at = ss_ExpiresAt s\<rparr>]\<rparr>
      | _ \<Rightarrow> d)"

definition CreateSession :: "'st Store \<Rightarrow> (string \<Rightarrow> uuid option) \<Rightarrow> (string \<Rightarrow> string option) \<Rightarrow> duration \<Rightarrow> time \<Rightarrow> bool
    \<Rightarrow> string option \<Rightarrow> string \<Rightarrow> string \<Rightarrow> string \<Rightarrow> 'st \<times> db \<Rightarrow> Session option \<times> 'st \<times> db" where
  "CreateSession so cast_uuid inet ttl now fails rnd userID ipAddress userAgent sd =
     (case generateSessionID rnd of None \<Rightarrow> (None, sd)
      | Some i \<Rightarrow>
          let s = \<lparr>ss_ID = i, ss_UserID = userID, ss_IPAddress = ipAddress, ss_UserAgent = userAgent,
                   ss_CreatedAt = now, ss_ExpiresAt = now + ttl, ss_Data = []\<rparr>
          in (case so_Create so now s (fst sd) of
                (False, st) \<Rightarrow> (None, st, snd sd)
              | (True, st) \<Rightarrow> (Some s, st, insert_session cast_uuid inet fails s (snd sd))))"

definition session_of_row :: "(string \<Rightarrow> string option) \<Rightarrow> session_row \<Rightarrow> Session option" where
  "session_of_row inet_text r = map_option (\<lambda>ip.
     \<lparr>ss_ID = se_id r, ss_UserID = se_user_id r, ss_IPAddress = ip, ss_UserAgent = se_user_agent r,
      ss_CreatedAt = se_created_at r, ss_ExpiresAt = se_expires_at r, ss_Data = []\<rparr>) (inet_text (se_ip_address r))"

text \<open>The fallback of \<open>ValidateSession\<close>: the row, if the query finds one that can be read.\<close>

definition session_in_db :: "(string \<Rightarrow> string option) \<Rightarrow> time \<Rightarrow> bool \<Rightarrow> string \<Rightarrow> db \<Rightarrow> Session option" where
  "session_in_db inet_text now fails i d =
     (if fails then None
      else Option.bind (find (\<lambda>r. se_id r = i \<and> now < se_expires_at r) (tb_sessions d)) (session_of_row inet_text))"

definition ValidateSession :: "'st Store \<Rightarrow> (string \<Rightarrow> string option) \<Rightarrow> time \<Rightarrow> bool \<Rightarrow> string \<Rightarrow> 'st \<times> db
    \<Rightarrow> Session option \<times> 'st \<times> db" where
  "ValidateSession so inet_text now fails i sd =
     (case so_Get so now i (fst sd) of
        (Some s, st) \<Rightarrow> (Some s, st, snd sd)
      | (None, st) \<Rightarrow>
          (case session_in_db inet_text now fails i (snd sd) of
             None \<Rightarrow> (None, st, snd sd)
           | Some s \<Rightarrow> (Some s, snd (so_Create so now s st), snd sd)))"

definition RevokeSession :: "'st Store \<Rightarrow> time \<Rightarrow> bool \<Rightarrow> string \<Rightarrow> 'st \<times> db \<Rightarrow> bool \<times> 'st \<times> db" where
  "RevokeSession so now fails i sd =
     (let st = snd (so_Delete so now i (fst sd)) in
      if fails then (False, st, snd sd)
      else (True, st, (snd sd)\<lparr>tb_sessions := del_where (\<lambda>r. se_id r = i) (tb_sessions (snd sd))\<rparr>))"

definition RevokeAllSessions :: "'st Store \<Rightarrow> (string \<Rightarrow> uuid option) \<Rightarrow> time \<Rightarrow> bool \<Rightarrow> string \<Rightarrow> 'st \<times> db \<Rightarrow> bool \<times> 'st \<times> db" where
  "RevokeAllSessions so cast_uuid now fails userID sd =
     (let st = snd (so_DeleteByUser so now userID (fst sd)) in
      case cast_uuid userID of
        Some u \<Rightarrow> if fails then (False, st, snd sd)
          else (True, st, (snd sd)\<lparr>tb_sessions := del_where (\<lambda>r. se_user_id r = u) (tb_sessions (snd sd))\<rparr>)
      | None \<Rightarrow> (False, st, snd sd))"

definition ListSessions :: "(string \<Rightarrow> uuid option) \<Rightarrow> (string \<Rightarrow> string option) \<Rightarrow> time \<Rightarrow> bool \<Rightarrow> string \<Rightarrow> db \<Rightarrow> Session list option" where
  "ListSessions cast_uuid inet_text now fails userID d =
     (case cast_uuid userID of None \<Rightarrow> None
      | Some u \<Rightarrow>
          if fails then None
          else those (map (session_of_row inet_text)
            (sort_key (\<lambda>r. - se_created_at r) (filter (\<lambda>r. se_user_id r = u \<and> now < se_expires_at r) (tb_sessions d)))))"

section \<open>Endpoints\<close>

definition session_list :: "(string \<Rightarrow> uuid option) \<Rightarrow> (string \<Rightarrow> string option) \<Rightarrow> time \<Rightarrow> bool \<Rightarrow> TokenClaims option \<Rightarrow> db
    \<Rightarrow> Session list resp" where
  "session_list cast_uuid inet_text now fails claims d =
     (case claims of None \<Rightarrow> Err 401 ''unauthenticated''
      | Some cl \<Rightarrow>
          (case ListSessions cast_uuid inet_text now fails (cl_UserID cl) d of
             None \<Rightarrow> Err 500 ''failed to list sessions'' | Some ss \<Rightarrow> Ok 200 ss))"

definition session_revoke :: "'st Store \<Rightarrow> (string \<Rightarrow> string option) \<Rightarrow> time \<Rightarrow> (nat \<Rightarrow> bool) \<Rightarrow> TokenClaims option \<Rightarrow> string
    \<Rightarrow> 'st \<times> db \<Rightarrow> unit resp \<times> 'st \<times> db" where
  "session_revoke so inet_text now f claims sessionID sd =
     (case claims of None \<Rightarrow> (Err 401 ''unauthenticated'', sd)
      | Some cl \<Rightarrow>
      if sessionID = [] then (Err 400 ''session ID is required'', sd)
      else (case ValidateSession so inet_text now (f 0) sessionID sd of
        (None, sd1) \<Rightarrow> (Err 404 ''session not found'', sd1)
      | (Some s, sd1) \<Rightarrow>
          if ss_UserID s \<noteq> cl_UserID cl then (Err 403 (''cannot revoke another user'' @ [CHR 0x27] @ ''s session''), sd1)
          else (case RevokeSession so now (f 1) sessionID sd1 of
                  (False, sd2) \<Rightarrow> (Err 500 ''failed to revoke session'', sd2)
                | (True, sd2) \<Rightarrow> (Ok 204 (), sd2))))"

definition session_revokeAll :: "'st Store \<Rightarrow> (string \<Rightarrow> uuid option) \<Rightarrow> time \<Rightarrow> bool \<Rightarrow> TokenClaims option \<Rightarrow> 'st \<times> db
    \<Rightarrow> unit resp \<times> 'st \<times> db" where
  "session_revokeAll so cast_uuid now fails claims sd =
     (case claims of None \<Rightarrow> (Err 401 ''unauthenticated'', sd)
      | Some cl \<Rightarrow>
          (case RevokeAllSessions so cast_uuid now fails (cl_UserID cl) sd of
             (False, sd1) \<Rightarrow> (Err 500 ''failed to revoke sessions'', sd1)
           | (True, sd1) \<Rightarrow> (Ok 204 (), sd1)))"

section \<open>What a store promises\<close>

text \<open>
  \<open>holds st i s\<close>: the store may answer a lookup of \<open>i\<close> with \<open>s\<close>. Nothing but \<open>Create\<close> and
  \<open>Touch\<close> adds to it, and a successful \<open>Delete\<close> removes everything under an identifier.
\<close>

locale session_store =
  fixes so :: "'st Store" and holds :: "'st \<Rightarrow> string \<Rightarrow> Session \<Rightarrow> bool"
  assumes get_holds: "so_Get so now i st = (Some s, st') \<Longrightarrow> holds st i s \<and> \<not> isExpired now s"
    and get_keeps: "holds (snd (so_Get so now i st)) j s \<Longrightarrow> holds st j s"
    and create_holds: "holds (snd (so_Create so now x st)) j s \<Longrightarrow> holds st j s \<or> j = ss_ID x \<and> s = x"
    and delete_keeps: "holds (snd (so_Delete so now i st)) j s \<Longrightarrow> holds st j s"
    and delete_gone: "fst (so_Delete so now i st) \<Longrightarrow> \<not> holds (snd (so_Delete so now i st)) i s"
    and deleteByUser_keeps: "holds (snd (so_DeleteByUser so now u st)) j s \<Longrightarrow> holds st j s"
    and list_keeps: "holds (snd (so_List so now u st)) j s \<Longrightarrow> holds st j s"
    and touch_keeps: "holds (snd (so_Touch so now i ttl st)) j s \<Longrightarrow> \<exists>x. holds st j x"

text \<open>
  The calls on a manager that do not draw the identifier \<open>i\<close> again; what the rest of the program
  does to the sessions in the database is to delete them with their user.
\<close>

inductive session_step :: "'st Store \<Rightarrow> string \<Rightarrow> 'st \<times> db \<Rightarrow> 'st \<times> db \<Rightarrow> bool" for so i where
  create: "generateSessionID rnd \<noteq> Some i \<Longrightarrow>
     CreateSession so cast_uuid inet ttl now fails rnd u ip ua sd = (x, sd') \<Longrightarrow> session_step so i sd sd'"
| validate: "ValidateSession so inet_text now fails j sd = (x, sd') \<Longrightarrow> session_step so i sd sd'"
| revoke: "session_revoke so inet_text now f claims j sd = (rsp, sd') \<Longrightarrow> session_step so i sd sd'"
| revoke_all: "session_revokeAll so cast_uuid now fails claims sd = (rsp, sd') \<Longrightarrow> session_step so i sd sd'"
| touch: "so_Touch so now j ttl st = (ok, st') \<Longrightarrow> session_step so i (st, d) (st', d)"
| cascade: "set (tb_sessions d') \<subseteq> set (tb_sessions d) \<Longrightarrow> session_step so i (st, d) (st, d')"

lemma session_in_db_id: "session_in_db inet_text now fails i d = Some s \<Longrightarrow> ss_ID s = i \<and> i \<in> se_id ` set (tb_sessions d)"
  by (auto simp: session_in_db_def session_of_row_def split: if_splits bind_splits dest!: find_SomeD)

lemma insert_session_ids: "se_id ` set (tb_sessions (insert_session cast_uuid inet fails s d)) \<subseteq> insert (ss_ID s) (se_id ` set (tb_sessions d))"
  by (auto simp: insert_session_def split: option.splits)

context session_store
begin

definition absent :: "string \<Rightarrow> 'st \<times> db \<Rightarrow> bool" where
  "absent i sd \<longleftrightarrow> (\<forall>s. \<not> holds (fst sd) i s) \<and> i \<notin> se_id ` set (tb_sessions (snd sd))"

lemma absent_validate_None: "absent i sd \<Longrightarrow> fst (ValidateSession so inet_text now fails i sd) = None"
  using get_holds [of now i "fst sd"] session_in_db_id [of inet_text now fails i "snd sd"]
  by (auto simp: ValidateSession_def absent_def split: prod.splits option.splits)

lemma absent_validate:
  assumes "absent i sd"
  shows "absent i (snd (ValidateSession so inet_text now fails j sd))"
proof -
  obtain x st where g: "so_Get so now j (fst sd) = (x, st)" by fastforce
  have st: "\<not> holds st i s" for s using assms get_keeps [of now j "fst sd" i s] g by (auto simp: absent_def)
  show ?thesis
  proof (cases "x = None \<and> session_in_db inet_text now fails j (snd sd) \<noteq> None")
    case True
    then obtain y where y: "session_in_db inet_text now fails j (snd sd) = Some y" by blast
    then have "ss_ID y \<noteq> i" using session_in_db_id [OF y] assms by (auto simp: absent_def)
    then have "\<not> holds (snd (so_Create so now y st)) i s" for s using create_holds [of now y st i s] st by auto
    then show ?thesis using assms True g y by (simp add: ValidateSession_def absent_def)
  next
    case False
    then show ?thesis using assms g st by (auto simp: ValidateSession_def absent_def split: option.splits)
  qed
qed

lemma absent_revoke: "absent i sd \<Longrightarrow> absent i (snd (RevokeSession so now fails j sd))"
  using delete_keeps [of now j "fst sd" i] by (auto simp: RevokeSession_def absent_def Let_def)

lemma absent_revokeAll: "absent i sd \<Longrightarrow> absent i (snd (RevokeAllSessions so cast_uuid now fails u sd))"
  using deleteByUser_keeps [of now u "fst sd" i] by (auto simp: RevokeAllSessions_def absent_def Let_def split: option.splits)

lemma absent_create:
  assumes "absent i sd" "generateSessionID rnd \<noteq> Some i"
  shows "absent i (snd (CreateSession so cast_uuid inet ttl now fails rnd u ip ua sd))"
proof (cases "generateSessionID rnd")
  case (Some k)
  let ?s = "\<lparr>ss_ID = k, ss_UserID = u, ss_IPAddress = ip, ss_UserAgent = ua, ss_CreatedAt = now, ss_ExpiresAt = now + ttl, ss_Data = []\<rparr>"
  obtain ok st where c: "so_Create so now ?s (fst sd) = (ok, st)" by fastforce
  have "\<not> holds st i x" for x using create_holds [of now ?s "fst sd" i x] assms Some c by (auto simp: absent_def)
  moreover have "i \<notin> se_id ` set (tb_sessions (insert_session cast_uuid inet fails ?s (snd sd)))"
    using insert_session_ids [of cast_uuid inet fails ?s "snd sd"] assms Some by (auto simp: absent_def)
  ultimately show ?thesis using assms Some c by (cases ok) (simp_all add: CreateSession_def absent_def Let_def)
qed (use assms in \<open>simp add: CreateSession_def\<close>)

lemma absent_step: "session_step so i sd sd' \<Longrightarrow> absent i sd \<Longrightarrow> absent i sd'"
proof (induction rule: session_step.induct)
  case (create rnd cast_uuid inet ttl now fails u ip ua sd x sd')
  then show ?case
    using absent_create [of i sd rnd cast_uuid inet ttl now fails u ip ua] by simp
next
  case (validate inet_text now fails j sd x sd')
  then show ?case using absent_validate [of i sd inet_text now fails j] by simp
next
  case (revoke inet_text now f claims j sd rsp sd')
  then show ?case
    using absent_validate [of i sd inet_text now "f 0" j] absent_revoke [of i _ now "f 1" j]
    by (auto simp: session_revoke_def split: option.splits prod.splits if_splits bool.splits) (metis snd_conv)+
next
  case (revoke_all cast_uuid now fails claims sd rsp sd')
  then show ?case
    using absent_revokeAll [of i sd cast_uuid now fails]
    by (auto simp: session_revokeAll_def split: option.splits prod.splits bool.splits) (metis snd_conv)+
next
  case (touch now j ttl st ok st' d)
  then show ?case using touch_keeps [of now j ttl st i] by (fastforce simp: absent_def)
next
  case (cascade d' d st)
  then show ?case by (auto simp: absent_def)
qed

lemma revoked_absent:
  assumes "session_revoke so inet_text now f (Some cl) i sd = (Ok 204 (), sd')" "\<And>st. fst (so_Delete so now i st)"
  shows "absent i sd' \<and> (\<exists>s. fst (ValidateSession so inet_text now (f 0) i sd) = Some s \<and> ss_UserID s = cl_UserID cl)"
  using assms(1) delete_gone [OF assms(2)]
  by (auto simp: session_revoke_def RevokeSession_def absent_def Let_def split: if_splits option.splits prod.splits bool.splits)

lemma revoked_for_good:
  assumes "session_revoke so inet_text now f (Some cl) i sd = (Ok 204 (), sd1)" "\<And>st. fst (so_Delete so now i st)"
    and "(session_step so i)\<^sup>*\<^sup>* sd1 sd2"
  shows "fst (ValidateSession so inet_text' now' fails i sd2) = None"
proof -
  have "absent i sd2" using assms(3) revoked_absent [OF assms(1,2)] by (induction rule: rtranclp_induct) (auto intro: absent_step)
  then show ?thesis by (rule absent_validate_None)
qed

end

lemma map_of_filter_key: "map_of (filter (\<lambda>(k, v). p k) m) j = (if p j then map_of m j else None)"
  by (induction m) auto

lemmas memory_defs = MemoryStore_def Memory_Get_def Memory_Create_def Memory_Delete_def Memory_DeleteByUser_def Memory_List_def
  Memory_Touch_def

interpretation memory: session_store "MemoryStore ord" "\<lambda>m i s. map_of m i = Some s"
  by unfold_locales
    (auto simp: memory_defs update_conv' delete_conv' map_of_filter_key split: option.splits if_splits)

text \<open>
  C14. With the store in memory a session that its owner has revoked never validates again: nobody
  else can revoke it, and whatever sequence of sessions created, validated, prolonged and revoked
  follows, a lookup of the identifier finds it neither in the store nor in the database.
\<close>

theorem session_revocation_final:
  assumes "session_revoke (MemoryStore ord) inet_text now f (Some cl) i sd = (Ok 204 (), sd1)"
    and "(session_step (MemoryStore ord) i)\<^sup>*\<^sup>* sd1 sd2"
  shows "(\<exists>s. fst (ValidateSession (MemoryStore ord) inet_text now (f 0) i sd) = Some s \<and> ss_UserID s = cl_UserID cl) \<and>
    fst (ValidateSession (MemoryStore ord) inet_text' now' fails i sd2) = None"
proof -
  have ok: "fst (so_Delete (MemoryStore ord) now i st)" for st by (simp add: memory_defs)
  show ?thesis
    using memory.revoked_absent [OF assms(1) ok] memory.revoked_for_good [OF assms(1) ok assms(2)] by blast
qed

definition sample_session :: "string \<Rightarrow> string \<Rightarrow> time \<Rightarrow> Session" where
  "sample_session i u e = \<lparr>ss_ID = i, ss_UserID = u, ss_IPAddress = ''192.0.2.1'', ss_UserAgent = ''curl'',
     ss_CreatedAt = 0, ss_ExpiresAt = e, ss_Data = []\<rparr>"

theorem session_revocation_final_witness:
  "\<exists>sd1. session_revoke (MemoryStore id) Some 5 (\<lambda>_. False) (Some (sample_claims ''u1'' False)) ''s1''
       ([(''s1'', sample_session ''s1'' ''u1'' 10), (''s2'', sample_session ''s2'' ''u1'' 10)], sample_db) = (Ok 204 (), sd1) \<and>
     fst sd1 = [(''s2'', sample_session ''s2'' ''u1'' 10)] \<and>
     fst (ValidateSession (MemoryStore id) Some 6 False ''s1'' (snd (RevokeAllSessions (MemoryStore id) Some 6 False ''u9'' sd1))) = None"
proof -
  let ?sd = "([(''s1'', sample_session ''s1'' ''u1'' 10), (''s2'', sample_session ''s2'' ''u1'' 10)], sample_db)"
  obtain sd1 where sd1: "session_revoke (MemoryStore id) Some 5 (\<lambda>_. False) (Some (sample_claims ''u1'' False)) ''s1'' ?sd = (Ok 204 (), sd1)"
    and st: "fst sd1 = [(''s2'', sample_session ''s2'' ''u1'' 10)]"
    by (simp add: session_revoke_def ValidateSession_def RevokeSession_def memory_defs isExpired_def sample_session_def sample_claims_def
        AList.delete_eq)
  have "session_step (MemoryStore id) ''s1'' sd1 (snd (RevokeAllSessions (MemoryStore id) Some 6 False ''u9'' sd1))"
    by (rule session_step.revoke_all [of _ Some 6 False "Some (sample_claims ''u9'' False)" _ "Ok 204 ()"])
      (simp add: session_revokeAll_def RevokeAllSessions_def sample_claims_def Let_def)
  then show ?thesis using session_revocation_final [OF sd1, of _ Some 6 False] sd1 st by blast
qed

section \<open>Revoking all sessions of a user\<close>

text \<open>In memory nothing of the user is left.\<close>

lemma memory_revoke_all:
  assumes "RevokeAllSessions (MemoryStore ord) cast_uuid now fails userID sd = (True, sd')" "cast_uuid userID = Some u"
  shows "(\<forall>i s. map_of (fst sd') i = Some s \<longrightarrow> ss_UserID s \<noteq> userID) \<and> (\<forall>r \<in> set (tb_sessions (snd sd')). se_user_id r \<noteq> u)"
  using assms by (auto simp: RevokeAllSessions_def memory_defs Let_def map_of_filter_key split: if_splits)

text \<open>
  A validation that has read the row before a revocation deletes it fills the store afterwards, so
  the revoked session is valid again: \<open>RevokeSession\<close> between the two halves of
  \<open>ValidateSession\<close>.
\<close>

lemma revoke_during_validate:
  assumes "map_of m i = None" and row: "session_in_db inet_text now False i d = Some s" and "\<not> isExpired now' s"
    and rev: "RevokeSession (MemoryStore ord) now False i (m, d) = (True, m1, d1)"
  shows "fst (ValidateSession (MemoryStore ord) inet_text now' False i (snd (so_Create (MemoryStore ord) now s m1), d1)) = Some s"
  using assms session_in_db_id [OF row] by (auto simp: ValidateSession_def memory_defs update_conv')

section \<open>Redis\<close>

text \<open>
  The documented behaviour of the commands, over \<open>str r k s\<close>: the key \<open>k\<close> may hold \<open>s\<close>. A key can
  vanish at any time.
\<close>

locale redis_sessions =
  fixes rc :: "'r redis_client" and str :: "'r \<Rightarrow> string \<Rightarrow> Session \<Rightarrow> bool"
  assumes get_str: "rd_get rc now k r = Some s \<Longrightarrow> str r k s"
    and set_str: "str (snd (rd_set rc now k x ttl r)) j s \<Longrightarrow> str r j s \<or> j = k \<and> s = x"
    and del_str: "str (snd (rd_del rc now ks r)) j s \<Longrightarrow> str r j s"
    and del_gone: "fst (rd_del rc now ks r) \<Longrightarrow> k \<in> set ks \<Longrightarrow> \<not> str (snd (rd_del rc now ks r)) k s"
    and sadd_str: "str (snd (rd_sadd rc now k m r)) j s \<Longrightarrow> str r j s"
    and srem_str: "str (snd (rd_srem rc now k m r)) j s \<Longrightarrow> str r j s"
    and expire_str: "str (snd (rd_expire rc now k ttl r)) j s \<Longrightarrow> str r j s"
begin

lemma redis_get_str: "str (snd (Redis_Get rc now i r)) j s \<Longrightarrow> str r j s"
  using del_str [of now "[redis_session_key i]" r j s] by (auto simp: Redis_Get_def split: option.splits if_splits)

lemma redis_get_Some: "fst (Redis_Get rc now i r) = Some s \<Longrightarrow> str r (redis_session_key i) s \<and> \<not> isExpired now s"
  using get_str [of now "redis_session_key i" r s] by (auto simp: Redis_Get_def split: option.splits if_splits)

lemma redis_create_str:
  assumes "str (snd (Redis_Create rc now x r)) j s"
  shows "str r j s \<or> j = redis_session_key (ss_ID x) \<and> s = x"
proof (cases "ss_ExpiresAt x - now \<le> 0")
  case False
  then have "str (snd (rd_expire rc now (userKey (ss_UserID x)) (hours 24) (snd (rd_sadd rc now (userKey (ss_UserID x)) (ss_ID x)
      (snd (rd_set rc now (redis_session_key (ss_ID x)) x (ss_ExpiresAt x - now) r)))))) j s"
    using assms by (simp add: Redis_Create_def Let_def case_prod_beta)
  then show ?thesis by (meson expire_str sadd_str set_str)
qed (use assms in \<open>simp add: Redis_Create_def\<close>)

lemma redis_collect_str: "str (snd (redis_collect rc now u is r)) j s \<Longrightarrow> str r j s"
proof (induction "is" arbitrary: r)
  case (Cons i "is")
  obtain x r1 where g: "Redis_Get rc now i r = (x, r1)" by fastforce
  have r1: "str r1 j s \<Longrightarrow> str r j s" using redis_get_str [of now i r j s] g by simp
  show ?case
    using Cons.prems Cons.IH [of r1] Cons.IH [of "snd (rd_srem rc now (userKey u) i r1)"] srem_str [of now "userKey u" i r1 j s] g r1
    by (cases x) (auto simp: case_prod_beta)
qed simp

end

lemma redis_session_key_inj: "redis_session_key i = redis_session_key j \<longleftrightarrow> i = j"
  by (simp add: redis_session_key_def)

sublocale redis_sessions \<subseteq> redis_store: session_store "RedisStore rc" "\<lambda>r i s. str r (redis_session_key i) s"
proof
  fix now i st s st'
  show "so_Get (RedisStore rc) now i st = (Some s, st') \<Longrightarrow> str st (redis_session_key i) s \<and> \<not> isExpired now s"
    using redis_get_Some [of now i st s] by (simp add: RedisStore_def)
next
  fix now i st j s
  show "str (snd (so_Get (RedisStore rc) now i st)) (redis_session_key j) s \<Longrightarrow> str st (redis_session_key j) s"
    by (simp add: RedisStore_def redis_get_str)
next
  fix now x st j s
  show "str (snd (so_Create (RedisStore rc) now x st)) (redis_session_key j) s \<Longrightarrow> str st (redis_session_key j) s \<or> j = ss_ID x \<and> s = x"
    using redis_create_str [of now x st "redis_session_key j" s] by (simp add: RedisStore_def redis_session_key_inj)
next
  fix now i st j s
  obtain x r1 where g: "Redis_Get rc now i st = (x, r1)" by fastforce
  have r1: "str r1 (redis_session_key j) s \<Longrightarrow> str st (redis_session_key j) s"
    using redis_get_str [of now i st "redis_session_key j" s] g by simp
  show "str (snd (so_Delete (RedisStore rc) now i st)) (redis_session_key j) s \<Longrightarrow> str st (redis_session_key j) s"
    using r1 del_str [of now "[redis_session_key i]" _ "redis_session_key j" s] srem_str [of now _ i r1 "redis_session_key j" s]
    by (cases x) (auto simp: RedisStore_def Redis_Delete_def g)
  show "fst (so_Delete (RedisStore rc) now i st) \<Longrightarrow> \<not> str (snd (so_Delete (RedisStore rc) now i st)) (redis_session_key i) s"
    using del_gone [of now "[redis_session_key i]" _ "redis_session_key i" s] by (simp add: RedisStore_def Redis_Delete_def g Let_def)
next
  fix now u st j s
  show "str (snd (so_DeleteByUser (RedisStore rc) now u st)) (redis_session_key j) s \<Longrightarrow> str st (redis_session_key j) s"
  proof (cases "rd_smembers rc now (userKey u) st")
    case (Some ms)
    let ?r1 = "if ms = [] then st else snd (rd_del rc now (map redis_session_key ms) st)"
    have "str ?r1 (redis_session_key j) s \<Longrightarrow> str st (redis_session_key j) s"
      using del_str [of now "map redis_session_key ms" st "redis_session_key j" s] by (simp split: if_splits)
    moreover assume "str (snd (so_DeleteByUser (RedisStore rc) now u st)) (redis_session_key j) s"
    ultimately show ?thesis
      using del_str [of now "[userKey u]" ?r1 "redis_session_key j" s] by (simp add: RedisStore_def Redis_DeleteByUser_def Some)
  qed (simp add: RedisStore_def Redis_DeleteByUser_def)
  show "str (snd (so_List (RedisStore rc) now u st)) (redis_session_key j) s \<Longrightarrow> str st (redis_session_key j) s"
    using redis_collect_str [of now u _ st "redis_session_key j" s] by (auto simp: RedisStore_def Redis_List_def case_prod_beta split: option.splits)
next
  fix now i ttl st j s
  obtain x r1 where g: "Redis_Get rc now i st = (x, r1)" by fastforce
  have r1: "str r1 (redis_session_key j) y \<Longrightarrow> str st (redis_session_key j) y" for y
    using redis_get_str [of now i st "redis_session_key j" y] g by simp
  show "str (snd (so_Touch (RedisStore rc) now i ttl st)) (redis_session_key j) s \<Longrightarrow> \<exists>x. str st (redis_session_key j) x"
    using r1 redis_get_Some [of now i st] set_str [of now "redis_session_key i" _ ttl r1 "redis_session_key j" s] g
    by (cases x) (auto simp: RedisStore_def Redis_Touch_def redis_session_key_inj)
qed

text \<open>A server that executes every command: each key has its value and a moment at which it is gone.\<close>

record ref_redis =
  rr_str :: "string \<Rightarrow> (Session \<times> time) option"
  rr_set :: "string \<Rightarrow> (string list \<times> time option) option"

definition live_str :: "time \<Rightarrow> string \<Rightarrow> ref_redis \<Rightarrow> Session option" where
  "live_str now k r = (case rr_str r k of None \<Rightarrow> None | Some (s, d) \<Rightarrow> if now < d then Some s else None)"

definition live_members :: "time \<Rightarrow> string \<Rightarrow> ref_redis \<Rightarrow> string list" where
  "live_members now k r =
     (case rr_set r k of None \<Rightarrow> [] | Some (ms, d) \<Rightarrow> if pred_option (\<lambda>t. now < t) d then ms else [])"

definition live_deadline :: "time \<Rightarrow> string \<Rightarrow> ref_redis \<Rightarrow> time option" where
  "live_deadline now k r = (case rr_set r k of None \<Rightarrow> None | Some (ms, d) \<Rightarrow> if pred_option (\<lambda>t. now < t) d then d else None)"

definition ref_client :: "ref_redis redis_client" where
  "ref_client = \<lparr>
     rd_get = live_str,
     rd_set = (\<lambda>now k s ttl r. (True, r\<lparr>rr_str := (rr_str r)(k \<mapsto> (s, now + ttl))\<rparr>)),
     rd_del = (\<lambda>now ks r. (True, r\<lparr>rr_str := (\<lambda>k. if k \<in> set ks then None else rr_str r k),
                                  rr_set := (\<lambda>k. if k \<in> set ks then None else rr_set r k)\<rparr>)),
     rd_sadd = (\<lambda>now k m r. (True, r\<lparr>rr_set := (rr_set r)(k \<mapsto> (List.insert m (live_members now k r), live_deadline now k r))\<rparr>)),
     rd_srem = (\<lambda>now k m r. (True, r\<lparr>rr_set := (rr_set r)(k \<mapsto> (removeAll m (live_members now k r), live_deadline now k r))\<rparr>)),
     rd_smembers = (\<lambda>now k r. Some (live_members now k r)),
     rd_expire = (\<lambda>now k ttl r. (True, case rr_set r k of None \<Rightarrow> r
                    | Some (ms, d) \<Rightarrow> r\<lparr>rr_set := (rr_set r)(k \<mapsto> (live_members now k r, Some (now + ttl)))\<rparr>))\<rparr>"

interpretation ref_redis: redis_sessions ref_client "\<lambda>r k s. \<exists>d. rr_str r k = Some (s, d)"
  by unfold_locales (auto simp: ref_client_def live_str_def split: option.splits if_splits)

text \<open>
  The index of a user's sessions lives for a day after the last session was created. With a longer
  session lifetime it is gone before the session, and revoking all sessions of the user leaves the
  session in the store; with a lifetime of at most a day it is found.
\<close>

lemma redis_create_lookup:
  assumes "0 < ss_ExpiresAt s - now"
  shows "rr_str (snd (Redis_Create ref_client now s r)) (redis_session_key (ss_ID s)) = Some (s, ss_ExpiresAt s) \<and>
    rr_set (snd (Redis_Create ref_client now s r)) (userKey (ss_UserID s)) =
      Some (List.insert (ss_ID s) (live_members now (userKey (ss_UserID s)) r), Some (now + hours 24))"
  using assms by (simp add: Redis_Create_def ref_client_def redis_session_key_def userKey_def live_members_def live_deadline_def
      split: option.splits)

lemma redis_delete_by_user_get:
  "fst (Redis_Get ref_client t i (snd (Redis_DeleteByUser ref_client t u r))) =
    (if i \<in> set (live_members t (userKey u) r) then None else fst (Redis_Get ref_client t i r))"
proof -
  have "redis_session_key i \<noteq> userKey u" by (simp add: redis_session_key_def userKey_def)
  then have "live_str t (redis_session_key i) (snd (Redis_DeleteByUser ref_client t u r)) =
      (if i \<in> set (live_members t (userKey u) r) then None else live_str t (redis_session_key i) r)"
    by (auto simp: Redis_DeleteByUser_def ref_client_def live_str_def Let_def redis_session_key_inj)
  then show ?thesis by (auto simp: Redis_Get_def ref_client_def split: option.splits)
qed

lemma redis_revoke_all_after:
  assumes s: "0 < ss_ExpiresAt s - now" "now \<le> t" "t < ss_ExpiresAt s"
  shows "fst (Redis_Get ref_client t (ss_ID s)
      (snd (Redis_DeleteByUser ref_client t (ss_UserID s) (snd (Redis_Create ref_client now s r))))) =
    (if t < now + hours 24 then None else Some s)"
proof -
  define r1 where "r1 = snd (Redis_Create ref_client now s r)"
  note stored = redis_create_lookup [OF s(1), of r, folded r1_def]
  have "live_members t (userKey (ss_UserID s)) r1 =
      (if t < now + hours 24 then List.insert (ss_ID s) (live_members now (userKey (ss_UserID s)) r) else [])"
    using stored by (simp add: live_members_def)
  moreover have "fst (Redis_Get ref_client t (ss_ID s) r1) = Some s"
    using stored s(3) by (simp add: Redis_Get_def ref_client_def live_str_def isExpired_def)
  ultimately show ?thesis by (simp add: redis_delete_by_user_get flip: r1_def)
qed

end
