(* ===== verification/MFA.thy ===== *)
theory MFA
  imports Auth_Handler "HOL-Library.Multiset"
begin

text \<open>
  Second factors (\<^verbatim>\<open>internal/auth/mfa\<close>): the manager of TOTP secrets and backup codes with its
  endpoints (\<^verbatim>\<open>manager.go\<close>, \<^verbatim>\<open>totp.go\<close>, \<^verbatim>\<open>handler.go\<close>), and the codes sent by e-mail
  (\<^verbatim>\<open>email.go\<close>). The library for TOTP and bcrypt are parameters, as in \<^verbatim>\<open>Auth_Handler\<close>;
  \<open>totp_gen\<close> generates a secret with its URL and image.
\<close>

section \<open>TOTP\<close>

record MFAStatus =
  ms_MFAEnabled :: bool
  ms_TOTPConfigured :: bool
  ms_TOTPVerified :: bool
  ms_WebAuthnCount :: int
  ms_BackupCodesLeft :: int

text \<open>A user id that is no UUID makes every statement fail; so does a user that does not exist, for an insert.\<close>

definition EnableTOTP :: "auth_env \<Rightarrow> (string \<Rightarrow> string \<Rightarrow> (string \<times> string \<times> string) option) \<Rightarrow> bool \<Rightarrow> string \<Rightarrow> string \<Rightarrow> db
    \<Rightarrow> (string \<times> string \<times> string) option \<times> db" where
  "EnableTOTP e totp_gen fails userID issuer s =
     (case totp_gen issuer userID of None \<Rightarrow> (None, s)
      | Some (secret, qrURL, qrImage) \<Rightarrow>
     (case ae_cast_uuid e userID of None \<Rightarrow> (None, s)
      | Some u \<Rightarrow>
          if fails \<or> u \<notin> u_id ` set (tb_users s) then (None, s)
          else (Some (secret, qrURL, qrImage),
                s\<lparr>tb_mfa_totp :=
                    (if u \<in> tt_user_id ` set (tb_mfa_totp s)
                     then upd_where (\<lambda>t. tt_user_id t = u) (\<lambda>t. t\<lparr>tt_secret := secret, tt_verified := False\<rparr>) (tb_mfa_totp s)
                     else tb_mfa_totp s @ [\<lparr>tt_user_id = u, tt_secret = secret, tt_verified = False\<rparr>])\<rparr>)))"

definition totp_of :: "auth_env \<Rightarrow> string \<Rightarrow> db \<Rightarrow> totp_row option" where
  "totp_of e userID s = Option.bind (ae_cast_uuid e userID) (\<lambda>u. find (\<lambda>t. tt_user_id t = u) (tb_mfa_totp s))"

definition VerifyTOTP :: "auth_env \<Rightarrow> time \<Rightarrow> (nat \<Rightarrow> bool) \<Rightarrow> string \<Rightarrow> string \<Rightarrow> db \<Rightarrow> bool option \<times> db" where
  "VerifyTOTP e now f userID code s =
     (case (if f 0 then None else totp_of e userID s) of None \<Rightarrow> (None, s)
      | Some t \<Rightarrow>
          if \<not> ae_totp e now code (tt_secret t) then (Some False, s)
          else if tt_verified t then (Some True, s)
          else if f 1 then (None, s)
          else (Some True, s\<lparr>tb_mfa_totp :=
                  upd_where (\<lambda>x. tt_user_id x = tt_user_id t) (\<lambda>x. x\<lparr>tt_verified := True\<rparr>) (tb_mfa_totp s)\<rparr>))"

definition DisableTOTP :: "auth_env \<Rightarrow> bool \<Rightarrow> string \<Rightarrow> db \<Rightarrow> bool \<times> db" where
  "DisableTOTP e fails userID s =
     (case ae_cast_uuid e userID of None \<Rightarrow> (False, s)
      | Some u \<Rightarrow>
          if fails then (False, s)
          else (True, s\<lparr>tb_mfa_totp := del_where (\<lambda>t. tt_user_id t = u) (tb_mfa_totp s)\<rparr>))"

definition SetMFAEnabled :: "auth_env \<Rightarrow> bool \<Rightarrow> string \<Rightarrow> bool \<Rightarrow> db \<Rightarrow> bool \<times> db" where
  "SetMFAEnabled e fails userID enabled s =
     (case ae_cast_uuid e userID of None \<Rightarrow> (False, s)
      | Some u \<Rightarrow>
          if fails then (False, s)
          else (True, s\<lparr>tb_users := upd_where (\<lambda>x. u_id x = u) (\<lambda>x. x\<lparr>u_mfa_enabled := enabled\<rparr>) (tb_users s)\<rparr>))"

section \<open>Backup codes\<close>

definition backupCodeChars :: string where
  "backupCodeChars = ''abcdefghijklmnopqrstuvwxyz0123456789''"

text \<open>\<open>draw\<close> are the results of \<^verbatim>\<open>rand.Int\<close>, each below the length of the alphabet or an error.\<close>

definition randomString :: "(nat \<Rightarrow> nat option) \<Rightarrow> nat \<Rightarrow> string \<Rightarrow> string option" where
  "randomString draw len alphabet = those (map (\<lambda>i. map_option (\<lambda>k. alphabet ! k) (draw i)) [0..<len])"

text \<open>The loop of inserts within the transaction; \<open>None\<close> rolls it back.\<close>

fun insert_codes :: "auth_env \<Rightarrow> (nat \<Rightarrow> uuid) \<Rightarrow> (nat \<Rightarrow> bool) \<Rightarrow> uuid \<Rightarrow> string list \<Rightarrow> db \<Rightarrow> db option" where
  "insert_codes e ids f u [] s = Some s"
| "insert_codes e ids f u (code # codes) s =
     (case ae_hash e code of None \<Rightarrow> None
      | Some hash \<Rightarrow>
          if f 0 \<or> u \<notin> u_id ` set (tb_users s) \<or> ids 0 \<in> bc_id ` set (tb_mfa_backup_codes s) then None
          else insert_codes e (\<lambda>n. ids (Suc n)) (\<lambda>n. f (Suc n)) u codes
                 (s\<lparr>tb_mfa_backup_codes := tb_mfa_backup_codes s @
                     [\<lparr>bc_id = ids 0, bc_user_id = u, bc_code_hash = hash, bc_used = False\<rparr>]\<rparr>))"

text \<open>Statement \<open>0\<close> begins the transaction, \<open>1\<close> deletes the old codes, \<open>2\<close> commits, the inserts have those from \<open>3\<close> on.\<close>

definition GenerateBackupCodes :: "auth_env \<Rightarrow> (nat \<Rightarrow> nat \<Rightarrow> nat option) \<Rightarrow> (nat \<Rightarrow> uuid) \<Rightarrow> (nat \<Rightarrow> bool) \<Rightarrow> string \<Rightarrow> db
    \<Rightarrow> string list option \<times> db" where
  "GenerateBackupCodes e draw ids f userID s =
     (case those (map (\<lambda>i. randomString (draw i) 8 backupCodeChars) [0..<10]) of None \<Rightarrow> (None, s)
      | Some codes \<Rightarrow>
     (case (if f 0 then None else ae_cast_uuid e userID) of None \<Rightarrow> (None, s)
      | Some u \<Rightarrow>
      if f 1 then (None, s)
      else (case insert_codes e ids (\<lambda>n. f (n + 3)) u codes
                   (s\<lparr>tb_mfa_backup_codes := del_where (\<lambda>r. bc_user_id r = u) (tb_mfa_backup_codes s)\<rparr>) of
        None \<Rightarrow> (None, s)
      | Some s' \<Rightarrow> if f 2 then (None, s) else (Some codes, s'))))"

fun match_code :: "auth_env \<Rightarrow> string \<Rightarrow> backup_code_row list \<Rightarrow> backup_code_row option" where
  "match_code e code [] = None"
| "match_code e code (r # rows) = (if ae_check e (bc_code_hash r) code then Some r else match_code e code rows)"

definition ValidateBackupCode :: "auth_env \<Rightarrow> (nat \<Rightarrow> bool) \<Rightarrow> string \<Rightarrow> string \<Rightarrow> db \<Rightarrow> bool option \<times> db" where
  "ValidateBackupCode e f userID code s =
     (case (if f 0 then None else ae_cast_uuid e userID) of None \<Rightarrow> (None, s)
      | Some u \<Rightarrow>
     (case match_code e code (filter (\<lambda>r. bc_user_id r = u \<and> \<not> bc_used r) (tb_mfa_backup_codes s)) of
        None \<Rightarrow> (if f 1 then None else Some False, s)
      | Some r \<Rightarrow>
          if f 2 then (None, s)
          else (Some True, s\<lparr>tb_mfa_backup_codes :=
                  upd_where (\<lambda>x. bc_id x = bc_id r) (\<lambda>x. x\<lparr>bc_used := True\<rparr>) (tb_mfa_backup_codes s)\<rparr>)))"

definition GetUserMFAStatus :: "auth_env \<Rightarrow> (nat \<Rightarrow> bool) \<Rightarrow> string \<Rightarrow> db \<Rightarrow> MFAStatus option" where
  "GetUserMFAStatus e f userID s =
     (case ae_cast_uuid e userID of None \<Rightarrow> None
      | Some u \<Rightarrow>
     (case find (\<lambda>x. u_id x = u) (tb_users s) of None \<Rightarrow> None
      | Some x \<Rightarrow>
          if f 0 \<or> f 1 \<or> f 2 \<or> f 3 then None
          else Some \<lparr>ms_MFAEnabled = u_mfa_enabled x,
                     ms_TOTPConfigured = (0 < length (filter (\<lambda>t. tt_user_id t = u) (tb_mfa_totp s))),
                     ms_TOTPVerified = (0 < length (filter (\<lambda>t. tt_user_id t = u \<and> tt_verified t) (tb_mfa_totp s))),
                     ms_WebAuthnCount = int (length (filter (\<lambda>c. wa_user_id c = u) (tb_mfa_webauthn s))),
                     ms_BackupCodesLeft = int (length (filter (\<lambda>r. bc_user_id r = u \<and> \<not> bc_used r) (tb_mfa_backup_codes s)))\<rparr>))"

section \<open>Endpoints\<close>

definition mfa_getStatus :: "auth_env \<Rightarrow> (nat \<Rightarrow> bool) \<Rightarrow> TokenClaims option \<Rightarrow> db \<Rightarrow> MFAStatus resp" where
  "mfa_getStatus e f claims s =
     (case claims of None \<Rightarrow> Err 401 ''unauthenticated''
      | Some cl \<Rightarrow> (case GetUserMFAStatus e f (cl_UserID cl) s of
          None \<Rightarrow> Err 500 ''failed to get MFA status'' | Some st \<Rightarrow> Ok 200 st))"

definition setupTOTP :: "auth_env \<Rightarrow> (string \<Rightarrow> string \<Rightarrow> (string \<times> string \<times> string) option) \<Rightarrow> bool \<Rightarrow> TokenClaims option
    \<Rightarrow> string body \<Rightarrow> db \<Rightarrow> (string \<times> string \<times> string) resp \<times> db" where
  "setupTOTP e totp_gen fails claims bd s =
     (case claims of None \<Rightarrow> (Err 401 ''unauthenticated'', s)
      | Some cl \<Rightarrow>
     (case bd of Inl _ \<Rightarrow> (Err 400 ''invalid request body'', s)
      | Inr issuer \<Rightarrow>
     (case EnableTOTP e totp_gen fails (cl_UserID cl) (if issuer = [] then ''Outpost VPN'' else issuer) s of
        (None, s') \<Rightarrow> (Err 500 ''failed to setup TOTP'', s')
      | (Some r, s') \<Rightarrow> (Ok 200 r, s'))))"

definition verifyTOTP :: "auth_env \<Rightarrow> time \<Rightarrow> (nat \<Rightarrow> bool) \<Rightarrow> TokenClaims option \<Rightarrow> string body \<Rightarrow> db \<Rightarrow> bool resp \<times> db" where
  "verifyTOTP e now f claims bd s =
     (case claims of None \<Rightarrow> (Err 401 ''unauthenticated'', s)
      | Some cl \<Rightarrow>
     (case bd of Inl _ \<Rightarrow> (Err 400 ''invalid request body'', s)
      | Inr code \<Rightarrow>
      if code = [] then (Err 400 ''code is required'', s)
      else (case VerifyTOTP e now f (cl_UserID cl) code s of
        (None, s') \<Rightarrow> (Err 500 ''TOTP verification failed'', s')
      | (Some False, s') \<Rightarrow> (Ok 200 False, s')
      | (Some True, s') \<Rightarrow>
          (case SetMFAEnabled e (f 2) (cl_UserID cl) True s' of
             (False, s2) \<Rightarrow> (Err 500 ''TOTP verified but failed to enable MFA flag'', s2)
           | (True, s2) \<Rightarrow> (Ok 200 True, s2)))))"

definition mfa_disableTOTP :: "auth_env \<Rightarrow> bool \<Rightarrow> TokenClaims option \<Rightarrow> db \<Rightarrow> unit resp \<times> db" where
  "mfa_disableTOTP e fails claims s =
     (case claims of None \<Rightarrow> (Err 401 ''unauthenticated'', s)
      | Some cl \<Rightarrow> (case DisableTOTP e fails (cl_UserID cl) s of
          (False, s') \<Rightarrow> (Err 500 ''failed to disable TOTP'', s') | (True, s') \<Rightarrow> (Ok 204 (), s')))"

definition mfa_generateBackupCodes :: "auth_env \<Rightarrow> (nat \<Rightarrow> nat \<Rightarrow> nat option) \<Rightarrow> (nat \<Rightarrow> uuid) \<Rightarrow> (nat \<Rightarrow> bool) \<Rightarrow> TokenClaims option
    \<Rightarrow> db \<Rightarrow> string list resp \<times> db" where
  "mfa_generateBackupCodes e draw ids f claims s =
     (case claims of None \<Rightarrow> (Err 401 ''unauthenticated'', s)
      | Some cl \<Rightarrow> (case GenerateBackupCodes e draw ids f (cl_UserID cl) s of
          (None, s') \<Rightarrow> (Err 500 ''failed to generate backup codes'', s') | (Some codes, s') \<Rightarrow> (Ok 200 codes, s')))"

definition mfa_verifyBackupCode :: "auth_env \<Rightarrow> (nat \<Rightarrow> bool) \<Rightarrow> TokenClaims option \<Rightarrow> string body \<Rightarrow> db \<Rightarrow> bool resp \<times> db" where
  "mfa_verifyBackupCode e f claims bd s =
     (case claims of None \<Rightarrow> (Err 401 ''unauthenticated'', s)
      | Some cl \<Rightarrow>
     (case bd of Inl _ \<Rightarrow> (Err 400 ''invalid request body'', s)
      | Inr code \<Rightarrow>
      if code = [] then (Err 400 ''code is required'', s)
      else (case ValidateBackupCode e f (cl_UserID cl) code s of
        (None, s') \<Rightarrow> (Err 500 ''backup code verification failed'', s')
      | (Some valid, s') \<Rightarrow> (Ok 200 valid, s'))))"

section \<open>Codes by e-mail\<close>

record emailToken =
  em_Code :: string
  em_ExpiresAt :: time

definition generateDigitCode :: "(nat \<Rightarrow> nat option) \<Rightarrow> nat \<Rightarrow> string option" where
  "generateDigitCode draw len = those (map (\<lambda>i. map_option digit_char (draw i)) [0..<len])"

definition SendToken :: "(nat \<Rightarrow> nat option) \<Rightarrow> time \<Rightarrow> string \<Rightarrow> (string \<rightharpoonup> emailToken) \<Rightarrow> string option \<times> (string \<rightharpoonup> emailToken)" where
  "SendToken draw now userID m =
     (case generateDigitCode draw 6 of None \<Rightarrow> (None, m)
      | Some code \<Rightarrow> (Some code, m(userID \<mapsto> \<lparr>em_Code = code, em_ExpiresAt = now + minutes 5\<rparr>)))"

definition ValidateEmailToken :: "time \<Rightarrow> string \<Rightarrow> string \<Rightarrow> (string \<rightharpoonup> emailToken) \<Rightarrow> bool \<times> (string \<rightharpoonup> emailToken)" where
  "ValidateEmailToken now userID code m =
     (case m userID of None \<Rightarrow> (False, m)
      | Some tok \<Rightarrow>
          if em_ExpiresAt tok < now then (False, m(userID := None))
          else if em_Code tok \<noteq> code then (False, m)
          else (True, m(userID := None)))"

section \<open>Removing the authenticator\<close>

lemma login_totp: "login e t f bd s = (r, s') \<Longrightarrow> tb_mfa_totp s' = tb_mfa_totp s"
  by (auto simp: login_def count_failed_login_def reset_lock_def set_lock_def Let_def split: sum.splits option.splits if_splits)

lemma verifyMFA_without_totp:
  assumes "ValidateToken (ae_lib e) (ae_secret e) t (mq_MFAToken mq) = Some c" "totp_of e (cl_UserID c) s = None"
  shows "\<exists>code msg. verifyMFA e t f (Inr mq) s = (Err code msg, s)"
  using assms by (auto simp: verifyMFA_def totp_of_def)

text \<open>
  C9. Removing the authenticator leaves the account requiring it: after a successful call the
  account still needs a second factor, its password yields only a token for the second step, and
  that step fails for every code, backup codes included.
\<close>

theorem totp_removal_locks_out:
  assumes dis: "mfa_disableTOTP e fails (Some cl) s = (Ok 204 (), s1)"
    and u: "find (\<lambda>u. u_username u = lq_Username req) (tb_users s) = Some u" "u_mfa_enabled u" "ae_cast_uuid e (cl_UserID cl) = Some (u_id u)"
    and log: "login e t f (Inr req) s1 = (Ok st a, s2)"
    and tok: "ValidateToken (ae_lib e) (ae_secret e) t2 (mq_MFAToken mq) = Some c" "ae_cast_uuid e (cl_UserID c) = Some (u_id u)"
  shows "lr_Token a = [] \<and> lr_MFARequired a \<and> (\<exists>code msg. verifyMFA e t2 f2 (Inr mq) s2 = (Err code msg, s2))"
proof -
  have s1: "s1 = s\<lparr>tb_mfa_totp := del_where (\<lambda>t. tt_user_id t = u_id u) (tb_mfa_totp s)\<rparr>"
    using dis u(3) by (auto simp: mfa_disableTOTP_def DisableTOTP_def split: if_splits)
  then have "totp_of e (cl_UserID c) s2 = None"
    using tok(2) login_totp [OF log] by (auto simp: totp_of_def find_None_iff')
  moreover have "login_tokens e t u = Ok st a"
    using login_answer [OF log] u(1) by (simp add: s1)
  ultimately show ?thesis
    using u(2) verifyMFA_without_totp [OF tok(1)] by (auto simp: login_tokens_def split: option.splits)
qed

theorem totp_removal_locks_out_witness:
  "\<exists>s1 a s2 code msg. mfa_disableTOTP mfa_env False (Some (sample_claims ''u1'' False)) mfa_db = (Ok 204 (), s1) \<and>
     login mfa_env 0 (\<lambda>_. False) (Inr \<lparr>lq_Username = ''u1-name'', lq_Password = ''u1''\<rparr>) s1 = (Ok 200 a, s2) \<and> lr_Token a = [] \<and>
     verifyMFA mfa_env 1 (\<lambda>_. False) (Inr \<lparr>mq_MFAToken = ''mfa-token'', mq_Code = ''123456'', mq_Method = ''totp''\<rparr>) s2 = (Err code msg, s2)"
proof -
  let ?u = "(sample_user ''u1'' False)\<lparr>u_mfa_enabled := True\<rparr>" and ?req = "\<lparr>lq_Username = ''u1-name'', lq_Password = ''u1''\<rparr>"
  let ?mq = "\<lparr>mq_MFAToken = ''mfa-token'', mq_Code = ''123456'', mq_Method = ''totp''\<rparr>"
  have cast: "ae_cast_uuid mfa_env = Some" by (simp add: mfa_env_def sample_env_def)
  obtain s1 where d: "mfa_disableTOTP mfa_env False (Some (sample_claims ''u1'' False)) mfa_db = (Ok 204 (), s1)"
    and s1: "tb_users s1 = tb_users mfa_db"
    by (simp add: mfa_disableTOTP_def DisableTOTP_def sample_claims_def cast)
  obtain a s2 where l: "login mfa_env 0 (\<lambda>_. False) (Inr ?req) s1 = (Ok 200 a, s2)"
    by (simp add: login_def login_tokens_def is_locked_def s1 mfa_tables sample_user_def mfa_env_def sample_env_def GenerateToken_def session_claims_def)
  obtain c where c: "ValidateToken (ae_lib mfa_env) (ae_secret mfa_env) 1 (mq_MFAToken ?mq) = Some c" "cl_UserID c = ''u1''"
    by (simp add: ValidateToken_def mfa_env_def sample_env_def session_claims_def)
  have "lr_Token a = [] \<and> lr_MFARequired a \<and> (\<exists>code msg. verifyMFA mfa_env 1 (\<lambda>_. False) (Inr ?mq) s2 = (Err code msg, s2))"
    by (rule totp_removal_locks_out [OF d _ _ _ l c(1), of ?u]) (simp_all add: mfa_tables sample_user_def cast c(2) sample_claims_def)
  then show ?thesis using d l by blast
qed

section \<open>Backup codes are used up\<close>

text \<open>The codes behind the unused rows of a user.\<close>

definition unused_rows :: "uuid \<Rightarrow> db \<Rightarrow> backup_code_row list" where
  "unused_rows u s = filter (\<lambda>r. bc_user_id r = u \<and> \<not> bc_used r) (tb_mfa_backup_codes s)"

definition codes_left :: "auth_env \<Rightarrow> uuid \<Rightarrow> db \<Rightarrow> string list \<Rightarrow> bool" where
  "codes_left e u s cs \<longleftrightarrow> distinct (map bc_id (tb_mfa_backup_codes s)) \<and>
     list_all2 (\<lambda>r c. ae_hash e c = Some (bc_code_hash r)) (unused_rows u s) cs"

definition bcrypt_ok :: "auth_env \<Rightarrow> bool" where
  "bcrypt_ok e \<longleftrightarrow> (\<forall>c h c'. ae_hash e c = Some h \<longrightarrow> ae_check e h c' = (c' = c))"

lemma match_code_None:
  "bcrypt_ok e \<Longrightarrow> list_all2 (\<lambda>r c. ae_hash e c = Some (bc_code_hash r)) rs cs \<Longrightarrow> match_code e code rs = None \<longleftrightarrow> code \<notin> set cs"
  by (induction rs arbitrary: cs) (auto simp: bcrypt_ok_def list_all2_Cons1)

lemma match_code_Some:
  "bcrypt_ok e \<Longrightarrow> list_all2 (\<lambda>r c. ae_hash e c = Some (bc_code_hash r)) rs cs \<Longrightarrow> distinct rs \<Longrightarrow> match_code e code rs = Some r \<Longrightarrow>
   r \<in> set rs \<and> list_all2 (\<lambda>r c. ae_hash e c = Some (bc_code_hash r)) (remove1 r rs) (remove1 code cs)"
proof (induction rs arbitrary: cs)
  case (Cons x rs)
  obtain c cs' where cs: "cs = c # cs'" "ae_hash e c = Some (bc_code_hash x)" "list_all2 (\<lambda>r c. ae_hash e c = Some (bc_code_hash r)) rs cs'"
    using Cons.prems(2) by (auto simp: list_all2_Cons1)
  have check: "ae_check e (bc_code_hash x) code \<longleftrightarrow> code = c" using Cons.prems(1) cs(2) by (simp add: bcrypt_ok_def)
  show ?case
  proof (cases "code = c")
    case True
    then show ?thesis using Cons.prems check cs by simp
  next
    case False
    then have m: "match_code e code rs = Some r" using Cons.prems(4) check by simp
    from Cons.IH [OF Cons.prems(1) cs(3) _ m] Cons.prems(3) False show ?thesis by (auto simp: cs)
  qed
qed simp

lemma unused_after_use:
  assumes "distinct (map bc_id t)" "r \<in> set t" "bc_user_id r = u" "\<not> bc_used r" "q r"
  shows "filter (\<lambda>r. bc_user_id r = u \<and> \<not> bc_used r) (upd_where (\<lambda>x. bc_id x = bc_id r \<and> q x) (\<lambda>x. x\<lparr>bc_used := True\<rparr>) t) =
    remove1 r (filter (\<lambda>r. bc_user_id r = u \<and> \<not> bc_used r) t)"
  using assms
proof (induction t)
  case (Cons x t)
  show ?case
  proof (cases "x = r")
    case True
    have "upd_where (\<lambda>x. bc_id x = bc_id r \<and> q x) (\<lambda>x. x\<lparr>bc_used := True\<rparr>) t = t"
      using Cons.prems(1) True by (intro upd_where_none) (force simp: image_iff)
    then show ?thesis using True Cons.prems by simp
  next
    case False
    then have "bc_id x \<noteq> bc_id r" "r \<in> set t" using Cons.prems(1,2) by auto
    then show ?thesis using Cons.IH Cons.prems False by auto
  qed
qed simp

lemma codes_left_use:
  assumes "bcrypt_ok e" "codes_left e u s cs" "match_code e code (unused_rows u s) = Some r" "q r"
  shows "codes_left e u (s\<lparr>tb_mfa_backup_codes := upd_where (\<lambda>x. bc_id x = bc_id r \<and> q x) (\<lambda>x. x\<lparr>bc_used := True\<rparr>)
      (tb_mfa_backup_codes s)\<rparr>) (remove1 code cs)"
proof -
  have d: "distinct (unused_rows u s)"
    using assms(2) by (auto simp: codes_left_def unused_rows_def distinct_map intro: distinct_filter)
  note m = match_code_Some [OF assms(1) _ d assms(3), of cs]
  have r: "r \<in> set (tb_mfa_backup_codes s)" "bc_user_id r = u" "\<not> bc_used r"
    using m assms(2) by (auto simp: codes_left_def unused_rows_def)
  show ?thesis
    using m assms(2) unused_after_use [of _ r u q, OF _ r assms(4)]
    by (simp add: codes_left_def unused_rows_def map_upd_where_frame)
qed

lemma use_backup_code_match:
  "use_backup_code e (\<lambda>_. False) code rows s = (case match_code e code rows of None \<Rightarrow> (False, s)
    | Some r \<Rightarrow> (True, s\<lparr>tb_mfa_backup_codes := upd_where (\<lambda>x. bc_id x = bc_id r \<and> \<not> bc_used x) (\<lambda>x. x\<lparr>bc_used := True\<rparr>) (tb_mfa_backup_codes s)\<rparr>))"
  by (induction rows) auto

text \<open>A sequence of attempts, each in the second step of a login (\<open>True\<close>) or at the endpoint for backup codes.\<close>

fun code_run :: "auth_env \<Rightarrow> string \<Rightarrow> (bool \<times> string) list \<Rightarrow> db \<Rightarrow> bool list" where
  "code_run e userID [] s = []"
| "code_run e userID ((True, code) # as) s =
     (let (ok, s') = tryBackupCode e (\<lambda>_. False) userID code s in ok # code_run e userID as s')"
| "code_run e userID ((False, code) # as) s =
     (let (ok, s') = ValidateBackupCode e (\<lambda>_. False) userID code s in (ok = Some True) # code_run e userID as s')"

fun code_spec :: "string multiset \<Rightarrow> string list \<Rightarrow> bool list" where
  "code_spec left [] = []"
| "code_spec left (code # codes) = (code \<in># left) # code_spec (left - {#code#}) codes"

lemma code_attempt:
  assumes "bcrypt_ok e" "ae_cast_uuid e userID = Some u" "codes_left e u s cs"
  shows "\<exists>s'. tryBackupCode e (\<lambda>_. False) userID code s = (code \<in> set cs, s') \<and> codes_left e u s' (remove1 code cs)"
    and "\<exists>s'. ValidateBackupCode e (\<lambda>_. False) userID code s = (Some (code \<in> set cs), s') \<and> codes_left e u s' (remove1 code cs)"
proof -
  have n: "match_code e code (unused_rows u s) = None \<longleftrightarrow> code \<notin> set cs"
    using match_code_None assms(1,3) by (simp add: codes_left_def)
  have unused: "\<not> bc_used r" if "match_code e code (unused_rows u s) = Some r" for r
    using match_code_Some [OF assms(1) _ _ that, of cs] assms(3)
    by (auto simp: codes_left_def unused_rows_def distinct_map intro: distinct_filter)
  show "\<exists>s'. tryBackupCode e (\<lambda>_. False) userID code s = (code \<in> set cs, s') \<and> codes_left e u s' (remove1 code cs)"
    using n codes_left_use [OF assms(1,3), of code _ "\<lambda>x. \<not> bc_used x"] unused assms(2,3)
    by (cases "match_code e code (unused_rows u s)")
      (auto simp: tryBackupCode_def use_backup_code_match remove1_idem simp flip: unused_rows_def)
  show "\<exists>s'. ValidateBackupCode e (\<lambda>_. False) userID code s = (Some (code \<in> set cs), s') \<and> codes_left e u s' (remove1 code cs)"
    using n codes_left_use [OF assms(1,3), of code _ "\<lambda>_. True"] assms(2,3)
    by (cases "match_code e code (unused_rows u s)")
      (auto simp: ValidateBackupCode_def remove1_idem simp flip: unused_rows_def)
qed

lemma code_run_spec:
  assumes "bcrypt_ok e" "ae_cast_uuid e userID = Some u"
  shows "codes_left e u s cs \<Longrightarrow> code_run e userID as s = code_spec (mset cs) (map snd as)"
proof (induction as arbitrary: s cs)
  case (Cons a as)
  obtain login code where a: "a = (login, code)" by fastforce
  show ?case
    using code_attempt [OF assms Cons.prems, of code] Cons.IH [of _ "remove1 code cs"] by (cases login) (auto simp: a)
qed simp

lemma those_length: "those xs = Some ys \<Longrightarrow> length ys = length xs"
  by (induction xs arbitrary: ys) (auto split: option.splits)

lemma those_SomeD: "those xs = Some ys \<Longrightarrow> y \<in> set ys \<Longrightarrow> Some y \<in> set xs"
  by (induction xs arbitrary: ys) (auto split: option.splits)

lemma insert_codes_left:
  "insert_codes e ids f u codes s = Some s' \<Longrightarrow> codes_left e u s cs \<Longrightarrow> codes_left e u s' (cs @ codes)"
proof (induction codes arbitrary: ids f s cs)
  case (Cons code codes)
  let ?r = "\<lambda>h. \<lparr>bc_id = ids 0, bc_user_id = u, bc_code_hash = h, bc_used = False\<rparr>"
  obtain h where h: "ae_hash e code = Some h" "ids 0 \<notin> bc_id ` set (tb_mfa_backup_codes s)"
    and rest: "insert_codes e (\<lambda>n. ids (Suc n)) (\<lambda>n. f (Suc n)) u codes (s\<lparr>tb_mfa_backup_codes := tb_mfa_backup_codes s @ [?r h]\<rparr>) = Some s'"
    using Cons.prems(1) by (auto split: option.splits if_splits)
  have "codes_left e u (s\<lparr>tb_mfa_backup_codes := tb_mfa_backup_codes s @ [?r h]\<rparr>) (cs @ [code])"
    using Cons.prems(2) h by (auto simp: codes_left_def unused_rows_def intro: list_all2_appendI)
  from Cons.IH [OF rest this] show ?case by simp
qed simp

text \<open>
  C10. A fresh set of backup codes has ten codes of the eight characters by which the second step
  of a login recognises them; over any sequence of attempts, at the login and at the endpoint for
  backup codes, an attempt is accepted exactly while its code is among those not used before: each
  works once, and nothing else works.
\<close>

theorem backup_codes_single_use:
  assumes gen: "mfa_generateBackupCodes e draw ids f (Some cl) s = (Ok 200 codes, s')"
    and bcrypt: "bcrypt_ok e" and db: "distinct (map bc_id (tb_mfa_backup_codes s))"
  shows "length codes = 10 \<and> (\<forall>c \<in> set codes. length c = 8) \<and>
    code_run e (cl_UserID cl) attempts s' = code_spec (mset codes) (map snd attempts)"
proof -
  obtain u where codes: "those (map (\<lambda>i. randomString (draw i) 8 backupCodeChars) [0..<10]) = Some codes"
    and u: "ae_cast_uuid e (cl_UserID cl) = Some u"
    and ins: "insert_codes e ids (\<lambda>n. f (n + 3)) u codes
      (s\<lparr>tb_mfa_backup_codes := del_where (\<lambda>r. bc_user_id r = u) (tb_mfa_backup_codes s)\<rparr>) = Some s'"
    using gen by (auto simp: mfa_generateBackupCodes_def GenerateBackupCodes_def simp del: upt_rec_numeral split: option.splits if_splits)
  have "length codes = 10" using those_length [OF codes] by simp
  moreover have "length c = 8" if "c \<in> set codes" for c
    using those_SomeD [OF codes that] by (auto simp: randomString_def dest!: those_length [OF sym] simp del: upt_rec_numeral)
  moreover have "codes_left e u (s\<lparr>tb_mfa_backup_codes := del_where (\<lambda>r. bc_user_id r = u) (tb_mfa_backup_codes s)\<rparr>) []"
    using db by (auto simp: codes_left_def unused_rows_def del_where_def distinct_map inj_on_def filter_empty_conv)
  ultimately show ?thesis
    using code_run_spec [OF bcrypt u] insert_codes_left [OF ins] by fastforce
qed

definition plain_env :: auth_env where
  "plain_env = (sample_env [])\<lparr>ae_check := (=), ae_hash := Some, ae_cast_uuid := Some\<rparr>"

theorem backup_codes_single_use_witness:
  "\<exists>codes s'. mfa_generateBackupCodes plain_env (\<lambda>i _. Some i) (\<lambda>n. replicate n CHR ''x'') (\<lambda>_. False) (Some (sample_claims ''u1'' False)) sample_db
       = (Ok 200 codes, s') \<and> length codes = 10 \<and>
     code_run plain_env ''u1'' [(True, ''bbbbbbbb''), (False, ''bbbbbbbb''), (False, ''jjjjjjjj''), (True, ''zzzzzzzz'')] s'
       = [True, False, True, False]"
proof -
  let ?as = "[(True, ''bbbbbbbb''), (False, ''bbbbbbbb''), (False, ''jjjjjjjj''), (True, ''zzzzzzzz'')]"
  let ?codes = "map (\<lambda>c. replicate 8 c) ''abcdefghij''"
  obtain s' where g: "mfa_generateBackupCodes plain_env (\<lambda>i _. Some i) (\<lambda>n. replicate n CHR ''x'') (\<lambda>_. False) (Some (sample_claims ''u1'' False)) sample_db
      = (Ok 200 ?codes, s')"
    by (simp add: mfa_generateBackupCodes_def GenerateBackupCodes_def randomString_def backupCodeChars_def sample_claims_def plain_env_def
        sample_defs numeral_eq_Suc)
  have "bcrypt_ok plain_env" by (auto simp: bcrypt_ok_def plain_env_def)
  moreover have "distinct (map bc_id (tb_mfa_backup_codes sample_db))" by (simp add: sample_defs)
  ultimately have "length ?codes = 10 \<and> (\<forall>c \<in> set ?codes. length c = 8) \<and>
      code_run plain_env (cl_UserID (sample_claims ''u1'' False)) ?as s' = code_spec (mset ?codes) (map snd ?as)"
    by (rule backup_codes_single_use [OF g])
  then show ?thesis using g by (auto simp: sample_claims_def numeral_eq_Suc)
qed

section \<open>Replacing the authenticator\<close>

text \<open>A new secret takes effect at once, before it is confirmed: the codes of the old one stop working at the login.\<close>

lemma setup_replaces_secret:
  assumes "setupTOTP e totp_gen fails (Some cl) bd s = (Ok 200 (secret, url, img), s')" "distinct (map tt_user_id (tb_mfa_totp s))"
  shows "\<exists>t. totp_of e (cl_UserID cl) s' = Some t \<and> tt_secret t = secret \<and> \<not> tt_verified t"
proof -
  obtain u where u: "ae_cast_uuid e (cl_UserID cl) = Some u"
    and s': "tb_mfa_totp s' = (if u \<in> tt_user_id ` set (tb_mfa_totp s)
      then upd_where (\<lambda>t. tt_user_id t = u) (\<lambda>t. t\<lparr>tt_secret := secret, tt_verified := False\<rparr>) (tb_mfa_totp s)
      else tb_mfa_totp s @ [\<lparr>tt_user_id = u, tt_secret = secret, tt_verified = False\<rparr>])"
    using assms(1) by (auto simp: setupTOTP_def EnableTOTP_def split: sum.splits option.splits prod.splits if_splits)
  show ?thesis
  proof (cases "u \<in> tt_user_id ` set (tb_mfa_totp s)")
    case True
    then obtain t where t: "t \<in> set (tb_mfa_totp s)" "tt_user_id t = u" by auto
    then have "find (\<lambda>t. tt_user_id t = u) (tb_mfa_totp s) = Some t" using find_unique_key [OF assms(2)] by blast
    then show ?thesis using True u s' t(2) by (simp add: totp_of_def find_upd_where)
  next
    case False
    then have "find (\<lambda>t. tt_user_id t = u) (tb_mfa_totp s') = Some \<lparr>tt_user_id = u, tt_secret = secret, tt_verified = False\<rparr>"
      using s' by (auto simp: find_Some_iff nth_append intro!: exI [of _ "length (tb_mfa_totp s)"])
    then show ?thesis using u by (simp add: totp_of_def)
  qed
qed

lemma email_token_single_use:
  "ValidateEmailToken now u c m = (True, m') \<Longrightarrow> ValidateEmailToken now' u c' m' = (False, m')"
  by (auto simp: ValidateEmailToken_def split: option.splits if_splits)

end
