(* ===== verification/WebAuthn.thy ===== *)
theory WebAuthn
  imports MFA
begin

text \<open>
  Passkeys (\<^verbatim>\<open>internal/auth/mfa/webauthn.go\<close>, \<^verbatim>\<open>webauthn_ceremony.go\<close> and their endpoints in
  \<^verbatim>\<open>handler.go\<close>): the stored credentials and the two ceremonies. The library that makes and
  checks challenges is a parameter, as is Redis, which holds the challenges.

  \<open>cast\<close> is the driver's conversion of text to a UUID with its error, \<open>fe n\<close> the error of the
  \<open>n\<close>-th statement, if it fails.
\<close>

section \<open>Stored credentials\<close>

record WebAuthnCredential =
  wn_ID :: string
  wn_UserID :: string
  wn_CredentialID :: string
  wn_PublicKey :: string
  wn_SignCount :: int
  wn_Name :: string
  wn_CreatedAt :: time

definition RegisterCredential :: "(string \<Rightarrow> string + uuid) \<Rightarrow> uuid \<Rightarrow> time \<Rightarrow> string option \<Rightarrow> WebAuthnCredential \<Rightarrow> db
    \<Rightarrow> bool \<times> db" where
  "RegisterCredential cast new_id now fault cred s =
     (let i = (if wn_ID cred = [] then new_id else wn_ID cred);
          at = (if wn_CreatedAt cred = zero_time then now else wn_CreatedAt cred)
      in case (cast i, cast (wn_UserID cred), fault) of
           (Inr i, Inr u, None) \<Rightarrow>
             if u \<notin> u_id ` set (tb_users s) \<or> i \<in> wa_id ` set (tb_mfa_webauthn s) \<or>
                wn_CredentialID cred \<in> wa_credential_id ` set (tb_mfa_webauthn s)
             then (False, s)
             else (True, s\<lparr>tb_mfa_webauthn := tb_mfa_webauthn s @ [\<lparr>wa_id = i, wa_user_id = u,
                     wa_credential_id = wn_CredentialID cred, wa_public_key = wn_PublicKey cred, wa_sign_count = wn_SignCount cred,
                     wa_name = wn_Name cred, wa_created_at = at\<rparr>]\<rparr>)
         | _ \<Rightarrow> (False, s))"

definition credential_of_row :: "webauthn_row \<Rightarrow> WebAuthnCredential" where
  "credential_of_row r = \<lparr>wn_ID = wa_id r, wn_UserID = wa_user_id r, wn_CredentialID = wa_credential_id r, wn_PublicKey = wa_public_key r,
     wn_SignCount = wa_sign_count r, wn_Name = wa_name r, wn_CreatedAt = wa_created_at r\<rparr>"

definition GetCredentials :: "(string \<Rightarrow> string + uuid) \<Rightarrow> string option \<Rightarrow> string \<Rightarrow> db \<Rightarrow> string + WebAuthnCredential list" where
  "GetCredentials cast fault userID s =
     (case (cast userID, fault) of
        (Inr u, None) \<Rightarrow> Inr (map credential_of_row (sort_key wa_created_at (filter (\<lambda>r. wa_user_id r = u) (tb_mfa_webauthn s))))
      | (Inl m, _) \<Rightarrow> Inl (''querying WebAuthn credentials: '' @ m)
      | (Inr u, Some m) \<Rightarrow> Inl (''querying WebAuthn credentials: '' @ m))"

definition UpdateSignCount :: "(string \<Rightarrow> string + uuid) \<Rightarrow> string option \<Rightarrow> string \<Rightarrow> int \<Rightarrow> db \<Rightarrow> bool \<times> db" where
  "UpdateSignCount cast fault credentialID newCount s =
     (case (cast credentialID, fault) of
        (Inr i, None) \<Rightarrow> (True, s\<lparr>tb_mfa_webauthn :=
           upd_where (\<lambda>r. wa_id r = i) (\<lambda>r. r\<lparr>wa_sign_count := newCount\<rparr>) (tb_mfa_webauthn s)\<rparr>)
      | _ \<Rightarrow> (False, s))"

definition DeleteCredential :: "(string \<Rightarrow> string + uuid) \<Rightarrow> string option \<Rightarrow> string \<Rightarrow> db \<Rightarrow> bool \<times> db" where
  "DeleteCredential cast fault credentialID s =
     (case (cast credentialID, fault) of
        (Inr i, None) \<Rightarrow> (True, s\<lparr>tb_mfa_webauthn := del_where (\<lambda>r. wa_id r = i) (tb_mfa_webauthn s)\<rparr>)
      | _ \<Rightarrow> (False, s))"

definition DeleteCredentialForUser :: "(string \<Rightarrow> string + uuid) \<Rightarrow> string option \<Rightarrow> string \<Rightarrow> string \<Rightarrow> db \<Rightarrow> bool \<times> db" where
  "DeleteCredentialForUser cast fault credentialID userID s =
     (case (cast credentialID, cast userID, fault) of
        (Inr i, Inr u, None) \<Rightarrow>
          let hit = (\<lambda>r. wa_id r = i \<and> wa_user_id r = u)
          in (filter hit (tb_mfa_webauthn s) \<noteq> [], s\<lparr>tb_mfa_webauthn := del_where hit (tb_mfa_webauthn s)\<rparr>)
      | _ \<Rightarrow> (False, s))"

section \<open>Ceremonies\<close>

record wa_credential =
  wc_ID :: string
  wc_PublicKey :: string
  wc_SignCount :: int

record webauthnUser =
  wu_id :: string
  wu_name :: string
  wu_displayName :: string
  wu_credentials :: "wa_credential list"

text \<open>The library: beginning a ceremony yields options for the browser and data to keep; finishing checks a request.\<close>

record ('o, 'x, 'q) webauthn_lib =
  wl_begin_registration :: "webauthnUser \<Rightarrow> string + 'o \<times> 'x"
  wl_finish_registration :: "webauthnUser \<Rightarrow> 'x \<Rightarrow> 'q \<Rightarrow> string + wa_credential"
  wl_begin_login :: "webauthnUser \<Rightarrow> string + 'o \<times> 'x"
  wl_finish_login :: "webauthnUser \<Rightarrow> 'x \<Rightarrow> 'q \<Rightarrow> string + wa_credential"

text \<open>The Redis commands on challenges; \<open>None\<close> for a client that is not configured.\<close>

record ('r, 'x) challenge_client =
  cc_set :: "time \<Rightarrow> string \<Rightarrow> 'x \<Rightarrow> duration \<Rightarrow> 'r \<Rightarrow> string option \<times> 'r"
  cc_get :: "time \<Rightarrow> string \<Rightarrow> 'r \<Rightarrow> 'x option"
  cc_del :: "time \<Rightarrow> string \<Rightarrow> 'r \<Rightarrow> 'r"

definition challengeKey :: "string \<Rightarrow> string \<Rightarrow> string" where
  "challengeKey userID flow = ''webauthn:'' @ flow @ '':'' @ userID"

definition saveSession :: "('r, 'x) challenge_client option \<Rightarrow> time \<Rightarrow> string \<Rightarrow> string \<Rightarrow> 'x \<Rightarrow> 'r \<Rightarrow> string option \<times> 'r" where
  "saveSession cc now userID flow session r =
     (case cc of None \<Rightarrow> (None, r) | Some c \<Rightarrow> cc_set c now (challengeKey userID flow) session (minutes 5) r)"

definition loadSession :: "('r, 'x) challenge_client option \<Rightarrow> time \<Rightarrow> string \<Rightarrow> string \<Rightarrow> 'r \<Rightarrow> 'x option \<times> 'r" where
  "loadSession cc now userID flow r =
     (case cc of None \<Rightarrow> (None, r)
      | Some c \<Rightarrow> (case cc_get c now (challengeKey userID flow) r of
          None \<Rightarrow> (None, r) | Some x \<Rightarrow> (Some x, cc_del c now (challengeKey userID flow) r)))"

definition wa_credential_of :: "WebAuthnCredential \<Rightarrow> wa_credential" where
  "wa_credential_of c = \<lparr>wc_ID = wn_CredentialID c, wc_PublicKey = wn_PublicKey c, wc_SignCount = wn_SignCount c mod 2 ^ 32\<rparr>"

definition buildUser :: "(string \<Rightarrow> string + uuid) \<Rightarrow> string option \<Rightarrow> string \<Rightarrow> string \<Rightarrow> string \<Rightarrow> db \<Rightarrow> string + webauthnUser" where
  "buildUser cast fault userID username displayName s =
     (case GetCredentials cast fault userID s of Inl m \<Rightarrow> Inl m
      | Inr creds \<Rightarrow> Inr \<lparr>wu_id = userID, wu_name = username, wu_displayName = displayName, wu_credentials = map wa_credential_of creds\<rparr>)"

definition BeginRegistration :: "('o, 'x, 'q) webauthn_lib \<Rightarrow> ('r, 'x) challenge_client option \<Rightarrow> (string \<Rightarrow> string + uuid) \<Rightarrow> time
    \<Rightarrow> string option \<Rightarrow> string \<Rightarrow> string \<Rightarrow> string \<Rightarrow> db \<Rightarrow> 'r \<Rightarrow> (string + 'o) \<times> 'r" where
  "BeginRegistration lib cc cast now fault userID username displayName s r =
     (case buildUser cast fault userID username displayName s of Inl m \<Rightarrow> (Inl (''building user: '' @ m), r)
      | Inr user \<Rightarrow>
     (case wl_begin_registration lib user of Inl m \<Rightarrow> (Inl (''begin registration: '' @ m), r)
      | Inr (options, session) \<Rightarrow>
     (case saveSession cc now userID ''register'' session r of
        (Some m, r') \<Rightarrow> (Inl (''saving session: '' @ m), r')
      | (None, r') \<Rightarrow> (Inr options, r'))))"

definition BeginLogin :: "('o, 'x, 'q) webauthn_lib \<Rightarrow> ('r, 'x) challenge_client option \<Rightarrow> (string \<Rightarrow> string + uuid) \<Rightarrow> time
    \<Rightarrow> string option \<Rightarrow> string \<Rightarrow> string \<Rightarrow> string \<Rightarrow> db \<Rightarrow> 'r \<Rightarrow> (string + 'o) \<times> 'r" where
  "BeginLogin lib cc cast now fault userID username displayName s r =
     (case buildUser cast fault userID username displayName s of Inl m \<Rightarrow> (Inl (''building user: '' @ m), r)
      | Inr user \<Rightarrow>
      if wu_credentials user = [] then (Inl ''no WebAuthn credentials registered'', r)
      else (case wl_begin_login lib user of Inl m \<Rightarrow> (Inl (''begin login: '' @ m), r)
      | Inr (options, session) \<Rightarrow>
     (case saveSession cc now userID ''login'' session r of
        (Some m, r') \<Rightarrow> (Inl (''saving session: '' @ m), r')
      | (None, r') \<Rightarrow> (Inr options, r'))))"

section \<open>Endpoints\<close>

definition listWebAuthnCredentials :: "(string \<Rightarrow> string + uuid) \<Rightarrow> string option \<Rightarrow> TokenClaims option \<Rightarrow> db
    \<Rightarrow> WebAuthnCredential list resp" where
  "listWebAuthnCredentials cast fault claims s =
     (case claims of None \<Rightarrow> Err 401 ''unauthenticated''
      | Some cl \<Rightarrow> (case GetCredentials cast fault (cl_UserID cl) s of
          Inl _ \<Rightarrow> Err 500 ''failed to list credentials'' | Inr cs \<Rightarrow> Ok 200 cs))"

text \<open>The body: credential id, public key and name.\<close>

definition registerWebAuthnCredential :: "(string \<Rightarrow> string + uuid) \<Rightarrow> uuid \<Rightarrow> time \<Rightarrow> string option \<Rightarrow> TokenClaims option
    \<Rightarrow> (string \<times> string \<times> string) body \<Rightarrow> db \<Rightarrow> unit resp \<times> db" where
  "registerWebAuthnCredential cast new_id now fault claims bd s =
     (case claims of None \<Rightarrow> (Err 401 ''unauthenticated'', s)
      | Some cl \<Rightarrow>
     (case bd of Inl _ \<Rightarrow> (Err 400 ''invalid request body'', s)
      | Inr (credentialID, publicKey, name) \<Rightarrow>
      if credentialID = [] \<or> publicKey = [] then (Err 400 ''credential_id and public_key are required'', s)
      else (case RegisterCredential cast new_id now fault \<lparr>wn_ID = [], wn_UserID = cl_UserID cl, wn_CredentialID = credentialID,
                   wn_PublicKey = publicKey, wn_SignCount = 0, wn_Name = name, wn_CreatedAt = zero_time\<rparr> s of
        (False, s') \<Rightarrow> (Err 500 ''failed to register credential'', s')
      | (True, s') \<Rightarrow> (Ok 201 (), s'))))"

definition deleteWebAuthnCredential :: "(string \<Rightarrow> string + uuid) \<Rightarrow> string option \<Rightarrow> TokenClaims option \<Rightarrow> string \<Rightarrow> db
    \<Rightarrow> unit resp \<times> db" where
  "deleteWebAuthnCredential cast fault claims credID s =
     (case claims of None \<Rightarrow> (Err 401 ''unauthenticated'', s)
      | Some cl \<Rightarrow>
      if credID = [] then (Err 400 ''credential id is required'', s)
      else (case DeleteCredentialForUser cast fault credID (cl_UserID cl) s of
        (False, s') \<Rightarrow> (Err 404 ''credential not found'', s')
      | (True, s') \<Rightarrow> (Ok 204 (), s')))"

text \<open>In the following \<open>ceremony\<close> is the library and the Redis client, \<open>None\<close> when WebAuthn is not configured.\<close>

definition beginWebAuthnRegistration :: "(('o, 'x, 'q) webauthn_lib \<times> ('r, 'x) challenge_client option) option
    \<Rightarrow> (string \<Rightarrow> string + uuid) \<Rightarrow> time \<Rightarrow> string option \<Rightarrow> TokenClaims option \<Rightarrow> db \<Rightarrow> 'r \<Rightarrow> 'o resp \<times> 'r" where
  "beginWebAuthnRegistration ceremony cast now fault claims s r =
     (case ceremony of None \<Rightarrow> (Err 503 ''WebAuthn not configured'', r)
      | Some (lib, cc) \<Rightarrow>
     (case claims of None \<Rightarrow> (Err 401 ''unauthenticated'', r)
      | Some cl \<Rightarrow>
     (case BeginRegistration lib cc cast now fault (cl_UserID cl) (cl_Username cl) (cl_Username cl) s r of
        (Inl m, r') \<Rightarrow> (Err 500 (''failed to begin registration: '' @ m), r')
      | (Inr options, r') \<Rightarrow> (Ok 200 options, r'))))"

definition finishWebAuthnRegistration :: "(('o, 'x, 'q) webauthn_lib \<times> ('r, 'x) challenge_client option) option \<Rightarrow> auth_env
    \<Rightarrow> (string \<Rightarrow> string + uuid) \<Rightarrow> uuid \<Rightarrow> time \<Rightarrow> (nat \<Rightarrow> string option) \<Rightarrow> TokenClaims option \<Rightarrow> string \<Rightarrow> 'q \<Rightarrow> db \<Rightarrow> 'r
    \<Rightarrow> string resp \<times> db \<times> 'r" where
  "finishWebAuthnRegistration ceremony e cast new_id now fe claims name q s r =
     (case ceremony of None \<Rightarrow> (Err 503 ''WebAuthn not configured'', s, r)
      | Some (lib, cc) \<Rightarrow>
     (case claims of None \<Rightarrow> (Err 401 ''unauthenticated'', s, r)
      | Some cl \<Rightarrow>
     (let credName = (if name = [] then ''Security Key'' else name) in
      case buildUser cast (fe 0) (cl_UserID cl) (cl_Username cl) (cl_Username cl) s of
        Inl _ \<Rightarrow> (Err 500 ''failed to build user'', s, r)
      | Inr user \<Rightarrow>
     (case loadSession cc now (cl_UserID cl) ''register'' r of
        (None, r') \<Rightarrow> (Err 400 ''no pending registration or session expired'', s, r')
      | (Some session, r') \<Rightarrow>
     (case wl_finish_registration lib user session q of
        Inl m \<Rightarrow> (Err 400 (''registration verification failed: '' @ m), s, r')
      | Inr credential \<Rightarrow>
     (case RegisterCredential cast new_id now (fe 1) \<lparr>wn_ID = [], wn_UserID = cl_UserID cl, wn_CredentialID = wc_ID credential,
             wn_PublicKey = wc_PublicKey credential, wn_SignCount = wc_SignCount credential, wn_Name = credName, wn_CreatedAt = zero_time\<rparr> s of
        (False, s1) \<Rightarrow> (Err 500 ''failed to store credential'', s1, r')
      | (True, s1) \<Rightarrow>
     (case SetMFAEnabled e (fe 2 \<noteq> None) (cl_UserID cl) True s1 of
        (False, s2) \<Rightarrow> (Err 500 ''credential stored but failed to enable MFA'', s2, r')
      | (True, s2) \<Rightarrow> (Ok 201 credName, s2, r'))))))))"

definition beginWebAuthnLogin :: "(('o, 'x, 'q) webauthn_lib \<times> ('r, 'x) challenge_client option) option
    \<Rightarrow> (string \<Rightarrow> string + uuid) \<Rightarrow> time \<Rightarrow> string option \<Rightarrow> TokenClaims option \<Rightarrow> db \<Rightarrow> 'r \<Rightarrow> 'o resp \<times> 'r" where
  "beginWebAuthnLogin ceremony cast now fault claims s r =
     (case ceremony of None \<Rightarrow> (Err 503 ''WebAuthn not configured'', r)
      | Some (lib, cc) \<Rightarrow>
     (case claims of None \<Rightarrow> (Err 401 ''unauthenticated'', r)
      | Some cl \<Rightarrow>
     (case BeginLogin lib cc cast now fault (cl_UserID cl) (cl_Username cl) (cl_Username cl) s r of
        (Inl m, r') \<Rightarrow> (Err 400 m, r')
      | (Inr options, r') \<Rightarrow> (Ok 200 options, r'))))"

text \<open>The counter of the credential that answered; errors on the way are ignored.\<close>

definition store_sign_count :: "(string \<Rightarrow> string + uuid) \<Rightarrow> (nat \<Rightarrow> string option) \<Rightarrow> string \<Rightarrow> wa_credential \<Rightarrow> db \<Rightarrow> db" where
  "store_sign_count cast fe userID credential s =
     (case GetCredentials cast (fe 1) userID s of Inl _ \<Rightarrow> s
      | Inr creds \<Rightarrow> (case find (\<lambda>c. wn_CredentialID c = wc_ID credential) creds of
          None \<Rightarrow> s | Some c \<Rightarrow> snd (UpdateSignCount cast (fe 2) (wn_ID c) (wc_SignCount credential) s)))"

definition finishWebAuthnLogin :: "(('o, 'x, 'q) webauthn_lib \<times> ('r, 'x) challenge_client option) option
    \<Rightarrow> (string \<Rightarrow> string + uuid) \<Rightarrow> time \<Rightarrow> (nat \<Rightarrow> string option) \<Rightarrow> TokenClaims option \<Rightarrow> 'q \<Rightarrow> db \<Rightarrow> 'r \<Rightarrow> bool resp \<times> db \<times> 'r" where
  "finishWebAuthnLogin ceremony cast now fe claims q s r =
     (case ceremony of None \<Rightarrow> (Err 503 ''WebAuthn not configured'', s, r)
      | Some (lib, cc) \<Rightarrow>
     (case claims of None \<Rightarrow> (Err 401 ''unauthenticated'', s, r)
      | Some cl \<Rightarrow>
     (case buildUser cast (fe 0) (cl_UserID cl) (cl_Username cl) (cl_Username cl) s of
        Inl _ \<Rightarrow> (Err 500 ''failed to build user'', s, r)
      | Inr user \<Rightarrow>
     (case loadSession cc now (cl_UserID cl) ''login'' r of
        (None, r') \<Rightarrow> (Err 400 ''no pending login or session expired'', s, r')
      | (Some session, r') \<Rightarrow>
     (case wl_finish_login lib user session q of
        Inl m \<Rightarrow> (Err 401 (''assertion verification failed: '' @ m), s, r')
      | Inr credential \<Rightarrow> (Ok 200 True, store_sign_count cast fe (cl_UserID cl) credential s, r'))))))"

section \<open>What the endpoints do\<close>

text \<open>Nobody deletes a passkey of somebody else.\<close>

lemma delete_own_passkeys:
  assumes "deleteWebAuthnCredential cast fault (Some cl) credID s = (r, s')" "cast (cl_UserID cl) = Inr u"
  shows "filter (\<lambda>c. wa_user_id c \<noteq> u) (tb_mfa_webauthn s') = filter (\<lambda>c. wa_user_id c \<noteq> u) (tb_mfa_webauthn s)"
proof -
  have "tb_mfa_webauthn s' = tb_mfa_webauthn s \<or> (\<exists>i. tb_mfa_webauthn s' = del_where (\<lambda>c. wa_id c = i \<and> wa_user_id c = u) (tb_mfa_webauthn s))"
    using assms by (auto simp: deleteWebAuthnCredential_def DeleteCredentialForUser_def Let_def
        split: if_splits sum.splits option.splits bool.splits)
  then show ?thesis by (auto simp: del_where_def intro: filter_cong)
qed

text \<open>
  The comment on the constructor promises challenges in memory when there is no Redis; without it
  no ceremony can be finished.
\<close>

lemma ceremony_needs_redis:
  "\<exists>code msg. finishWebAuthnRegistration (Some (lib, None)) e cast new_id now fe claims name q s r = (Err code msg, s, r)"
  "\<exists>code msg. finishWebAuthnLogin (Some (lib, None)) cast now fe claims q s r = (Err code msg, s, r)"
  by (auto simp: finishWebAuthnRegistration_def finishWebAuthnLogin_def loadSession_def Let_def split: option.split sum.split)

text \<open>
  A passkey cannot be used in the second step of a login, but registering one makes that step
  required: a user without an authenticator app is locked out.
\<close>

lemma passkey_locks_out:
  assumes fin: "finishWebAuthnRegistration ceremony e cast new_id now fe (Some cl) name q s r = (Ok 201 n, s1, r1)"
    and u: "ae_cast_uuid e (cl_UserID cl) = Some i" "x \<in> set (tb_users s1)" "u_id x = i"
    and none: "totp_of e (cl_UserID cl) s = None"
  shows "u_mfa_enabled x \<and> totp_of e (cl_UserID cl) s1 = None"
proof -
  obtain s0 cred fault where reg: "RegisterCredential cast new_id now fault cred s = (True, s0)"
    and s1: "s1 = s0\<lparr>tb_users := upd_where (\<lambda>x. u_id x = i) (\<lambda>x. x\<lparr>u_mfa_enabled := True\<rparr>) (tb_users s0)\<rparr>"
    using fin u(1) by (auto simp: finishWebAuthnRegistration_def SetMFAEnabled_def Let_def split: option.splits sum.splits prod.splits bool.splits if_splits)
  have "tb_mfa_totp s0 = tb_mfa_totp s"
    using reg by (auto simp: RegisterCredential_def Let_def split: sum.splits option.splits if_splits)
  then have "totp_of e (cl_UserID cl) s1 = None" using none by (simp add: s1 totp_of_def)
  moreover have "u_mfa_enabled y" if "y \<in> set (tb_users s1)" "u_id y = i" for y
  proof -
    have "y \<in> (\<lambda>r. if u_id r = i then r\<lparr>u_mfa_enabled := True\<rparr> else r) ` set (tb_users s0)"
      using that(1) unfolding s1 set_upd_where [symmetric] by simp
    then show ?thesis using that(2) by (elim imageE) (simp split: if_splits)
  qed
  then have "u_mfa_enabled x" using u(2,3) by blast
  ultimately show ?thesis by simp
qed

text \<open>A challenge can be answered once, on a server whose \<open>DEL\<close> works.\<close>

lemma challenge_once:
  assumes "\<And>now k r. cc_get c now k (cc_del c now' k r) = None" "loadSession (Some c) now' u flow r = (Some x, r')"
  shows "fst (loadSession (Some c) now u flow r') = None"
  using assms by (auto simp: loadSession_def split: option.splits)

end
