(* ===== verification/Cascade.thy ===== *)
theory Cascade
  imports Schema
begin

text \<open>
  What the foreign keys of the migrations do when a row is deleted: rows that refer to it are
  deleted with it (\<^verbatim>\<open>ON DELETE CASCADE\<close>), and so on, or lose the reference
  (\<^verbatim>\<open>ON DELETE SET NULL\<close>). Tables that the model does not have are left out.
\<close>

section \<open>Keys under changes\<close>

lemma distinct_upd_key:
  assumes "distinct (map ident t)" "distinct (map k t)"
    and "\<And>r. r \<in> set t \<Longrightarrow> ident r = i \<Longrightarrow> k (f r) \<notin> k ` {x \<in> set t. ident x \<noteq> i}"
  shows "distinct (map k (upd_where (\<lambda>x. ident x = i) f t))"
  using assms
proof (induction t)
  case (Cons r t)
  have IH: "distinct (map k (upd_where (\<lambda>x. ident x = i) f t))"
    using Cons.prems by (intro Cons.IH) auto
  have "k (if ident r = i then f r else r) \<notin> k ` set (upd_where (\<lambda>x. ident x = i) f t)"
  proof (cases "ident r = i")
    case True
    then have "upd_where (\<lambda>x. ident x = i) f t = t"
      using Cons.prems(1) by (intro upd_where_none) (force simp: image_iff)
    moreover have "set t \<subseteq> {x \<in> set (r # t). ident x \<noteq> i}"
      using Cons.prems(1) True by (force simp: image_iff)
    moreover have "k (f r) \<notin> k ` {x \<in> set (r # t). ident x \<noteq> i}"
      using True by (intro Cons.prems(3)) auto
    ultimately show ?thesis
      using True by (auto simp del: set_simps)
  next
    case False
    have "k (f x) \<noteq> k r" if "x \<in> set t" "ident x = i" for x
      using Cons.prems(3) [of x] that False by auto
    then show ?thesis
      using Cons.prems(2) False by (auto simp: set_upd_where) (metis image_eqI)
  qed
  then show ?case
    using IH by simp
qed simp

lemma map_eq_image: "map k xs = map k ys \<Longrightarrow> k ` set xs = k ` set ys"
  by (metis list.set_map)

lemma find_last: "(\<And>x. x \<in> set xs \<Longrightarrow> \<not> p x) \<Longrightarrow> p y \<Longrightarrow> find p (xs @ [y]) = Some y"
  by (induction xs) auto

section \<open>Deleting\<close>

definition drop_devices :: "(device_row \<Rightarrow> bool) \<Rightarrow> db \<Rightarrow> db" where
  "drop_devices p s =
     (let gone = d_id ` set (filter p (tb_devices s))
      in s\<lparr>tb_devices := del_where p (tb_devices s),
           tb_device_posture := del_where (\<lambda>r. p_device_id r \<in> gone) (tb_device_posture s),
           tb_trust_scores := del_where (\<lambda>r. ts_device_id r \<in> gone) (tb_trust_scores s)\<rparr>)"

definition drop_user :: "uuid \<Rightarrow> db \<Rightarrow> db" where
  "drop_user i s =
     (let s' = drop_devices (\<lambda>d. d_user_id d = i) s
      in s'\<lparr>tb_users := del_where (\<lambda>u. u_id u = i) (tb_users s'),
            tb_user_groups := del_where (\<lambda>r. fst r = i) (tb_user_groups s'),
            tb_user_roles := del_where (\<lambda>r. fst r = i) (tb_user_roles s'),
            tb_mfa_totp := del_where (\<lambda>r. tt_user_id r = i) (tb_mfa_totp s'),
            tb_mfa_webauthn := del_where (\<lambda>r. wa_user_id r = i) (tb_mfa_webauthn s'),
            tb_mfa_backup_codes := del_where (\<lambda>r. bc_user_id r = i) (tb_mfa_backup_codes s'),
            tb_password_reset_tokens := del_where (\<lambda>r. rt_user_id r = i) (tb_password_reset_tokens s'),
            tb_sessions := del_where (\<lambda>r. se_user_id r = i) (tb_sessions s')\<rparr>)"

definition drop_group :: "uuid \<Rightarrow> db \<Rightarrow> db" where
  "drop_group i s = s\<lparr>tb_groups := del_where (\<lambda>g. gr_id g = i) (tb_groups s),
     tb_user_groups := del_where (\<lambda>r. snd r = i) (tb_user_groups s),
     tb_network_acls := del_where (\<lambda>a. a_group_id a = i) (tb_network_acls s)\<rparr>"

definition drop_gateways :: "uuid set \<Rightarrow> db \<Rightarrow> db" where
  "drop_gateways is s = s\<lparr>tb_gateways := del_where (\<lambda>g. g_id g \<in> is) (tb_gateways s),
     tb_gateway_networks := del_where (\<lambda>r. fst r \<in> is) (tb_gateway_networks s),
     tb_s2s_members := del_where (\<lambda>m. m_gateway_id m \<in> is) (tb_s2s_members s),
     tb_s2s_routes := del_where (\<lambda>r. r_via_gateway r \<in> is) (tb_s2s_routes s),
     tb_s2s_health := del_where (\<lambda>h. h_gateway_id h \<in> is \<or> h_remote_gateway_id h \<in> is) (tb_s2s_health s),
     tb_s2s_tunnels := upd_where (\<lambda>t. \<exists>g \<in> is. t_hub_gateway_id t = Some g) (\<lambda>t. t\<lparr>t_hub_gateway_id := None\<rparr>) (tb_s2s_tunnels s)\<rparr>"

text \<open>The gateways whose own network it is go with a network, whatever other networks they serve.\<close>

definition drop_network :: "uuid \<Rightarrow> db \<Rightarrow> db" where
  "drop_network i s =
     (let s' = drop_gateways (g_id ` set (filter (\<lambda>g. g_network_id g = Some i) (tb_gateways s))) s
      in s'\<lparr>tb_networks := del_where (\<lambda>n. n_id n = i) (tb_networks s'),
            tb_devices := upd_where (\<lambda>d. d_network_id d = Some i) (\<lambda>d. d\<lparr>d_network_id := None\<rparr>) (tb_devices s'),
            tb_gateway_networks := del_where (\<lambda>r. snd r = i) (tb_gateway_networks s'),
            tb_network_acls := del_where (\<lambda>a. a_network_id a = i) (tb_network_acls s'),
            tb_dns_rules := del_where (\<lambda>r. dr_network_id r = i) (tb_dns_rules s'),
            tb_network_smart_routes := del_where (\<lambda>r. fst r = i) (tb_network_smart_routes s')\<rparr>)"

definition drop_tunnel :: "uuid \<Rightarrow> db \<Rightarrow> db" where
  "drop_tunnel i s = s\<lparr>tb_s2s_tunnels := del_where (\<lambda>t. t_id t = i) (tb_s2s_tunnels s),
     tb_s2s_members := del_where (\<lambda>m. m_tunnel_id m = i) (tb_s2s_members s),
     tb_s2s_routes := del_where (\<lambda>r. r_tunnel_id r = i) (tb_s2s_routes s),
     tb_s2s_health := del_where (\<lambda>h. h_tunnel_id h = i) (tb_s2s_health s),
     tb_s2s_allowed_domains := del_where (\<lambda>d. ad_tunnel_id d = i) (tb_s2s_allowed_domains s)\<rparr>"

definition drop_smart_route :: "uuid \<Rightarrow> db \<Rightarrow> db" where
  "drop_smart_route i s = s\<lparr>tb_smart_routes := del_where (\<lambda>r. sr_id r = i) (tb_smart_routes s),
     tb_smart_entries := del_where (\<lambda>e. e_smart_route_id e = i) (tb_smart_entries s),
     tb_network_smart_routes := del_where (\<lambda>r. snd r = i) (tb_network_smart_routes s)\<rparr>"

definition drop_proxy :: "uuid \<Rightarrow> db \<Rightarrow> db" where
  "drop_proxy i s = s\<lparr>tb_proxy_servers := del_where (\<lambda>p. px_id p = i) (tb_proxy_servers s),
     tb_smart_entries := upd_where (\<lambda>e. e_proxy_id e = Some i) (\<lambda>e. e\<lparr>e_proxy_id := None\<rparr>) (tb_smart_entries s)\<rparr>"

end
