(* ===== verification/User_Handler.thy ===== *)
theory User_Handler
  imports Device_Handler Auth_Handler Cascade
begin

text \<open>
  The user endpoints (\<^verbatim>\<open>internal/core/handler/user.go\<close>). A handler that changes users yields its
  answer, the database, the peers it tells the notifier to remove and the firewall refreshes it
  requests. The routes put \<open>RequireAdmin\<close> before all of them but \<open>user_get\<close>.
\<close>

section \<open>Requests and answers\<close>

record userResponse =
  ur_ID :: uuid
  ur_Username :: string
  ur_Email :: string
  ur_FirstName :: string
  ur_LastName :: string
  ur_Phone :: "string option"
  ur_IsActive :: bool
  ur_IsAdmin :: bool
  ur_MFAEnabled :: bool
  ur_LastLogin :: "time option"
  ur_CreatedAt :: time
  ur_UpdatedAt :: time

record createUserRequest =
  cu_Username :: string
  cu_Email :: string
  cu_Password :: string
  cu_FirstName :: string
  cu_LastName :: string
  cu_IsAdmin :: bool

record updateUserRequest =
  uu_Email :: "string option"
  uu_FirstName :: "string option"
  uu_LastName :: "string option"
  uu_Phone :: "string option"
  uu_IsActive :: "bool option"
  uu_IsAdmin :: "bool option"

definition last_login :: "db \<Rightarrow> uuid \<Rightarrow> time option" where
  "last_login s i = map_option se_created_at (latest_by se_created_at (filter (\<lambda>r. se_user_id r = i) (tb_sessions s)))"

text \<open>
  The same column of an \<^verbatim>\<open>UPDATE ... RETURNING\<close>, where the unqualified \<open>id\<close> in the inner query is that of
  the session.
\<close>

definition returned_login :: "db \<Rightarrow> time option" where
  "returned_login s = map_option se_created_at (latest_by se_created_at (filter (\<lambda>r. se_user_id r = se_id r) (tb_sessions s)))"

definition user_response :: "time option \<Rightarrow> user_row \<Rightarrow> userResponse" where
  "user_response lastLogin u =
     \<lparr>ur_ID = u_id u, ur_Username = u_username u, ur_Email = u_email u, ur_FirstName = u_first_name u, ur_LastName = u_last_name u,
      ur_Phone = u_phone u, ur_IsActive = u_is_active u, ur_IsAdmin = u_is_admin u, ur_MFAEnabled = u_mfa_enabled u,
      ur_LastLogin = lastLogin, ur_CreatedAt = u_created_at u, ur_UpdatedAt = u_updated_at u\<rparr>"

section \<open>Reading\<close>

text \<open>The users of a page, the number of all, the page and its size.\<close>

definition user_list :: "url_query \<Rightarrow> (nat \<Rightarrow> bool) \<Rightarrow> db \<Rightarrow> (userResponse list \<times> int \<times> int \<times> int) resp" where
  "user_list q f s =
     (let (page, perPage) = parsePagination q
      in case (if f 0 then None else sql_page u_created_at perPage (page_offset page perPage) (tb_users s)) of
           None \<Rightarrow> Err 500 ''failed to query users''
         | Some us \<Rightarrow>
             if f 1 then Err 500 ''failed to count users''
             else Ok 200 (map (\<lambda>u. user_response (last_login s (u_id u)) u) us, int (length (tb_users s)), page, perPage))"

definition user_get :: "(string \<Rightarrow> string + uuid) \<Rightarrow> bool \<Rightarrow> TokenClaims option \<Rightarrow> string \<Rightarrow> db \<Rightarrow> userResponse resp" where
  "user_get uuid_parse fails claims raw s =
     (case parseUUID uuid_parse raw of Inl e \<Rightarrow> Err 400 e
      | Inr i \<Rightarrow>
     (case claims of None \<Rightarrow> Err 401 ''unauthenticated''
      | Some cl \<Rightarrow>
      if \<not> cl_IsAdmin cl \<and> cl_UserID cl \<noteq> i then Err 403 ''access denied''
      else if fails then Err 500 ''failed to fetch user''
      else (case find (\<lambda>u. u_id u = i) (tb_users s) of None \<Rightarrow> Err 404 ''user not found''
            | Some u \<Rightarrow> Ok 200 (user_response (last_login s i) u))))"

section \<open>Creating\<close>

definition new_user :: "uuid \<Rightarrow> time \<Rightarrow> createUserRequest \<Rightarrow> string \<Rightarrow> user_row" where
  "new_user i now req hash =
     \<lparr>u_id = i, u_username = cu_Username req, u_email = cu_Email req, u_password_hash = Some hash,
      u_first_name = cu_FirstName req, u_last_name = cu_LastName req, u_phone = None, u_is_active = True,
      u_is_admin = cu_IsAdmin req, u_mfa_enabled = False, u_password_must_change = False,
      u_failed_login_attempts = 0, u_locked_until = None, u_created_at = now, u_updated_at = now\<rparr>"

text \<open>The unique indexes are checked in the order of their creation: user name, then e-mail.\<close>

definition user_conflict :: "string \<Rightarrow> string \<Rightarrow> user_row list \<Rightarrow> string option" where
  "user_conflict username email us =
     (if username \<in> u_username ` set us then Some ''user with this username already exists''
      else if email \<in> u_email ` set us then Some ''user with this email already exists'' else None)"

definition user_create_checks :: "unicode_tables \<Rightarrow> createUserRequest \<Rightarrow> string option" where
  "user_create_checks uc req =
     (if cu_Username req = [] then Some ''username is required''
      else if cu_Email req = [] then Some ''email is required''
      else if cu_Password req = [] then Some ''password is required''
      else ValidatePasswordPolicy uc (cu_Password req))"

text \<open>
  Statement \<open>0\<close> begins the transaction, \<open>1\<close> inserts the user, \<open>2\<close> the role, \<open>3\<close> the membership in
  the group of all users, \<open>4\<close> commits. A statement that fails aborts the transaction, so the
  commit fails after it. The last component are the mails sent in the background.
\<close>

definition user_create :: "auth_env \<Rightarrow> bool \<Rightarrow> uuid \<Rightarrow> time \<Rightarrow> (nat \<Rightarrow> bool) \<Rightarrow> createUserRequest body \<Rightarrow> db
    \<Rightarrow> userResponse resp \<times> db \<times> (string \<times> string) list" where
  "user_create e mailer new_id now f bd s =
     (case bd of Inl m \<Rightarrow> (Err 400 m, s, [])
      | Inr req \<Rightarrow>
     (case user_create_checks (ae_uc e) req of Some m \<Rightarrow> (Err 400 m, s, [])
      | None \<Rightarrow>
     (case ae_hash e (cu_Password req) of None \<Rightarrow> (Err 500 ''failed to hash password'', s, [])
      | Some hash \<Rightarrow>
      if f 0 then (Err 500 ''failed to begin transaction'', s, [])
      else if f 1 then (Err 500 ''failed to create user'', s, [])
      else (case user_conflict (cu_Username req) (cu_Email req) (tb_users s) of Some m \<Rightarrow> (Err 409 m, s, [])
      | None \<Rightarrow>
      if f 2 then (Err 500 ''failed to assign role'', s, [])
      else if f 3 \<or> f 4 then (Err 500 ''failed to commit user creation'', s, [])
      else let u = new_user new_id now req hash;
               role = (if cu_IsAdmin req then ''admin'' else ''user'')
           in (Ok 201 (user_response None u),
               s\<lparr>tb_users := tb_users s @ [u],
                 tb_user_roles := tb_user_roles s @ map (\<lambda>r. (new_id, fst r)) (filter (\<lambda>r. snd r = role) (tb_roles s)),
                 tb_user_groups := tb_user_groups s @
                   map (\<lambda>g. (new_id, gr_id g)) (filter (\<lambda>g. gr_name g = ''everyone'' \<and> gr_is_system g) (tb_groups s))\<rparr>,
               if mailer then [(u_email u, u_username u)] else [])))))"

section \<open>Updating\<close>

definition apply_user_update :: "updateUserRequest \<Rightarrow> time \<Rightarrow> user_row \<Rightarrow> user_row" where
  "apply_user_update req now u = u\<lparr>
     u_email := coalesce (uu_Email req) (u_email u),
     u_first_name := coalesce (uu_FirstName req) (u_first_name u),
     u_last_name := coalesce (uu_LastName req) (u_last_name u),
     u_phone := coalesce_null (uu_Phone req) (u_phone u),
     u_is_active := coalesce (uu_IsActive req) (u_is_active u),
     u_is_admin := coalesce (uu_IsAdmin req) (u_is_admin u),
     u_updated_at := now\<rparr>"

text \<open>The keys of a user's devices, as the background task reads them after the update.\<close>

definition user_pubkeys :: "bool \<Rightarrow> uuid \<Rightarrow> db \<Rightarrow> string list" where
  "user_pubkeys fails i s =
     (if fails then [] else map d_wireguard_pubkey (filter (\<lambda>d. d_user_id d = i \<and> d_wireguard_pubkey d \<noteq> []) (tb_devices s)))"

definition removeUserPeers :: "bool \<Rightarrow> bool \<Rightarrow> uuid \<Rightarrow> db \<Rightarrow> peer_note list" where
  "removeUserPeers notifier fails i s = (if notifier then map PeerRemove (user_pubkeys fails i s) else [])"

definition user_update :: "(string \<Rightarrow> string + uuid) \<Rightarrow> bool \<Rightarrow> bool \<Rightarrow> time \<Rightarrow> (nat \<Rightarrow> bool) \<Rightarrow> string \<Rightarrow> updateUserRequest body \<Rightarrow> db
    \<Rightarrow> userResponse resp \<times> db \<times> peer_note list \<times> refresh_job list" where
  "user_update uuid_parse notifier refresher now f raw bd s =
     (case parseUUID uuid_parse raw of Inl m \<Rightarrow> (Err 400 m, s, [], [])
      | Inr i \<Rightarrow>
     (case bd of Inl m \<Rightarrow> (Err 400 m, s, [], [])
      | Inr req \<Rightarrow>
      if f 0 then (Err 500 ''failed to update user'', s, [], [])
      else (case find (\<lambda>u. u_id u = i) (tb_users s) of None \<Rightarrow> (Err 404 ''user not found'', s, [], [])
      | Some u \<Rightarrow>
          let u' = apply_user_update req now u
          in if u_email u' \<in> u_email ` set (filter (\<lambda>x. u_id x \<noteq> i) (tb_users s))
             then (Err 409 ''user with this email already exists'', s, [], [])
             else let s' = s\<lparr>tb_users := upd_where (\<lambda>x. u_id x = i) (apply_user_update req now) (tb_users s)\<rparr>
                  in (Ok 200 (user_response (returned_login s) u'), s',
                      if uu_IsActive req = Some False then removeUserPeers notifier (f 1) i s' else [],
                      if (uu_IsActive req \<noteq> None \<or> uu_IsAdmin req \<noteq> None) \<and> refresher
                      then [refresh_job.RefreshFirewallForUser i] else []))))"

definition user_activate :: "(string \<Rightarrow> string + uuid) \<Rightarrow> time \<Rightarrow> bool \<Rightarrow> string \<Rightarrow> db \<Rightarrow> userResponse resp \<times> db" where
  "user_activate uuid_parse now fails raw s =
     (case parseUUID uuid_parse raw of Inl m \<Rightarrow> (Err 400 m, s)
      | Inr i \<Rightarrow>
      if fails then (Err 500 ''failed to activate user'', s)
      else (case find (\<lambda>u. u_id u = i) (tb_users s) of None \<Rightarrow> (Err 404 ''user not found'', s)
      | Some u \<Rightarrow>
          let act = (\<lambda>u. u\<lparr>u_is_active := True, u_updated_at := now\<rparr>)
          in (Ok 200 (user_response (returned_login s) (act u)),
              s\<lparr>tb_users := upd_where (\<lambda>x. u_id x = i) act (tb_users s)\<rparr>)))"

section \<open>Deleting\<close>

definition active_admins :: "db \<Rightarrow> user_row list" where
  "active_admins s = filter (\<lambda>u. u_is_admin u \<and> u_is_active u) (tb_users s)"

text \<open>
  Statement \<open>0\<close> begins the serializable transaction, \<open>1\<close> reads the user, \<open>2\<close> counts the
  administrators, \<open>3\<close> reads the keys (its failure aborts the transaction), \<open>4\<close> deletes, \<open>5\<close> commits.
\<close>

definition user_delete :: "(string \<Rightarrow> string + uuid) \<Rightarrow> bool \<Rightarrow> (nat \<Rightarrow> bool) \<Rightarrow> string \<Rightarrow> db \<Rightarrow> unit resp \<times> db \<times> peer_note list" where
  "user_delete uuid_parse notifier f raw s =
     (case parseUUID uuid_parse raw of Inl m \<Rightarrow> (Err 400 m, s, [])
      | Inr i \<Rightarrow>
      if f 0 then (Err 500 ''failed to delete user'', s, [])
      else if f 1 then (Err 500 ''failed to fetch user'', s, [])
      else (case find (\<lambda>u. u_id u = i) (tb_users s) of None \<Rightarrow> (Err 404 ''user not found'', s, [])
      | Some u \<Rightarrow>
      if u_is_admin u \<and> u_is_active u \<and> f 2 then (Err 500 ''failed to count admins'', s, [])
      else if u_is_admin u \<and> u_is_active u \<and> length (active_admins s) \<le> 1
      then (Err 409 ''cannot delete the last admin user'', s, [])
      else if f 3 \<or> f 4 \<or> f 5 then (Err 500 ''failed to delete user'', s, [])
      else (Ok 204 (), drop_user i s, if notifier then map PeerRemove (user_pubkeys False i s) else [])))"

section \<open>The last administrator\<close>

lemma drop_user_users: "tb_users (drop_user i s) = del_where (\<lambda>u. u_id u = i) (tb_users s)"
  by (simp add: drop_user_def drop_devices_def Let_def)

lemma active_admins_drop: "active_admins (drop_user i s) = filter (\<lambda>u. u_id u \<noteq> i) (active_admins s)"
  by (auto simp: active_admins_def drop_user_users del_where_def intro: filter_cong)

lemma others_remain:
  assumes "distinct (map u_id xs)" "1 < length xs"
  shows "filter (\<lambda>u. u_id u \<noteq> i) xs \<noteq> []"
proof -
  obtain a b ys where xs: "xs = a # b # ys" using assms(2) by (metis One_nat_def Suc_less_eq length_Cons list.exhaust list.size(3) not_less_zero)
  then have "u_id a \<noteq> u_id b" using assms(1) by simp
  then show ?thesis using xs by auto
qed

text \<open>
  C15. Deleting users never leaves the system without an active administrator, whoever is deleted
  and whichever statement fails.
\<close>

theorem delete_keeps_admin:
  assumes "user_delete uuid_parse notifier f raw s = (r, s', ns)" and "distinct (map u_id (tb_users s))" and "active_admins s \<noteq> []"
  shows "active_admins s' \<noteq> []"
proof (cases "s' = s")
  case False
  then obtain i u where u: "find (\<lambda>u. u_id u = i) (tb_users s) = Some u" "s' = drop_user i s"
    "\<not> (u_is_admin u \<and> u_is_active u \<and> length (active_admins s) \<le> 1)"
    using assms(1) by (auto simp: user_delete_def split: sum.splits option.splits if_splits)
  have uniq: "x = u" if "x \<in> set (tb_users s)" "u_id x = i" for x
    using that find_SomeD [OF u(1)] assms(2) distinct_key_eq [of u_id "tb_users s" x u] by simp
  show ?thesis
  proof (cases "u_is_admin u \<and> u_is_active u")
    case True
    then have "1 < length (active_admins s)" using u(3) by auto
    moreover have "distinct (map u_id (active_admins s))" using assms(2) by (simp add: active_admins_def distinct_map_filter)
    ultimately show ?thesis using others_remain by (simp add: u(2) active_admins_drop)
  next
    case False
    then have "filter (\<lambda>u. u_id u \<noteq> i) (active_admins s) = active_admins s"
      using uniq by (intro filter_True) (auto simp: active_admins_def)
    then show ?thesis using assms(3) by (simp add: u(2) active_admins_drop)
  qed
qed (use assms(3) in simp)

theorem delete_keeps_admin_witness:
  "user_delete Inr True (\<lambda>_. False) ''u1'' sample_db = (Ok 204 (), drop_user ''u1'' sample_db, [PeerRemove ''pk1'']) \<and>
   active_admins (drop_user ''u1'' sample_db) \<noteq> []"
proof -
  have d: "user_delete Inr True (\<lambda>_. False) ''u1'' sample_db = (Ok 204 (), drop_user ''u1'' sample_db, [PeerRemove ''pk1''])"
    by (simp add: user_delete_def parseUUID_def user_pubkeys_def sample_defs)
  have "active_admins (drop_user ''u1'' sample_db) \<noteq> []"
    by (rule delete_keeps_admin [OF d]) (simp_all add: active_admins_def sample_defs)
  with d show ?thesis by simp
qed

text \<open>The update endpoint has no such check: it deactivates or demotes the last administrator.\<close>

lemma update_removes_last_admin:
  "active_admins sample_db \<noteq> [] \<and>
   active_admins (fst (snd (user_update Inr True True 0 (\<lambda>_. False) ''u9''
     (Inr \<lparr>uu_Email = None, uu_FirstName = None, uu_LastName = None, uu_Phone = None, uu_IsActive = Some False, uu_IsAdmin = None\<rparr>) sample_db))) = []"
  by (simp add: user_update_def parseUUID_def apply_user_update_def active_admins_def sample_defs Let_def)

section \<open>Deactivation\<close>

lemma comprehension_upd_where:
  "(\<And>r. r \<in> set t \<Longrightarrow> p r \<Longrightarrow> F (h r) = F r) \<Longrightarrow> concat (map F (upd_where p h t)) = concat (map F t)"
  by (induction t) auto

lemma apply_user_update_keeps:
  "u_id (apply_user_update req now u) = u_id u" "u_mfa_enabled (apply_user_update req now u) = u_mfa_enabled u"
  "uu_IsAdmin req = None \<Longrightarrow> u_is_admin (apply_user_update req now u) = u_is_admin u"
  by (simp_all add: apply_user_update_def)

lemma user_update_ok:
  assumes "user_update uuid_parse notifier refresher now f raw (Inr req) s = (Ok st a, s', ns, js)"
  obtains i u where "parseUUID uuid_parse raw = Inr i" "find (\<lambda>u. u_id u = i) (tb_users s) = Some u"
    "s' = s\<lparr>tb_users := upd_where (\<lambda>x. u_id x = i) (apply_user_update req now) (tb_users s)\<rparr>"
    "ns = (if uu_IsActive req = Some False then removeUserPeers notifier (f 1) i s' else [])"
    "js = (if (uu_IsActive req \<noteq> None \<or> uu_IsAdmin req \<noteq> None) \<and> refresher then [refresh_job.RefreshFirewallForUser i] else [])"
  using assms by (auto simp: user_update_def Let_def split: sum.splits option.splits if_splits)

lemma users_frame:
  "gateway_devices (s\<lparr>tb_users := us\<rparr>) gw = gateway_devices s gw" "legacy_devices (s\<lparr>tb_users := us\<rparr>) gw = legacy_devices s gw"
  "all_device_rows (s\<lparr>tb_users := us\<rparr>) gw = all_device_rows s gw" "acl_networks (s\<lparr>tb_users := us\<rparr>) u = acl_networks s u"
  by (simp_all add: gateway_devices_def legacy_devices_def all_device_rows_def serves_def serves_legacy_def acl_networks_def
      cong: option.case_cong if_cong)

lemma admin_networks_update:
  assumes "uu_IsAdmin req = None"
  shows "admin_networks (s\<lparr>tb_users := upd_where p (apply_user_update req now) (tb_users s)\<rparr>) user = admin_networks s user"
  using comprehension_upd_where [of "tb_users s" p
      "\<lambda>u. if u_id u = user then if u_is_admin u then concat (map (\<lambda>n. if n_is_active n then [n] else []) (tb_networks s)) else [] else []"
      "apply_user_update req now"] assms
  by (simp add: admin_networks_def apply_user_update_keeps cong: if_cong)

lemma device_postures_update:
  "device_postures (s\<lparr>tb_users := upd_where p (apply_user_update req now) (tb_users s)\<rparr>) gw = device_postures s gw"
proof -
  let ?s = "s\<lparr>tb_users := upd_where p (apply_user_update req now) (tb_users s)\<rparr>"
  have "posture_of ?s d (apply_user_update req now u) = posture_of s d u" "posture_of ?s d u = posture_of s d u" for d u
    by (simp_all add: posture_of_def latest_trust_def posture_flags_def apply_user_update_keeps)
  then have "concat (map (\<lambda>u. if u_id u = d_user_id d then [posture_of ?s d u] else []) (upd_where p (apply_user_update req now) (tb_users s))) =
      concat (map (\<lambda>u. if u_id u = d_user_id d then [posture_of s d u] else []) (tb_users s))" for d
    by (subst comprehension_upd_where) (simp_all add: apply_user_update_keeps cong: if_cong)
  then show ?thesis by (simp add: device_postures_def users_frame cong: if_cong)
qed

lemma blocked_ips_update:
  "blocked_ips f gw (s\<lparr>tb_users := upd_where p (apply_user_update req now) (tb_users s)\<rparr>) = blocked_ips f gw s"
  by (simp add: blocked_ips_def device_postures_update blocking_policies_def)

lemma firewall_update:
  assumes "uu_IsAdmin req = None"
  shows "buildFirewallConfigFromPool ord f gw (s\<lparr>tb_users := upd_where p (apply_user_update req now) (tb_users s)\<rparr>) =
    buildFirewallConfigFromPool ord f gw s"
proof -
  have "acl_rows (s\<lparr>tb_users := upd_where p (apply_user_update req now) (tb_users s)\<rparr>) gw = acl_rows s gw"
    by (simp add: acl_rows_def users_frame admin_networks_update [OF assms])
  then show ?thesis by (simp add: buildFirewallConfigFromPool_def firewall_plain_def blocked_ips_update users_frame Let_def)
qed

text \<open>
  C7. Deactivating a user removes the peers of the user's devices at the gateways that are
  connected, once; but nothing else of what gateways get depends on it. The list of peers of a full
  synchronisation and the firewall rules of every gateway are exactly those from before, so a gateway
  that reconnects serves the deactivated user again.
\<close>

theorem deactivation_is_temporary:
  assumes upd: "user_update uuid_parse True refresher now (\<lambda>_. False) raw (Inr req) s = (Ok st a, s', ns, js)"
    and req: "uu_IsActive req = Some False" "uu_IsAdmin req = None"
    and raw: "parseUUID uuid_parse raw = Inr i"
  shows "ns = map PeerRemove (user_pubkeys False i s) \<and> fetchPeers fails gw s' = fetchPeers fails gw s \<and>
    buildFirewallConfigFromPool ord f gw s' = buildFirewallConfigFromPool ord f gw s"
proof -
  have s': "s' = s\<lparr>tb_users := upd_where (\<lambda>x. u_id x = i) (apply_user_update req now) (tb_users s)\<rparr>"
    and ns: "ns = removeUserPeers True False i s'"
    using user_update_ok [OF upd] req(1) raw by auto
  have "fetchPeers fails gw s' = fetchPeers fails gw s"
    by (simp add: s' fetchPeers_def users_frame)
  then show ?thesis using firewall_update [OF req(2)] ns by (simp add: s' removeUserPeers_def user_pubkeys_def)
qed

theorem deactivation_is_temporary_witness:
  "\<exists>a s' js. user_update Inr True True 7 (\<lambda>_. False) ''u1''
       (Inr \<lparr>uu_Email = None, uu_FirstName = None, uu_LastName = None, uu_Phone = None, uu_IsActive = Some False, uu_IsAdmin = None\<rparr>) sample_db
       = (Ok 200 a, s', [PeerRemove ''pk1''], js) \<and> \<not> ur_IsActive a \<and>
     map_option (map pe_PublicKey) (fetchPeers False ''gw1'' s') = Some [''pk1'', ''pk9'']"
proof -
  let ?req = "\<lparr>uu_Email = None, uu_FirstName = None, uu_LastName = None, uu_Phone = None, uu_IsActive = Some False, uu_IsAdmin = None\<rparr>"
  obtain a s' ns js where u: "user_update Inr True True 7 (\<lambda>_. False) ''u1'' (Inr ?req) sample_db = (Ok 200 a, s', ns, js)" "\<not> ur_IsActive a"
    by (simp add: user_update_def parseUUID_def apply_user_update_def user_response_def sample_defs Let_def)
  have "parseUUID Inr ''u1'' = Inr ''u1''" by (simp add: parseUUID_def)
  from deactivation_is_temporary [OF u(1) _ _ this, of False "''gw1''"]
  have "ns = map PeerRemove (user_pubkeys False ''u1'' sample_db)" "fetchPeers False ''gw1'' s' = fetchPeers False ''gw1'' sample_db"
    by simp_all
  moreover have "map_option (map pe_PublicKey) (fetchPeers False ''gw1'' sample_db) = Some [''pk1'', ''pk9'']"
    by (simp add: fetchPeers_def gateway_devices_def legacy_devices_def serves_def serves_legacy_def connectable_def sample_defs)
  moreover have "user_pubkeys False ''u1'' sample_db = [''pk1'']" by (simp add: user_pubkeys_def sample_defs)
  ultimately show ?thesis using u by auto
qed

end
