(* ===== verification/Group_Handler.thy ===== *)
theory Group_Handler
  imports Enforcement Http_Helpers Cascade
begin

text \<open>
  The group endpoints (\<^verbatim>\<open>internal/core/handler/group.go\<close>): groups, their members and the access
  rules of networks for them. A handler that changes access yields the refreshes it requests from
  the notifier, which it waits for. \<open>by_name\<close> sorts rows by a name in the order of the database's
  collation; \<open>cidr_cast\<close> is the conversion of text to \<open>cidr\<close> by the database.
\<close>

section \<open>Answers and requests\<close>

record groupListItem =
  gl_ID :: uuid
  gl_Name :: string
  gl_Description :: string
  gl_IsSystem :: bool
  gl_MemberCount :: int
  gl_CreatedAt :: time

record groupMember =
  gm_UserID :: uuid
  gm_Username :: string
  gm_Email :: string

record groupACL =
  ga_ID :: uuid
  ga_NetworkID :: uuid
  ga_NetworkName :: string
  ga_AllowedIPs :: "string list"

record groupDetail =
  gd_ID :: uuid
  gd_Name :: string
  gd_Description :: string
  gd_IsSystem :: bool
  gd_CreatedAt :: time
  gd_Members :: "groupMember list"
  gd_ACLs :: "groupACL list"

record createGroupRequest =
  cg_Name :: string
  cg_Description :: string

record updateGroupRequest =
  ug_Name :: "string option"
  ug_Description :: "string option"

record addACLRequest =
  aq_NetworkID :: string
  aq_AllowedIPs :: "string list option"

section \<open>Groups\<close>

definition group_item :: "db \<Rightarrow> group_row \<Rightarrow> groupListItem" where
  "group_item s g =
     \<lparr>gl_ID = gr_id g, gl_Name = gr_name g, gl_Description = gr_description g, gl_IsSystem = gr_is_system g,
      gl_MemberCount = int (length (filter (\<lambda>r. snd r = gr_id g) (tb_user_groups s))), gl_CreatedAt = gr_created_at g\<rparr>"

definition group_list :: "bool \<Rightarrow> db \<Rightarrow> groupListItem list resp" where
  "group_list fails s =
     (if fails then Err 500 ''failed to query groups''
      else Ok 200 (map (group_item s) (sort_key (\<lambda>g. - gr_created_at g) (tb_groups s))))"

definition group_create :: "uuid \<Rightarrow> time \<Rightarrow> bool \<Rightarrow> createGroupRequest body \<Rightarrow> db \<Rightarrow> groupListItem resp \<times> db" where
  "group_create new_id now fails bd s =
     (case bd of Inl m \<Rightarrow> (Err 400 m, s)
      | Inr req \<Rightarrow>
      if cg_Name req = [] then (Err 400 ''name is required'', s)
      else if fails then (Err 500 ''failed to create group'', s)
      else if cg_Name req \<in> gr_name ` set (tb_groups s) then (Err 409 ''group with this name already exists'', s)
      else let g = \<lparr>gr_id = new_id, gr_name = cg_Name req, gr_description = cg_Description req, gr_is_system = False, gr_created_at = now\<rparr>
           in (Ok 201 ((group_item s g)\<lparr>gl_MemberCount := 0\<rparr>), s\<lparr>tb_groups := tb_groups s @ [g]\<rparr>))"

definition group_members :: "((groupMember \<Rightarrow> string) \<Rightarrow> groupMember list \<Rightarrow> groupMember list) \<Rightarrow> db \<Rightarrow> uuid \<Rightarrow> groupMember list" where
  "group_members by_name s i =
     by_name gm_Username [\<lparr>gm_UserID = u_id u, gm_Username = u_username u, gm_Email = u_email u\<rparr>.
       u \<leftarrow> tb_users s, (x, g) \<leftarrow> tb_user_groups s, x = u_id u, g = i]"

definition group_acls :: "((groupACL \<Rightarrow> string) \<Rightarrow> groupACL list \<Rightarrow> groupACL list) \<Rightarrow> db \<Rightarrow> uuid \<Rightarrow> groupACL list" where
  "group_acls by_name s i =
     by_name ga_NetworkName [\<lparr>ga_ID = a_id a, ga_NetworkID = a_network_id a, ga_NetworkName = n_name n,
         ga_AllowedIPs = map cidr_text (a_allowed_ips a)\<rparr>.
       a \<leftarrow> tb_network_acls s, a_group_id a = i, n \<leftarrow> tb_networks s, n_id n = a_network_id a]"

definition group_get :: "(string \<Rightarrow> string + uuid) \<Rightarrow> ((groupMember \<Rightarrow> string) \<Rightarrow> groupMember list \<Rightarrow> groupMember list)
    \<Rightarrow> ((groupACL \<Rightarrow> string) \<Rightarrow> groupACL list \<Rightarrow> groupACL list) \<Rightarrow> (nat \<Rightarrow> bool) \<Rightarrow> string \<Rightarrow> db \<Rightarrow> groupDetail resp" where
  "group_get uuid_parse by_name by_name' f raw s =
     (case parseUUID uuid_parse raw of Inl m \<Rightarrow> Err 400 m
      | Inr i \<Rightarrow>
      if f 0 then Err 500 ''failed to fetch group''
      else (case find (\<lambda>g. gr_id g = i) (tb_groups s) of None \<Rightarrow> Err 404 ''group not found''
      | Some g \<Rightarrow>
          if f 1 then Err 500 ''failed to query members''
          else if f 2 then Err 500 ''failed to query acls''
          else Ok 200 \<lparr>gd_ID = gr_id g, gd_Name = gr_name g, gd_Description = gr_description g, gd_IsSystem = gr_is_system g,
                       gd_CreatedAt = gr_created_at g, gd_Members = group_members by_name s i, gd_ACLs = group_acls by_name' s i\<rparr>))"

definition group_update :: "(string \<Rightarrow> string + uuid) \<Rightarrow> bool \<Rightarrow> string \<Rightarrow> updateGroupRequest body \<Rightarrow> db \<Rightarrow> groupListItem resp \<times> db" where
  "group_update uuid_parse fails raw bd s =
     (case parseUUID uuid_parse raw of Inl m \<Rightarrow> (Err 400 m, s)
      | Inr i \<Rightarrow>
     (case bd of Inl m \<Rightarrow> (Err 400 m, s)
      | Inr req \<Rightarrow>
      if fails then (Err 500 ''failed to update group'', s)
      else (case find (\<lambda>g. gr_id g = i) (tb_groups s) of None \<Rightarrow> (Err 404 ''group not found'', s)
      | Some g \<Rightarrow>
          let upd = (\<lambda>g. g\<lparr>gr_name := coalesce (ug_Name req) (gr_name g), gr_description := coalesce (ug_Description req) (gr_description g)\<rparr>)
          in if gr_name (upd g) \<in> gr_name ` set (filter (\<lambda>x. gr_id x \<noteq> i) (tb_groups s))
             then (Err 409 ''group with this name already exists'', s)
             else (Ok 200 (group_item s (upd g)), s\<lparr>tb_groups := upd_where (\<lambda>x. gr_id x = i) upd (tb_groups s)\<rparr>))))"

definition group_delete :: "(string \<Rightarrow> string + uuid) \<Rightarrow> (nat \<Rightarrow> bool) \<Rightarrow> string \<Rightarrow> db \<Rightarrow> unit resp \<times> db" where
  "group_delete uuid_parse f raw s =
     (case parseUUID uuid_parse raw of Inl m \<Rightarrow> (Err 400 m, s)
      | Inr i \<Rightarrow>
      if f 0 then (Err 500 ''failed to fetch group'', s)
      else (case find (\<lambda>g. gr_id g = i) (tb_groups s) of None \<Rightarrow> (Err 404 ''group not found'', s)
      | Some g \<Rightarrow>
          if gr_is_system g then (Err 403 ''cannot delete a system group'', s)
          else if f 1 then (Err 500 ''failed to delete group'', s)
          else (Ok 204 (), drop_group i s)))"

section \<open>Members\<close>

definition group_listMembers :: "(string \<Rightarrow> string + uuid) \<Rightarrow> ((groupMember \<Rightarrow> string) \<Rightarrow> groupMember list \<Rightarrow> groupMember list)
    \<Rightarrow> bool \<Rightarrow> string \<Rightarrow> db \<Rightarrow> groupMember list resp" where
  "group_listMembers uuid_parse by_name fails raw s =
     (case parseUUID uuid_parse raw of Inl _ \<Rightarrow> Err 400 ''invalid group id''
      | Inr i \<Rightarrow> if fails then Err 500 ''failed to query members'' else Ok 200 (group_members by_name s i))"

definition group_addMember :: "(string \<Rightarrow> string + uuid) \<Rightarrow> bool \<Rightarrow> bool \<Rightarrow> string \<Rightarrow> string body \<Rightarrow> db
    \<Rightarrow> (uuid \<times> uuid) resp \<times> db \<times> refresh_job list" where
  "group_addMember uuid_parse refresher fails raw bd s =
     (case parseUUID uuid_parse raw of Inl m \<Rightarrow> (Err 400 m, s, [])
      | Inr groupID \<Rightarrow>
     (case bd of Inl m \<Rightarrow> (Err 400 m, s, [])
      | Inr uid \<Rightarrow>
      if uid = [] then (Err 400 ''user_id is required'', s, [])
      else (case uuid_parse uid of Inl _ \<Rightarrow> (Err 400 ''invalid user_id'', s, [])
      | Inr userID \<Rightarrow>
      if fails then (Err 500 ''failed to add member'', s, [])
      else if (userID, groupID) \<notin> set (tb_user_groups s) \<and>
              (userID \<notin> u_id ` set (tb_users s) \<or> groupID \<notin> gr_id ` set (tb_groups s))
      then (Err 400 ''user or group not found'', s, [])
      else (Ok 201 (userID, groupID),
            s\<lparr>tb_user_groups := (if (userID, groupID) \<in> set (tb_user_groups s) then tb_user_groups s
                                 else tb_user_groups s @ [(userID, groupID)])\<rparr>,
            if refresher then [refresh_job.RefreshFirewallForUser userID] else []))))"

definition group_removeMember :: "(string \<Rightarrow> string + uuid) \<Rightarrow> bool \<Rightarrow> bool \<Rightarrow> string \<Rightarrow> string \<Rightarrow> db \<Rightarrow> unit resp \<times> db \<times> refresh_job list" where
  "group_removeMember uuid_parse refresher fails raw rawUser s =
     (case parseUUID uuid_parse raw of Inl m \<Rightarrow> (Err 400 m, s, [])
      | Inr groupID \<Rightarrow>
     (case parseUUID uuid_parse rawUser of Inl m \<Rightarrow> (Err 400 m, s, [])
      | Inr userID \<Rightarrow>
      if fails then (Err 500 ''failed to remove member'', s, [])
      else if (userID, groupID) \<notin> set (tb_user_groups s) then (Err 404 ''member not found'', s, [])
      else (Ok 204 (), s\<lparr>tb_user_groups := del_where (\<lambda>r. r = (userID, groupID)) (tb_user_groups s)\<rparr>,
            if refresher then [refresh_job.RefreshFirewallForUser userID] else [])))"

section \<open>Access rules\<close>

definition group_listACLs :: "(string \<Rightarrow> string + uuid) \<Rightarrow> ((groupACL \<Rightarrow> string) \<Rightarrow> groupACL list \<Rightarrow> groupACL list) \<Rightarrow> bool \<Rightarrow> string \<Rightarrow> db
    \<Rightarrow> groupACL list resp" where
  "group_listACLs uuid_parse by_name fails raw s =
     (case parseUUID uuid_parse raw of Inl m \<Rightarrow> Err 400 m
      | Inr i \<Rightarrow> if fails then Err 500 ''failed to query acls'' else Ok 200 (group_acls by_name s i))"

definition all_addresses :: "string list" where
  "all_addresses = [''0.0.0.0/0'']"

definition group_addACL :: "(string \<Rightarrow> string + uuid) \<Rightarrow> (string \<Rightarrow> cidr option) \<Rightarrow> bool \<Rightarrow> uuid \<Rightarrow> bool \<Rightarrow> string \<Rightarrow> addACLRequest body \<Rightarrow> db
    \<Rightarrow> groupACL resp \<times> db \<times> refresh_job list" where
  "group_addACL uuid_parse cidr_cast refresher new_id fails raw bd s =
     (case parseUUID uuid_parse raw of Inl m \<Rightarrow> (Err 400 m, s, [])
      | Inr groupID \<Rightarrow>
     (case bd of Inl m \<Rightarrow> (Err 400 m, s, [])
      | Inr req \<Rightarrow>
      if aq_NetworkID req = [] then (Err 400 ''network_id is required'', s, [])
      else (case uuid_parse (aq_NetworkID req) of Inl _ \<Rightarrow> (Err 400 ''invalid network_id'', s, [])
      | Inr networkID \<Rightarrow>
      if fails then (Err 500 ''failed to create acl'', s, [])
      else (case those (map cidr_cast (case aq_AllowedIPs req of None \<Rightarrow> all_addresses | Some ips \<Rightarrow> ips)) of
        None \<Rightarrow> (Err 400 ''invalid CIDR format in allowed_ips'', s, [])
      | Some ips \<Rightarrow>
      if (networkID, groupID) \<in> (\<lambda>a. (a_network_id a, a_group_id a)) ` set (tb_network_acls s)
      then (Err 409 ''acl for this network and group already exists'', s, [])
      else if groupID \<notin> gr_id ` set (tb_groups s) then (Err 400 ''network or group not found'', s, [])
      else (case find (\<lambda>n. n_id n = networkID) (tb_networks s) of None \<Rightarrow> (Err 400 ''network or group not found'', s, [])
      | Some n \<Rightarrow>
          let a = \<lparr>a_id = new_id, a_network_id = networkID, a_group_id = groupID, a_allowed_ips = ips\<rparr>
          in (Ok 201 \<lparr>ga_ID = new_id, ga_NetworkID = networkID, ga_NetworkName = n_name n, ga_AllowedIPs = map cidr_text ips\<rparr>,
              s\<lparr>tb_network_acls := tb_network_acls s @ [a]\<rparr>,
              if refresher then [refresh_job.RefreshFirewallForGroup groupID] else []))))))"

definition group_removeACL :: "(string \<Rightarrow> string + uuid) \<Rightarrow> bool \<Rightarrow> bool \<Rightarrow> string \<Rightarrow> string \<Rightarrow> db \<Rightarrow> unit resp \<times> db \<times> refresh_job list" where
  "group_removeACL uuid_parse refresher fails raw rawACL s =
     (case parseUUID uuid_parse raw of Inl m \<Rightarrow> (Err 400 m, s, [])
      | Inr groupID \<Rightarrow>
     (case parseUUID uuid_parse rawACL of Inl m \<Rightarrow> (Err 400 m, s, [])
      | Inr aclID \<Rightarrow>
      if fails then (Err 500 ''failed to delete acl'', s, [])
      else let hit = (\<lambda>a. a_id a = aclID \<and> a_group_id a = groupID)
           in if filter hit (tb_network_acls s) = [] then (Err 404 ''acl not found'', s, [])
              else (Ok 204 (), s\<lparr>tb_network_acls := del_where hit (tb_network_acls s)\<rparr>,
                    if refresher then [refresh_job.RefreshFirewallForGroup groupID] else [])))"

section \<open>Access that a change takes away\<close>

definition run_jobs :: "(ip4 list \<Rightarrow> ip4 list) \<Rightarrow> refresh_job list \<Rightarrow> db \<Rightarrow> StreamHub \<Rightarrow> hub_out list" where
  "run_jobs ord jobs s h = concat (map (\<lambda>j. run_job ord (\<lambda>_. False) j s h) jobs)"

text \<open>What a user may reach other than through a group.\<close>

definition reach_without :: "db \<Rightarrow> uuid \<Rightarrow> uuid \<Rightarrow> ip4 \<Rightarrow> bool" where
  "reach_without s user g dst \<longleftrightarrow> (\<exists>n \<in> set (tb_networks s). n_is_active n \<and> in_cidr dst (n_address n) \<and>
     ((\<exists>a \<in> set (tb_network_acls s). a_network_id a = n_id n \<and> a_group_id a \<noteq> g \<and> (user, a_group_id a) \<in> set (tb_user_groups s)) \<or>
      (\<exists>u \<in> set (tb_users s). u_id u = user \<and> u_is_admin u)))"

lemma parseUUID_Inr: "parseUUID uuid_parse raw = Inr i \<longleftrightarrow> uuid_parse raw = Inr i"
  by (simp add: parseUUID_def split: sum.splits)

lemma removeMember_accepted:
  assumes "group_removeMember uuid_parse True fails raw rawUser s = (Ok 204 (), s', jobs)"
  obtains g u where "uuid_parse raw = Inr g" "uuid_parse rawUser = Inr u" "jobs = [refresh_job.RefreshFirewallForUser u]"
    "s' = s\<lparr>tb_user_groups := del_where (\<lambda>r. r = (u, g)) (tb_user_groups s)\<rparr>"
  using assms by (auto simp: group_removeMember_def parseUUID_Inr split: sum.splits if_splits)

lemma acl_allows_removed:
  "acl_allows (s\<lparr>tb_user_groups := del_where (\<lambda>r. r = (u, g)) (tb_user_groups s)\<rparr>) u dst \<longleftrightarrow> reach_without s u g dst"
  by (auto simp: acl_allows_def reach_without_def)

lemma membership_frame:
  "gateway_devices (s\<lparr>tb_user_groups := ug\<rparr>) gw = gateway_devices s gw"
  "db_ok (s\<lparr>tb_user_groups := ug\<rparr>) \<longleftrightarrow> db_ok s"
  by (simp_all add: gateway_devices_def serves_def db_ok_def devices_ok_def networks_ok_def users_ok_def cong: option.case_cong)

lemma device_drop_verdict:
  assumes "db_ok s" "d \<in> set (gateway_devices s gw)" "pk_src p = d_assigned_ip d" "\<not> acl_allows s (d_user_id d) (pk_dst p)"
  shows "access_verdict s gw p = Some Dropped"
proof -
  have "d' = d" if "d' \<in> set (gateway_devices s gw)" "d_assigned_ip d' = d_assigned_ip d" for d'
    using device_ip_unique [OF assms(1), of d' d] that assms(2) by (auto dest!: gateway_device_stored)
  then show ?thesis
    using assms(2-4) by (auto simp: access_verdict_def)
qed

text \<open>
  C3. When a user is removed from a group, each gateway that serves a device of the user is sent
  rules, all the rules it is sent are the same, and under them every packet from the device to an
  address that the user reaches only through that group is dropped. This is for a core without
  Redis, and with Redis if the devices of the user are on that gateway alone.
\<close>

theorem member_removal_enforced:
  assumes "group_removeMember uuid_parse True fails raw rawUser s = (Ok 204 (), s', jobs)" "db_ok s" "\<And>xs. set (ord xs) = set xs"
    and "own_updates h hubs gw (gateways_of_user s (d_user_id d))" "map_of (hb_streams h) gw = Some st" "d \<in> set (gateway_devices s gw)"
    and "uuid_parse raw = Inr g" "uuid_parse rawUser = Inr (d_user_id d)"
  shows "\<exists>config. FirewallUpdate (Some config) \<in> set (events_to st rd hubs (run_jobs ord jobs s' h)) \<and>
    (\<forall>c. FirewallUpdate c \<in> set (events_to st rd hubs (run_jobs ord jobs s' h)) \<longrightarrow> c = Some config) \<and>
    (\<forall>fl p. pk_src p = d_assigned_ip d \<and> \<not> reach_without s (d_user_id d) g (pk_dst p) \<longrightarrow>
       chain_verdict fl (installed_specs (fc_Rules config)) p = Some Dropped)"
proof -
  have s': "s' = s\<lparr>tb_user_groups := del_where (\<lambda>r. r = (d_user_id d, g)) (tb_user_groups s)\<rparr>"
    and jobs: "jobs = [refresh_job.RefreshFirewallForUser (d_user_id d)]"
    using assms(7,8) by (auto intro: removeMember_accepted [OF assms(1)])
  have d: "d \<in> set (gateway_devices s' gw)" and ok: "db_ok s'"
    using assms(2,6) by (simp_all add: s' membership_frame)
  obtain r where r: "buildFirewallConfigFromPool ord (\<lambda>_. False) gw s' = Some r"
    by (simp add: buildFirewallConfigFromPool_def Let_def)
  have "gateways_of_user s' (d_user_id d) = gateways_of_user s (d_user_id d)"
    by (simp add: s' gateways_of_user_def gateways_of_network_def)
  note es = refresh_events [OF assms(4) [folded this] assms(5) serving_gateway_of_user [OF d] r, where rd = rd]
  have run: "run_jobs ord jobs s' h = RefreshFirewallForGateways ord (\<lambda>_. False) (gateways_of_user s' (d_user_id d)) s' h"
    by (simp add: run_jobs_def jobs run_job_def RefreshFirewallForUser_def)
  have "chain_verdict fl (installed_specs (fc_Rules (fwr_Config r))) p = Some Dropped"
    if "pk_src p = d_assigned_ip d" "\<not> reach_without s (d_user_id d) g (pk_dst p)" for fl p
  proof -
    have "\<not> acl_allows s' (d_user_id d) (pk_dst p)" using that(2) by (simp add: s' acl_allows_removed)
    then show ?thesis
      unfolding built_config [OF r] rendered_verdict [OF firewall_plain_ok [OF ok]]
      using firewall_plain_access [OF ok assms(3), of "\<lambda>_. False"] device_drop_verdict [OF ok d that(1)] by simp
  qed
  then show ?thesis
    using es(1,2) unfolding run by (intro exI [of _ "fwr_Config r"]) (auto simp: refresh_event_def)
qed

text \<open>
  C6. The removal of an access rule is not sent to the gateways of its network: the refresh looks
  up the gateways of the group's networks after the row is gone. A gateway that serves no other
  network of the group never gets rules computed for it, although the access policy has changed:
  without Redis it gets none at all, and with Redis, whichever messages arrive, only those of
  other gateways, which the rest of the group's networks have.
\<close>

theorem acl_removal_unnoticed:
  assumes "group_removeACL uuid_parse True fails raw rawACL s = (Ok 204 (), s', jobs)"
    and "uuid_parse raw = Inr g" "uuid_parse rawACL = Inr i" "hub_streams_ok h" "map_of (hb_streams h) gw = Some st"
    and "\<forall>a \<in> set (tb_network_acls s). a_group_id a = g \<and> a_id a \<noteq> i \<longrightarrow> gw \<notin> set (gateways_of_network s (Some (a_network_id a)))"
    and "compatible h hubs"
  shows "\<forall>c. FirewallUpdate c \<in> set (events_to st rd hubs (run_jobs ord jobs s' h)) \<longrightarrow>
    hb_rdb h \<noteq> None \<and>
    (\<exists>gw' a. gw' \<noteq> gw \<and> c = buildFirewallConfig ord (\<lambda>_. False) gw' s' \<and> a \<in> set (tb_network_acls s) \<and> a_group_id a = g \<and>
       a_id a \<noteq> i \<and> gw' \<in> set (gateways_of_network s (Some (a_network_id a))))"
proof (intro allI impI)
  fix c assume c: "FirewallUpdate c \<in> set (events_to st rd hubs (run_jobs ord jobs s' h))"
  have s': "s' = s\<lparr>tb_network_acls := del_where (\<lambda>a. a_id a = i \<and> a_group_id a = g) (tb_network_acls s)\<rparr>"
    and jobs: "jobs = [refresh_job.RefreshFirewallForGroup g]"
    using assms(1-3) by (auto simp: group_removeACL_def parseUUID_def Let_def split: if_splits)
  let ?outs = "RefreshFirewallForGateways ord (\<lambda>_. False) (gateways_of_group s' g) s' h"
  have d: "(st, FirewallUpdate c) \<in> set (deliveries rd hubs ?outs)"
    using c by (simp add: run_jobs_def jobs run_job_def RefreshFirewallForGroup_def set_events_to)
  have same: "gateways_of_network s' n = gateways_of_network s n" for n
    by (simp add: s' gateways_of_network_def)
  have others: "\<exists>a \<in> set (tb_network_acls s). a_group_id a = g \<and> a_id a \<noteq> i \<and> gw' \<in> set (gateways_of_network s (Some (a_network_id a)))"
    if "gw' \<in> set (gateways_of_group s' g)" for gw'
    using that by (auto simp: gateways_of_group_def same) (auto simp: s')
  then have ne: "gw' \<noteq> gw" if "gw' \<in> set (gateways_of_group s' g)" for gw'
    using assms(6) that by blast
  have "hb_rdb h \<noteq> None"
  proof
    assume "hb_rdb h = None"
    then have "Deliver st (FirewallUpdate c) \<in> set ?outs" using d delivered_local [OF refresh_carries] by blast
    then show False
      using distinct_streams [OF assms(4,5)] ne by (auto simp: refresh_direct)
  qed
  moreover obtain gw' where "gw' \<in> set (gateways_of_group s' g)" "c = buildFirewallConfig ord (\<lambda>_. False) gw' s'"
    using delivered_carried [OF refresh_carries assms(7) d] by auto
  ultimately show "hb_rdb h \<noteq> None \<and>
    (\<exists>gw' a. gw' \<noteq> gw \<and> c = buildFirewallConfig ord (\<lambda>_. False) gw' s' \<and> a \<in> set (tb_network_acls s) \<and> a_group_id a = g \<and>
       a_id a \<noteq> i \<and> gw' \<in> set (gateways_of_network s (Some (a_network_id a))))"
    using others ne by blast
qed

section \<open>Witnesses\<close>

definition plain_uuid :: "string \<Rightarrow> string + uuid" where
  "plain_uuid raw = (if raw = [] then Inl ''invalid UUID length: 0'' else Inr raw)"

abbreviation to_10_10 :: packet where
  "to_10_10 \<equiv> \<lparr>pk_src = 0x0A080002, pk_dst = 0x0A0A0005, pk_proto = ''tcp'', pk_dport = 443\<rparr>"

lemma sample_stream: "map_of (hb_streams (sample_hub None)) ''gw1'' = Some 1"
  by simp

lemma sample_device_1: "sample_device ''d1'' ''u1'' ''pk1'' 0x0A080002 \<in> set (gateway_devices sample_db ''gw1'')"
  by (simp add: sample_gateway_devices sample_tables)

lemma sample_reach:
  "acl_allows sample_db ''u1'' 0x0A0A0005" "\<not> reach_without sample_db ''u1'' ''everyone'' 0x0A0A0005"
  by (simp_all add: acl_allows_def reach_without_def sample_tables sample_network_def sample_user_def net_10_10_def in_cidr_def mask_ip_def)

theorem member_removal_enforced_witness:
  "case group_removeMember plain_uuid True False ''everyone'' ''u1'' sample_db of (answer, s', jobs) \<Rightarrow>
     answer = Ok 204 () \<and> access_verdict sample_db ''gw1'' to_10_10 = Some Accepted \<and>
     (\<exists>config. FirewallUpdate (Some config) \<in> set (events_to 1 (\<lambda>_ _. True) [sample_hub None] (run_jobs rev jobs s' (sample_hub None))) \<and>
        chain_verdict {} (installed_specs (fc_Rules config)) to_10_10 = Some Dropped)"
proof -
  obtain s' jobs where run: "group_removeMember plain_uuid True False ''everyone'' ''u1'' sample_db = (Ok 204 (), s', jobs)"
    by (simp add: group_removeMember_def parseUUID_def plain_uuid_def sample_tables)
  have g: "plain_uuid ''everyone'' = Inr ''everyone''"
    "plain_uuid ''u1'' = Inr (d_user_id (sample_device ''d1'' ''u1'' ''pk1'' 0x0A080002))"
    by (simp_all add: plain_uuid_def sample_device_def)
  have "\<not> ztna_blocked sample_db (sample_device ''d1'' ''u1'' ''pk1'' 0x0A080002)"
    by (simp add: ztna_blocked_def trust_blocks_def sample_tables)
  then have "access_verdict sample_db ''gw1'' to_10_10 = Some Accepted"
    using sample_reach(1) sample_device_1 by (force simp: access_verdict_def sample_device_def)
  then show ?thesis
    using member_removal_enforced [OF run sample_db_ok set_rev sample_hub_local sample_stream sample_device_1 g,
        where rd = "\<lambda>_ _. True" and hubs = "[sample_hub None]"] sample_reach(2)
    by (auto simp: run sample_device_def)
qed

theorem acl_removal_unnoticed_witness:
  "case group_removeACL plain_uuid True False ''everyone'' ''a1'' sample_db of (answer, s', jobs) \<Rightarrow>
     answer = Ok 204 () \<and> access_verdict s' ''gw1'' to_10_10 = Some Dropped \<and>
     (\<forall>c. FirewallUpdate c \<notin> set (events_to 1 (\<lambda>_ _. True) [sample_hub None] (run_jobs rev jobs s' (sample_hub None))))"
proof -
  let ?s = "sample_db\<lparr>tb_network_acls := []\<rparr>"
  have run: "group_removeACL plain_uuid True False ''everyone'' ''a1'' sample_db = (Ok 204 (), ?s, [refresh_job.RefreshFirewallForGroup ''everyone''])"
    by (simp add: group_removeACL_def parseUUID_def plain_uuid_def sample_tables)
  have ids: "plain_uuid ''everyone'' = Inr ''everyone''" "plain_uuid ''a1'' = Inr ''a1''"
    by (simp_all add: plain_uuid_def)
  have "\<not> acl_allows ?s ''u1'' 0x0A0A0005"
    by (simp add: acl_allows_def sample_tables sample_network_def sample_user_def)
  then have "access_verdict ?s ''gw1'' to_10_10 = Some Dropped"
    by (simp add: access_verdict_def sample_gateway_devices) (simp add: sample_tables sample_device_def)
  then show ?thesis
    using acl_removal_unnoticed [OF run ids sample_hub_ok sample_stream, where rd = "\<lambda>_ _. True" and hubs = "[sample_hub None]"]
    by (auto simp: run sample_tables compatible_def)
qed

end
