(* ===== verification/IPv6.thy ===== *)
theory IPv6
  imports IPv4
begin

text \<open>
  \<^verbatim>\<open>net.ParseIP\<close> of the Go standard library: the dotted form of \<open>IPv4\<close>, or up to eight colon-separated
  hexadecimal fields of at most four digits, one run of them possibly left out as \<open>::\<close>, the last two
  possibly in the dotted form, without a zone. The loop takes at most eight fields, which is the
  bound it counts down from.
\<close>

definition is_hex :: "char \<Rightarrow> bool" where
  "is_hex c \<longleftrightarrow> is_digit c \<or> (let n = of_char c :: nat in 97 \<le> n \<and> n \<le> 102 \<or> 65 \<le> n \<and> n \<le> 70)"

definition hex_digit_val :: "char \<Rightarrow> nat" where
  "hex_digit_val c =
     (let n = of_char c :: nat in if is_digit c then n - 48 else if 97 \<le> n then n - 87 else n - 55)"

definition hex_val :: "string \<Rightarrow> nat" where
  "hex_val s = foldl (\<lambda>a c. a * 16 + hex_digit_val c) 0 s"

fun ip6_loop :: "nat \<Rightarrow> nat list \<Rightarrow> nat option \<Rightarrow> string \<Rightarrow> (nat list \<times> nat option \<times> string) option" where
  "ip6_loop 0 gs ellipsis s = Some (gs, ellipsis, s)"
| "ip6_loop (Suc k) gs ellipsis s =
     (let fld = takeWhile is_hex s; rest = dropWhile is_hex s
      in if fld = [] \<or> length fld > 4 then None
         else if rest \<noteq> [] \<and> hd rest = CHR ''.'' then
           (if (ellipsis = None \<and> length gs \<noteq> 6) \<or> length gs > 6 then None
            else case parse_ip4 s of None \<Rightarrow> None
              | Some w \<Rightarrow> Some (gs @ [unat w div 65536, unat w mod 65536], ellipsis, []))
         else let gs' = gs @ [hex_val fld]
         in if rest = [] then Some (gs', ellipsis, [])
            else if hd rest \<noteq> CHR '':'' \<or> length rest = 1 then None
            else if hd (tl rest) = CHR '':'' then
              (if ellipsis \<noteq> None then None
               else if tl (tl rest) = [] then Some (gs', Some (length gs'), [])
               else ip6_loop k gs' (Some (length gs')) (tl (tl rest)))
            else ip6_loop k gs' ellipsis (tl rest))"

definition ip6_expand :: "nat list \<Rightarrow> nat option \<Rightarrow> nat list option" where
  "ip6_expand gs ellipsis =
     (if length gs < 8 then
        (case ellipsis of None \<Rightarrow> None | Some e \<Rightarrow> Some (take e gs @ replicate (8 - length gs) 0 @ drop e gs))
      else if ellipsis = None then Some gs else None)"

definition parse_ip6 :: "string \<Rightarrow> nat list option" where
  "parse_ip6 s =
     (let (ellipsis, s') = (if take 2 s = ''::'' then (Some 0, drop 2 s) else (None, s))
      in if CHR ''%'' \<in> set s then None
         else if ellipsis \<noteq> None \<and> s' = [] then Some (replicate 8 0)
         else case ip6_loop 8 [] ellipsis s' of None \<Rightarrow> None
           | Some (gs, ellipsis, rest) \<Rightarrow> if rest \<noteq> [] then None else ip6_expand gs ellipsis)"

text \<open>An address of the dotted form or of the colon form.\<close>

definition ParseIP :: "string \<Rightarrow> (ip4 + nat list) option" where
  "ParseIP s =
     (case find (\<lambda>c. c \<in> set ''.:%'') s of None \<Rightarrow> None
      | Some c \<Rightarrow> if c = CHR ''.'' then map_option Inl (parse_ip4 s)
                  else if c = CHR '':'' then map_option Inr (parse_ip6 s) else None)"

section \<open>Its results\<close>

lemma hex_digit_less: "is_hex c \<Longrightarrow> hex_digit_val c < 16"
  by (simp only: is_hex_def hex_digit_val_def is_digit_def Let_def) (simp split: if_split; linarith)

lemma hex_val_less:
  assumes "list_all is_hex s"
  shows "hex_val s < 16 ^ length s"
  using assms
proof (induction s rule: rev_induct)
  case (snoc c s)
  then have "hex_val s + 1 \<le> 16 ^ length s" "hex_digit_val c < 16" by (simp_all add: hex_digit_less)
  then show ?case by (simp add: hex_val_def)
qed (simp add: hex_val_def)

lemma field_less:
  assumes "length (takeWhile is_hex s) \<le> 4"
  shows "hex_val (takeWhile is_hex s) < 65536"
proof -
  have "hex_val (takeWhile is_hex s) < 16 ^ length (takeWhile is_hex s)"
    by (rule hex_val_less) (auto simp: list_all_iff dest: set_takeWhileD)
  also have "\<dots> \<le> 16 ^ 4" using assms by (rule power_increasing) simp
  finally show ?thesis by simp
qed

lemma dotted_less: "unat (w :: ip4) div 65536 < 65536"
  using unsigned_less [of w, where ?'a = nat] by (simp add: less_mult_imp_div_less)

lemma ip6_loop_fields:
  assumes "ip6_loop k gs ellipsis s = Some (gs', ellipsis', rest)"
    and "length gs + k = 8" "\<forall>g \<in> set gs. g < 65536"
  shows "length gs' \<le> 8 \<and> (\<forall>g \<in> set gs'. g < 65536)"
  using assms
proof (induction k arbitrary: gs ellipsis s)
  case (Suc k)
  let ?g = "hex_val (takeWhile is_hex s)"
  have step: "length gs' \<le> 8 \<and> (\<forall>g \<in> set gs'. g < 65536)"
    if "ip6_loop k (gs @ [?g]) el t = Some (gs', ellipsis', rest)" "?g < 65536" for el t
    using Suc.IH [OF that(1)] Suc.prems(2,3) that(2) by auto
  show ?case
    using Suc.prems field_less [of s] dotted_less
    by (auto simp: Let_def split: if_splits option.splits intro: less_imp_le
        dest!: step simp del: ip6_loop.simps(1))
qed auto

lemma ip6_expand_fields:
  assumes "ip6_expand gs ellipsis = Some gs'" "length gs \<le> 8" "\<forall>g \<in> set gs. g < 65536"
  shows "length gs' = 8 \<and> (\<forall>g \<in> set gs'. g < 65536)"
  using assms by (auto simp: ip6_expand_def split: if_splits option.splits) (meson in_set_takeD in_set_dropD)+

text \<open>The parse of the colon form gives eight fields of sixteen bits.\<close>

lemma parse_ip6_fields:
  assumes "parse_ip6 s = Some gs"
  shows "length gs = 8 \<and> (\<forall>g \<in> set gs. g < 65536)"
proof -
  have "length gs = 8 \<and> (\<forall>g \<in> set gs. g < 65536)"
    if "ip6_loop 8 [] el t = Some (gs', el', rest)" "ip6_expand gs' el' = Some gs" for gs' el el' t rest
    using ip6_loop_fields [OF that(1)] ip6_expand_fields [OF that(2)] by simp
  then show ?thesis
    using assms by (auto simp: parse_ip6_def simp del: ip6_loop.simps split: if_splits option.splits prod.splits)
qed

end
