(* ===== verification/Network_Handler.thy ===== *)
theory Network_Handler
  imports Group_Handler IPv6
begin

text \<open>
  The network endpoints (\<^verbatim>\<open>internal/core/handler/network.go\<close>). Addresses of networks and of their
  tunnels are IPv4 networks; DNS servers may be addresses of either form. \<open>networks_valid\<close> is what
  the checks of the endpoints keep of every stored network.
\<close>

section \<open>Answers and requests\<close>

record networkResponse =
  nr_ID :: uuid
  nr_Name :: string
  nr_Address :: string
  nr_TunnelCIDR :: "string option"
  nr_DNS :: "string list"
  nr_Port :: int
  nr_Keepalive :: int
  nr_IsActive :: bool
  nr_CreatedAt :: time
  nr_UpdatedAt :: time

record createNetworkRequest =
  cn_Name :: string
  cn_Address :: string
  cn_TunnelCIDR :: "string option"
  cn_DNS :: "string list option"
  cn_Port :: int
  cn_Keepalive :: int

record updateNetworkRequest =
  un_Name :: "string option"
  un_Address :: "string option"
  un_TunnelCIDR :: "string option"
  un_DNS :: "string list option"
  un_Port :: "int option"
  un_Keepalive :: "int option"
  un_IsActive :: "bool option"

definition network_response :: "network_row \<Rightarrow> networkResponse" where
  "network_response n =
     \<lparr>nr_ID = n_id n, nr_Name = n_name n, nr_Address = cidr_text (n_address n), nr_TunnelCIDR = map_option cidr_text (n_tunnel_cidr n),
      nr_DNS = n_dns n, nr_Port = n_port n, nr_Keepalive = n_keepalive n, nr_IsActive = n_is_active n,
      nr_CreatedAt = n_created_at n, nr_UpdatedAt = n_updated_at n\<rparr>"

section \<open>Reading\<close>

definition network_list :: "url_query \<Rightarrow> (nat \<Rightarrow> bool) \<Rightarrow> db \<Rightarrow> (networkResponse list \<times> int \<times> int \<times> int) resp" where
  "network_list q f s =
     (let (page, perPage) = parsePagination q
      in if f 0 then Err 500 ''failed to count networks''
         else (case (if f 1 then None else sql_page n_created_at perPage (page_offset page perPage) (tb_networks s)) of
           None \<Rightarrow> Err 500 ''failed to query networks''
         | Some ns \<Rightarrow> Ok 200 (map network_response ns, int (length (tb_networks s)), page, perPage)))"

definition my_networks :: "db \<Rightarrow> uuid \<Rightarrow> network_row list" where
  "my_networks s user =
     sort_key (\<lambda>n. - n_created_at n) (filter (\<lambda>n. n_is_active n \<and>
       (\<exists>a \<in> set (tb_network_acls s). a_network_id a = n_id n \<and> (user, a_group_id a) \<in> set (tb_user_groups s))) (tb_networks s))"

definition network_listMy :: "(string \<Rightarrow> uuid option) \<Rightarrow> bool \<Rightarrow> TokenClaims option \<Rightarrow> db \<Rightarrow> (networkResponse list \<times> int) resp" where
  "network_listMy cast_uuid fails claims s =
     (case claims of None \<Rightarrow> Err 401 ''unauthorized''
      | Some cl \<Rightarrow>
     (case (if fails then None else cast_uuid (cl_UserID cl)) of None \<Rightarrow> Err 500 ''failed to query networks''
      | Some user \<Rightarrow> let ns = map network_response (my_networks s user) in Ok 200 (ns, int (length ns))))"

definition network_get :: "(string \<Rightarrow> string + uuid) \<Rightarrow> bool \<Rightarrow> string \<Rightarrow> db \<Rightarrow> networkResponse resp" where
  "network_get uuid_parse fails raw s =
     (case parseUUID uuid_parse raw of Inl m \<Rightarrow> Err 400 m
      | Inr i \<Rightarrow>
      if fails then Err 500 ''failed to fetch network''
      else (case find (\<lambda>n. n_id n = i) (tb_networks s) of None \<Rightarrow> Err 404 ''network not found''
            | Some n \<Rightarrow> Ok 200 (network_response n)))"

section \<open>Checks\<close>

text \<open>\<^verbatim>\<open>net.ParseCIDR\<close>: the address as written and the network it lies in.\<close>

definition ParseCIDR :: "string \<Rightarrow> (ip4 \<times> cidr) option" where
  "ParseCIDR s =
     (case (parse_ip4 (takeWhile (\<lambda>c. c \<noteq> CHR ''/'') s), parse_cidr s) of
        (Some ip, Some c) \<Rightarrow> Some (ip, c) | _ \<Rightarrow> None)"

definition cidr_complaint :: "string \<Rightarrow> string \<Rightarrow> string \<Rightarrow> string \<Rightarrow> string option" where
  "cidr_complaint malformed hint not_network raw =
     (case ParseCIDR raw of
        None \<Rightarrow> Some (malformed @ raw @ hint)
      | Some (ip, c) \<Rightarrow>
          if ip = c_net c then None
          else Some (not_network @ raw @ '' has host bits set '' @ em_dash @ '' did you mean '' @ cidr_text c @ ''?''))"

definition dns_complaint :: "string list \<Rightarrow> string option" where
  "dns_complaint dns = map_option (\<lambda>d. ''invalid DNS server IP: '' @ d) (find (\<lambda>d. ParseIP d = None) dns)"

definition or_else :: "'a option \<Rightarrow> 'a option \<Rightarrow> 'a option" where
  "or_else a b = (case a of None \<Rightarrow> b | Some _ \<Rightarrow> a)"

text \<open>The checks of an optional text, which the empty text passes.\<close>

definition unless_empty :: "(string \<Rightarrow> string option) \<Rightarrow> string option \<Rightarrow> string option" where
  "unless_empty check t = (case t of None \<Rightarrow> None | Some raw \<Rightarrow> if raw = [] then None else check raw)"

definition port_complaint :: "int \<Rightarrow> string option" where
  "port_complaint p = (if p < 1 \<or> p > 65535 then Some ''port must be between 1 and 65535'' else None)"

definition keepalive_complaint :: "int \<Rightarrow> string option" where
  "keepalive_complaint k = (if k < 0 \<or> k > 3600 then Some ''keepalive must be between 0 and 3600'' else None)"

definition create_complaint :: "createNetworkRequest \<Rightarrow> string option" where
  "create_complaint req =
     (if cn_Name req = [] then Some ''name is required''
      else if cn_Address req = [] then Some ''address (CIDR) is required''
      else or_else (cidr_complaint ''invalid CIDR format: '' ('' '' @ em_dash @ '' expected format like 10.0.0.0/24'')
                      ''invalid network address: '' (cn_Address req))
          (or_else (port_complaint (if cn_Port req = 0 then 51820 else cn_Port req))
          (or_else (keepalive_complaint (if cn_Keepalive req = 0 then 25 else cn_Keepalive req))
          (or_else (dns_complaint (coalesce (cn_DNS req) []))
             (unless_empty (cidr_complaint ''invalid tunnel_cidr format: '' ('' '' @ em_dash @ '' expected format like 10.10.0.0/24'')
                ''invalid tunnel_cidr: '') (cn_TunnelCIDR req))))))"

definition update_complaint :: "updateNetworkRequest \<Rightarrow> string option" where
  "update_complaint req =
     or_else (unless_empty (cidr_complaint ''invalid CIDR format: '' [] ''invalid network address: '') (un_Address req))
    (or_else (Option.bind (un_Port req) port_complaint)
    (or_else (Option.bind (un_Keepalive req) keepalive_complaint)
    (or_else (dns_complaint (coalesce (un_DNS req) []))
       (unless_empty (cidr_complaint ''invalid tunnel_cidr format: '' [] ''invalid tunnel_cidr: '') (un_TunnelCIDR req)))))"

section \<open>Writing\<close>

text \<open>
  The database reads the texts as \<open>cidr\<close> again and refuses bits to the right of the prefix itself;
  the empty text, which the checks let through, is an error there.
\<close>

definition cidr_column :: "string \<Rightarrow> cidr option" where
  "cidr_column t = (case ParseCIDR t of None \<Rightarrow> None | Some (ip, c) \<Rightarrow> if ip = c_net c then Some c else None)"

definition read_opt :: "(string \<Rightarrow> 'a option) \<Rightarrow> string option \<Rightarrow> 'a option option" where
  "read_opt f t = (case t of None \<Rightarrow> Some None | Some raw \<Rightarrow> map_option Some (f raw))"

definition network_create :: "uuid \<Rightarrow> time \<Rightarrow> bool \<Rightarrow> createNetworkRequest body \<Rightarrow> db \<Rightarrow> networkResponse resp \<times> db" where
  "network_create new_id now fails bd s =
     (case bd of Inl m \<Rightarrow> (Err 400 m, s)
      | Inr req \<Rightarrow>
     (case create_complaint req of Some m \<Rightarrow> (Err 400 m, s)
      | None \<Rightarrow>
     (case (cidr_column (cn_Address req), read_opt cidr_column (cn_TunnelCIDR req)) of
        (Some address, Some tunnel) \<Rightarrow>
          if fails then (Err 500 ''failed to create network'', s)
          else if cn_Name req \<in> n_name ` set (tb_networks s) then (Err 409 ''network with this name already exists'', s)
          else let n = \<lparr>n_id = new_id, n_name = cn_Name req, n_address = address,
                        n_tunnel_cidr = tunnel, n_dns = coalesce (cn_DNS req) [],
                        n_port = (if cn_Port req = 0 then 51820 else cn_Port req),
                        n_keepalive = (if cn_Keepalive req = 0 then 25 else cn_Keepalive req),
                        n_is_active = True, n_created_at = now, n_updated_at = now\<rparr>
               in (Ok 201 (network_response n), s\<lparr>tb_networks := tb_networks s @ [n]\<rparr>)
      | _ \<Rightarrow> (Err 500 ''failed to create network'', s))))"

definition apply_network_update :: "time \<Rightarrow> updateNetworkRequest \<Rightarrow> cidr option \<Rightarrow> cidr option \<Rightarrow> network_row \<Rightarrow> network_row" where
  "apply_network_update now req address tunnel n =
     n\<lparr>n_name := coalesce (un_Name req) (n_name n), n_address := coalesce address (n_address n),
       n_tunnel_cidr := (case tunnel of None \<Rightarrow> n_tunnel_cidr n | Some t \<Rightarrow> Some t), n_dns := coalesce (un_DNS req) (n_dns n),
       n_port := coalesce (un_Port req) (n_port n), n_keepalive := coalesce (un_Keepalive req) (n_keepalive n),
       n_is_active := coalesce (un_IsActive req) (n_is_active n), n_updated_at := now\<rparr>"

definition network_update :: "(string \<Rightarrow> string + uuid) \<Rightarrow> time \<Rightarrow> bool \<Rightarrow> string \<Rightarrow> updateNetworkRequest body \<Rightarrow> db
    \<Rightarrow> networkResponse resp \<times> db" where
  "network_update uuid_parse now fails raw bd s =
     (case parseUUID uuid_parse raw of Inl m \<Rightarrow> (Err 400 m, s)
      | Inr i \<Rightarrow>
     (case bd of Inl m \<Rightarrow> (Err 400 m, s)
      | Inr req \<Rightarrow>
     (case update_complaint req of Some m \<Rightarrow> (Err 400 m, s)
      | None \<Rightarrow>
     (case (read_opt cidr_column (un_Address req), read_opt cidr_column (un_TunnelCIDR req)) of
        (Some address, Some tunnel) \<Rightarrow>
          if fails then (Err 500 ''failed to update network'', s)
          else (case find (\<lambda>n. n_id n = i) (tb_networks s) of None \<Rightarrow> (Err 404 ''network not found'', s)
          | Some n \<Rightarrow>
              let n' = apply_network_update now req address tunnel n
              in if n_name n' \<in> n_name ` set (filter (\<lambda>x. n_id x \<noteq> i) (tb_networks s))
                 then (Err 409 ''network with this name already exists'', s)
                 else (Ok 200 (network_response n'),
                       s\<lparr>tb_networks := upd_where (\<lambda>x. n_id x = i) (apply_network_update now req address tunnel) (tb_networks s)\<rparr>))
      | _ \<Rightarrow> (Err 500 ''failed to update network'', s)))))"

text \<open>
  The gateways captured before the deletion, by a full join whose condition is on one side only:
  with a gateway that has the network as its own, it pairs every row of the other side. PostgreSQL
  plans a full join only on merge- or hash-joinable conditions and rejects this one; the handler
  ignores that error (\<open>f 0\<close>) and goes on without gateways.
\<close>

definition full_join :: "('a \<Rightarrow> 'b \<Rightarrow> bool) \<Rightarrow> 'a list \<Rightarrow> 'b list \<Rightarrow> ('a option \<times> 'b option) list" where
  "full_join on xs ys =
     [(Some x, Some y). x \<leftarrow> xs, y \<leftarrow> ys, on x y] @
     [(Some x, None). x \<leftarrow> xs, \<not> list_ex (on x) ys] @
     [(None, Some y). y \<leftarrow> ys, \<not> list_ex (\<lambda>x. on x y) xs]"

definition captured_gateways :: "db \<Rightarrow> uuid \<Rightarrow> uuid list" where
  "captured_gateways s i =
     remdups (List.map_filter (\<lambda>(gn, g). case gn of Some (x, _) \<Rightarrow> Some x | None \<Rightarrow> map_option g_id g)
       (filter (\<lambda>(gn, g). map_option snd gn = Some i \<or> Option.bind g g_network_id = Some i)
         (full_join (\<lambda>gn g. g_network_id g = Some i) (tb_gateway_networks s) (tb_gateways s))))"

definition network_delete :: "(string \<Rightarrow> string + uuid) \<Rightarrow> bool \<Rightarrow> (nat \<Rightarrow> bool) \<Rightarrow> string \<Rightarrow> db \<Rightarrow> unit resp \<times> db \<times> refresh_job list" where
  "network_delete uuid_parse refresher f raw s =
     (case parseUUID uuid_parse raw of Inl m \<Rightarrow> (Err 400 m, s, [])
      | Inr i \<Rightarrow>
      let gatewayIDs = (if refresher \<and> \<not> f 0 then captured_gateways s i else [])
      in if f 1 then (Err 500 ''failed to delete network'', s, [])
         else if filter (\<lambda>n. n_id n = i) (tb_networks s) = [] then (Err 404 ''network not found'', s, [])
         else (Ok 204 (), drop_network i s,
               if gatewayIDs = [] then [] else [refresh_job.RefreshFirewallForGateways gatewayIDs]))"

section \<open>Stored networks are valid\<close>

definition network_valid :: "network_row \<Rightarrow> bool" where
  "network_valid n \<longleftrightarrow> cidr_ok (n_address n) \<and> pred_option cidr_ok (n_tunnel_cidr n) \<and> 1 \<le> n_port n \<and> n_port n \<le> 65535 \<and>
     0 \<le> n_keepalive n \<and> n_keepalive n \<le> 3600 \<and> list_all (\<lambda>d. ParseIP d \<noteq> None) (n_dns n)"

definition networks_valid :: "db \<Rightarrow> bool" where
  "networks_valid s \<longleftrightarrow> list_all network_valid (tb_networks s) \<and> distinct (map n_id (tb_networks s)) \<and> distinct (map n_name (tb_networks s))"

lemma or_else_None [simp]: "or_else a b = None \<longleftrightarrow> a = None \<and> b = None"
  by (simp add: or_else_def split: option.split)

lemma dns_complaint_None: "dns_complaint dns = None \<longleftrightarrow> list_all (\<lambda>d. ParseIP d \<noteq> None) dns"
  by (auto simp: dns_complaint_def find_None_iff list_all_iff)

lemma port_complaint_None: "port_complaint p = None \<longleftrightarrow> 1 \<le> p \<and> p \<le> 65535"
  by (auto simp: port_complaint_def)

lemma keepalive_complaint_None: "keepalive_complaint k = None \<longleftrightarrow> 0 \<le> k \<and> k \<le> 3600"
  by (auto simp: keepalive_complaint_def)

lemmas complaint_None = dns_complaint_None port_complaint_None keepalive_complaint_None

lemma unat_mask_ip: "unat (mask_ip l w) = unat w div 2 ^ (32 - l) * 2 ^ (32 - l)"
proof -
  have "unat w div 2 ^ (32 - l) * 2 ^ (32 - l) < 2 ^ 32"
    by (rule le_less_trans [OF div_times_less_eq_dividend]) (use unsigned_less [of w, where ?'a = nat] in simp)
  then show ?thesis
    by (simp add: mask_ip_def unat_of_nat take_bit_nat_eq_self del: of_nat_mult)
qed

lemma mask_ip_idem: "mask_ip l (mask_ip l w) = mask_ip l w"
  by (rule unsigned_word_eqI [where ?'a = nat]) (simp add: unat_mask_ip)

lemma parse_cidr_ok: "parse_cidr t = Some c \<Longrightarrow> cidr_ok c"
  by (auto simp: parse_cidr_def Let_def cidr_ok_def mask_ip_idem split: if_splits option.splits prod.splits)

lemma cidr_column_ok: "cidr_column t = Some c \<Longrightarrow> cidr_ok c"
  by (auto simp: cidr_column_def ParseCIDR_def dest: parse_cidr_ok split: option.splits if_splits)

lemma read_opt_ok: "read_opt cidr_column t = Some c \<Longrightarrow> pred_option cidr_ok c"
  by (auto simp: read_opt_def dest: cidr_column_ok split: option.splits)

lemma created_valid:
  assumes "network_create new_id now fails bd s = (a, s')" "networks_valid s" "new_id \<notin> n_id ` set (tb_networks s)"
  shows "networks_valid s'"
  using assms
  by (auto simp: network_create_def create_complaint_def networks_valid_def network_valid_def complaint_None Let_def
      dest: cidr_column_ok read_opt_ok split: sum.splits option.splits if_splits)

lemma update_complaint_None:
  assumes "update_complaint req = None"
  shows "pred_option (\<lambda>p. 1 \<le> p \<and> p \<le> 65535) (un_Port req)" "pred_option (\<lambda>k. 0 \<le> k \<and> k \<le> 3600) (un_Keepalive req)"
    "pred_option (list_all (\<lambda>d. ParseIP d \<noteq> None)) (un_DNS req)"
  using assms unfolding update_complaint_def or_else_None complaint_None
  by (cases "un_Port req"; cases "un_Keepalive req"; cases "un_DNS req"; simp add: complaint_None)+

lemma updated_valid:
  assumes "update_complaint req = None" "read_opt cidr_column (un_Address req) = Some address"
    and "read_opt cidr_column (un_TunnelCIDR req) = Some tunnel" "network_valid n"
  shows "network_valid (apply_network_update now req address tunnel n)"
  using update_complaint_None [OF assms(1)] read_opt_ok [OF assms(2)] read_opt_ok [OF assms(3)] assms(4)
  by (auto simp: network_valid_def apply_network_update_def coalesce_def split: option.split)

lemma network_update_changes:
  assumes "network_update uuid_parse now fails raw bd s = (a, s')" "s' \<noteq> s"
  obtains i req address tunnel n where "update_complaint req = None" "read_opt cidr_column (un_Address req) = Some address"
      "read_opt cidr_column (un_TunnelCIDR req) = Some tunnel" "n \<in> set (tb_networks s)" "n_id n = i"
      "n_name (apply_network_update now req address tunnel n) \<notin> n_name ` {x \<in> set (tb_networks s). n_id x \<noteq> i}"
      "s' = s\<lparr>tb_networks := upd_where (\<lambda>x. n_id x = i) (apply_network_update now req address tunnel) (tb_networks s)\<rparr>"
      "uuid_parse raw = Inr i" "bd = Inr req"
  using assms by (auto simp: network_update_def Let_def parseUUID_Inr dest!: find_SomeD split: sum.splits option.splits if_splits)

lemma update_keeps_valid:
  assumes "network_update uuid_parse now fails raw bd s = (a, s')" "networks_valid s"
  shows "networks_valid s'"
proof (cases "s' = s")
  case False
  then obtain i req address tunnel n where u: "update_complaint req = None" "read_opt cidr_column (un_Address req) = Some address"
      "read_opt cidr_column (un_TunnelCIDR req) = Some tunnel"
    and n: "n \<in> set (tb_networks s)" "n_id n = i"
      "n_name (apply_network_update now req address tunnel n) \<notin> n_name ` {x \<in> set (tb_networks s). n_id x \<noteq> i}"
    and s': "s' = s\<lparr>tb_networks := upd_where (\<lambda>x. n_id x = i) (apply_network_update now req address tunnel) (tb_networks s)\<rparr>"
    by (rule network_update_changes [OF assms(1)])
  have valid: "list_all network_valid (tb_networks s)" and ids: "distinct (map n_id (tb_networks s))"
    and names: "distinct (map n_name (tb_networks s))"
    using assms(2) by (simp_all add: networks_valid_def)
  have "list_all network_valid (tb_networks s')"
    using valid updated_valid [OF u] by (auto simp: s' list_all_iff set_upd_where)
  moreover have "distinct (map n_id (tb_networks s'))"
    using ids by (simp add: s' map_upd_where_frame apply_network_update_def)
  moreover have "distinct (map n_name (upd_where (\<lambda>x. n_id x = i) (apply_network_update now req address tunnel) (tb_networks s)))"
  proof (rule distinct_upd_key [OF ids names])
    fix r
    assume "r \<in> set (tb_networks s)" "n_id r = i"
    then have "r = n" using distinct_key_eq [OF ids, of r n] n(1,2) by simp
    then show "n_name (apply_network_update now req address tunnel r) \<notin> n_name ` {x \<in> set (tb_networks s). n_id x \<noteq> i}"
      using n(3) by simp
  qed
  then have "distinct (map n_name (tb_networks s'))" by (simp add: s')
  ultimately show ?thesis by (simp add: networks_valid_def)
qed (use assms(2) in simp)

lemma drop_network_networks: "tb_networks (drop_network i s) = del_where (\<lambda>n. n_id n = i) (tb_networks s)"
  by (simp add: drop_network_def drop_gateways_def Let_def)

lemma network_delete_state:
  "fst (snd (network_delete uuid_parse refresher f raw s)) = s \<or>
   (\<exists>i. uuid_parse raw = Inr i \<and> fst (snd (network_delete uuid_parse refresher f raw s)) = drop_network i s)"
  by (cases "uuid_parse raw") (simp_all add: network_delete_def parseUUID_def Let_def)

lemma delete_keeps_valid:
  "networks_valid s \<Longrightarrow> networks_valid (fst (snd (network_delete uuid_parse refresher f raw s)))"
  using network_delete_state [of uuid_parse refresher f raw s]
  by (auto simp: networks_valid_def drop_network_networks list_all_iff distinct_map_del_where)

text \<open>With a network go the gateways whose own network it is, also from the other networks they serve.\<close>

lemma dropped_gateway:
  "g \<in> is \<Longrightarrow> g \<notin> g_id ` set (tb_gateways (drop_gateways is s)) \<and> (g, n) \<notin> set (tb_gateway_networks (drop_gateways is s))"
  by (auto simp: drop_gateways_def)

lemma network_delete_takes_gateways:
  assumes "network_delete uuid_parse refresher f raw s = (Ok 204 (), s', jobs)" "uuid_parse raw = Inr i"
    and "g \<in> set (tb_gateways s)" "g_network_id g = Some i"
  shows "g_id g \<notin> g_id ` set (tb_gateways s') \<and> (g_id g, n) \<notin> set (tb_gateway_networks s')"
proof -
  have "s' = drop_network i s"
    using assms(1,2) by (simp add: network_delete_def parseUUID_def Let_def split: if_splits)
  moreover have "g_id g \<in> g_id ` set (filter (\<lambda>g. g_network_id g = Some i) (tb_gateways s))"
    using assms(3,4) by simp
  ultimately show ?thesis
    using dropped_gateway by (simp add: drop_network_def Let_def del: set_filter)
qed

text \<open>
  C21. Creating, changing or deleting a network keeps every stored network valid: its address and
  tunnel network have no host bits, its port is between 1 and 65535 and its keepalive between 0 and
  3600, its DNS servers are addresses, and identifiers and names are unique.
\<close>

theorem networks_stay_valid:
  assumes "networks_valid s" "new_id \<notin> n_id ` set (tb_networks s)"
  shows "networks_valid (snd (network_create new_id now fails cbd s)) \<and>
    networks_valid (snd (network_update uuid_parse now fails raw ubd s)) \<and>
    networks_valid (fst (snd (network_delete uuid_parse refresher f raw s)))"
  using created_valid [OF surjective_pairing assms, of now fails cbd]
    update_keeps_valid [OF surjective_pairing assms(1), of uuid_parse now fails raw ubd]
    delete_keeps_valid [OF assms(1)] by simp

definition sample_create :: createNetworkRequest where
  "sample_create = \<lparr>cn_Name = ''lab'', cn_Address = cidr_text net_10_20, cn_TunnelCIDR = Some (cidr_text net_10_8),
     cn_DNS = None, cn_Port = 0, cn_Keepalive = 0\<rparr>"

lemma takeWhile_cidr_text: "takeWhile (\<lambda>c. c \<noteq> CHR ''/'') (cidr_text c) = host (c_net c)"
  using host_no_slash [of "c_net c"] by (simp add: cidr_text_def takeWhile_append)

lemma ParseCIDR_text: "cidr_ok c \<Longrightarrow> ParseCIDR (cidr_text c) = Some (c_net c, c)"
  by (simp add: ParseCIDR_def takeWhile_cidr_text parse_cidr_text)

lemma cidr_text_nonempty [simp]: "cidr_text c \<noteq> []"
  by (simp add: cidr_text_def)

lemma sample_create_checks: "create_complaint sample_create = None"
  by (simp add: create_complaint_def sample_create_def cidr_complaint_def ParseCIDR_text unless_empty_def
      dns_complaint_def port_complaint_def keepalive_complaint_def)

lemma sample_dns_address: "ParseIP ''1.1.1.1'' \<noteq> None"
  by (simp add: ParseIP_def parse_ip4_def parse_octet_def is_digit_def digit_val_def)

lemma sample_networks_valid: "networks_valid sample_db"
  using sample_dns_address by (simp add: networks_valid_def network_valid_def sample_tables sample_network_def)

theorem networks_stay_valid_witness:
  "case network_create ''n3'' 7 False (Inr sample_create) sample_db of (answer, s') \<Rightarrow>
     (\<exists>n. answer = Ok 201 n \<and> nr_Port n = 51820) \<and> length (tb_networks s') = 3 \<and> networks_valid s'"
proof -
  have fresh: "''n3'' \<notin> n_id ` set (tb_networks sample_db)"
    by (simp add: sample_tables sample_network_def)
  have name: "cn_Name sample_create \<notin> n_name ` set (tb_networks sample_db)"
    by (simp add: sample_tables sample_network_def sample_create_def)
  obtain n s' where "network_create ''n3'' 7 False (Inr sample_create) sample_db = (Ok 201 n, s')" "nr_Port n = 51820"
      "length (tb_networks s') = 3"
    using sample_create_checks name
    by (simp add: network_create_def read_opt_def Let_def network_response_def)
       (simp add: sample_create_def cidr_column_def ParseCIDR_text sample_tables Let_def network_response_def)
  then show ?thesis
    using networks_stay_valid [OF sample_networks_valid fresh, of 7 False "Inr sample_create"] by simp
qed

end
