(* ===== verification/Gateway_Handler.thy ===== *)
theory Gateway_Handler
  imports Network_Handler Core_Gateway
begin

text \<open>
  The gateway endpoints (\<^verbatim>\<open>internal/core/handler/gateway.go\<close>). \<open>inet_cast\<close> is the conversion of text
  to \<open>inet\<close> by the database, whose column holds IPv4 addresses here; \<open>wg_public\<close> derives a public
  WireGuard key; the random bytes of keys and tokens are arguments. \<open>by_name\<close> sorts by name in the
  order of the database's collation.
\<close>

section \<open>Answers and requests\<close>

record gatewayNetworkInfo =
  gi_ID :: uuid
  gi_Name :: string
  gi_Address :: string

record gatewayResponse =
  gp_ID :: uuid
  gp_NetworkID :: "uuid option"
  gp_Name :: string
  gp_PublicIP :: "string option"
  gp_WireguardPubkey :: string
  gp_Endpoint :: string
  gp_IsActive :: bool
  gp_HealthStatus :: string
  gp_Priority :: int
  gp_LastSeen :: "time option"
  gp_CreatedAt :: time
  gp_UpdatedAt :: time
  gp_NetworkIDs :: "uuid list"
  gp_Networks :: "gatewayNetworkInfo list"

record createGatewayRequest =
  cgw_Name :: string
  cgw_NetworkID :: string
  cgw_NetworkIDs :: "string list"
  cgw_Endpoint :: string
  cgw_PublicIP :: "string option"
  cgw_Priority :: "int option"

record updateGatewayRequest =
  ugw_Name :: "string option"
  ugw_Endpoint :: "string option"
  ugw_PublicIP :: "string option"
  ugw_Priority :: "int option"
  ugw_IsActive :: "bool option"
  ugw_NetworkIDs :: "string list"

text \<open>A scanned row, with the networks filled in later.\<close>

definition gateway_response :: "uuid list \<Rightarrow> gateway_row \<Rightarrow> gatewayResponse" where
  "gateway_response nids g =
     \<lparr>gp_ID = g_id g, gp_NetworkID = g_network_id g, gp_Name = g_name g, gp_PublicIP = map_option host (g_public_ip g),
      gp_WireguardPubkey = g_wireguard_pubkey g, gp_Endpoint = g_endpoint g, gp_IsActive = g_is_active g,
      gp_HealthStatus = g_health_status g, gp_Priority = g_priority g, gp_LastSeen = g_last_seen g,
      gp_CreatedAt = g_created_at g, gp_UpdatedAt = g_updated_at g, gp_NetworkIDs = nids, gp_Networks = []\<rparr>"

text \<open>The networks of each gateway are appended to what its answer already lists.\<close>

definition loadGatewayNetworks :: "((gatewayNetworkInfo \<Rightarrow> string) \<Rightarrow> gatewayNetworkInfo list \<Rightarrow> gatewayNetworkInfo list) \<Rightarrow> bool \<Rightarrow> db
    \<Rightarrow> gatewayResponse list \<Rightarrow> gatewayResponse list" where
  "loadGatewayNetworks by_name fails s gs =
     (if fails then gs
      else map (\<lambda>g. let ns = by_name gi_Name [\<lparr>gi_ID = n_id n, gi_Name = n_name n, gi_Address = cidr_text (n_address n)\<rparr>.
                              (x, i) \<leftarrow> tb_gateway_networks s, x = gp_ID g, n \<leftarrow> tb_networks s, n_id n = i]
                    in g\<lparr>gp_NetworkIDs := gp_NetworkIDs g @ map gi_ID ns, gp_Networks := gp_Networks g @ ns\<rparr>) gs)"

section \<open>Reading\<close>

definition gateway_list :: "((gatewayNetworkInfo \<Rightarrow> string) \<Rightarrow> gatewayNetworkInfo list \<Rightarrow> gatewayNetworkInfo list) \<Rightarrow> url_query \<Rightarrow> (nat \<Rightarrow> bool) \<Rightarrow> db
    \<Rightarrow> (gatewayResponse list \<times> int \<times> int \<times> int) resp" where
  "gateway_list by_name q f s =
     (let (page, perPage) = parsePagination q
      in if f 0 then Err 500 ''failed to count gateways''
         else (case (if f 1 then None else sql_page g_created_at perPage (page_offset page perPage) (tb_gateways s)) of
           None \<Rightarrow> Err 500 ''failed to query gateways''
         | Some gs \<Rightarrow> Ok 200 (loadGatewayNetworks by_name (f 2) s (map (gateway_response []) gs), int (length (tb_gateways s)), page, perPage)))"

definition gateway_get :: "((gatewayNetworkInfo \<Rightarrow> string) \<Rightarrow> gatewayNetworkInfo list \<Rightarrow> gatewayNetworkInfo list) \<Rightarrow> (string \<Rightarrow> string + uuid) \<Rightarrow> (nat \<Rightarrow> bool)
    \<Rightarrow> string \<Rightarrow> db \<Rightarrow> gatewayResponse resp" where
  "gateway_get by_name uuid_parse f raw s =
     (case parseUUID uuid_parse raw of Inl m \<Rightarrow> Err 400 m
      | Inr i \<Rightarrow>
      if f 0 then Err 500 ''failed to fetch gateway''
      else (case find (\<lambda>g. g_id g = i) (tb_gateways s) of None \<Rightarrow> Err 404 ''gateway not found''
            | Some g \<Rightarrow> Ok 200 (hd (loadGatewayNetworks by_name (f 1) s [gateway_response [] g]))))"

section \<open>Creating\<close>

definition validIP :: "string \<Rightarrow> bool" where
  "validIP s \<longleftrightarrow> ParseIP s \<noteq> None"

text \<open>The text of a token, in hexadecimal, and the hash that is stored.\<close>

definition generateToken :: "(string \<Rightarrow> string) \<Rightarrow> string option \<Rightarrow> (string \<times> string) option" where
  "generateToken sha256 random = map_option (\<lambda>b. let t = hex_encode b in (t, hex_encode (sha256 t))) random"

fun parse_networks :: "(string \<Rightarrow> string + uuid) \<Rightarrow> string list \<Rightarrow> string + uuid list" where
  "parse_networks uuid_parse [] = Inr []"
| "parse_networks uuid_parse (r # rs) =
     (case uuid_parse r of Inl _ \<Rightarrow> Inl (''invalid network_id: '' @ r)
      | Inr i \<Rightarrow> (case parse_networks uuid_parse rs of Inl m \<Rightarrow> Inl m | Inr is \<Rightarrow> Inr (i # is)))"

definition requested_networks :: "(string \<Rightarrow> string + uuid) \<Rightarrow> createGatewayRequest \<Rightarrow> string + uuid list" where
  "requested_networks uuid_parse req =
     (if cgw_NetworkIDs req \<noteq> [] then parse_networks uuid_parse (cgw_NetworkIDs req)
      else if cgw_NetworkID req \<noteq> [] then
        (case uuid_parse (cgw_NetworkID req) of Inl _ \<Rightarrow> Inl ''invalid network_id'' | Inr i \<Rightarrow> Inr [i])
      else Inl ''at least one network is required'')"

text \<open>The rows of the junction table, one statement each, in a transaction.\<close>

fun assign_networks :: "(nat \<Rightarrow> bool) \<Rightarrow> db \<Rightarrow> uuid \<Rightarrow> uuid list \<Rightarrow> (uuid \<times> uuid) list \<Rightarrow> (uuid \<times> uuid) list option" where
  "assign_networks f s gw [] rows = Some rows"
| "assign_networks f s gw (n # ns) rows =
     (if f 0 \<or> (gw, n) \<in> set rows \<or> n \<notin> n_id ` set (tb_networks s) then None
      else assign_networks (\<lambda>k. f (Suc k)) s gw ns (rows @ [(gw, n)]))"

text \<open>The unique indexes in the order of their creation.\<close>

definition gateway_conflict :: "gateway_row \<Rightarrow> gateway_row list \<Rightarrow> string option" where
  "gateway_conflict g gs =
     (if g_wireguard_pubkey g \<in> g_wireguard_pubkey ` set gs then Some ''gateway already exists''
      else if g_network_id g \<noteq> None \<and> (g_network_id g, g_name g) \<in> (\<lambda>x. (g_network_id x, g_name x)) ` set gs
      then Some ''gateway with this name already exists''
      else if g_network_id g \<noteq> None \<and> (g_network_id g, g_endpoint g) \<in> (\<lambda>x. (g_network_id x, g_endpoint x)) ` set gs
      then Some ''gateway with this endpoint already exists'' else None)"

definition gateway_complaint :: "createGatewayRequest \<Rightarrow> string option" where
  "gateway_complaint req =
     (if cgw_Name req = [] then Some ''name is required''
      else if cgw_Endpoint req = [] then Some ''endpoint is required''
      else case cgw_PublicIP req of
        None \<Rightarrow> Some ''public_ip is required: clients need a reachable IP address for the WireGuard endpoint''
      | Some ip \<Rightarrow>
          if ip = [] then Some ''public_ip is required: clients need a reachable IP address for the WireGuard endpoint''
          else if \<not> validIP ip then Some ''public_ip must be a valid IPv4 or IPv6 address (no CIDR, no port)'' else None)"

definition new_gateway :: "uuid \<Rightarrow> time \<Rightarrow> uuid \<Rightarrow> createGatewayRequest \<Rightarrow> ip4 \<Rightarrow> string \<Rightarrow> string \<Rightarrow> string \<Rightarrow> gateway_row" where
  "new_gateway new_id now net req ip priv pub token_hash =
     \<lparr>g_id = new_id, g_network_id = Some net, g_name = cgw_Name req, g_public_ip = Some ip, g_wireguard_pubkey = pub,
      g_wireguard_privkey = priv,
      g_endpoint = (if CHR '':'' \<in> set (cgw_Endpoint req) then cgw_Endpoint req else cgw_Endpoint req @ '':51820''),
      g_is_active = True, g_priority = coalesce (cgw_Priority req) 0, g_token_hash = token_hash, g_last_seen = None,
      g_health_status = ''unknown'', g_consecutive_failures = 0, g_created_at = now, g_updated_at = now\<rparr>"

text \<open>
  Statement \<open>0\<close> begins the transaction, \<open>1\<close> inserts the gateway, \<open>2\<close> commits, \<open>3\<close> reads the networks
  for the answer, and the later ones fill the junction table. The answer carries the token and the
  private key.
\<close>

definition insert_gateway :: "(nat \<Rightarrow> bool) \<Rightarrow> gateway_row \<Rightarrow> uuid list \<Rightarrow> db \<Rightarrow> (nat \<times> string) + db" where
  "insert_gateway f g nets s =
     (if f 1 \<or> \<not> int4_range (g_priority g) then Inl (500, ''failed to create gateway'')
      else (case gateway_conflict g (tb_gateways s) of Some m \<Rightarrow> Inl (409, m)
      | None \<Rightarrow>
      if \<not> set_option (g_network_id g) \<subseteq> n_id ` set (tb_networks s) then Inl (500, ''failed to create gateway'')
      else (case assign_networks (\<lambda>k. f (4 + k)) s (g_id g) nets (tb_gateway_networks s) of
          None \<Rightarrow> Inl (500, ''failed to assign network to gateway'')
        | Some rows \<Rightarrow>
            if f 2 then Inl (500, ''failed to commit transaction'')
            else Inr (s\<lparr>tb_gateways := tb_gateways s @ [g], tb_gateway_networks := rows\<rparr>))))"

definition gateway_create :: "((gatewayNetworkInfo \<Rightarrow> string) \<Rightarrow> gatewayNetworkInfo list \<Rightarrow> gatewayNetworkInfo list) \<Rightarrow> (string \<Rightarrow> string + uuid)
    \<Rightarrow> (string \<Rightarrow> ip4 option) \<Rightarrow> (string \<Rightarrow> string option) \<Rightarrow> (string \<Rightarrow> string) \<Rightarrow> string option \<Rightarrow> string option \<Rightarrow> uuid \<Rightarrow> time \<Rightarrow> (nat \<Rightarrow> bool)
    \<Rightarrow> createGatewayRequest body \<Rightarrow> db \<Rightarrow> (gatewayResponse \<times> string \<times> string) resp \<times> db" where
  "gateway_create by_name uuid_parse inet_cast wg_public sha256 new_key random new_id now f bd s =
     (case bd of Inl m \<Rightarrow> (Err 400 m, s)
      | Inr req \<Rightarrow>
     (case gateway_complaint req of Some m \<Rightarrow> (Err 400 m, s)
      | None \<Rightarrow>
     (case requested_networks uuid_parse req of Inl m \<Rightarrow> (Err 400 m, s)
      | Inr nets \<Rightarrow>
     (case new_key of None \<Rightarrow> (Err 500 ''failed to generate keypair'', s)
      | Some priv \<Rightarrow>
     (case wg_public priv of None \<Rightarrow> (Err 500 ''failed to derive public key'', s)
      | Some pub \<Rightarrow>
     (case generateToken sha256 random of None \<Rightarrow> (Err 500 ''failed to generate token'', s)
      | Some (token, tokenHash) \<Rightarrow>
      if f 0 then (Err 500 ''failed to begin transaction'', s)
      else (case inet_cast (the (cgw_PublicIP req)) of None \<Rightarrow> (Err 500 ''failed to create gateway'', s)
      | Some ip \<Rightarrow>
      let g = new_gateway new_id now (hd nets) req ip priv pub tokenHash
      in case insert_gateway f g nets s of
           Inl (c, m) \<Rightarrow> (Err c m, s)
         | Inr s' \<Rightarrow> (Ok 201 (hd (loadGatewayNetworks by_name (f 3) s' [gateway_response nets g]), token, priv), s'))))))))"

section \<open>Changing and deleting\<close>

definition apply_gateway_update :: "time \<Rightarrow> updateGatewayRequest \<Rightarrow> ip4 option \<Rightarrow> gateway_row \<Rightarrow> gateway_row" where
  "apply_gateway_update now req ip g =
     g\<lparr>g_name := coalesce (ugw_Name req) (g_name g), g_endpoint := coalesce (ugw_Endpoint req) (g_endpoint g),
       g_public_ip := coalesce_null ip (g_public_ip g), g_priority := coalesce (ugw_Priority req) (g_priority g),
       g_is_active := coalesce (ugw_IsActive req) (g_is_active g), g_updated_at := now\<rparr>"

definition address_clash :: "gateway_row \<Rightarrow> gateway_row list \<Rightarrow> bool" where
  "address_clash g gs \<longleftrightarrow> g_network_id g \<noteq> None \<and>
     (\<exists>x \<in> set gs. g_network_id x = g_network_id g \<and> (g_name x = g_name g \<or> g_endpoint x = g_endpoint g))"

text \<open>
  The networks of an updated gateway: its junction rows are replaced, then the first becomes its own
  network. A failure of that last statement is only logged, but it has aborted the transaction, so
  that the commit fails. \<open>Inl\<close> is the answer of a refused request.
\<close>

definition update_networks :: "(string \<Rightarrow> string + uuid) \<Rightarrow> (nat \<Rightarrow> bool) \<Rightarrow> uuid \<Rightarrow> gateway_row \<Rightarrow> string list \<Rightarrow> db
    \<Rightarrow> (nat \<times> string) + db" where
  "update_networks uuid_parse f i g raws s =
     (case parse_networks uuid_parse raws of Inl m \<Rightarrow> Inl (400, m)
      | Inr nets \<Rightarrow>
      if f 2 then Inl (500, ''failed to update gateway networks'')
      else (case assign_networks (\<lambda>k. f (6 + k)) s i nets (del_where (\<lambda>r. fst r = i) (tb_gateway_networks s)) of
          None \<Rightarrow> Inl (500, ''failed to assign network to gateway'')
        | Some rows \<Rightarrow>
            let own = (\<lambda>x. x\<lparr>g_network_id := Some (hd nets)\<rparr>)
            in if f 3 \<or> address_clash (own g) (filter (\<lambda>x. g_id x \<noteq> i) (tb_gateways s))
               then Inl (500, ''failed to commit transaction'')
               else Inr (s\<lparr>tb_gateway_networks := rows, tb_gateways := upd_where (\<lambda>x. g_id x = i) own (tb_gateways s)\<rparr>)))"

text \<open>The transaction of an update: the refusal, or the updated row and the database.\<close>

definition update_tx :: "(string \<Rightarrow> string + uuid) \<Rightarrow> (string \<Rightarrow> ip4 option) \<Rightarrow> time \<Rightarrow> (nat \<Rightarrow> bool) \<Rightarrow> uuid \<Rightarrow> updateGatewayRequest \<Rightarrow> db
    \<Rightarrow> (nat \<times> string) + gateway_row \<times> db" where
  "update_tx uuid_parse inet_cast now f i req s =
     (if f 0 then Inl (500, ''failed to begin transaction'')
      else (case read_opt inet_cast (ugw_PublicIP req) of None \<Rightarrow> Inl (500, ''failed to update gateway'')
      | Some ip \<Rightarrow>
      if f 1 \<or> \<not> pred_option int4_range (ugw_Priority req) then Inl (500, ''failed to update gateway'')
      else (case find (\<lambda>g. g_id g = i) (tb_gateways s) of None \<Rightarrow> Inl (404, ''gateway not found'')
      | Some g \<Rightarrow>
          let upd = apply_gateway_update now req ip;
              s1 = s\<lparr>tb_gateways := upd_where (\<lambda>x. g_id x = i) upd (tb_gateways s)\<rparr>
          in if address_clash (upd g) (filter (\<lambda>x. g_id x \<noteq> i) (tb_gateways s))
             then Inl (409, ''gateway with this name or endpoint already exists'')
             else (case (if ugw_NetworkIDs req = [] then Inr s1 else update_networks uuid_parse f i (upd g) (ugw_NetworkIDs req) s1) of
                     Inl e \<Rightarrow> Inl e
                   | Inr s' \<Rightarrow> if f 4 then Inl (500, ''failed to commit transaction'') else Inr (upd g, s')))))"

text \<open>The last component are the gateways whose change of networks the notifier is told.\<close>

definition gateway_update :: "((gatewayNetworkInfo \<Rightarrow> string) \<Rightarrow> gatewayNetworkInfo list \<Rightarrow> gatewayNetworkInfo list) \<Rightarrow> (string \<Rightarrow> string + uuid)
    \<Rightarrow> (string \<Rightarrow> ip4 option) \<Rightarrow> bool \<Rightarrow> time \<Rightarrow> (nat \<Rightarrow> bool) \<Rightarrow> string \<Rightarrow> updateGatewayRequest body \<Rightarrow> db
    \<Rightarrow> gatewayResponse resp \<times> db \<times> uuid list" where
  "gateway_update by_name uuid_parse inet_cast notifier now f raw bd s =
     (case parseUUID uuid_parse raw of Inl m \<Rightarrow> (Err 400 m, s, [])
      | Inr i \<Rightarrow>
     (case bd of Inl m \<Rightarrow> (Err 400 m, s, [])
      | Inr req \<Rightarrow>
      if (case ugw_PublicIP req of None \<Rightarrow> False | Some ip \<Rightarrow> ip \<noteq> [] \<and> \<not> validIP ip)
      then (Err 400 ''public_ip must be a valid IPv4 or IPv6 address (no CIDR, no port)'', s, [])
      else (case update_tx uuid_parse inet_cast now f i req s of
          Inl (c, m) \<Rightarrow> (Err c m, s, [])
        | Inr (g, s') \<Rightarrow> (Ok 200 (hd (loadGatewayNetworks by_name (f 5) s' [gateway_response [] g])), s',
                         if ugw_NetworkIDs req \<noteq> [] \<and> notifier then [i] else []))))"

definition gateway_delete :: "(string \<Rightarrow> string + uuid) \<Rightarrow> bool \<Rightarrow> string \<Rightarrow> db \<Rightarrow> unit resp \<times> db" where
  "gateway_delete uuid_parse fails raw s =
     (case parseUUID uuid_parse raw of Inl m \<Rightarrow> (Err 400 m, s)
      | Inr i \<Rightarrow>
      if fails then (Err 500 ''failed to delete gateway'', s)
      else if filter (\<lambda>g. g_id g = i) (tb_gateways s) = [] then (Err 404 ''gateway not found'', s)
      else (Ok 204 (), drop_gateways {i} s))"

section \<open>What the endpoints write\<close>

lemma parse_networks_length: "parse_networks uuid_parse raws = Inr nets \<Longrightarrow> length nets = length raws"
  by (induction uuid_parse raws arbitrary: nets rule: parse_networks.induct) (auto split: sum.splits)

lemma requested_nonempty: "requested_networks uuid_parse req = Inr nets \<Longrightarrow> nets \<noteq> []"
  by (auto simp: requested_networks_def dest: parse_networks_length split: if_splits sum.splits)

lemma assign_networks_rows:
  assumes "assign_networks f s gw ns rows = Some rows'"
  shows "set rows' = set rows \<union> {gw} \<times> set ns" "set ns \<subseteq> n_id ` set (tb_networks s)" "distinct rows \<Longrightarrow> distinct rows'"
  using assms by (induction f s gw ns rows rule: assign_networks.induct) (auto split: if_splits)

lemma gateway_create_inserts:
  assumes "gateway_create by_name uuid_parse inet_cast wg_public sha256 new_key random new_id now f bd s = (a, s')"
  shows "s' = s \<and> (\<nexists>b. a = Ok 201 b) \<or>
    (\<exists>req nets ip priv pub b r. nets \<noteq> [] \<and> random = Some b \<and> a = Ok 201 (r, hex_encode b, priv) \<and>
       insert_gateway f (new_gateway new_id now (hd nets) req ip priv pub (hex_encode (sha256 (hex_encode b)))) nets s = Inr s')"
proof (cases "\<exists>req nets priv pub b ip. bd = Inr req \<and> gateway_complaint req = None \<and> requested_networks uuid_parse req = Inr nets \<and>
    new_key = Some priv \<and> wg_public priv = Some pub \<and> random = Some b \<and> \<not> f 0 \<and> inet_cast (the (cgw_PublicIP req)) = Some ip")
  case True
  then obtain req nets priv pub b ip where checks: "bd = Inr req" "gateway_complaint req = None" "requested_networks uuid_parse req = Inr nets"
      "new_key = Some priv" "wg_public priv = Some pub" "random = Some b" "\<not> f 0" "inet_cast (the (cgw_PublicIP req)) = Some ip"
    by blast
  let ?g = "new_gateway new_id now (hd nets) req ip priv pub (hex_encode (sha256 (hex_encode b)))"
  show ?thesis
  proof (cases "insert_gateway f ?g nets s")
    case (Inl e)
    then have "s' = s \<and> a = Err (fst e) (snd e)"
      using assms by (simp add: gateway_create_def checks generateToken_def Let_def case_prod_beta)
    then show ?thesis by simp
  next
    case (Inr s1)
    then have "(a, s') = (Ok 201 (hd (loadGatewayNetworks by_name (f 3) s1 [gateway_response nets ?g]), hex_encode b, priv), s1)"
      unfolding assms [symmetric] by (simp add: gateway_create_def checks generateToken_def Let_def)
    then show ?thesis
      using Inr requested_nonempty [OF checks(3)] checks(6) by (auto simp del: split_paired_Ex)
  qed
next
  case False
  then have "fst (a, s') \<noteq> Ok 201 b \<and> snd (a, s') = s" for b
    unfolding assms [symmetric] gateway_create_def generateToken_def
    by (cases bd; cases new_key; cases random) (auto simp: case_prod_beta split: sum.split option.split)
  then show ?thesis by simp
qed

lemma insert_gateway_changes:
  assumes "insert_gateway f g nets s = Inr s'"
  shows "\<exists>rows. assign_networks (\<lambda>k. f (4 + k)) s (g_id g) nets (tb_gateway_networks s) = Some rows \<and>
    s' = s\<lparr>tb_gateways := tb_gateways s @ [g], tb_gateway_networks := rows\<rparr>"
  using assms by (auto simp: insert_gateway_def split: option.splits if_splits)

lemma update_tx_changes:
  assumes "update_tx uuid_parse inet_cast now f i req s = Inr (g, s')"
  shows "\<exists>ip. i \<in> g_id ` set (tb_gateways s) \<and>
    (let s1 = s\<lparr>tb_gateways := upd_where (\<lambda>x. g_id x = i) (apply_gateway_update now req ip) (tb_gateways s)\<rparr>
     in s' = s1 \<or> ugw_NetworkIDs req \<noteq> [] \<and> update_networks uuid_parse f i g (ugw_NetworkIDs req) s1 = Inr s')"
  using assms unfolding update_tx_def
  by (fastforce simp: Let_def split: sum.splits option.splits if_splits dest!: find_SomeD)

lemma gateway_update_changes:
  assumes "gateway_update by_name uuid_parse inet_cast notifier now f raw bd s = (a, s', ns)" "s' \<noteq> s"
  obtains i req g where "update_tx uuid_parse inet_cast now f i req s = Inr (g, s')"
  using assms unfolding gateway_update_def by (auto split: sum.splits if_splits prod.splits)

lemma update_networks_changes:
  assumes "update_networks uuid_parse f i g raws s = Inr s'" "raws \<noteq> []"
  shows "\<exists>nets rows. nets \<noteq> [] \<and> assign_networks (\<lambda>k. f (6 + k)) s i nets (del_where (\<lambda>r. fst r = i) (tb_gateway_networks s)) = Some rows \<and>
    s' = s\<lparr>tb_gateway_networks := rows, tb_gateways := upd_where (\<lambda>x. g_id x = i) (\<lambda>x. x\<lparr>g_network_id := Some (hd nets)\<rparr>) (tb_gateways s)\<rparr>"
proof -
  obtain nets where "parse_networks uuid_parse raws = Inr nets" using assms(1) by (auto simp: update_networks_def split: sum.splits)
  moreover from this have "nets \<noteq> []" using assms(2) parse_networks_length by fastforce
  ultimately show ?thesis
    using assms(1) by (auto simp: update_networks_def Let_def split: option.splits if_splits)
qed

section \<open>The own network of a gateway is one of its networks\<close>

definition gateways_consistent :: "db \<Rightarrow> bool" where
  "gateways_consistent s \<longleftrightarrow> distinct (map g_id (tb_gateways s)) \<and> distinct (map n_id (tb_networks s)) \<and> distinct (tb_gateway_networks s) \<and>
     set (tb_gateway_networks s) \<subseteq> g_id ` set (tb_gateways s) \<times> n_id ` set (tb_networks s) \<and>
     (\<forall>g \<in> set (tb_gateways s). \<forall>n. g_network_id g = Some n \<longrightarrow> (g_id g, n) \<in> set (tb_gateway_networks s))"

lemma consistent_create:
  assumes "gateways_consistent s" "new_id \<notin> g_id ` set (tb_gateways s)"
    and "gateway_create by_name uuid_parse inet_cast wg_public sha256 new_key random new_id now f bd s = (a, s')"
  shows "gateways_consistent s'"
proof (cases "s' = s")
  case False
  then obtain req nets ip priv pub h where new: "nets \<noteq> []" "insert_gateway f (new_gateway new_id now (hd nets) req ip priv pub h) nets s = Inr s'"
    using gateway_create_inserts [OF assms(3)] by blast
  define g where "g = new_gateway new_id now (hd nets) req ip priv pub h"
  have g: "nets \<noteq> []" "g_id g = new_id" "g_network_id g = Some (hd nets)" "insert_gateway f g nets s = Inr s'"
    using new by (simp_all add: g_def new_gateway_def)
  then obtain rows where rows: "assign_networks (\<lambda>k. f (4 + k)) s new_id nets (tb_gateway_networks s) = Some rows"
      "s' = s\<lparr>tb_gateways := tb_gateways s @ [g], tb_gateway_networks := rows\<rparr>"
    using insert_gateway_changes by blast
  show ?thesis
    using assms(1,2) assign_networks_rows [OF rows(1)] g(1-3) by (auto simp: gateways_consistent_def rows(2))
qed (use assms(1) in simp)

lemma consistent_upd:
  assumes "gateways_consistent s" "\<And>g. g_id (h g) = g_id g" "\<And>g. g_network_id (h g) = g_network_id g"
  shows "gateways_consistent (s\<lparr>tb_gateways := upd_where p h (tb_gateways s)\<rparr>)"
proof -
  have "map g_id (upd_where p h (tb_gateways s)) = map g_id (tb_gateways s)"
    by (rule map_upd_where_frame) (rule assms(2))
  then have "g_id ` set (upd_where p h (tb_gateways s)) = g_id ` set (tb_gateways s)" by (rule map_eq_image)
  then show ?thesis
    using assms \<open>map g_id (upd_where p h (tb_gateways s)) = _\<close> by (auto simp: gateways_consistent_def set_upd_where)
qed

lemma consistent_networks:
  assumes "gateways_consistent s" "update_networks uuid_parse f i g raws s = Inr s'" "raws \<noteq> []" "i \<in> g_id ` set (tb_gateways s)"
  shows "gateways_consistent s'"
proof -
  obtain nets rows where u: "nets \<noteq> []"
      "assign_networks (\<lambda>k. f (6 + k)) s i nets (del_where (\<lambda>r. fst r = i) (tb_gateway_networks s)) = Some rows"
      "s' = s\<lparr>tb_gateway_networks := rows, tb_gateways := upd_where (\<lambda>x. g_id x = i) (\<lambda>x. x\<lparr>g_network_id := Some (hd nets)\<rparr>) (tb_gateways s)\<rparr>"
    using update_networks_changes [OF assms(2,3)] by blast
  note rows = assign_networks_rows [OF u(2)]
  have ids: "map g_id (upd_where (\<lambda>x. g_id x = i) (\<lambda>x. x\<lparr>g_network_id := Some (hd nets)\<rparr>) (tb_gateways s)) = map g_id (tb_gateways s)"
    by (rule map_upd_where_frame) simp
  then have "g_id ` set (tb_gateways s') = g_id ` set (tb_gateways s)" using map_eq_image by (simp add: u(3))
  then show ?thesis
    using assms(1,4) rows u(1) ids
    by (auto simp: gateways_consistent_def u(3) set_upd_where del_where_def)
qed

lemma consistent_update:
  assumes "gateways_consistent s" "gateway_update by_name uuid_parse inet_cast notifier now f raw bd s = (a, s', ns)"
  shows "gateways_consistent s'"
proof (cases "s' = s")
  case False
  then obtain i req g where "update_tx uuid_parse inet_cast now f i req s = Inr (g, s')"
    by (rule gateway_update_changes [OF assms(2)])
  from update_tx_changes [OF this] obtain ip where i: "i \<in> g_id ` set (tb_gateways s)"
    and s': "let s1 = s\<lparr>tb_gateways := upd_where (\<lambda>x. g_id x = i) (apply_gateway_update now req ip) (tb_gateways s)\<rparr>
     in s' = s1 \<or> ugw_NetworkIDs req \<noteq> [] \<and> update_networks uuid_parse f i g (ugw_NetworkIDs req) s1 = Inr s'"
    by blast
  define s1 where "s1 = s\<lparr>tb_gateways := upd_where (\<lambda>x. g_id x = i) (apply_gateway_update now req ip) (tb_gateways s)\<rparr>"
  have "gateways_consistent s1"
    unfolding s1_def by (rule consistent_upd [OF assms(1)]) (simp_all add: apply_gateway_update_def)
  moreover have "map g_id (tb_gateways s1) = map g_id (tb_gateways s)"
    by (simp add: s1_def map_upd_where_frame apply_gateway_update_def)
  then have "i \<in> g_id ` set (tb_gateways s1)" using i map_eq_image by blast
  ultimately show ?thesis
    using s' consistent_networks [of s1] by (auto simp: s1_def [symmetric] Let_def)
qed (use assms(1) in simp)

lemma consistent_drop_gateways: "gateways_consistent s \<Longrightarrow> gateways_consistent (drop_gateways is s)"
  by (auto simp: gateways_consistent_def drop_gateways_def distinct_map_del_where) (auto simp: del_where_def)

lemma consistent_drop_network:
  assumes "gateways_consistent s"
  shows "gateways_consistent (drop_network i s)"
proof -
  define s1 where "s1 = drop_gateways (g_id ` set (filter (\<lambda>g. g_network_id g = Some i) (tb_gateways s))) s"
  have "gateways_consistent s1" unfolding s1_def by (rule consistent_drop_gateways [OF assms])
  moreover have "g_network_id g \<noteq> Some i" if "g \<in> set (tb_gateways s1)" for g
    using that by (auto simp: s1_def drop_gateways_def)
  moreover have "tb_gateways (drop_network i s) = tb_gateways s1"
      "tb_networks (drop_network i s) = del_where (\<lambda>n. n_id n = i) (tb_networks s1)"
      "tb_gateway_networks (drop_network i s) = del_where (\<lambda>r. snd r = i) (tb_gateway_networks s1)"
    by (simp_all only: drop_network_def Let_def s1_def [symmetric]) simp_all
  ultimately show ?thesis
    by (auto simp: gateways_consistent_def distinct_map_del_where) (auto simp: del_where_def)
qed

text \<open>Any sequence of the calls that write gateways and networks.\<close>

inductive admin_step :: "db \<Rightarrow> db \<Rightarrow> bool" where
  create_gateway: "new_id \<notin> g_id ` set (tb_gateways s) \<Longrightarrow>
    admin_step s (snd (gateway_create by_name uuid_parse inet_cast wg_public sha256 new_key random new_id now f gbd s))"
| update_gateway: "admin_step s (fst (snd (gateway_update by_name uuid_parse inet_cast notifier now f raw ubd s)))"
| delete_gateway: "admin_step s (snd (gateway_delete uuid_parse fails raw s))"
| heartbeat: "admin_step s (snd (Heartbeat sha256 f now authorization gwID s))"
| create_network: "new_id \<notin> n_id ` set (tb_networks s) \<Longrightarrow> admin_step s (snd (network_create new_id now fails nbd s))"
| update_network: "admin_step s (snd (network_update uuid_parse now fails raw nubd s))"
| delete_network: "admin_step s (fst (snd (network_delete uuid_parse refresher f raw s)))"

lemma consistent_network_rows:
  assumes "gateways_consistent s" "distinct (map n_id ns)" "n_id ` set (tb_networks s) \<subseteq> n_id ` set ns"
  shows "gateways_consistent (s\<lparr>tb_networks := ns\<rparr>)"
  using assms by (auto simp: gateways_consistent_def)

lemma admin_step_consistent:
  assumes "admin_step s s'" "gateways_consistent s"
  shows "gateways_consistent s'"
  using assms
proof cases
  case create_gateway
  then show ?thesis using consistent_create [OF assms(2) _ surjective_pairing] by blast
next
  case update_gateway
  then show ?thesis using consistent_update [OF assms(2)] by (metis prod.collapse)
next
  case delete_gateway
  then show ?thesis
    using assms(2) by (auto simp: gateway_delete_def consistent_drop_gateways split: sum.split)
next
  case heartbeat
  then show ?thesis
    using assms(2) by (auto simp: Heartbeat_def mark_seen_def consistent_upd split: option.split)
next
  case (create_network new_id now fails nbd)
  have "distinct (map n_id (tb_networks s))" using assms(2) by (simp add: gateways_consistent_def)
  then have new: "gateways_consistent (s\<lparr>tb_networks := tb_networks s @ [n]\<rparr>)" if "n_id n = new_id" for n
    using assms(2) create_network(2) that by (intro consistent_network_rows) auto
  show ?thesis
    unfolding create_network(1) using assms(2) by (auto simp: network_create_def Let_def intro!: new split: sum.split option.split)
next
  case (update_network uuid_parse now fails raw nubd)
  show ?thesis
  proof (cases "s' = s")
    case False
    have "network_update uuid_parse now fails raw nubd s = (fst (network_update uuid_parse now fails raw nubd s), s')"
      by (simp add: update_network)
    then obtain i req address tunnel where
      s': "s' = s\<lparr>tb_networks := upd_where (\<lambda>x. n_id x = i) (apply_network_update now req address tunnel) (tb_networks s)\<rparr>"
      using False by (rule network_update_changes)
    have ids: "map n_id (upd_where (\<lambda>x. n_id x = i) (apply_network_update now req address tunnel) (tb_networks s)) = map n_id (tb_networks s)"
      by (rule map_upd_where_frame) (simp add: apply_network_update_def)
    then have "n_id ` set (upd_where (\<lambda>x. n_id x = i) (apply_network_update now req address tunnel) (tb_networks s)) = n_id ` set (tb_networks s)"
      by (rule map_eq_image)
    then show ?thesis
      unfolding s' using assms(2) ids by (intro consistent_network_rows) (simp_all add: gateways_consistent_def)
  qed (use assms(2) in simp)
next
  case (delete_network uuid_parse refresher f raw)
  then show ?thesis
    using network_delete_state [of uuid_parse refresher f raw s] assms(2) consistent_drop_network by auto
qed

text \<open>
  C19. Through any sequence of the calls that create, change or delete gateways and networks, and of
  heartbeats, the network recorded in a gateway's own row stays one of the networks assigned to it,
  assignments name existing gateways and networks, and none occurs twice. So the devices that are
  found through the gateway's own row are among those found through the assignments, and the former
  kind of lookup, kept for compatibility, never adds a device.
\<close>

theorem own_network_assigned:
  assumes "admin_step\<^sup>*\<^sup>* s s'" "gateways_consistent s"
  shows "gateways_consistent s' \<and> set (legacy_devices s' gw) \<subseteq> set (gateway_devices s' gw)"
proof -
  have "gateways_consistent s'"
    using assms by (induction rule: rtranclp_induct) (auto dest: admin_step_consistent)
  then show ?thesis
    by (auto simp: gateways_consistent_def legacy_devices_def gateway_devices_def serves_legacy_def serves_def split: option.splits)
qed

section \<open>Tokens\<close>

text \<open>
  C18. The token in the answer to the creation of a gateway is the one with which that gateway, and no
  other, gets its configuration, with the private key that was generated for it, provided no other
  gateway has the same hash; the database holds only the hash. Once the gateway is deleted the token
  opens nothing.
\<close>

theorem gateway_token_lifecycle:
  assumes "gateway_create by_name uuid_parse inet_cast wg_public sha256 new_key random new_id now f bd s = (Ok 201 (r, token, priv), s')"
    and "token \<noteq> []" "hex_encode (sha256 token) \<notin> g_token_hash ` set (tb_gateways s)" "new_id \<notin> g_id ` set (tb_gateways s)"
    and "\<not> h 0" "uuid_parse raw = Inr new_id"
  shows "(\<exists>c. GetConfig sha256 ord h token s' = RpcOk c \<and> gc_GatewayId c = new_id \<and> gc_PrivateKey c = priv) \<and>
    (\<exists>s''. gateway_delete uuid_parse False raw s' = (Ok 204 (), s'') \<and> (\<nexists>c. GetConfig sha256 ord h token s'' = RpcOk c))"
proof -
  from gateway_create_inserts [OF assms(1)] obtain req nets ip pub where
    new: "insert_gateway f (new_gateway new_id now (hd nets) req ip priv pub (hex_encode (sha256 token))) nets s = Inr s'"
    by auto
  define g where "g = new_gateway new_id now (hd nets) req ip priv pub (hex_encode (sha256 token))"
  have g: "g_id g = new_id" "g_is_active g" "g_wireguard_privkey g = priv" "g_token_hash g = hex_encode (sha256 token)"
      "insert_gateway f g nets s = Inr s'"
    using new by (simp_all add: g_def new_gateway_def)
  then have gws: "tb_gateways s' = tb_gateways s @ [g]" using insert_gateway_changes by fastforce
  have found: "gateway_of_token sha256 token s' = Some g"
    unfolding gateway_of_token_def gws using assms(3) g(2,4) by (intro find_last) (auto simp: image_iff)
  have "gateway_delete uuid_parse False raw s' = (Ok 204 (), drop_gateways {new_id} s')"
    using assms(6) g(1) by (simp add: gateway_delete_def parseUUID_def gws)
  moreover have "gateway_of_token sha256 token (drop_gateways {new_id} s') = None"
    using assms(3) g(1) by (auto simp: gateway_of_token_def drop_gateways_def gws find_None_iff image_iff)
  ultimately show ?thesis
    using found assms(2,5) g(1,3) by (simp add: GetConfig_def case_prod_beta)
qed

section \<open>Witnesses\<close>

definition sample_gateway_request :: createGatewayRequest where
  "sample_gateway_request = \<lparr>cgw_Name = ''edge'', cgw_NetworkID = [], cgw_NetworkIDs = [''n2'', ''n1''], cgw_Endpoint = ''edge.example'',
     cgw_PublicIP = Some ''1.1.1.1'', cgw_Priority = None\<rparr>"

abbreviation sample_gateway_create :: "(gatewayResponse \<times> string \<times> string) resp \<times> db" where
  "sample_gateway_create \<equiv> gateway_create (\<lambda>_ xs. xs) plain_uuid (\<lambda>_. Some 0x01010101) (\<lambda>k. Some (k @ ''-pub'')) rev
     (Some ''priv'') (Some ''t'') ''gw3'' 7 (\<lambda>_. False) (Inr sample_gateway_request) sample_db"

lemma sample_gateway_created:
  "\<exists>r s'. sample_gateway_create = (Ok 201 (r, hex_encode ''t'', ''priv''), s') \<and> set (tb_gateway_networks s') = {(''gw1'', ''n1''), (''gw2'', ''n2''), (''gw3'', ''n2''), (''gw3'', ''n1'')}"
proof -
  have ok: "gateway_complaint sample_gateway_request = None"
    using sample_dns_address by (simp add: gateway_complaint_def sample_gateway_request_def validIP_def)
  have nets: "requested_networks plain_uuid sample_gateway_request = Inr [''n2'', ''n1'']"
    by (simp add: requested_networks_def sample_gateway_request_def plain_uuid_def)
  have ins: "\<exists>s'. insert_gateway (\<lambda>_. False) (new_gateway ''gw3'' 7 ''n2'' sample_gateway_request 0x01010101 ''priv'' ''priv-pub'' h) [''n2'', ''n1''] sample_db = Inr s' \<and>
      set (tb_gateway_networks s') = {(''gw1'', ''n1''), (''gw2'', ''n2''), (''gw3'', ''n2''), (''gw3'', ''n1'')}" for h
    by (simp add: insert_gateway_def gateway_conflict_def new_gateway_def sample_tables sample_gateway_row_def sample_network_def
        sample_gateway_request_def int4_range_def insert_commute)
  show ?thesis
    using ins [of "hex_encode (rev (hex_encode ''t''))"] by (auto simp: gateway_create_def ok nets generateToken_def Let_def)
qed

lemma sample_consistent: "gateways_consistent sample_db"
  by (simp add: gateways_consistent_def sample_tables sample_gateway_row_def sample_network_def)

theorem own_network_assigned_witness:
  "(''gw3'', ''n1'') \<in> set (tb_gateway_networks (snd sample_gateway_create)) \<and> gateways_consistent (snd sample_gateway_create)"
proof -
  have "admin_step sample_db (snd sample_gateway_create)"
    by (rule admin_step.create_gateway) (simp add: sample_tables sample_gateway_row_def)
  then show ?thesis
    using own_network_assigned [OF r_into_rtranclp sample_consistent] sample_gateway_created by force
qed

theorem gateway_token_lifecycle_witness:
  "(\<exists>c. GetConfig rev rev (\<lambda>_. False) (hex_encode ''t'') (snd sample_gateway_create) = RpcOk c \<and> gc_GatewayId c = ''gw3'') \<and>
   (\<nexists>c. GetConfig rev rev (\<lambda>_. False) (hex_encode ''t'') (snd (gateway_delete plain_uuid False ''gw3'' (snd sample_gateway_create))) = RpcOk c)"
proof -
  obtain r s' where run: "sample_gateway_create = (Ok 201 (r, hex_encode ''t'', ''priv''), s')" using sample_gateway_created by blast
  have new: "hex_encode ''t'' \<noteq> []" "hex_encode (rev (hex_encode ''t'')) \<notin> g_token_hash ` set (tb_gateways sample_db)"
      "''gw3'' \<notin> g_id ` set (tb_gateways sample_db)" "\<not> (\<lambda>_. False) (0 :: nat)" "plain_uuid ''gw3'' = Inr ''gw3''"
    by (simp_all add: sample_tables sample_gateway_row_def plain_uuid_def hex_encode_def hex_digit_def)
  show ?thesis
    using gateway_token_lifecycle [OF run new, of rev] by (auto simp: run)
qed

end
