(* ===== verification/Webhooks.thy ===== *)
theory Webhooks
  imports Schema Http_Helpers IPv6
begin

text \<open>
  Outbound webhooks (\<^verbatim>\<open>internal/webhook/dispatcher.go\<close>): the subscriptions and their cache, the
  addresses that deliveries may reach, and the delivery loop. The world of a delivery, \<open>http_world\<close>,
  says for each attempt which host addresses the HTTP client asks the dialer for (the host of the
  URL and of every redirect), what the resolver answers at that moment, and how the server
  responds. \<open>url_parse\<close> is \<^verbatim>\<open>url.Parse\<close> (the text of its error, or scheme and host name), \<open>lookup\<close> the
  resolver, \<open>hmac\<close> and \<open>marshal\<close> the MAC and the JSON encoding.
\<close>

section \<open>Addresses\<close>

type_synonym netip = "ip4 + nat list"

text \<open>\<^verbatim>\<open>net.IP.To4\<close>, which also sees through addresses of the form \<open>::ffff:a.b.c.d\<close>.\<close>

definition To4 :: "netip \<Rightarrow> ip4 option" where
  "To4 ip = (case ip of
       Inl w \<Rightarrow> Some w
     | Inr gs \<Rightarrow> if length gs = 8 \<and> take 6 gs = [0, 0, 0, 0, 0, 0xFFFF] then Some (word_of_nat (gs ! 6 * 65536 + gs ! 7)) else None)"

definition isPrivateIP4 :: "ip4 \<Rightarrow> bool" where
  "isPrivateIP4 w =
     (let a = octets w ! 0; b = octets w ! 1; c = octets w ! 2
      in a = 127 \<or> (a = 10 \<or> (a = 172 \<and> b div 16 = 1) \<or> (a = 192 \<and> b = 168)) \<or> (a = 169 \<and> b = 254) \<or>
         (a = 224 \<and> b = 0 \<and> c = 0) \<or> w = 0)"

definition isPrivateIP :: "netip \<Rightarrow> bool" where
  "isPrivateIP ip =
     (case To4 ip of
        Some w \<Rightarrow> isPrivateIP4 w
      | None \<Rightarrow> (case ip of Inl _ \<Rightarrow> False
        | Inr gs \<Rightarrow> gs = [0, 0, 0, 0, 0, 0, 0, 1] \<or> hd gs div 512 = 0x7E \<or> hd gs div 64 = 0x3FA \<or>
                    (hd gs div 256 = 0xFF \<and> hd gs mod 16 = 2) \<or> gs = replicate 8 0))"

text \<open>\<^verbatim>\<open>net.SplitHostPort\<close>.\<close>

definition SplitHostPort :: "string \<Rightarrow> (string \<times> string) option" where
  "SplitHostPort a =
     (let port = rev (takeWhile (\<lambda>c. c \<noteq> CHR '':'') (rev a));
          hostname = take (length a - length port - 1) a
      in if CHR '':'' \<notin> set a then None
         else if hd a = CHR ''['' then
           (let inner = takeWhile (\<lambda>c. c \<noteq> CHR '']'') (tl a)
            in if hostname = CHR ''['' # inner @ '']'' \<and> CHR ''['' \<notin> set inner \<and> CHR ''['' \<notin> set port \<and> CHR '']'' \<notin> set port
               then Some (inner, port) else None)
         else if CHR '':'' \<in> set hostname \<or> CHR ''['' \<in> set a \<or> CHR '']'' \<in> set a then None
         else Some (hostname, port))"

text \<open>The address and port that are dialled for a host address, if any.\<close>

definition safeDialContext :: "(string \<Rightarrow> netip list option) \<Rightarrow> string \<Rightarrow> (netip \<times> string) option" where
  "safeDialContext lookup addr =
     (case SplitHostPort addr of None \<Rightarrow> None
      | Some (hostname, port) \<Rightarrow>
     (case lookup hostname of None \<Rightarrow> None
      | Some ips \<Rightarrow>
          if ips = [] then None
          else if list_ex isPrivateIP ips then None
          else Some (hd ips, port)))"

definition to_lower :: "string \<Rightarrow> string" where
  "to_lower = map (\<lambda>c. let n = of_char c :: nat in if 65 \<le> n \<and> n \<le> 90 then char_of (n + 32) else c)"

definition validateWebhookURL :: "(string \<Rightarrow> string + (string \<times> string)) \<Rightarrow> (string \<Rightarrow> string + netip list) \<Rightarrow> string \<Rightarrow> string option" where
  "validateWebhookURL url_parse lookup rawURL =
     (case url_parse rawURL of Inl e \<Rightarrow> Some (''invalid URL: '' @ e)
      | Inr (scheme, hostname) \<Rightarrow>
      if to_lower scheme \<noteq> ''https'' \<and> to_lower scheme \<noteq> ''http'' then Some ''URL scheme must be http or https''
      else if hostname = [] then Some ''URL must have a hostname''
      else (case lookup hostname of Inl e \<Rightarrow> Some (''cannot resolve hostname: '' @ e)
      | Inr ips \<Rightarrow> if list_ex isPrivateIP ips then Some ''URL must not point to a private/internal address'' else None))"

section \<open>Subscriptions and events\<close>

record Event =
  ev_ID :: string
  ev_Type :: string
  ev_Timestamp :: time
  ev_Data :: string

record Subscription =
  ws_ID :: uuid
  ws_URL :: string
  ws_Secret :: string
  ws_Events :: "string list"
  ws_IsActive :: bool
  ws_CreatedAt :: time

text \<open>The table and the cache of the dispatcher.\<close>

record Dispatcher =
  wh_rows :: "Subscription list"
  wh_subs :: "Subscription list"

definition LoadSubscriptions :: "bool \<Rightarrow> Dispatcher \<Rightarrow> Dispatcher" where
  "LoadSubscriptions fails d = (if fails then d else d\<lparr>wh_subs := filter ws_IsActive (wh_rows d)\<rparr>)"

definition matchesEvent :: "string list \<Rightarrow> string \<Rightarrow> bool" where
  "matchesEvent filters eventType = list_ex (\<lambda>f. f = ''*'' \<or> f = eventType) filters"

text \<open>The deliveries that \<open>Dispatch\<close> starts, each in the background.\<close>

definition Dispatch :: "string \<Rightarrow> time \<Rightarrow> Event \<Rightarrow> Dispatcher \<Rightarrow> (Subscription \<times> Event) list" where
  "Dispatch new_id now event d =
     (let event = (if ev_ID event = [] then event\<lparr>ev_ID := new_id\<rparr> else event);
          event = (if ev_Timestamp event = zero_time then event\<lparr>ev_Timestamp := now\<rparr> else event)
      in map (\<lambda>s. (s, event)) (filter (\<lambda>s. matchesEvent (ws_Events s) (ev_Type event)) (wh_subs d)))"

section \<open>Delivery\<close>

definition signPayload :: "(string \<Rightarrow> string \<Rightarrow> string) \<Rightarrow> string \<Rightarrow> string \<Rightarrow> string" where
  "signPayload hmac secret payload = hex_encode (hmac secret payload)"

text \<open>The request: address, body, signature, event and type.\<close>

definition webhook_request :: "(string \<Rightarrow> string \<Rightarrow> string) \<Rightarrow> Subscription \<Rightarrow> Event \<Rightarrow> string \<Rightarrow> string \<times> string \<times> string \<times> string \<times> string" where
  "webhook_request hmac sub event payload =
     (ws_URL sub, payload, ''sha256='' @ signPayload hmac (ws_Secret sub) payload, ev_ID event, ev_Type event)"

record http_world =
  hw_dials :: "nat \<Rightarrow> string list"
  hw_lookup :: "nat \<Rightarrow> nat \<Rightarrow> string \<Rightarrow> netip list option"
  hw_connects :: "netip \<times> string \<Rightarrow> bool"
  hw_status :: "nat \<Rightarrow> int option"

fun dial_all :: "http_world \<Rightarrow> nat \<Rightarrow> nat \<Rightarrow> string list \<Rightarrow> (netip \<times> string) list \<times> bool" where
  "dial_all w n i [] = ([], True)"
| "dial_all w n i (a # as) =
     (case safeDialContext (hw_lookup w n i) a of None \<Rightarrow> ([], False)
      | Some t \<Rightarrow> if \<not> hw_connects w t then ([t], False)
                  else let (ts, ok) = dial_all w n (Suc i) as in (t # ts, ok))"

definition client_Do :: "http_world \<Rightarrow> nat \<Rightarrow> (netip \<times> string) list \<times> int option" where
  "client_Do w n = (let (ts, ok) = dial_all w n 0 (hw_dials w n) in (ts, if ok then hw_status w n else None))"

definition delivered :: "int option \<Rightarrow> bool" where
  "delivered status = (case status of None \<Rightarrow> False | Some c \<Rightarrow> 200 \<le> c \<and> c < 300)"

text \<open>Whether an attempt succeeded, what was dialled, and the time slept.\<close>

fun deliver_loop :: "http_world \<Rightarrow> nat \<Rightarrow> nat \<Rightarrow> duration \<Rightarrow> bool \<times> (netip \<times> string) list \<times> duration" where
  "deliver_loop w 0 n backoff = (False, [], 0)"
| "deliver_loop w (Suc k) n backoff =
     (let (ts, status) = client_Do w n
      in if delivered status then (True, ts, 0)
         else let (ok, ts', slept) = deliver_loop w k (Suc n) (backoff * 2) in (ok, ts @ ts', backoff + slept))"

definition deliverWebhook :: "(Event \<Rightarrow> string option) \<Rightarrow> (string \<Rightarrow> string \<Rightarrow> string) \<Rightarrow> (string \<Rightarrow> bool) \<Rightarrow> http_world \<Rightarrow> Subscription \<Rightarrow> Event
    \<Rightarrow> (string \<times> string \<times> string \<times> string \<times> string) option \<times> bool \<times> (netip \<times> string) list \<times> duration" where
  "deliverWebhook marshal hmac new_request w sub event =
     (case marshal event of None \<Rightarrow> (None, False, [], 0)
      | Some payload \<Rightarrow>
          if \<not> new_request (ws_URL sub) then (None, False, [], 0)
          else (Some (webhook_request hmac sub event payload), deliver_loop w 3 0 (seconds 1)))"

section \<open>Endpoints\<close>

definition listSubscriptions :: "bool \<Rightarrow> Dispatcher \<Rightarrow> Subscription list resp" where
  "listSubscriptions fails d =
     (if fails then Err 500 ''failed to list subscriptions'' else Ok 200 (sort_key (\<lambda>s. - ws_CreatedAt s) (wh_rows d)))"

record createSubscriptionRequest =
  cs_URL :: string
  cs_Secret :: string
  cs_Events :: "string list"

definition generateSecret :: "string option \<Rightarrow> string option" where
  "generateSecret random = map_option hex_encode random"

text \<open>Of the stored row the answer shows the secret too, here and nowhere else.\<close>

definition createSubscription :: "(string \<Rightarrow> string + (string \<times> string)) \<Rightarrow> (string \<Rightarrow> string + netip list) \<Rightarrow> string option \<Rightarrow> uuid \<Rightarrow> time
    \<Rightarrow> (nat \<Rightarrow> bool) \<Rightarrow> createSubscriptionRequest body \<Rightarrow> Dispatcher \<Rightarrow> Subscription resp \<times> Dispatcher" where
  "createSubscription url_parse lookup random new_id now f bd d =
     (case bd of Inl _ \<Rightarrow> (Err 400 ''invalid request body'', d)
      | Inr req \<Rightarrow>
      if cs_URL req = [] then (Err 400 ''url is required'', d)
      else (case validateWebhookURL url_parse lookup (cs_URL req) of Some m \<Rightarrow> (Err 400 (''invalid webhook URL: '' @ m), d)
      | None \<Rightarrow>
     (case (if cs_Secret req = [] \<or> cs_Secret req = ''auto'' then generateSecret random else Some (cs_Secret req)) of
        None \<Rightarrow> (Err 500 ''failed to generate secret'', d)
      | Some secret \<Rightarrow>
      if f 0 then (Err 500 ''failed to create subscription'', d)
      else let sub = \<lparr>ws_ID = new_id, ws_URL = cs_URL req, ws_Secret = secret,
                      ws_Events = (if cs_Events req = [] then [''*''] else cs_Events req), ws_IsActive = True, ws_CreatedAt = now\<rparr>
           in (Ok 201 sub, LoadSubscriptions (f 1) (d\<lparr>wh_rows := wh_rows d @ [sub]\<rparr>)))))"

definition find_subscription :: "(string \<Rightarrow> uuid option) \<Rightarrow> bool \<Rightarrow> string \<Rightarrow> Dispatcher \<Rightarrow> Subscription option" where
  "find_subscription cast_uuid fails raw d =
     (case (if fails then None else cast_uuid raw) of None \<Rightarrow> None | Some i \<Rightarrow> find (\<lambda>s. ws_ID s = i) (wh_rows d))"

definition getSubscription :: "(string \<Rightarrow> string + uuid) \<Rightarrow> (string \<Rightarrow> uuid option) \<Rightarrow> bool \<Rightarrow> string \<Rightarrow> Dispatcher \<Rightarrow> Subscription resp" where
  "getSubscription uuid_parse cast_uuid fails raw d =
     (case uuid_parse raw of Inl _ \<Rightarrow> Err 400 ''invalid subscription ID''
      | Inr _ \<Rightarrow>
     (case find_subscription cast_uuid fails raw d of None \<Rightarrow> Err 404 ''subscription not found'' | Some s \<Rightarrow> Ok 200 s))"

definition deleteSubscription :: "(string \<Rightarrow> string + uuid) \<Rightarrow> (string \<Rightarrow> uuid option) \<Rightarrow> (nat \<Rightarrow> bool) \<Rightarrow> string \<Rightarrow> Dispatcher
    \<Rightarrow> unit resp \<times> Dispatcher" where
  "deleteSubscription uuid_parse cast_uuid f raw d =
     (case uuid_parse raw of Inl _ \<Rightarrow> (Err 400 ''invalid subscription ID'', d)
      | Inr _ \<Rightarrow>
     (case (if f 0 then None else cast_uuid raw) of None \<Rightarrow> (Err 500 ''failed to delete subscription'', d)
      | Some i \<Rightarrow>
          if filter (\<lambda>s. ws_ID s = i) (wh_rows d) = [] then (Err 404 ''subscription not found'', d)
          else (Ok 204 (), LoadSubscriptions (f 1) (d\<lparr>wh_rows := del_where (\<lambda>s. ws_ID s = i) (wh_rows d)\<rparr>))))"

definition test_event :: "string \<Rightarrow> time \<Rightarrow> string \<Rightarrow> Event" where
  "test_event new_id now data = \<lparr>ev_ID = new_id, ev_Type = ''webhook.test'', ev_Timestamp = now, ev_Data = data\<rparr>"

definition testSubscription :: "(string \<Rightarrow> string + uuid) \<Rightarrow> (string \<Rightarrow> uuid option) \<Rightarrow> (Event \<Rightarrow> string option) \<Rightarrow> (string \<Rightarrow> string \<Rightarrow> string)
    \<Rightarrow> (string \<Rightarrow> bool) \<Rightarrow> http_world \<Rightarrow> bool \<Rightarrow> string \<Rightarrow> time \<Rightarrow> string \<Rightarrow> Dispatcher \<Rightarrow> unit resp" where
  "testSubscription uuid_parse cast_uuid marshal hmac new_request w fails new_id now raw d =
     (case uuid_parse raw of Inl _ \<Rightarrow> Err 400 ''invalid subscription ID''
      | Inr _ \<Rightarrow>
     (case find_subscription cast_uuid fails raw d of None \<Rightarrow> Err 404 ''subscription not found''
      | Some sub \<Rightarrow>
          (case deliverWebhook marshal hmac new_request w sub (test_event new_id now ''This is a test event from Outpost VPN.'') of
             (_, ok, _, _) \<Rightarrow> if ok then Ok 200 () else Err 502 ''test delivery failed'')))"

section \<open>Only public addresses are reached\<close>

abbreviation net4 :: "nat \<Rightarrow> nat \<Rightarrow> cidr" where
  "net4 w l \<equiv> \<lparr>c_net = word_of_nat w, c_len = l\<rparr>"

definition internal_nets :: "cidr list" where
  "internal_nets = [net4 0x7F000000 8, net4 0x0A000000 8, net4 0xAC100000 12, net4 0xC0A80000 16, net4 0xA9FE0000 16,
     net4 0xE0000000 24, net4 0 32]"

lemma in_net4:
  assumes "w < 2 ^ 32" "w mod 2 ^ (32 - l) = 0"
  shows "in_cidr v (net4 w l) \<longleftrightarrow> unat v div 2 ^ (32 - l) = w div 2 ^ (32 - l)"
proof -
  have "mask_ip l v = word_of_nat w \<longleftrightarrow> unat v div 2 ^ (32 - l) * 2 ^ (32 - l) = w"
  proof -
    have "unat v div 2 ^ (32 - l) * 2 ^ (32 - l) < 2 ^ 32"
      by (rule le_less_trans [OF div_times_less_eq_dividend]) (use unsigned_less [of v, where ?'a = nat] in simp)
    then show ?thesis
      using assms(1) by (simp add: mask_ip_def word_of_nat_eq_iff take_bit_nat_eq_self del: of_nat_mult)
  qed
  then show ?thesis
    using assms(2) by (auto simp: in_cidr_def mod_eq_0_iff_dvd)
qed

lemma in_internal_nets:
  "list_ex (in_cidr v) internal_nets \<longleftrightarrow> unat v div 2 ^ 24 \<in> {127, 10} \<or> unat v div 2 ^ 20 = 0xAC1 \<or>
     unat v div 2 ^ 16 \<in> {0xC0A8, 0xA9FE} \<or> unat v div 2 ^ 8 = 0xE00000 \<or> unat v = 0"
  unfolding internal_nets_def list_ex_iff
  using in_net4 [of "0x7F000000" 8 v] in_net4 [of "0x0A000000" 8 v] in_net4 [of "0xAC100000" 12 v] in_net4 [of "0xC0A80000" 16 v]
    in_net4 [of "0xA9FE0000" 16 v] in_net4 [of "0xE0000000" 24 v] in_net4 [of 0 32 v]
  by (simp; blast)

lemma digits_eq:
  fixes m b x y :: nat
  assumes "y < b"
  shows "m = x * b + y \<longleftrightarrow> m div b = x \<and> m mod b = y"
  using assms by (metis div_mult_mod_eq div_mult_self3 div_less add_0_right mod_mult_self3 mod_less less_nat_zero_code)

lemma isPrivateIP4_nets: "isPrivateIP4 v \<longleftrightarrow> list_ex (in_cidr v) internal_nets"
proof -
  define n where "n = unat v"
  have "v = 0 \<longleftrightarrow> n = 0" by (simp add: n_def unat_eq_0)
  then have "isPrivateIP4 v \<longleftrightarrow> n div 16777216 \<in> {127, 10} \<or> n div 16777216 = 172 \<and> n div 65536 mod 256 div 16 = 1 \<or>
      n div 16777216 = 192 \<and> n div 65536 mod 256 = 168 \<or> n div 16777216 = 169 \<and> n div 65536 mod 256 = 254 \<or>
      n div 16777216 = 224 \<and> n div 65536 mod 256 = 0 \<and> n div 256 mod 256 = 0 \<or> n = 0"
    unfolding isPrivateIP4_def octets_def n_def by (simp add: Let_def; blast)
  moreover have "n div 65536 = 0xC0A8 \<longleftrightarrow> n div 16777216 = 192 \<and> n div 65536 mod 256 = 168"
    "n div 65536 = 0xA9FE \<longleftrightarrow> n div 16777216 = 169 \<and> n div 65536 mod 256 = 254"
    using digits_eq [of 168 256 "n div 65536" 192] digits_eq [of 254 256 "n div 65536" 169] by (simp_all add: div_mult2_eq [symmetric])
  moreover have "n div 1048576 = 0xAC1 \<longleftrightarrow> n div 16777216 = 172 \<and> n div 65536 mod 256 div 16 = 1"
    using digits_eq [of 1 16 "n div 1048576" 172] mod_mult2_eq [of "n div 65536" 16 16]
    by (simp add: div_mult2_eq [symmetric])
  moreover have "n div 256 = 0xE00000 \<longleftrightarrow> n div 16777216 = 224 \<and> n div 65536 mod 256 = 0 \<and> n div 256 mod 256 = 0"
    using digits_eq [of 0 256 "n div 256" "0xE000"] digits_eq [of 0 256 "n div 65536" 224] by (auto simp: div_mult2_eq [symmetric])
  ultimately show ?thesis
    unfolding in_internal_nets n_def [symmetric] by (simp; blast)
qed

lemma safeDial_public: "safeDialContext lookup a = Some (ip, port) \<Longrightarrow> \<not> isPrivateIP ip"
  by (auto simp: safeDialContext_def list_ex_iff split: option.splits if_splits)

lemma dial_all_public: "t \<in> set (fst (dial_all w n i as)) \<Longrightarrow> \<not> isPrivateIP (fst t)"
  by (induction w n i as rule: dial_all.induct)
     (auto simp: Let_def dest: safeDial_public split: option.splits if_splits prod.splits)

lemma deliver_loop_public: "t \<in> set (fst (snd (deliver_loop w k n b))) \<Longrightarrow> \<not> isPrivateIP (fst t)"
proof (induction w k n b rule: deliver_loop.induct)
  case (2 w k n b)
  have "\<not> isPrivateIP (fst t)" if "t \<in> set (fst (client_Do w n))"
    using that dial_all_public [of t w n 0 "hw_dials w n"] by (simp add: client_Do_def case_prod_beta)
  then show ?case
    using "2.IH" [OF refl prod.collapse] "2.prems" by (auto simp: case_prod_beta Let_def split: if_splits)
qed simp

text \<open>
  C12. A delivery only ever connects to public addresses, whatever the URL and its redirects are and
  whatever the resolver answers at each connection: never to loopback, private, link-local or
  unspecified addresses, neither as IPv4 addresses, nor in their IPv6 form, nor as IPv6 addresses.
\<close>

theorem webhook_public_only:
  assumes "(ip, port) \<in> set (fst (snd (snd (deliverWebhook marshal hmac new_request w sub event))))"
  shows "(\<forall>a. To4 ip = Some a \<longrightarrow> \<not> list_ex (in_cidr a) internal_nets) \<and>
    (\<forall>gs. ip = Inr gs \<longrightarrow> gs \<noteq> replicate 8 0 \<and> gs \<noteq> [0, 0, 0, 0, 0, 0, 0, 1] \<and> hd gs div 512 \<noteq> 0x7E \<and> hd gs div 64 \<noteq> 0x3FA)"
proof -
  have no: "\<not> isPrivateIP ip"
    using assms deliver_loop_public [of "(ip, port)" w 3 0 "seconds 1"]
    by (auto simp: deliverWebhook_def split: option.splits if_splits)
  have mapped: "\<exists>a b. gs = [0, 0, 0, 0, 0, 0xFFFF, a, b]" if "To4 (Inr gs) = Some w" for gs w
  proof -
    have "length gs = 8" "take 6 gs = [0, 0, 0, 0, 0, 0xFFFF]" using that by (auto simp: To4_def split: if_splits)
    moreover have "length (drop 6 gs) = Suc (Suc 0)" using calculation(1) by simp
    then obtain a b where "drop 6 gs = [a, b]" by (auto simp: length_Suc_conv simp del: length_drop)
    ultimately show ?thesis
      by (metis append_Cons append_Nil append_take_drop_id)
  qed
  show ?thesis
  proof (cases "To4 ip")
    case None
    then show ?thesis using no by (auto simp: isPrivateIP_def)
  next
    case (Some a)
    then have "\<not> list_ex (in_cidr a) internal_nets" using no by (simp add: isPrivateIP_def isPrivateIP4_nets)
    moreover have "gs \<noteq> replicate 8 0 \<and> gs \<noteq> [0, 0, 0, 0, 0, 0, 0, 1] \<and> hd gs = 0" if "ip = Inr gs" for gs
    proof -
      obtain x y where "gs = [0, 0, 0, 0, 0, 0xFFFF, x, y]" using mapped Some \<open>ip = Inr gs\<close> by blast
      then have "gs ! 5 = 0xFFFF" "hd gs = 0" by simp_all
      moreover have "replicate 8 (0 :: nat) ! 5 = 0" "[0, 0, 0, 0, 0, 0, 0, 1 :: nat] ! 5 = 0" by simp_all
      ultimately show ?thesis by auto
    qed
    ultimately show ?thesis using Some by auto
  qed
qed

section \<open>Deliveries end\<close>

text \<open>
  A delivery makes at most three attempts: it succeeds exactly when one of them gets an answer
  between 200 and 299, stops at the first such attempt, and has slept one, then two, then four
  seconds after the attempts that failed.
\<close>

theorem delivery_attempts:
  assumes "deliverWebhook marshal hmac new_request w sub event = (Some req, ok, ts, slept)"
  defines "good k \<equiv> delivered (snd (client_Do w k))"
  shows "(ok \<longleftrightarrow> good 0 \<or> good 1 \<or> good 2) \<and>
    slept = (if good 0 then 0 else if good 1 then seconds 1 else if good 2 then seconds 3 else seconds 7) \<and>
    ts = concat (map (\<lambda>k. fst (client_Do w k)) (if good 0 then [0] else if good 1 then [0, 1] else [0, 1, 2]))"
proof -
  have "deliver_loop w 3 0 (seconds 1) = (ok, ts, slept)"
    using assms(1) by (auto simp: deliverWebhook_def split: option.splits if_splits)
  moreover have "client_Do w k = (fst (client_Do w k), snd (client_Do w k))" for k by simp
  ultimately show ?thesis
    by (auto simp: good_def eval_nat_numeral(2,3) case_prod_beta Let_def split: if_splits)
qed

section \<open>Deleted subscriptions\<close>

text \<open>The cache holds the active rows of the table.\<close>

definition fresh :: "Dispatcher \<Rightarrow> bool" where
  "fresh d \<longleftrightarrow> wh_subs d = filter ws_IsActive (wh_rows d)"

lemma load_fresh [simp]: "fresh (LoadSubscriptions False d)"
  by (simp add: fresh_def LoadSubscriptions_def)

lemma operations_fresh:
  assumes "fresh d" "\<not> f 1"
  shows "fresh (snd (createSubscription url_parse lookup random new_id now f bd d))"
    "fresh (snd (deleteSubscription uuid_parse cast_uuid f raw d))"
  using assms by (auto simp: createSubscription_def deleteSubscription_def Let_def split: sum.split option.split)

lemma dispatch_targets:
  "fresh d \<Longrightarrow> fst ` set (Dispatch new_id now e d) =
     {s \<in> set (wh_rows d). ws_IsActive s \<and> (''*'' \<in> set (ws_Events s) \<or> ev_Type e \<in> set (ws_Events s))}"
  by (auto simp: Dispatch_def Let_def fresh_def matchesEvent_def list_ex_iff image_image)

text \<open>
  Once a subscription is deleted and the cache is reloaded, no event is delivered to it, and every
  other subscription gets what it got before. When the reload fails, whose error is ignored, the
  answer is the same, but the deleted subscription goes on getting every event it got before.
\<close>

theorem webhook_deletion:
  assumes "fresh d" "deleteSubscription uuid_parse cast_uuid f raw d = (Ok 204 (), d')" "cast_uuid raw = Some i"
  shows "if f 1 then Dispatch new_id now e d' = Dispatch new_id now e d
    else Dispatch new_id now e d' = filter (\<lambda>(s, _). ws_ID s \<noteq> i) (Dispatch new_id now e d)"
proof -
  have "d' = LoadSubscriptions (f 1) (d\<lparr>wh_rows := del_where (\<lambda>s. ws_ID s = i) (wh_rows d)\<rparr>)"
    using assms(2,3) by (auto simp: deleteSubscription_def split: sum.splits if_splits option.splits)
  then show ?thesis
    using assms(1)
    by (auto simp: LoadSubscriptions_def Dispatch_def Let_def fresh_def del_where_def filter_map comp_def conj_ac intro!: filter_cong)
qed

section \<open>Witnesses\<close>

text \<open>A host name that first resolves to a public and then to a private address, with a server that is down at first.\<close>

definition sample_world :: http_world where
  "sample_world = \<lparr>hw_dials = (\<lambda>_. [''hooks.example:443'']),
     hw_lookup = (\<lambda>n _ _. if n = 1 then Some [Inl 0x0A000001] else Some [Inl 0x01010101]),
     hw_connects = (\<lambda>_. True), hw_status = (\<lambda>n. if n = 0 then Some 503 else Some 200)\<rparr>"

definition sample_sub :: "uuid \<Rightarrow> Subscription" where
  "sample_sub i = \<lparr>ws_ID = i, ws_URL = ''https://hooks.example/'', ws_Secret = ''s'', ws_Events = [''*''], ws_IsActive = True, ws_CreatedAt = 0\<rparr>"

lemma sample_attempts:
  "client_Do sample_world 0 = ([(Inl 0x01010101, ''443'')], Some 503)" "client_Do sample_world 1 = ([], None)"
  "client_Do sample_world 2 = ([(Inl 0x01010101, ''443'')], Some 200)"
  by (simp_all add: client_Do_def sample_world_def safeDialContext_def SplitHostPort_def isPrivateIP_def To4_def isPrivateIP4_def octets_def)

lemma sample_delivery:
  "deliverWebhook (\<lambda>_. Some ''{}'') (\<lambda>_ _. ''mac'') (\<lambda>_. True) sample_world (sample_sub ''s1'') e =
     (Some (webhook_request (\<lambda>_ _. ''mac'') (sample_sub ''s1'') e ''{}''), True,
      [(Inl 0x01010101, ''443''), (Inl 0x01010101, ''443'')], 3000000000)"
  using sample_attempts by (simp add: deliverWebhook_def eval_nat_numeral(2,3) delivered_def)

theorem webhook_public_only_witness:
  "(Inl 0x01010101, ''443'') \<in> set (fst (snd (snd
       (deliverWebhook (\<lambda>_. Some ''{}'') (\<lambda>_ _. ''mac'') (\<lambda>_. True) sample_world (sample_sub ''s1'') (test_event ''e1'' 5 ''hello''))))) \<and>
   \<not> list_ex (in_cidr 0x01010101) internal_nets \<and> list_ex (in_cidr 0x0A000001) internal_nets"
proof -
  have "\<not> list_ex (in_cidr 0x01010101) internal_nets"
    using webhook_public_only [of "Inl 0x01010101" "''443''" "\<lambda>_. Some ''{}''" "\<lambda>_ _. ''mac''" "\<lambda>_. True" sample_world "sample_sub ''s1''"
        "test_event ''e1'' 5 ''hello''"]
    by (simp add: sample_delivery To4_def)
  moreover have "isPrivateIP4 0x0A000001" by (simp add: isPrivateIP4_def octets_def)
  ultimately show ?thesis by (simp add: isPrivateIP4_nets sample_delivery)
qed

theorem delivery_attempts_witness:
  "case deliverWebhook (\<lambda>_. Some ''{}'') (\<lambda>_ _. ''mac'') (\<lambda>_. True) sample_world (sample_sub ''s1'') (test_event ''e1'' 5 ''hello'') of
     (_, ok, ts, slept) \<Rightarrow> ok \<and> length ts = 2 \<and> slept = seconds 3"
  using delivery_attempts [OF sample_delivery [of "test_event ''e1'' 5 ''hello''"]] sample_attempts
  by (simp add: sample_delivery delivered_def)

theorem webhook_deletion_witness:
  "(let d = \<lparr>wh_rows = [sample_sub ''s1'', sample_sub ''s2''], wh_subs = [sample_sub ''s1'', sample_sub ''s2'']\<rparr>;
        e = test_event ''e1'' 5 ''hello'';
        dispatched = (\<lambda>f. map (ws_ID \<circ> fst) (Dispatch ''i'' 9 e (snd (deleteSubscription Inr Some f ''s1'' d))))
    in dispatched (\<lambda>_. False) = [''s2''] \<and> dispatched (\<lambda>n. n = 1) = [''s1'', ''s2''])"
proof -
  let ?d = "\<lparr>wh_rows = [sample_sub ''s1'', sample_sub ''s2''], wh_subs = [sample_sub ''s1'', sample_sub ''s2'']\<rparr>"
  let ?e = "test_event ''e1'' 5 ''hello''"
  have fr: "fresh ?d" by (simp add: fresh_def sample_sub_def)
  have ds: "deleteSubscription Inr Some f ''s1'' ?d = (Ok 204 (), snd (deleteSubscription Inr Some f ''s1'' ?d))" if "\<not> f 0" for f
    using that by (simp add: deleteSubscription_def sample_sub_def)
  have e: "Dispatch ''i'' 9 ?e ?d = [(sample_sub ''s1'', ?e), (sample_sub ''s2'', ?e)]"
    by (simp add: Dispatch_def matchesEvent_def sample_sub_def test_event_def zero_time_def Let_def)
  show ?thesis
    using webhook_deletion [OF fr ds [of "\<lambda>_. False"], of "''s1''" "''i''" 9 ?e] webhook_deletion [OF fr ds [of "\<lambda>n. n = 1"], of "''s1''" "''i''" 9 ?e]
    by (simp add: e Let_def) (simp add: sample_sub_def)
qed

end
