(* ===== verification/Agent_Connect.thy ===== *)
theory Agent_Connect
  imports Gateway_Agent
begin

text \<open>
  The loop in which the agent tries to reach the core (\<^verbatim>\<open>internal/gateway/agent.go\<close>, the head of
  \<open>Run\<close>). It has no bound of its own: it ends when an attempt yields a configuration or when the
  agent is told to stop during a pause. What the attempts yield and when the agent is stopped are
  given from outside; a loop that never ends has the value \<open>None\<close>.
\<close>

datatype attempt = ConnectFailed | FetchFailed | Fetched GatewayConfig

partial_function (option) connect_loop ::
  "(nat \<Rightarrow> attempt) \<Rightarrow> (nat \<Rightarrow> bool) \<Rightarrow> nat \<Rightarrow> duration \<Rightarrow> (GatewayConfig option \<times> nat \<times> duration) option" where
  "connect_loop outcome stopped attempt waited =
     (case outcome attempt of
        Fetched cfg \<Rightarrow> Some (Some cfg, attempt, waited)
      | _ \<Rightarrow> if stopped attempt then Some (None, attempt, waited)
             else connect_loop outcome stopped (Suc attempt) (waited + retry_delay attempt))"

definition agent_connect :: "(nat \<Rightarrow> attempt) \<Rightarrow> (nat \<Rightarrow> bool) \<Rightarrow> (GatewayConfig option \<times> nat \<times> duration) option" where
  "agent_connect outcome stopped = connect_loop outcome stopped 1 0"

section \<open>When it ends\<close>

definition ends_at :: "(nat \<Rightarrow> attempt) \<Rightarrow> (nat \<Rightarrow> bool) \<Rightarrow> nat \<Rightarrow> bool" where
  "ends_at outcome stopped n \<longleftrightarrow> (\<exists>cfg. outcome n = Fetched cfg) \<or> stopped n"

lemma connect_loop_ends:
  assumes "connect_loop outcome stopped a w = Some r"
  shows "\<exists>n \<ge> a. ends_at outcome stopped n"
  using assms
proof (rule connect_loop.raw_induct [where P = "\<lambda>outcome stopped a _ _. \<exists>n \<ge> a. ends_at outcome stopped n", rotated])
  fix loop outcome stopped a w r
  assume IH: "\<And>outcome stopped a w r. loop outcome stopped a w = Some r \<Longrightarrow> \<exists>n \<ge> a. ends_at outcome stopped n"
    and step: "(case outcome a of Fetched cfg \<Rightarrow> Some (Some cfg, a, w)
       | _ \<Rightarrow> if stopped a then Some (None, a, w) else loop outcome stopped (Suc a) (w + retry_delay a)) = Some r"
  have "\<exists>n \<ge> a. ends_at outcome stopped n" if "loop outcome stopped (Suc a) (w + retry_delay a) = Some r"
    using IH [OF that] Suc_leD by blast
  then show "\<exists>n \<ge> a. ends_at outcome stopped n"
    using step by (cases "outcome a") (auto simp: ends_at_def split: if_splits)
qed

lemma connect_loop_skip:
  assumes "\<And>i. a \<le> i \<Longrightarrow> i < n \<Longrightarrow> \<not> ends_at outcome stopped i" "a \<le> n"
  shows "connect_loop outcome stopped a w = connect_loop outcome stopped n (w + (\<Sum>i = a..<n. retry_delay i))"
  using assms(2,1)
proof (induction a arbitrary: w rule: inc_induct)
  case (step a)
  have "connect_loop outcome stopped a w = connect_loop outcome stopped (Suc a) (w + retry_delay a)"
    using step.prems [of a] step.hyps by (subst connect_loop.simps) (auto simp: ends_at_def split: attempt.split)
  moreover have "(\<Sum>i = a..<n. retry_delay i) = retry_delay a + (\<Sum>i = Suc a..<n. retry_delay i)"
    using step.hyps(2) by (rule sum.atLeast_Suc_lessThan)
  ultimately show ?case
    using step.IH [of "w + retry_delay a"] step.prems by (simp add: add.assoc)
qed simp

lemma first_pauses: "n \<le> 16 \<Longrightarrow> (\<Sum>i = 1..<n. retry_delay i) = seconds (int (n * (n - 1)))"
proof (induction n)
  case (Suc n)
  show ?case
  proof (cases "n = 0")
    case False
    then show ?thesis
      using Suc by (simp add: retry_delay_def algebra_simps)
  qed simp
qed simp

lemma pauses_bound: "(\<Sum>i = 1..<n. retry_delay i) \<le> seconds (30 * int (n - 1))"
proof (induction n)
  case (Suc n)
  then show ?case by (cases "n = 0") (auto simp: retry_delay_def algebra_simps)
qed simp

text \<open>
  C20. The agent's search for the core ends exactly when an attempt yields a configuration or the
  agent is stopped. It then ends at the first such attempt, with that configuration if there is one,
  after pauses of \<open>n (n - 1)\<close> seconds in all for the first sixteen attempts and never more than
  thirty seconds for each attempt that failed.
\<close>

theorem agent_connect_terminates:
  "((\<exists>r. agent_connect outcome stopped = Some r) \<longleftrightarrow> (\<exists>n \<ge> 1. ends_at outcome stopped n)) \<and>
   (\<forall>n \<ge> 1. ends_at outcome stopped n \<and> (\<forall>i. 1 \<le> i \<and> i < n \<longrightarrow> \<not> ends_at outcome stopped i) \<longrightarrow>
      (\<exists>w. agent_connect outcome stopped = Some (case outcome n of Fetched cfg \<Rightarrow> Some cfg | _ \<Rightarrow> None, n, w) \<and>
         w \<le> seconds (30 * int (n - 1)) \<and> (n \<le> 16 \<longrightarrow> w = seconds (int (n * (n - 1))))))"
proof -
  have run: "agent_connect outcome stopped = Some (case outcome n of Fetched cfg \<Rightarrow> Some cfg | _ \<Rightarrow> None, n, \<Sum>i = 1..<n. retry_delay i)"
    if "1 \<le> n" "ends_at outcome stopped n" "\<forall>i. 1 \<le> i \<and> i < n \<longrightarrow> \<not> ends_at outcome stopped i" for n
    using that connect_loop_skip [of 1 n outcome stopped 0]
    by (simp add: agent_connect_def) (subst connect_loop.simps, auto simp: ends_at_def split: attempt.split)
  have "\<exists>r. agent_connect outcome stopped = Some r" if ex: "\<exists>n \<ge> 1. ends_at outcome stopped n"
  proof -
    let ?n = "LEAST n. 1 \<le> n \<and> ends_at outcome stopped n"
    have "1 \<le> ?n \<and> ends_at outcome stopped ?n" using LeastI_ex [OF ex] by blast
    moreover have "\<forall>i. 1 \<le> i \<and> i < ?n \<longrightarrow> \<not> ends_at outcome stopped i" using not_less_Least by blast
    ultimately show ?thesis using run by blast
  qed
  moreover have "\<exists>n \<ge> 1. ends_at outcome stopped n" if "agent_connect outcome stopped = Some r" for r
    using that connect_loop_ends by (simp add: agent_connect_def)
  moreover have "\<exists>w. agent_connect outcome stopped = Some (case outcome n of Fetched cfg \<Rightarrow> Some cfg | _ \<Rightarrow> None, n, w) \<and>
      w \<le> seconds (30 * int (n - 1)) \<and> (n \<le> 16 \<longrightarrow> w = seconds (int (n * (n - 1))))"
    if "1 \<le> n" "ends_at outcome stopped n" "\<forall>i. 1 \<le> i \<and> i < n \<longrightarrow> \<not> ends_at outcome stopped i" for n
    using run [OF that] pauses_bound [of n] first_pauses [of n] by auto
  ultimately show ?thesis by metis
qed

theorem agent_connect_terminates_witness:
  "agent_connect (\<lambda>n. if n < 3 then ConnectFailed else Fetched empty_config) (\<lambda>_. False) = Some (Some empty_config, 3, 6000000000)"
proof -
  let ?out = "\<lambda>n :: nat. if n < 3 then ConnectFailed else Fetched empty_config"
  have "ends_at ?out (\<lambda>_. False) 3" "\<forall>i. 1 \<le> i \<and> i < 3 \<longrightarrow> \<not> ends_at ?out (\<lambda>_. False) i"
    by (simp_all add: ends_at_def)
  then have "\<exists>w. agent_connect ?out (\<lambda>_. False) = Some (case ?out 3 of Fetched cfg \<Rightarrow> Some cfg | _ \<Rightarrow> None, 3, w) \<and>
      w \<le> seconds (30 * int (3 - 1)) \<and> (3 \<le> (16 :: nat) \<longrightarrow> w = seconds (int (3 * (3 - 1))))"
    using agent_connect_terminates [of ?out "\<lambda>_. False", THEN conjunct2, rule_format, of 3] by (simp only: one_le_numeral)
  then show ?thesis by simp
qed

end
