(* ===== verification/Spec2Isabelle.thy ===== *)
theory Spec2Isabelle
  imports S2S_Topology S2S_Routes S2S_Health ZTNA_Posture ZTNA_Handlers Core_Gateway Enforcement Device_Handler Auth_Handler
    Rate_Limiter Sessions WebAuthn User_Handler Gateway_Handler Webhooks Agent_Connect
begin

text \<open>
  Outpost: verification of the control plane and the gateway agent.

  \<^bold>\<open>The program.\<close> The core keeps users, devices, networks, gateways and policies in PostgreSQL and
  serves an HTTP API to administrators and devices and a gRPC service to gateways. A gateway agent
  fetches its configuration, keeps a stream of events open, and applies what it gets to WireGuard and
  to the packet filter. A change made through the API becomes a notification, the notification an
  event on the streams of the gateways concerned, and the event a change of the gateway's kernel.

  \<^bold>\<open>Conventions.\<close> A table is a list of row records and the database a record of tables (\<open>db\<close>). A
  handler is a function from its request and the database to its answer (\<open>resp\<close>: status and message
  or body), the new database, and the notifications or refreshes it requests. A statement that can
  fail has a number, and the argument \<open>f\<close> (or \<open>fails\<close>) says which statements fail; a transaction that
  fails leaves the database as it was. One request runs at a time unless a theory says otherwise.
  Time is an integer of nanoseconds. Code that is not part of the repository is an argument: UUID
  parsing (\<open>uuid_parse\<close>), casts and the collation of the database (\<open>cast_uuid\<close>, \<open>cidr_cast\<close>,
  \<open>inet_cast\<close>, \<open>by_name\<close>), hashes (\<open>sha256\<close>, \<open>hmac\<close>), the order in which Go visits a map (\<open>ord\<close>), Redis
  and the encoding of the messages it carries (\<open>wire\<close>, \<open>pubsub\<close>, \<open>counter_client\<close>), the WebAuthn and OTP
  libraries, wgctrl, iptables and conntrack. What is relied on of them is stated
  in the locales \<open>netfilter\<close>, \<open>wireguard\<close>, \<open>gateway_kernel\<close>, \<open>redis_counters\<close> and \<open>redis_sessions\<close> and in
  hypotheses of the theorems. The locales \<open>session_store\<close>, \<open>concurrent_store\<close> and \<open>metric_sort\<close> are contracts
  inside the program: the stores of sessions, the database while other requests run between two
  statements of an allocation, and the ordering of routes. Every locale has an interpretation.

  \<^bold>\<open>Theories.\<close>
  \<^item> Base: \<open>Outpost_Prelude\<close> (answers, integers, SQL on lists), \<open>Go_Std\<close> (strings and numbers of the
    standard library), \<open>IPv4\<close> and \<open>IPv6\<close> (addresses and networks), \<open>Schema\<close> (the tables of
    \<^verbatim>\<open>migrations/\<close>), \<open>Cascade\<close> (what foreign keys do on deletion), \<open>Http_Helpers\<close>
    (\<^verbatim>\<open>core/handler/helpers.go\<close>), \<open>Protocol\<close> (the messages between core and gateway).
  \<^item> Access control: \<open>Core_Firewall\<close> (the rules the core builds, \<^verbatim>\<open>core/grpc_gateway.go\<close>), \<open>Netfilter\<close> and
    \<open>Gateway_Firewall\<close> (the packet filter and \<^verbatim>\<open>gateway/firewall.go\<close>), \<open>ZTNA_Posture\<close>, \<open>ZTNA_Trust\<close>,
    \<open>ZTNA_Handlers\<close> (\<^verbatim>\<open>internal/ztna\<close> and \<^verbatim>\<open>core/handler/ztna.go\<close>). The rules are shown to decide packets
    as an access policy on the database says, under every pattern of failing queries, and the manager
    to install them and the smart routes. The manager is shown correct for rules that iptables reads:
    hosts or networks, protocols, and a port or range of ports with a protocol that has ports. The rules
    that the core builds are of this kind.
  \<^item> Core and gateways: \<open>Core_Gateway\<close> (the rest of \<^verbatim>\<open>core/grpc_gateway.go\<close>), \<open>Stream_Hub\<close>
    (\<^verbatim>\<open>core/stream_hub.go\<close>), \<open>Peer_Notifier\<close> (\<^verbatim>\<open>core/peer_notifier.go\<close>), \<open>Gateway_Agent\<close> and
    \<open>Agent_Connect\<close> (\<^verbatim>\<open>gateway/agent.go\<close>, \<^verbatim>\<open>gateway/wg_manager.go\<close>), \<open>Enforcement\<close> (the whole way from a
    refresh to the kernel). A refresh is shown to reach the kernel when the core runs without Redis,
    and with Redis when it concerns one gateway (\<open>own_updates\<close>). With Redis a refresh of several gateways
    is shown to leave each with the rules of the last, since the published update names no gateway.
  \<^item> Administration: \<open>User_Handler\<close>, \<open>Group_Handler\<close>, \<open>Network_Handler\<close>, \<open>Gateway_Handler\<close>, \<open>Device_Alloc\<close>,
    \<open>Device_Handler\<close>, \<open>Wireguard\<close> (the files of the same names in \<^verbatim>\<open>core/handler\<close>, and
    \<^verbatim>\<open>internal/wireguard\<close>). Shown are validity and consistency of what is stored, ownership, distinct
    addresses, and which changes of access reach the gateways and which do not.
  \<^item> Authentication: \<open>Auth_Core\<close> (passwords, tokens, blacklist, roles), \<open>Auth_Handler\<close>
    (\<^verbatim>\<open>core/handler/auth.go\<close>), \<open>MFA\<close> and \<open>WebAuthn\<close> (\<^verbatim>\<open>auth/mfa\<close>), \<open>Sessions\<close> (\<^verbatim>\<open>internal/session\<close>),
    \<open>Rate_Limiter\<close> (\<^verbatim>\<open>core/server.go\<close>). Shown are the finality of logout and revocation, the lockout, the
    need for a second factor, and single use of backup codes.
  \<^item> Site-to-site: \<open>S2S_Topology\<close>, \<open>S2S_Routes\<close>, \<open>S2S_Health\<close> (\<^verbatim>\<open>internal/s2s\<close>).
  \<^item> \<open>Webhooks\<close> (\<^verbatim>\<open>webhook/dispatcher.go\<close>): only public addresses are reached, deliveries end.

  \<^bold>\<open>Bounds.\<close> The loops that retry have the bounds of the code: five attempts to allocate an address,
  three to deliver a webhook; both are recursions on the attempts that remain. The search of the agent
  for the core has no bound in the code; it is a partial function, shown to end exactly when an
  attempt succeeds or the agent is stopped. The parser of IPv6 addresses takes at most eight fields.

  \<^bold>\<open>Restrictions.\<close> Stored addresses and networks are IPv4; texts that are only checked may be IPv6. A
  network is stored only without bits right of its mask, as the column type demands (\<open>cidr_column\<close>).
  Where an order is left open by a query (tunnel routes of equal metric) rows come in the order of the
  table.
  Errors of a driver while it reads rows are not distinguished from errors of the statement.

  \<^bold>\<open>Not modelled.\<close> The endpoints of site-to-site tunnels and smart routes (\<^verbatim>\<open>core/handler/s2s.go\<close>,
  \<^verbatim>\<open>smartroute.go\<close>), though their tables and everything gateways make of them are; settings,
  notifications, dashboard, health and mail endpoints; SCIM, LDAP, OIDC and SAML, which are protocols
  over third-party packages; tenants, whose columns no modelled query reads; audit, metrics,
  compliance and analytics, which feed nothing back into the modelled state; mail, PKI, NAT traversal, the enrollment proxy, the
  client and the command line, which are input and output; the assembly of the server and its route
  table; generated protocol buffers.
\<close>

end
